(* ===== verification/KbdPrelude.thy ===== *)
theory KbdPrelude
  imports Main "HOL-Library.Word"
begin

text \<open>
  What every component shares: the C integer types at their width, the run-time faults a C
  program can run into, results that are either a fault or a value, little-endian values, and
  the collections of facts that carry the component proofs.

  \<^item> \<open>hid_consts\<close> holds the numeric constants of the headers, for ground evaluation;
  \<^item> \<open>frame_simps\<close> holds what an operation leaves unchanged;
  \<^item> \<open>inv_intros\<close> holds the preservation lemmas of the invariants.
\<close>

named_theorems hid_consts
named_theorems frame_simps
named_theorems inv_intros

unbundle bit_operations_syntax

section \<open>C integers\<close>

type_synonym u8 = "8 word"
type_synonym u16 = "16 word"
type_synonym u32 = "32 word"

text \<open>A C condition on an unsigned value: true when it is not zero.\<close>

abbreviation nz :: "'a::len word \<Rightarrow> bool" where
  "nz w \<equiv> w \<noteq> 0"

text \<open>A property of every byte, by trying them all.\<close>

lemma u8_all:
  assumes "list_all P (map (word_of_nat :: nat \<Rightarrow> u8) [0..<256])"
  shows "P b"
proof -
  have "unat b < 256" using unsigned_less [of b] by simp
  then have "b \<in> set (map (word_of_nat :: nat \<Rightarrow> u8) [0..<256])"
    by (auto intro!: image_eqI [where x = "unat b"])
  then show ?thesis using assms by (simp only: list_all_iff)
qed

lemma u8_range:
  assumes "list_all P (map (word_of_nat :: nat \<Rightarrow> u8) [lo..<hi])" and "lo \<le> unat b" and "unat b < hi"
  shows "P b"
proof -
  have "b \<in> set (map (word_of_nat :: nat \<Rightarrow> u8) [lo..<hi])"
    using assms(2,3) by (auto intro!: image_eqI [where x = "unat b"])
  then show ?thesis using assms(1) by (simp only: list_all_iff)
qed

section \<open>Faults and results\<close>

text \<open>
  What ends a C function without a return: a NULL pointer that is dereferenced, a failed
  \<open>assert\<close>, a wait on a semaphore that nobody will ever give, an access outside an array,
  the use of memory that was freed, or that was never written.
\<close>

datatype fault = NullDeref | AssertFailed | Deadlock | OutOfBounds | UseAfterFree | UninitRead

type_synonym 'a res = "fault + 'a"

definition bindE :: "'e + 'a \<Rightarrow> ('a \<Rightarrow> 'e + 'b) \<Rightarrow> 'e + 'b" where
  "bindE m f = (case m of Inl e \<Rightarrow> Inl e | Inr x \<Rightarrow> f x)"

lemma bindE_simps [simp]:
  "bindE (Inl e) f = Inl e"
  "bindE (Inr x) f = f x"
  by (simp_all add: bindE_def)

lemma bindE_Inr_conv: "bindE m f = Inr y \<longleftrightarrow> (\<exists>x. m = Inr x \<and> f x = Inr y)"
  by (cases m) auto

lemma bindE_Inl_conv: "bindE m f = Inl e \<longleftrightarrow> m = Inl e \<or> (\<exists>x. m = Inr x \<and> f x = Inl e)"
  by (cases m) auto

lemma bindE_assoc: "bindE (bindE m f) g = bindE m (\<lambda>x. bindE (f x) g)"
  by (cases m) auto

lemma bindE_cong [fundef_cong]:
  "m = m' \<Longrightarrow> (\<And>x. m' = Inr x \<Longrightarrow> f x = f' x) \<Longrightarrow> bindE m f = bindE m' f'"
  by (cases m') auto

section \<open>Bytes\<close>

text \<open>The value of a little-endian byte string, as a union of bytes and a 32-bit integer reads it.\<close>

fun le_value :: "u8 list \<Rightarrow> u32" where
  "le_value [] = 0"
| "le_value (b # bs) = ucast b OR push_bit 8 (le_value bs)"

text \<open>The little-endian bytes of a value, lowest first.\<close>

fun le_bytes :: "nat \<Rightarrow> u32 \<Rightarrow> u8 list" where
  "le_bytes 0 v = []"
| "le_bytes (Suc n) v = ucast v # le_bytes n (drop_bit 8 v)"

lemma length_le_bytes [simp]: "length (le_bytes n v) = n"
  by (induction n arbitrary: v) auto

lemma take_bit_split_8:
  "take_bit (8 * Suc n) (v::u32) = ucast (ucast v :: u8) OR push_bit 8 (take_bit (8 * n) (drop_bit 8 v))"
  by (rule bit_word_eqI) (auto simp: bit_simps)

lemma le_value_le_bytes: "le_value (le_bytes n v) = take_bit (8 * n) v"
proof (induction n arbitrary: v)
  case 0
  then show ?case by simp
next
  case (Suc n)
  then show ?case by (simp only: le_bytes.simps le_value.simps take_bit_split_8)
qed

lemma ucast_ucast_16_32 [simp]: "ucast (ucast (x::u16) :: u32) = x"
  by (rule bit_word_eqI) (auto simp: bit_simps)

lemma ucast_ucast_8_32 [simp]: "ucast (ucast (x::u8) :: u32) = x"
  by (rule bit_word_eqI) (auto simp: bit_simps)

section \<open>Lists as C arrays\<close>

lemma list_all_take: "list_all P xs \<Longrightarrow> list_all P (take n xs)"
  by (auto simp: list_all_iff dest: in_set_takeD)

lemma list_all_update: "list_all P xs \<Longrightarrow> P x \<Longrightarrow> list_all P (xs[i := x])"
  by (auto simp: list_all_iff dest: set_update_subset_insert [THEN subsetD])

lemma find_SomeD: "find P xs = Some x \<Longrightarrow> x \<in> set xs \<and> P x"
  by (auto simp: find_Some_iff)

end
