(* ===== verification/HidTypes.thy ===== *)
theory HidTypes
  imports KbdPrelude
begin

text \<open>
  The HID vocabulary of \<open>esp_hid/include/esp_hid_common.h\<close>: item tags, usages, report types,
  protocol modes, the usage and transport enumerations, report items and report maps, and the
  device configuration. Field names carry a prefix per structure (\<open>ri_\<close> for
  \<open>esp_hid_report_item_t\<close>, \<open>rm_\<close> for \<open>esp_hid_report_map_t\<close>, \<open>raw_\<close> for the raw map,
  \<open>cf_\<close> for \<open>esp_hid_device_config_t\<close>), since record fields share one name space here.
\<close>

section \<open>Report map items (\<open>HID_RM_*\<close>)\<close>

definition HID_RM_INPUT :: u8 where [hid_consts]: "HID_RM_INPUT = 0x80"
definition HID_RM_OUTPUT :: u8 where [hid_consts]: "HID_RM_OUTPUT = 0x90"
definition HID_RM_FEATURE :: u8 where [hid_consts]: "HID_RM_FEATURE = 0xb0"
definition HID_RM_COLLECTION :: u8 where [hid_consts]: "HID_RM_COLLECTION = 0xa0"
definition HID_RM_END_COLLECTION :: u8 where [hid_consts]: "HID_RM_END_COLLECTION = 0xc0"
definition HID_RM_USAGE_PAGE :: u8 where [hid_consts]: "HID_RM_USAGE_PAGE = 0x04"
definition HID_RM_REPORT_SIZE :: u8 where [hid_consts]: "HID_RM_REPORT_SIZE = 0x74"
definition HID_RM_REPORT_ID :: u8 where [hid_consts]: "HID_RM_REPORT_ID = 0x84"
definition HID_RM_REPORT_COUNT :: u8 where [hid_consts]: "HID_RM_REPORT_COUNT = 0x94"
definition HID_RM_USAGE :: u8 where [hid_consts]: "HID_RM_USAGE = 0x08"

section \<open>Usage pages and usages\<close>

definition HID_USAGE_PAGE_GENERIC_DESKTOP :: u16 where
  [hid_consts]: "HID_USAGE_PAGE_GENERIC_DESKTOP = 0x01"
definition HID_USAGE_KEYBOARD :: u16 where [hid_consts]: "HID_USAGE_KEYBOARD = 0x06"
definition HID_USAGE_MOUSE :: u16 where [hid_consts]: "HID_USAGE_MOUSE = 0x02"
definition HID_USAGE_JOYSTICK :: u16 where [hid_consts]: "HID_USAGE_JOYSTICK = 0x04"
definition HID_USAGE_GAMEPAD :: u16 where [hid_consts]: "HID_USAGE_GAMEPAD = 0x05"
definition HID_USAGE_PAGE_CONSUMER_DEVICE :: u16 where
  [hid_consts]: "HID_USAGE_PAGE_CONSUMER_DEVICE = 0x0C"
definition HID_USAGE_CONSUMER_CONTROL :: u16 where [hid_consts]: "HID_USAGE_CONSUMER_CONTROL = 0x01"

definition ESP_HID_COD_MIN_KEYBOARD :: u8 where [hid_consts]: "ESP_HID_COD_MIN_KEYBOARD = 0x10"
definition ESP_HID_COD_MIN_MOUSE :: u8 where [hid_consts]: "ESP_HID_COD_MIN_MOUSE = 0x20"

definition ESP_HID_APPEARANCE_GENERIC :: u16 where [hid_consts]: "ESP_HID_APPEARANCE_GENERIC = 0x03C0"
definition ESP_HID_APPEARANCE_KEYBOARD :: u16 where
  [hid_consts]: "ESP_HID_APPEARANCE_KEYBOARD = 0x03C1"
definition ESP_HID_APPEARANCE_MOUSE :: u16 where [hid_consts]: "ESP_HID_APPEARANCE_MOUSE = 0x03C2"
definition ESP_HID_APPEARANCE_JOYSTICK :: u16 where
  [hid_consts]: "ESP_HID_APPEARANCE_JOYSTICK = 0x03C3"
definition ESP_HID_APPEARANCE_GAMEPAD :: u16 where [hid_consts]: "ESP_HID_APPEARANCE_GAMEPAD = 0x03C4"

definition ESP_HID_REPORT_TYPE_INPUT :: u8 where [hid_consts]: "ESP_HID_REPORT_TYPE_INPUT = 1"
definition ESP_HID_REPORT_TYPE_OUTPUT :: u8 where [hid_consts]: "ESP_HID_REPORT_TYPE_OUTPUT = 2"
definition ESP_HID_REPORT_TYPE_FEATURE :: u8 where [hid_consts]: "ESP_HID_REPORT_TYPE_FEATURE = 3"

definition ESP_HID_PROTOCOL_MODE_BOOT :: u8 where [hid_consts]: "ESP_HID_PROTOCOL_MODE_BOOT = 0"
definition ESP_HID_PROTOCOL_MODE_REPORT :: u8 where [hid_consts]: "ESP_HID_PROTOCOL_MODE_REPORT = 1"

section \<open>Enumerations\<close>

datatype esp_hid_transport_t =
    ESP_HID_TRANSPORT_BT | ESP_HID_TRANSPORT_BLE | ESP_HID_TRANSPORT_USB | ESP_HID_TRANSPORT_MAX

datatype esp_hid_usage_t =
    ESP_HID_USAGE_GENERIC | ESP_HID_USAGE_KEYBOARD | ESP_HID_USAGE_MOUSE
  | ESP_HID_USAGE_JOYSTICK | ESP_HID_USAGE_GAMEPAD | ESP_HID_USAGE_TABLET
  | ESP_HID_USAGE_CCONTROL | ESP_HID_USAGE_VENDOR

text \<open>The enumerators' values: one bit each, so that a mask can hold several.\<close>

fun usage_bits :: "esp_hid_usage_t \<Rightarrow> u8" where
  "usage_bits ESP_HID_USAGE_GENERIC = 0"
| "usage_bits ESP_HID_USAGE_KEYBOARD = 1"
| "usage_bits ESP_HID_USAGE_MOUSE = 2"
| "usage_bits ESP_HID_USAGE_JOYSTICK = 4"
| "usage_bits ESP_HID_USAGE_GAMEPAD = 8"
| "usage_bits ESP_HID_USAGE_TABLET = 16"
| "usage_bits ESP_HID_USAGE_CCONTROL = 32"
| "usage_bits ESP_HID_USAGE_VENDOR = 64"

lemma usage_bits_inject [simp]: "usage_bits a = usage_bits b \<longleftrightarrow> a = b"
  by (cases a; cases b) simp_all

text \<open>
  The dominance the header gives to usages (keyboard, mouse, joystick, gamepad, consumer control,
  then everything else) as a rank, and the linear order it induces.
\<close>

fun usage_rank :: "esp_hid_usage_t \<Rightarrow> nat" where
  "usage_rank ESP_HID_USAGE_KEYBOARD = 7"
| "usage_rank ESP_HID_USAGE_MOUSE = 6"
| "usage_rank ESP_HID_USAGE_JOYSTICK = 5"
| "usage_rank ESP_HID_USAGE_GAMEPAD = 4"
| "usage_rank ESP_HID_USAGE_CCONTROL = 3"
| "usage_rank ESP_HID_USAGE_GENERIC = 2"
| "usage_rank ESP_HID_USAGE_VENDOR = 1"
| "usage_rank ESP_HID_USAGE_TABLET = 0"

lemma usage_rank_inject: "usage_rank a = usage_rank b \<longleftrightarrow> a = b"
  by (cases a; cases b) simp_all

instantiation esp_hid_usage_t :: linorder
begin

definition less_eq_esp_hid_usage_t :: "esp_hid_usage_t \<Rightarrow> esp_hid_usage_t \<Rightarrow> bool" where
  "less_eq_esp_hid_usage_t a b \<longleftrightarrow> usage_rank a \<le> usage_rank b"

definition less_esp_hid_usage_t :: "esp_hid_usage_t \<Rightarrow> esp_hid_usage_t \<Rightarrow> bool" where
  "less_esp_hid_usage_t a b \<longleftrightarrow> usage_rank a < usage_rank b"

instance
  by standard (auto simp: less_eq_esp_hid_usage_t_def less_esp_hid_usage_t_def usage_rank_inject)

end

lemmas usage_order_defs = less_eq_esp_hid_usage_t_def less_esp_hid_usage_t_def

datatype esp_hid_cod_min_t =
    ESP_HID_COD_MIN_GENERIC | ESP_HID_COD_MIN_JOYSTICK | ESP_HID_COD_MIN_GAMEPAD
  | ESP_HID_COD_MIN_REMOTE | ESP_HID_COD_MIN_SENSOR | ESP_HID_COD_MIN_TABLET
  | ESP_HID_COD_MIN_CARD_READER | ESP_HID_COD_MIN_MAX

section \<open>Report items, report maps, device configuration\<close>

record esp_hid_report_item_t =
  ri_map_index :: u8
  ri_report_id :: u8
  ri_report_type :: u8
  ri_protocol_mode :: u8
  ri_usage :: esp_hid_usage_t
  ri_value_len :: u16

record esp_hid_report_map_t =
  rm_usage :: esp_hid_usage_t
  rm_appearance :: u16
  rm_reports_len :: u8
  rm_reports :: "esp_hid_report_item_t list"

text \<open>A raw map: \<open>None\<close> for the NULL \<open>data\<close> pointer.\<close>

record esp_hid_raw_report_map_t =
  raw_data :: "u8 list option"
  raw_len :: u16

record esp_hid_device_config_t =
  cf_vendor_id :: u16
  cf_product_id :: u16
  cf_version :: u16
  cf_device_name :: "u8 list option"
  cf_manufacturer_name :: "u8 list option"
  cf_serial_number :: "u8 list option"
  cf_report_maps :: "esp_hid_raw_report_map_t list"
  cf_report_maps_len :: u8

end
