(* ===== verification/HidStrings.thy ===== *)
theory HidStrings
  imports HidTypes
begin

text \<open>
  The name tables of \<open>esp_hid/src/esp_hid_common.c\<close> (lines 411 to 508): what the library calls a
  usage, a protocol mode, a report type, a class of device and a disconnect reason. A C array that
  is indexed under a guard is a list that is indexed under the same guard. What
  \<open>esp_hid_cod_minor_print\<close> writes to its stream is the list of the strings it puts.
\<close>

section \<open>Usages\<close>

definition esp_hid_usage_from_appearance :: "u16 \<Rightarrow> esp_hid_usage_t" where
  "esp_hid_usage_from_appearance appearance = ESP_HID_USAGE_GENERIC"

definition esp_hid_usage_from_cod :: "u32 \<Rightarrow> esp_hid_usage_t" where
  "esp_hid_usage_from_cod cod = ESP_HID_USAGE_GENERIC"

definition s_unknown_str :: string where "s_unknown_str = ''UNKNOWN''"

fun esp_hid_usage_str :: "esp_hid_usage_t \<Rightarrow> string" where
  "esp_hid_usage_str ESP_HID_USAGE_GENERIC = ''GENERIC''"
| "esp_hid_usage_str ESP_HID_USAGE_KEYBOARD = ''KEYBOARD''"
| "esp_hid_usage_str ESP_HID_USAGE_MOUSE = ''MOUSE''"
| "esp_hid_usage_str ESP_HID_USAGE_JOYSTICK = ''JOYSTICK''"
| "esp_hid_usage_str ESP_HID_USAGE_GAMEPAD = ''GAMEPAD''"
| "esp_hid_usage_str ESP_HID_USAGE_CCONTROL = ''CCONTROL''"
| "esp_hid_usage_str ESP_HID_USAGE_VENDOR = ''VENDOR''"
| "esp_hid_usage_str ESP_HID_USAGE_TABLET = s_unknown_str"

section \<open>Tables\<close>

definition s_hid_protocol_names :: "string list" where
  "s_hid_protocol_names = [''BOOT'', ''REPORT'']"

definition s_hid_report_type_names :: "string list" where
  "s_hid_report_type_names = [''NULL'', ''INPUT'', ''OUTPUT'', ''FEATURE'']"

definition s_hid_cod_major_names :: "string list" where
  "s_hid_cod_major_names = [''MISC'', ''COMPUTER'', ''PHONE'', ''LAN_NAP'', ''AV'', ''PERIPHERAL'',
     ''IMAGING'', ''WEARABLE'', ''TOY'', ''HEALTH'']"

definition s_hid_cod_minor_names :: "string list" where
  "s_hid_cod_minor_names = [''GENERIC'', ''JOYSTICK'', ''GAMEPAD'', ''REMOTE'', ''SENSOR'', ''TABLET'',
     ''CARD_READER'']"

definition esp_hid_protocol_mode_str :: "u8 \<Rightarrow> string" where
  "esp_hid_protocol_mode_str protocol =
     (if unat protocol \<ge> length s_hid_protocol_names then s_unknown_str
      else s_hid_protocol_names ! unat protocol)"

definition esp_hid_report_type_str :: "u8 \<Rightarrow> string" where
  "esp_hid_report_type_str report_type =
     (if unat report_type \<ge> length s_hid_report_type_names then s_unknown_str
      else s_hid_report_type_names ! unat report_type)"

definition esp_hid_cod_major_str :: "u8 \<Rightarrow> string" where
  "esp_hid_cod_major_str cod_major =
     (if unat cod_major \<ge> length s_hid_cod_major_names then s_unknown_str
      else s_hid_cod_major_names ! unat cod_major)"

section \<open>The minor class of device\<close>

text \<open>\<open>ESP_HID_COD_MIN_MAX\<close>, the number of entries of the minor table.\<close>

definition ESP_HID_COD_MIN_MAX_val :: u8 where [hid_consts]: "ESP_HID_COD_MIN_MAX_val = 7"

definition cod_minor_tail :: "u8 \<Rightarrow> string list" where
  "cod_minor_tail cod_min =
     (let low = cod_min AND 0x0F
      in if low < ESP_HID_COD_MIN_MAX_val then [s_hid_cod_minor_names ! unat low] else [])"

definition esp_hid_cod_minor_print :: "u8 \<Rightarrow> string list" where
  "esp_hid_cod_minor_print cod_min =
     (let kbd = (if nz (cod_min AND ESP_HID_COD_MIN_KEYBOARD) then [''KEYBOARD''] else []);
          mouse = (if nz (cod_min AND ESP_HID_COD_MIN_MOUSE)
                   then (if nz (cod_min AND ESP_HID_COD_MIN_KEYBOARD) then [''+''] else [])
                        @ [''MOUSE''] else [])
      in if nz (cod_min AND 0xF0)
         then if nz (cod_min AND 0x0F) then kbd @ mouse @ [''+''] @ cod_minor_tail cod_min
              else kbd @ mouse
         else kbd @ mouse @ cod_minor_tail cod_min)"

section \<open>Disconnect reasons\<close>

text \<open>
  The reasons the switch knows. Their numbers are in the GATT headers of the SDK, so decoding a
  reason is an argument, \<open>None\<close> for a value that is no enumerator; the switch is compiled only in
  a build with the Bluedroid GATT layers (\<open>gatt\<close>).
\<close>

datatype esp_gatt_conn_reason_t =
    ESP_GATT_CONN_L2C_FAILURE | ESP_GATT_CONN_TIMEOUT | ESP_GATT_CONN_TERMINATE_PEER_USER
  | ESP_GATT_CONN_TERMINATE_LOCAL_HOST | ESP_GATT_CONN_LMP_TIMEOUT | ESP_GATT_CONN_FAIL_ESTABLISH
  | ESP_GATT_CONN_CONN_CANCEL | ESP_GATT_CONN_NONE

fun conn_reason_str :: "esp_gatt_conn_reason_t \<Rightarrow> string" where
  "conn_reason_str ESP_GATT_CONN_L2C_FAILURE = ''L2C_FAILURE''"
| "conn_reason_str ESP_GATT_CONN_TIMEOUT = ''TIMEOUT''"
| "conn_reason_str ESP_GATT_CONN_TERMINATE_PEER_USER = ''TERMINATE_PEER_USER''"
| "conn_reason_str ESP_GATT_CONN_TERMINATE_LOCAL_HOST = ''TERMINATE_LOCAL_HOST''"
| "conn_reason_str ESP_GATT_CONN_LMP_TIMEOUT = ''LMP_TIMEOUT''"
| "conn_reason_str ESP_GATT_CONN_FAIL_ESTABLISH = ''FAIL_ESTABLISH''"
| "conn_reason_str ESP_GATT_CONN_CONN_CANCEL = ''CONN_CANCEL''"
| "conn_reason_str ESP_GATT_CONN_NONE = ''NONE''"

definition esp_hid_disconnect_reason_str ::
    "bool \<Rightarrow> (int \<Rightarrow> esp_gatt_conn_reason_t option) \<Rightarrow> esp_hid_transport_t \<Rightarrow> int \<Rightarrow> string" where
  "esp_hid_disconnect_reason_str gatt decode transport reason =
     (if transport = ESP_HID_TRANSPORT_BLE \<and> gatt
      then case decode reason of Some r \<Rightarrow> conn_reason_str r | None \<Rightarrow> s_unknown_str
      else s_unknown_str)"

section \<open>What is printed\<close>

text \<open>The minor class as the parts it has, joined by a plus sign.\<close>

fun join_plus :: "string list \<Rightarrow> string list" where
  "join_plus [] = []"
| "join_plus [x] = [x]"
| "join_plus (x # xs) = x # ''+'' # join_plus xs"

definition cod_minor_parts :: "u8 \<Rightarrow> string list" where
  "cod_minor_parts cod_min =
     (if nz (cod_min AND 0x10) then [''KEYBOARD''] else []) @
     (if nz (cod_min AND 0x20) then [''MOUSE''] else []) @
     (if cod_min AND 0x0F = 0 \<and> nz (cod_min AND 0x30) then []
      else [s_hid_cod_minor_names ! unat (cod_min AND 0x0F)])"

text \<open>
  What \<open>esp_hid_cod_minor_print\<close> writes for a minor class without reserved bits is the names of
  its parts joined by a plus sign, and it never reads past the table.
\<close>

theorem cod_minor_print_parts:
  assumes "c < 0x40" and "c AND 0x0F < 7"
  shows "esp_hid_cod_minor_print c = join_plus (cod_minor_parts c)"
proof -
  have "c < 0x40 \<longrightarrow> c AND 0x0F < 7 \<longrightarrow>
      esp_hid_cod_minor_print c = join_plus (cod_minor_parts c)"
    by (rule u8_all) code_simp
  then show ?thesis using assms by simp
qed

theorem cod_minor_print_parts_witness:
  "esp_hid_cod_minor_print 0x12 = join_plus (cod_minor_parts 0x12) \<and> cod_minor_parts 0x12 = [''KEYBOARD'', ''GAMEPAD'']"
  using cod_minor_print_parts [of "0x12"] by code_simp

end
