(* ===== verification/HidParser.thy ===== *)
theory HidParser
  imports HidTypes
begin

text \<open>
  The report-map parser of \<open>esp_hid/src/esp_hid_common.c\<close>. The file's static variables are the
  record \<open>hid_parser\<close>; a function that reads and writes them takes the record and returns it.

  The C library's allocator is the argument \<open>mok\<close>: \<open>mok n\<close> says whether the \<open>n\<close>-th request
  of this module succeeds, so every property holds for every pattern of allocation failures. Two
  further fields keep the accounts: \<open>heap_calls\<close> counts the requests, \<open>heap_live\<close> the blocks
  that are allocated and not yet freed.

  The product of two \<open>uint16_t\<close> values, computed in \<open>int\<close> and added to a \<open>uint16_t\<close>, is
  written as the 16-bit product and sum, which is its value modulo \<open>2 ^ 16\<close>. \<open>reports_len\<close>
  of the temporary map is the length of its list of reports.
\<close>

section \<open>State\<close>

record temp_hid_report_map_t =
  tm_usage_mask :: u8
  tm_reports :: "esp_hid_report_item_t list"

definition temp_map_zero :: temp_hid_report_map_t where
  "temp_map_zero = \<lparr>tm_usage_mask = 0, tm_reports = []\<rparr>"

record hid_report_cmd_t =
  cmd_cmd :: u8
  cmd_len :: nat
  cmd_value :: u32

record hid_report_params_t =
  rp_usage_page :: u16
  rp_usage :: u16
  rp_inner_usage_page :: u16
  rp_inner_usage :: u16
  rp_report_id :: u8
  rp_input_len :: u16
  rp_output_len :: u16
  rp_feature_len :: u16

definition params_zero :: hid_report_params_t where
  "params_zero = \<lparr>rp_usage_page = 0, rp_usage = 0, rp_inner_usage_page = 0, rp_inner_usage = 0,
     rp_report_id = 0, rp_input_len = 0, rp_output_len = 0, rp_feature_len = 0\<rparr>"

datatype s_parse_step_t =
    PARSE_WAIT_USAGE_PAGE | PARSE_WAIT_USAGE | PARSE_WAIT_COLLECTION_APPLICATION
  | PARSE_WAIT_END_COLLECTION

record hid_parser =
  s_parse_step :: s_parse_step_t
  s_collection_depth :: u8
  s_report_params :: hid_report_params_t
  s_report_size :: u16
  s_report_count :: u16
  s_new_map :: bool
  s_temp_hid_report_map :: "temp_hid_report_map_t option"
  heap_calls :: nat
  heap_live :: int

definition parser_init :: hid_parser where
  "parser_init = \<lparr>s_parse_step = PARSE_WAIT_USAGE_PAGE, s_collection_depth = 0,
     s_report_params = params_zero, s_report_size = 0, s_report_count = 0, s_new_map = False,
     s_temp_hid_report_map = None, heap_calls = 0, heap_live = 0\<rparr>"

definition heap_alloc :: "(nat \<Rightarrow> bool) \<Rightarrow> hid_parser \<Rightarrow> bool \<times> hid_parser" where
  "heap_alloc mok p =
     (mok (heap_calls p),
      p\<lparr>heap_calls := Suc (heap_calls p),
        heap_live := heap_live p + (if mok (heap_calls p) then 1 else 0)\<rparr>)"

definition heap_free :: "hid_parser \<Rightarrow> hid_parser" where
  "heap_free p = p\<lparr>heap_live := heap_live p - 1\<rparr>"

section \<open>Collecting reports\<close>

definition add_report :: "temp_hid_report_map_t \<Rightarrow> esp_hid_report_item_t \<Rightarrow> int \<times> temp_hid_report_map_t"
where
  "add_report mp item =
     (if 64 \<le> length (tm_reports mp) then (-1, mp)
      else (0, mp\<lparr>tm_reports := tm_reports mp @ [item]\<rparr>))"

text \<open>Adding several reports, up to the first that does not fit.\<close>

fun add_reports ::
  "temp_hid_report_map_t \<Rightarrow> esp_hid_report_item_t list \<Rightarrow> int \<times> temp_hid_report_map_t" where
  "add_reports mp [] = (0, mp)"
| "add_reports mp (i # is) =
     (case add_report mp i of (r, mp') \<Rightarrow> if r \<noteq> 0 then (-1, mp') else add_reports mp' is)"

definition report_item ::
  "hid_report_params_t \<Rightarrow> esp_hid_usage_t \<Rightarrow> u8 \<Rightarrow> u8 \<Rightarrow> u16 \<Rightarrow> esp_hid_report_item_t" where
  "report_item r usage type mode len =
     \<lparr>ri_map_index = 0, ri_report_id = rp_report_id r, ri_report_type = type,
      ri_protocol_mode = mode, ri_usage = usage, ri_value_len = len\<rparr>"

text \<open>The usage a collection counts as, by its usage page and usage.\<close>

definition report_usage :: "hid_report_params_t \<Rightarrow> esp_hid_usage_t" where
  "report_usage r =
     (if rp_usage_page r = HID_USAGE_PAGE_GENERIC_DESKTOP \<and> rp_usage r = HID_USAGE_KEYBOARD
      then ESP_HID_USAGE_KEYBOARD
      else if rp_usage_page r = HID_USAGE_PAGE_GENERIC_DESKTOP \<and> rp_usage r = HID_USAGE_MOUSE
      then ESP_HID_USAGE_MOUSE
      else if rp_usage_page r = HID_USAGE_PAGE_GENERIC_DESKTOP
      then (if rp_usage r = HID_USAGE_JOYSTICK then ESP_HID_USAGE_JOYSTICK
            else if rp_usage r = HID_USAGE_GAMEPAD then ESP_HID_USAGE_GAMEPAD
            else ESP_HID_USAGE_GENERIC)
      else if rp_usage_page r = HID_USAGE_PAGE_CONSUMER_DEVICE
              \<and> rp_usage r = HID_USAGE_CONSUMER_CONTROL
      then ESP_HID_USAGE_CCONTROL
      else if rp_usage_page r \<ge> 0xFF then ESP_HID_USAGE_VENDOR
      else ESP_HID_USAGE_GENERIC)"

text \<open>
  The items a collection yields, in the order they are added: keyboards and mice get a boot
  twin of each report, everything else only report-mode items.
\<close>

definition report_items :: "hid_report_params_t \<Rightarrow> esp_hid_report_item_t list" where
  "report_items r =
    (let u = report_usage r; REPORT = ESP_HID_PROTOCOL_MODE_REPORT; BOOT = ESP_HID_PROTOCOL_MODE_BOOT
     in if u = ESP_HID_USAGE_KEYBOARD then
          (if rp_input_len r > 0 then
             [report_item r u ESP_HID_REPORT_TYPE_INPUT REPORT (rp_input_len r div 8),
              report_item r u ESP_HID_REPORT_TYPE_INPUT BOOT 8] else []) @
          (if rp_output_len r > 0 then
             [report_item r u ESP_HID_REPORT_TYPE_OUTPUT REPORT (rp_output_len r div 8),
              report_item r u ESP_HID_REPORT_TYPE_OUTPUT BOOT 1] else [])
        else if u = ESP_HID_USAGE_MOUSE then
          (if rp_input_len r > 0 then
             [report_item r u ESP_HID_REPORT_TYPE_INPUT REPORT (rp_input_len r div 8),
              report_item r u ESP_HID_REPORT_TYPE_INPUT BOOT 3] else [])
        else
          (if rp_input_len r > 0 then
             [report_item r u ESP_HID_REPORT_TYPE_INPUT REPORT (rp_input_len r div 8)] else []) @
          (if rp_output_len r > 0 then
             [report_item r u ESP_HID_REPORT_TYPE_OUTPUT REPORT (rp_output_len r div 8)] else []) @
          (if rp_feature_len r > 0 then
             [report_item r u ESP_HID_REPORT_TYPE_FEATURE REPORT (rp_feature_len r div 8)] else []))"

text \<open>\<open>handle_report\<close>: the temporary map is allocated on demand and cleared for a new map.\<close>

definition handle_report ::
  "(nat \<Rightarrow> bool) \<Rightarrow> hid_report_params_t \<Rightarrow> bool \<Rightarrow> hid_parser \<Rightarrow> int \<times> hid_parser" where
  "handle_report mok report first p =
    (let (m, p) =
       (case s_temp_hid_report_map p of
          Some mp \<Rightarrow> (Some mp, p)
        | None \<Rightarrow> (let (ok, p) = heap_alloc mok p
                  in (if ok then Some temp_map_zero else None, p)))
     in case m of
          None \<Rightarrow> (-1, p)
        | Some mp \<Rightarrow>
           (let mp = (if first then temp_map_zero else mp);
                mp = mp\<lparr>tm_usage_mask := tm_usage_mask mp OR usage_bits (report_usage report)\<rparr>;
                (r, mp) = add_reports mp (report_items report)
            in (r, p\<lparr>s_temp_hid_report_map := Some mp\<rparr>)))"

section \<open>Reading items\<close>

text \<open>
  \<open>parse_cmd\<close>: the item at \<open>index\<close>, its length in bytes as the result, \<open>-1\<close> for an item
  that is cut off or when memory runs out. A length code of 3 means four bytes.
\<close>

definition item_size :: "u8 \<Rightarrow> nat" where
  "item_size b = (let n = unat (b AND 0x03) in if n = 3 then 4 else n)"

definition parse_cmd ::
  "(nat \<Rightarrow> bool) \<Rightarrow> u8 list \<Rightarrow> nat \<Rightarrow> hid_parser \<Rightarrow> (int \<times> hid_report_cmd_t option) \<times> hid_parser"
where
  "parse_cmd mok data index p =
    (if index = length data then ((0, None), p)
     else
       (let (ok, p) = heap_alloc mok p
        in if \<not> ok then ((-1, None), p)
           else
             (let b = data ! index;
                  n = item_size b
              in if length data - index - 1 < n then ((-1, None), heap_free p)
                 else ((int n + 1,
                        Some \<lparr>cmd_cmd = b AND 0xFC, cmd_len = n,
                              cmd_value = le_value (take n (drop (Suc index) data))\<rparr>), p))))"

text \<open>A report that does not fill its last byte is dropped with a log line.\<close>

definition whole_bytes :: "hid_report_params_t \<Rightarrow> bool" where
  "whole_bytes r \<longleftrightarrow>
     rp_input_len r AND 7 = 0 \<and> rp_output_len r AND 7 = 0 \<and> rp_feature_len r AND 7 = 0"

text \<open>The success branch that both report ends share.\<close>

definition emit_report :: "(nat \<Rightarrow> bool) \<Rightarrow> hid_parser \<Rightarrow> int \<times> hid_parser" where
  "emit_report mok p =
    (let (res, p) = handle_report mok (s_report_params p) (s_new_map p) p
     in if res \<noteq> 0 then (-1, p\<lparr>s_parse_step := PARSE_WAIT_USAGE_PAGE\<rparr>)
        else (0, p\<lparr>s_new_map := False\<rparr>))"

definition upd_params :: "(hid_report_params_t \<Rightarrow> hid_report_params_t) \<Rightarrow> hid_parser \<Rightarrow> hid_parser" where
  "upd_params f p = p\<lparr>s_report_params := f (s_report_params p)\<rparr>"

text \<open>A report id inside a collection: a changed id closes the report collected so far.\<close>

definition handle_report_id :: "(nat \<Rightarrow> bool) \<Rightarrow> u32 \<Rightarrow> hid_parser \<Rightarrow> int \<times> hid_parser" where
  "handle_report_id mok value p =
    (let rid = rp_report_id (s_report_params p);
         (res, p) =
           (if nz rid \<and> ucast rid \<noteq> value then
              (if \<not> whole_bytes (s_report_params p) then (0 :: int, p)
               else (let (res, p) = emit_report mok p
                     in if res \<noteq> 0 then (-1, p)
                        else (0, upd_params (\<lambda>r. r\<lparr>rp_input_len := 0, rp_output_len := 0,
                                   rp_feature_len := 0, rp_usage := rp_inner_usage r,
                                   rp_usage_page := rp_inner_usage_page r\<rparr>) p)))
            else (0, p))
     in if res \<noteq> 0 then (-1, p)
        else (0, upd_params (\<lambda>r. r\<lparr>rp_report_id := ucast value\<rparr>) p))"

text \<open>The end of a collection: the outermost one closes the report.\<close>

definition handle_end_collection :: "(nat \<Rightarrow> bool) \<Rightarrow> hid_parser \<Rightarrow> int \<times> hid_parser" where
  "handle_end_collection mok p =
    (let p = p\<lparr>s_collection_depth := s_collection_depth p - 1\<rparr>
     in if s_collection_depth p \<noteq> 0 then (0, p)
        else
          (let (res, p) = (if whole_bytes (s_report_params p) then emit_report mok p else (0 :: int, p))
           in if res \<noteq> 0 then (-1, p)
              else (0, p\<lparr>s_parse_step := PARSE_WAIT_USAGE_PAGE\<rparr>)))"

text \<open>Items inside an application collection.\<close>

definition handle_main_item :: "(nat \<Rightarrow> bool) \<Rightarrow> hid_report_cmd_t \<Rightarrow> hid_parser \<Rightarrow> int \<times> hid_parser" where
  "handle_main_item mok cmd p =
    (let c = cmd_cmd cmd; v = cmd_value cmd; bits = s_report_size p * s_report_count p
     in if c = HID_RM_REPORT_ID then handle_report_id mok v p
        else if c = HID_RM_USAGE_PAGE then
          (0, upd_params (\<lambda>r. r\<lparr>rp_inner_usage_page := ucast v\<rparr>) p)
        else if c = HID_RM_USAGE then (0, upd_params (\<lambda>r. r\<lparr>rp_inner_usage := ucast v\<rparr>) p)
        else if c = HID_RM_REPORT_SIZE then (0, p\<lparr>s_report_size := ucast v\<rparr>)
        else if c = HID_RM_REPORT_COUNT then (0, p\<lparr>s_report_count := ucast v\<rparr>)
        else if c = HID_RM_INPUT then
          (0, upd_params (\<lambda>r. r\<lparr>rp_input_len := rp_input_len r + bits\<rparr>) p)
        else if c = HID_RM_OUTPUT then
          (0, upd_params (\<lambda>r. r\<lparr>rp_output_len := rp_output_len r + bits\<rparr>) p)
        else if c = HID_RM_FEATURE then
          (0, upd_params (\<lambda>r. r\<lparr>rp_feature_len := rp_feature_len r + bits\<rparr>) p)
        else if c = HID_RM_COLLECTION then (0, p\<lparr>s_collection_depth := s_collection_depth p + 1\<rparr>)
        else if c = HID_RM_END_COLLECTION then handle_end_collection mok p
        else (0, p))"

definition handle_cmd :: "(nat \<Rightarrow> bool) \<Rightarrow> hid_report_cmd_t \<Rightarrow> hid_parser \<Rightarrow> int \<times> hid_parser" where
  "handle_cmd mok cmd p =
    (case s_parse_step p of
       PARSE_WAIT_USAGE_PAGE \<Rightarrow>
         (if cmd_cmd cmd \<noteq> HID_RM_USAGE_PAGE then (-1, p)
          else (0, p\<lparr>s_report_size := 0, s_report_count := 0,
                     s_report_params := params_zero\<lparr>rp_usage_page := ucast (cmd_value cmd)\<rparr>,
                     s_parse_step := PARSE_WAIT_USAGE\<rparr>))
     | PARSE_WAIT_USAGE \<Rightarrow>
         (if cmd_cmd cmd \<noteq> HID_RM_USAGE then (-1, p\<lparr>s_parse_step := PARSE_WAIT_USAGE_PAGE\<rparr>)
          else (0, (upd_params (\<lambda>r. r\<lparr>rp_usage := ucast (cmd_value cmd)\<rparr>) p)
                     \<lparr>s_parse_step := PARSE_WAIT_COLLECTION_APPLICATION\<rparr>))
     | PARSE_WAIT_COLLECTION_APPLICATION \<Rightarrow>
         (if cmd_cmd cmd \<noteq> HID_RM_COLLECTION \<or> cmd_value cmd \<noteq> 1
          then (-1, p\<lparr>s_parse_step := PARSE_WAIT_USAGE_PAGE\<rparr>)
          else (0, (upd_params (\<lambda>r. r\<lparr>rp_report_id := 0\<rparr>) p)
                     \<lparr>s_collection_depth := 1, s_parse_step := PARSE_WAIT_END_COLLECTION\<rparr>))
     | PARSE_WAIT_END_COLLECTION \<Rightarrow> handle_main_item mok cmd p)"

text \<open>
  A case rule for the items inside a collection: what holds of the result of each branch holds of
  the result of \<open>handle_main_item\<close>, and likewise for \<open>handle_cmd\<close>.
\<close>

lemma handle_main_item_cases:
  assumes "P (handle_report_id mok (cmd_value cmd) p)"
    and "\<And>f. P (0, upd_params f p)"
    and "\<And>x. P (0, p\<lparr>s_report_size := x\<rparr>)"
    and "\<And>x. P (0, p\<lparr>s_report_count := x\<rparr>)"
    and "\<And>d. P (0, p\<lparr>s_collection_depth := d\<rparr>)"
    and "P (handle_end_collection mok p)"
    and "P (0, p)"
  shows "P (handle_main_item mok cmd p)"
  unfolding handle_main_item_def Let_def by (simp only: assms split: if_split) simp

lemma handle_cmd_cases:
  assumes "\<And>s. P (-1, p\<lparr>s_parse_step := s\<rparr>)" and "P (-1, p)"
    and "\<And>x y z s. P (0, p\<lparr>s_report_size := x, s_report_count := y, s_report_params := z,
                       s_parse_step := s\<rparr>)"
    and "\<And>f s. P (0, (upd_params f p)\<lparr>s_parse_step := s\<rparr>)"
    and "\<And>f d s. P (0, (upd_params f p)\<lparr>s_collection_depth := d, s_parse_step := s\<rparr>)"
    and "P (handle_main_item mok cmd p)"
  shows "P (handle_cmd mok cmd p)"
  unfolding handle_cmd_def by (cases "s_parse_step p") (simp_all only: assms s_parse_step_t.case split: if_split, simp_all)

section \<open>The parser\<close>

lemma parse_cmd_advances:
  "index < length data \<Longrightarrow> parse_cmd mok data index p = ((res, c), p') \<Longrightarrow>
   (c = None \<and> res = -1) \<or> (c \<noteq> None \<and> 0 < res \<and> index + nat res \<le> length data)"
  by (auto simp: parse_cmd_def Let_def nat_add_distrib split: prod.splits if_splits)

text \<open>The item loop; the item is freed once it is handled.\<close>

function parse_items :: "(nat \<Rightarrow> bool) \<Rightarrow> u8 list \<Rightarrow> nat \<Rightarrow> hid_parser \<Rightarrow> bool \<times> hid_parser" where
  "parse_items mok data index p =
    (if index < length data then
       (case parse_cmd mok data index p of
          ((res, c), p) \<Rightarrow>
            (case c of
               None \<Rightarrow> (False, p)
             | Some cmd \<Rightarrow>
                 (case handle_cmd mok cmd p of
                    (r, p) \<Rightarrow>
                      (let p = heap_free p
                       in if r \<noteq> 0 then (False, p)
                          else parse_items mok data (index + nat res) p))))
     else (True, p))"
  by pat_completeness auto
termination
  by (relation "measure (\<lambda>(mok, data, index, p). length data - index)")
     (auto dest!: parse_cmd_advances [rotated, OF sym])

declare parse_items.simps [simp del]

text \<open>The usage and appearance of the whole map, by the dominance order.\<close>

definition dominant_usage :: "u8 \<Rightarrow> esp_hid_usage_t \<times> u16" where
  "dominant_usage um =
    (if um AND usage_bits ESP_HID_USAGE_KEYBOARD \<noteq> 0
     then (ESP_HID_USAGE_KEYBOARD, ESP_HID_APPEARANCE_KEYBOARD)
     else if um AND usage_bits ESP_HID_USAGE_MOUSE \<noteq> 0
     then (ESP_HID_USAGE_MOUSE, ESP_HID_APPEARANCE_MOUSE)
     else if um AND usage_bits ESP_HID_USAGE_JOYSTICK \<noteq> 0
     then (ESP_HID_USAGE_JOYSTICK, ESP_HID_APPEARANCE_JOYSTICK)
     else if um AND usage_bits ESP_HID_USAGE_GAMEPAD \<noteq> 0
     then (ESP_HID_USAGE_GAMEPAD, ESP_HID_APPEARANCE_GAMEPAD)
     else if um AND usage_bits ESP_HID_USAGE_CCONTROL \<noteq> 0
     then (ESP_HID_USAGE_CCONTROL, ESP_HID_APPEARANCE_KEYBOARD)
     else (ESP_HID_USAGE_GENERIC, ESP_HID_APPEARANCE_GENERIC))"

definition free_temp_map :: "hid_parser \<Rightarrow> hid_parser" where
  "free_temp_map p =
    (if s_temp_hid_report_map p = None then p
     else (heap_free p)\<lparr>s_temp_hid_report_map := None\<rparr>)"

text \<open>
  \<open>esp_hid_parse_report_map\<close>: \<open>Inr None\<close> is the NULL result; a descriptor that never produced
  a report leaves the temporary map NULL, which the code then dereferences.
\<close>

definition esp_hid_parse_report_map ::
  "(nat \<Rightarrow> bool) \<Rightarrow> u8 list \<Rightarrow> hid_parser \<Rightarrow> esp_hid_report_map_t option res \<times> hid_parser" where
  "esp_hid_parse_report_map mok hid_rm p =
    (let (ok, p) = parse_items mok hid_rm 0 (p\<lparr>s_new_map := True\<rparr>)
     in if \<not> ok then (Inr None, p)
        else
          (let (ok, p) = heap_alloc mok p
           in if \<not> ok then (Inr None, free_temp_map p)
              else
                (case s_temp_hid_report_map p of
                   None \<Rightarrow> (Inl NullDeref, p)
                 | Some mp \<Rightarrow>
                     (let (ok, p) = heap_alloc mok p
                      in if \<not> ok then (Inr None, free_temp_map (heap_free p))
                         else
                           (let (usage, appearance) = dominant_usage (tm_usage_mask mp)
                            in (Inr (Some \<lparr>rm_usage = usage, rm_appearance = appearance,
                                           rm_reports_len = of_nat (length (tm_reports mp)),
                                           rm_reports = tm_reports mp\<rparr>),
                                free_temp_map p))))))"

text \<open>\<open>esp_hid_free_report_map\<close> frees the two blocks of a parsed map; NULL is accepted.\<close>

definition esp_hid_free_report_map :: "esp_hid_report_map_t option \<Rightarrow> hid_parser \<Rightarrow> hid_parser" where
  "esp_hid_free_report_map m p = (case m of None \<Rightarrow> p | Some _ \<Rightarrow> heap_free (heap_free p))"

end
