(* ===== verification/HidParserInv.thy ===== *)
theory HidParserInv
  imports HidParser
begin

text \<open>
  What every run of the report-map parser keeps: the bound and shape of the collected reports,
  the usage mask that covers them, and the accounts of the heap. The loop over the items is
  inducted over once, in the locale \<open>item_loop\<close>; each invariant is an interpretation of it.
\<close>

section \<open>One induction over the item loop\<close>

locale item_loop =
  fixes I :: "hid_parser \<Rightarrow> bool" and mok :: "nat \<Rightarrow> bool"
  assumes cut_item: "I p \<Longrightarrow> i < length data \<Longrightarrow> parse_cmd mok data i p = ((res, None), p') \<Longrightarrow> I p'"
    and one_item: "I p \<Longrightarrow> i < length data \<Longrightarrow>
                   parse_cmd mok data i p = ((res, Some cmd), p1) \<Longrightarrow>
                   handle_cmd mok cmd p1 = (r, p2) \<Longrightarrow> I (heap_free p2)"
begin

lemma parse_items_inv: "I p \<Longrightarrow> I (snd (parse_items mok data i p))"
proof (induction "length data - i" arbitrary: i p rule: less_induct)
  case less
  show ?case
  proof (cases "i < length data")
    case True
    obtain res c p1 where pc: "parse_cmd mok data i p = ((res, c), p1)"
      by (metis prod.exhaust)
    show ?thesis
    proof (cases c)
      case None
      then show ?thesis
        using cut_item less.prems pc True by (simp add: parse_items.simps [of mok data i p])
    next
      case (Some cmd)
      obtain r p2 where hc: "handle_cmd mok cmd p1 = (r, p2)"
        by (metis prod.exhaust)
      have inv: "I (heap_free p2)"
        using one_item less.prems True pc hc Some by blast
      have "length data - (i + nat res) < length data - i"
        using parse_cmd_advances [OF True pc] Some True by auto
      then have "I (snd (parse_items mok data (i + nat res) (heap_free p2)))"
        using less.hyps inv by blast
      then show ?thesis
        using pc hc Some True inv by (simp add: parse_items.simps [of mok data i p] Let_def)
    qed
  next
    case False
    then show ?thesis using less.prems by (simp add: parse_items.simps [of mok data i p])
  qed
qed

end

section \<open>Reports: their number and shape, and the usage mask\<close>

definition item_ok :: "esp_hid_report_item_t \<Rightarrow> bool" where
  "item_ok i \<longleftrightarrow>
     ri_map_index i = 0
     \<and> ri_report_type i \<in> {ESP_HID_REPORT_TYPE_INPUT, ESP_HID_REPORT_TYPE_OUTPUT, ESP_HID_REPORT_TYPE_FEATURE}
     \<and> (ri_protocol_mode i = ESP_HID_PROTOCOL_MODE_REPORT
        \<or> ri_protocol_mode i = ESP_HID_PROTOCOL_MODE_BOOT
           \<and> ri_usage i \<in> {ESP_HID_USAGE_KEYBOARD, ESP_HID_USAGE_MOUSE})
     \<and> ri_usage i \<noteq> ESP_HID_USAGE_TABLET
     \<and> unat (ri_value_len i) \<le> 8191"

definition temp_ok :: "temp_hid_report_map_t \<Rightarrow> bool" where
  "temp_ok m \<longleftrightarrow> length (tm_reports m) \<le> 64
     \<and> (\<forall>i \<in> set (tm_reports m). item_ok i
          \<and> usage_bits (ri_usage i) OR tm_usage_mask m = tm_usage_mask m)"

definition parser_wf :: "hid_parser \<Rightarrow> bool" where
  "parser_wf p \<longleftrightarrow> (case s_temp_hid_report_map p of None \<Rightarrow> True | Some m \<Rightarrow> temp_ok m)"

lemma temp_ok_zero [simp]: "temp_ok temp_map_zero"
  by (simp add: temp_ok_def temp_map_zero_def)

lemma or_absorb_trans: "(a::u8) OR m = m \<Longrightarrow> a OR (m OR b) = m OR b"
  by (metis or.assoc)

lemma or_absorb_right: "(a::u8) OR (m OR a) = m OR a"
  by (simp add: or.left_commute or.commute)

lemma div8_bound: "unat ((x::u16) div 8) \<le> 8191"
proof -
  have "unat x < 65536" using unsigned_less [of x, where ?'a = nat] by simp
  then show ?thesis by (simp add: unat_div)
qed

lemma report_usage_not_tablet: "report_usage r \<noteq> ESP_HID_USAGE_TABLET"
  by (simp add: report_usage_def)

lemma report_items_ok:
  "i \<in> set (report_items r) \<Longrightarrow> item_ok i \<and> ri_usage i = report_usage r"
  using report_usage_not_tablet [of r]
  by (auto simp: report_items_def report_item_def item_ok_def Let_def div8_bound hid_consts
        simp del: usage_bits_inject split: if_splits)

lemma add_report_ok:
  "temp_ok m \<Longrightarrow> item_ok i \<Longrightarrow> usage_bits (ri_usage i) OR tm_usage_mask m = tm_usage_mask m
   \<Longrightarrow> add_report m i = (r, m') \<Longrightarrow> temp_ok m' \<and> tm_usage_mask m' = tm_usage_mask m"
  by (auto simp: add_report_def temp_ok_def split: if_splits)

lemma add_reports_ok:
  "temp_ok m \<Longrightarrow>
   (\<forall>i \<in> set is. item_ok i \<and> usage_bits (ri_usage i) OR tm_usage_mask m = tm_usage_mask m)
   \<Longrightarrow> add_reports m is = (r, m') \<Longrightarrow> temp_ok m'"
proof (induction m "is" rule: add_reports.induct)
  case (1 mp)
  then show ?case by simp
next
  case (2 mp i "is")
  obtain r1 m1 where a: "add_report mp i = (r1, m1)" by fastforce
  with "2.prems" have "temp_ok m1 \<and> tm_usage_mask m1 = tm_usage_mask mp"
    by (meson add_report_ok list.set_intros(1))
  then show ?case using "2.IH" "2.prems" a by (auto split: if_splits)
qed

lemma temp_ok_mask: "temp_ok m \<Longrightarrow> temp_ok (m\<lparr>tm_usage_mask := tm_usage_mask m OR b\<rparr>)"
  by (auto simp: temp_ok_def or_absorb_trans)

lemma handle_report_wf [inv_intros]:
  assumes "parser_wf p" shows "parser_wf (snd (handle_report mok rp first p))"
proof -
  have step: "temp_ok (snd (add_reports (m\<lparr>tm_usage_mask := tm_usage_mask m OR usage_bits (report_usage rp)\<rparr>)
       (report_items rp)))" if "temp_ok m" for m
    using that
    by (intro add_reports_ok [OF temp_ok_mask [OF that] _ surjective_pairing])
       (auto dest: report_items_ok simp: or_absorb_right)
  show ?thesis
    using assms step
    by (auto simp: handle_report_def parser_wf_def heap_alloc_def Let_def
          split: option.splits prod.splits) (metis snd_conv temp_ok_zero)+
qed

lemma parser_wf_simps [simp]:
  "parser_wf (p\<lparr>s_parse_step := a\<rparr>) = parser_wf p"
  "parser_wf (p\<lparr>s_new_map := b\<rparr>) = parser_wf p"
  "parser_wf (p\<lparr>s_collection_depth := d\<rparr>) = parser_wf p"
  "parser_wf (p\<lparr>s_report_size := x\<rparr>) = parser_wf p"
  "parser_wf (p\<lparr>s_report_count := x\<rparr>) = parser_wf p"
  "parser_wf (p\<lparr>s_report_params := y\<rparr>) = parser_wf p"
  "parser_wf (upd_params f p) = parser_wf p"
  "parser_wf (heap_free p) = parser_wf p"
  "parser_wf (snd (heap_alloc mok p)) = parser_wf p"
  "parser_wf parser_init"
  by (simp_all add: parser_wf_def upd_params_def heap_free_def heap_alloc_def parser_init_def)

lemma emit_report_wf [inv_intros]: "parser_wf p \<Longrightarrow> parser_wf (snd (emit_report mok p))"
  using handle_report_wf [of p mok "s_report_params p" "s_new_map p"]
  by (auto simp: emit_report_def Let_def split: prod.splits)

lemma handle_report_id_wf [inv_intros]: "parser_wf p \<Longrightarrow> parser_wf (snd (handle_report_id mok v p))"
  using emit_report_wf [of p mok] by (auto simp: handle_report_id_def Let_def split: prod.splits)

lemma handle_end_collection_wf [inv_intros]:
  "parser_wf p \<Longrightarrow> parser_wf (snd (handle_end_collection mok p))"
  using emit_report_wf [of "p\<lparr>s_collection_depth := s_collection_depth p - 1\<rparr>" mok]
  by (auto simp: handle_end_collection_def Let_def split: prod.splits if_splits)

lemma handle_cmd_wf [inv_intros]: "parser_wf p \<Longrightarrow> parser_wf (snd (handle_cmd mok cmd p))"
  by (rule handle_cmd_cases; (rule handle_main_item_cases)?; simp add: inv_intros)

lemma parse_cmd_wf: "parser_wf (snd (parse_cmd mok data i p)) = parser_wf p"
  by (auto simp: parse_cmd_def heap_alloc_def heap_free_def parser_wf_def Let_def
        split: prod.splits)

interpretation wf_loop: item_loop parser_wf mok for mok
proof
  fix p data i res p'
  assume "parser_wf p" "parse_cmd mok data i p = ((res, None), p')"
  then show "parser_wf p'" by (metis parse_cmd_wf snd_conv)
next
  fix p data i res cmd p1 r p2
  assume "parser_wf p" "parse_cmd mok data i p = ((res, Some cmd), p1)"
    and "handle_cmd mok cmd p1 = (r, p2)"
  then have "parser_wf p2" by (metis handle_cmd_wf parse_cmd_wf snd_conv)
  then show "parser_wf (heap_free p2)" by simp
qed

section \<open>The accounts of the heap\<close>

text \<open>The live blocks that the static temporary map does not account for.\<close>

definition heap_owed :: "hid_parser \<Rightarrow> int" where
  "heap_owed p = heap_live p - (if s_temp_hid_report_map p = None then 0 else 1)"

lemma heap_owed_simps [simp]:
  "heap_owed (p\<lparr>s_parse_step := a\<rparr>) = heap_owed p"
  "heap_owed (p\<lparr>s_new_map := b\<rparr>) = heap_owed p"
  "heap_owed (p\<lparr>s_collection_depth := d\<rparr>) = heap_owed p"
  "heap_owed (p\<lparr>s_report_size := x\<rparr>) = heap_owed p"
  "heap_owed (p\<lparr>s_report_count := x\<rparr>) = heap_owed p"
  "heap_owed (p\<lparr>s_report_params := y\<rparr>) = heap_owed p"
  "heap_owed (upd_params f p) = heap_owed p"
  "heap_owed (heap_free p) = heap_owed p - 1"
  "heap_owed (free_temp_map p) = heap_owed p"
  by (auto simp: heap_owed_def upd_params_def heap_free_def free_temp_map_def)

lemma heap_alloc_owed: "heap_alloc mok p = (ok, p') \<Longrightarrow> heap_owed p' = heap_owed p + (if ok then 1 else 0)"
  by (auto simp: heap_alloc_def heap_owed_def)

lemma handle_report_owed [frame_simps]: "heap_owed (snd (handle_report mok r first p)) = heap_owed p"
  by (auto simp: handle_report_def heap_owed_def heap_alloc_def Let_def
        split: option.splits prod.splits)

lemma emit_report_owed [frame_simps]: "heap_owed (snd (emit_report mok p)) = heap_owed p"
  using handle_report_owed [of mok "s_report_params p" "s_new_map p" p]
  by (auto simp: emit_report_def Let_def split: prod.splits)

lemma handle_report_id_owed [frame_simps]: "heap_owed (snd (handle_report_id mok v p)) = heap_owed p"
  using emit_report_owed [of mok p] by (auto simp: handle_report_id_def Let_def split: prod.splits)

lemma handle_end_collection_owed [frame_simps]:
  "heap_owed (snd (handle_end_collection mok p)) = heap_owed p"
  using emit_report_owed [of mok "p\<lparr>s_collection_depth := s_collection_depth p - 1\<rparr>"]
  by (auto simp: handle_end_collection_def Let_def split: prod.splits if_splits)

lemma handle_cmd_owed [frame_simps]: "heap_owed (snd (handle_cmd mok cmd p)) = heap_owed p"
  by (rule handle_cmd_cases; (rule handle_main_item_cases)?; simp add: frame_simps)

lemma parse_cmd_owed:
  "i < length data \<Longrightarrow> parse_cmd mok data i p = ((res, c), p') \<Longrightarrow>
   heap_owed p' = heap_owed p + (if c = None then 0 else 1)"
  by (auto simp: parse_cmd_def Let_def dest!: heap_alloc_owed split: prod.splits if_splits)

text \<open>A run of the loop leaves the accounts as they were: every item is freed.\<close>

interpretation owed_loop: item_loop "\<lambda>p. heap_owed p = h" mok for h mok
proof
  fix p data i res p'
  assume "heap_owed p = h" "i < length data" "parse_cmd mok data i p = ((res, None), p')"
  then show "heap_owed p' = h" by (simp add: parse_cmd_owed)
next
  fix p data i res cmd p1 r p2
  assume "heap_owed p = h" "i < length data" "parse_cmd mok data i p = ((res, Some cmd), p1)"
    and "handle_cmd mok cmd p1 = (r, p2)"
  then show "heap_owed (heap_free p2) = h"
    using handle_cmd_owed [of mok cmd p1] by (simp add: parse_cmd_owed)
qed

lemma parse_items_owed: "heap_owed (snd (parse_items mok data i p)) = heap_owed p"
  by (rule owed_loop.parse_items_inv) (rule refl)

text \<open>What a parse that gives a map leaves: the static variables are in order, and the map is free.\<close>

lemma parse_map_wf:
  assumes "parser_wf p" and "esp_hid_parse_report_map mok d p = (Inr (Some m), q)"
  shows "parser_wf q \<and> length (rm_reports m) \<le> 64 \<and> unat (rm_reports_len m) = length (rm_reports m)"
proof -
  obtain r t where "parse_items mok d 0 (p\<lparr>s_new_map := True\<rparr>) = (True, r)" "parser_wf r"
    "s_temp_hid_report_map r = Some t" "rm_reports m = tm_reports t" "rm_reports_len m = of_nat (length (tm_reports t))"
    "s_temp_hid_report_map q = None"
    using assms wf_loop.parse_items_inv [of "p\<lparr>s_new_map := True\<rparr>" mok d 0]
    by (auto simp: esp_hid_parse_report_map_def heap_alloc_def free_temp_map_def heap_free_def Let_def
          split: prod.splits if_splits option.splits)
  then show ?thesis by (auto simp: parser_wf_def temp_ok_def unat_of_nat)
qed

lemma parse_map_keeps_wf:
  assumes "parser_wf p" and "esp_hid_parse_report_map mok d p = (r, q)"
  shows "parser_wf q"
  using assms wf_loop.parse_items_inv [of "p\<lparr>s_new_map := True\<rparr>" mok d 0]
  by (auto simp: esp_hid_parse_report_map_def heap_alloc_def free_temp_map_def heap_free_def Let_def parser_wf_def
        split: prod.splits if_splits option.splits)

text \<open>The accounts of a parse.\<close>

lemma parse_map_owed:
  "heap_owed (snd (esp_hid_parse_report_map mok d p)) =
     heap_owed p + (case fst (esp_hid_parse_report_map mok d p) of
                      Inr (Some m) \<Rightarrow> 2 | Inr None \<Rightarrow> 0 | Inl f \<Rightarrow> 1)"
proof -
  have items: "heap_owed (snd (parse_items mok d 0 (p\<lparr>s_new_map := True\<rparr>))) = heap_owed p"
    by (simp add: parse_items_owed)
  have alloc: "heap_owed (snd (heap_alloc mok q)) = heap_owed q + (if fst (heap_alloc mok q) then 1 else 0)" for q
    by (simp add: heap_alloc_owed [OF surjective_pairing])
  show ?thesis
    using items
    by (auto simp: esp_hid_parse_report_map_def case_prod_beta Let_def alloc split: option.splits)
qed

end
