(* ===== verification/HidParserSpec.thy ===== *)
theory HidParserSpec
  imports HidParserInv
begin

text \<open>
  What a report descriptor means, and that the parser computes it. A descriptor is a sequence of
  items; \<open>encode_cmd\<close> writes an item as bytes, and reading the bytes back is running the items
  (\<open>parse_items_encode\<close>). Over items, \<open>item_bits\<close> says how many bits the input, output or
  feature fields of a collection take, and a collection yields the reports of those sizes.
\<close>

section \<open>Items and bytes\<close>

definition cmd_wf :: "hid_report_cmd_t \<Rightarrow> bool" where
  "cmd_wf c \<longleftrightarrow> cmd_cmd c AND 3 = 0 \<and> cmd_len c \<in> {0, 1, 2, 4}
     \<and> take_bit (8 * cmd_len c) (cmd_value c) = cmd_value c"

definition encode_cmd :: "hid_report_cmd_t \<Rightarrow> u8 list" where
  "encode_cmd c = (cmd_cmd c OR (if cmd_len c = 4 then 3 else of_nat (cmd_len c)))
                   # le_bytes (cmd_len c) (cmd_value c)"

lemma length_encode_cmd [simp]: "length (encode_cmd c) = Suc (cmd_len c)"
  by (simp add: encode_cmd_def)

text \<open>Running items that are already decoded, with the allocation the decoder makes for each.\<close>

fun run_cmds :: "(nat \<Rightarrow> bool) \<Rightarrow> hid_report_cmd_t list \<Rightarrow> hid_parser \<Rightarrow> bool \<times> hid_parser" where
  "run_cmds mok [] p = (True, p)"
| "run_cmds mok (c # cs) p =
    (let (ok, p) = heap_alloc mok p
     in if \<not> ok then (False, p)
        else (case handle_cmd mok c p of
                (r, p) \<Rightarrow> if r \<noteq> 0 then (False, heap_free p) else run_cmds mok cs (heap_free p)))"

lemma run_cmds_append:
  "run_cmds mok (xs @ ys) p =
     (case run_cmds mok xs p of (ok, q) \<Rightarrow> if ok then run_cmds mok ys q else (False, q))"
  by (induction mok xs p rule: run_cmds.induct) (auto simp: Let_def split: prod.splits)

lemma low_tag_and: "(c::u8) AND 3 = 0 \<Longrightarrow> x AND 3 = x \<Longrightarrow> (c OR x) AND 3 = x \<and> (c OR x) AND 0xFC = c"
proof -
  assume c: "c AND 3 = 0" and x: "x AND 3 = x"
  have "(c OR x) AND 3 = x"
    using c x by (simp add: bit.conj_disj_distrib2)
  moreover have "(c OR x) AND 0xFC = c"
  proof -
    have "x AND 0xFC = (x AND 3) AND 0xFC" using x by simp
    also have "\<dots> = 0" by (simp add: and.assoc)
    finally have x0: "x AND 0xFC = 0" .
    have full: "(3::u8) OR 0xFC = - 1" by simp
    have "c = c AND (3 OR 0xFC)" unfolding full by simp
    also have "\<dots> = (c AND 3) OR (c AND 0xFC)" by (rule bit.conj_disj_distrib)
    finally have "c AND 0xFC = c" using c by simp
    then show ?thesis using x0 by (simp add: bit.conj_disj_distrib2)
  qed
  ultimately show ?thesis by simp
qed

lemma encode_head:
  assumes "cmd_wf c"
  shows "hd (encode_cmd c) AND 0xFC = cmd_cmd c" and "item_size (hd (encode_cmd c)) = cmd_len c"
proof -
  let ?x = "if cmd_len c = 4 then 3 else of_nat (cmd_len c) :: u8"
  have x: "?x AND 3 = ?x" using assms by (auto simp: cmd_wf_def)
  have tag: "hd (encode_cmd c) = cmd_cmd c OR ?x" by (simp add: encode_cmd_def)
  have both: "(cmd_cmd c OR ?x) AND 3 = ?x \<and> (cmd_cmd c OR ?x) AND 0xFC = cmd_cmd c"
    using assms x low_tag_and [of "cmd_cmd c" ?x] by (simp only: cmd_wf_def)
  show "hd (encode_cmd c) AND 0xFC = cmd_cmd c" using both tag by simp
  show "item_size (hd (encode_cmd c)) = cmd_len c"
    using both assms by (simp only: tag item_size_def Let_def) (auto simp: cmd_wf_def)
qed

text \<open>Decoding an encoded item gives the item back.\<close>

lemma parse_cmd_encode:
  assumes "cmd_wf c"
  shows "parse_cmd mok (pre @ encode_cmd c @ post) (length pre) p =
    (case heap_alloc mok p of
       (ok, p) \<Rightarrow> if ok then ((int (cmd_len c) + 1, Some c), p) else ((-1, None), p))"
proof -
  let ?d = "pre @ encode_cmd c @ post"
  obtain b bs where e: "encode_cmd c = b # bs" and b: "b = hd (encode_cmd c)"
    and bs: "bs = le_bytes (cmd_len c) (cmd_value c)"
    by (simp add: encode_cmd_def)
  have nth: "?d ! length pre = b" by (simp add: e nth_append)
  have dr: "take (cmd_len c) (drop (Suc (length pre)) ?d) = bs"
    by (simp add: e bs)
  have v: "le_value (le_bytes (cmd_len c) (cmd_value c)) = cmd_value c"
    using assms by (simp add: le_value_le_bytes cmd_wf_def)
  have "length ?d - length pre - 1 = cmd_len c + length post" by simp
  then show ?thesis
    using encode_head [OF assms]
    by (simp only: parse_cmd_def nth dr v bs b [symmetric] Let_def) (auto split: prod.splits)
qed

lemma parse_items_encode_tail:
  "list_all cmd_wf cs \<Longrightarrow>
   parse_items mok (pre @ concat (map encode_cmd cs) @ tail) (length pre) p =
     (case run_cmds mok cs p of
        (ok, q) \<Rightarrow> if ok then parse_items mok (pre @ concat (map encode_cmd cs) @ tail)
                            (length (pre @ concat (map encode_cmd cs))) q
                 else (False, q))"
proof (induction cs arbitrary: pre p)
  case Nil
  then show ?case by simp
next
  case (Cons c cs)
  let ?d = "pre @ concat (map encode_cmd (c # cs)) @ tail"
  let ?pre = "pre @ encode_cmd c"
  have lt: "length pre < length ?d" by simp
  have pc: "parse_cmd mok ?d (length pre) p =
      (case heap_alloc mok p of
         (ok, p) \<Rightarrow> if ok then ((int (cmd_len c) + 1, Some c), p) else ((-1, None), p))"
    using parse_cmd_encode [of c mok pre "concat (map encode_cmd cs) @ tail" p] Cons.prems by simp
  have next_index: "length pre + nat (int (cmd_len c) + 1) = length ?pre"
    by (simp add: nat_add_distrib)
  have rest: "parse_items mok ?d (length ?pre) q =
      (case run_cmds mok cs q of
        (ok, r) \<Rightarrow> if ok then parse_items mok ?d (length (pre @ concat (map encode_cmd (c # cs)))) r
                 else (False, r))" for q
  proof -
    have wf: "list_all cmd_wf cs" using Cons.prems by simp
    have d: "?pre @ concat (map encode_cmd cs) @ tail = ?d"
      "?pre @ concat (map encode_cmd cs) = pre @ concat (map encode_cmd (c # cs))" by simp_all
    show ?thesis using Cons.IH [OF wf, of ?pre q] unfolding d .
  qed
  show ?case
    unfolding parse_items.simps [of mok ?d "length pre" p] pc run_cmds.simps
    by (cases "heap_alloc mok p"; cases "handle_cmd mok c (snd (heap_alloc mok p))")
       (use lt in \<open>auto simp only: Let_def next_index rest prod.case option.case if_True if_False
          fst_conv snd_conv not_True_eq_False not_False_eq_True split: if_splits\<close>)
qed

lemma parse_items_encode_from:
  "list_all cmd_wf cs \<Longrightarrow>
   parse_items mok (pre @ concat (map encode_cmd cs)) (length pre) p = run_cmds mok cs p"
  using parse_items_encode_tail [of cs mok pre "[]" p]
  by (simp add: parse_items.simps [of mok "pre @ concat (map encode_cmd cs)" "length pre + _"]
        case_prod_beta) (metis prod.collapse)

section \<open>Application collections\<close>

text \<open>The bits the items with tag \<open>tag\<close> take, under the report size and count in force.\<close>

fun field_bits :: "u8 \<Rightarrow> u16 \<Rightarrow> u16 \<Rightarrow> hid_report_cmd_t list \<Rightarrow> nat" where
  "field_bits tag sz n [] = 0"
| "field_bits tag sz n (c # cs) =
    (if cmd_cmd c = HID_RM_REPORT_SIZE then field_bits tag (ucast (cmd_value c)) n cs
     else if cmd_cmd c = HID_RM_REPORT_COUNT then field_bits tag sz (ucast (cmd_value c)) cs
     else (if cmd_cmd c = tag then unat sz * unat n else 0) + field_bits tag sz n cs)"

text \<open>
  The body of a collection: any items but a report id, with the inner collections nested at most
  254 deep and closed again.
\<close>

fun nested_body :: "nat \<Rightarrow> hid_report_cmd_t list \<Rightarrow> bool" where
  "nested_body d [] = (d = 0)"
| "nested_body d (c # cs) =
    (if cmd_cmd c = HID_RM_REPORT_ID then False
     else if cmd_cmd c = HID_RM_COLLECTION then d < 254 \<and> nested_body (Suc d) cs
     else if cmd_cmd c = HID_RM_END_COLLECTION then 0 < d \<and> nested_body (d - 1) cs
     else nested_body d cs)"

text \<open>What a run of a body does to the parser, and what it leaves alone.\<close>

definition body_result ::
  "hid_parser \<Rightarrow> hid_report_cmd_t list \<Rightarrow> hid_parser \<Rightarrow> bool" where
  "body_result p cs q \<longleftrightarrow>
     s_parse_step q = PARSE_WAIT_END_COLLECTION \<and> s_collection_depth q = 1
     \<and> s_temp_hid_report_map q = s_temp_hid_report_map p \<and> s_new_map q = s_new_map p
     \<and> rp_usage_page (s_report_params q) = rp_usage_page (s_report_params p)
     \<and> rp_usage (s_report_params q) = rp_usage (s_report_params p)
     \<and> rp_report_id (s_report_params q) = rp_report_id (s_report_params p)
     \<and> rp_input_len (s_report_params q) = rp_input_len (s_report_params p)
          + of_nat (field_bits HID_RM_INPUT (s_report_size p) (s_report_count p) cs)
     \<and> rp_output_len (s_report_params q) = rp_output_len (s_report_params p)
          + of_nat (field_bits HID_RM_OUTPUT (s_report_size p) (s_report_count p) cs)
     \<and> rp_feature_len (s_report_params q) = rp_feature_len (s_report_params p)
          + of_nat (field_bits HID_RM_FEATURE (s_report_size p) (s_report_count p) cs)"

abbreviation no_oom :: "nat \<Rightarrow> bool" where
  "no_oom \<equiv> (\<lambda>_. True)"

lemma heap_fields [simp]:
  "s_parse_step (heap_free p) = s_parse_step p"
  "s_collection_depth (heap_free p) = s_collection_depth p"
  "s_temp_hid_report_map (heap_free p) = s_temp_hid_report_map p"
  "s_new_map (heap_free p) = s_new_map p"
  "s_report_params (heap_free p) = s_report_params p"
  "s_report_size (heap_free p) = s_report_size p"
  "s_report_count (heap_free p) = s_report_count p"
  by (simp_all add: heap_free_def)

lemma heap_alloc_no_oom:
  "heap_alloc no_oom p = (True, p\<lparr>heap_calls := Suc (heap_calls p), heap_live := heap_live p + 1\<rparr>)"
  by (simp add: heap_alloc_def)

lemma depth_of_nat: "d < 255 \<Longrightarrow> (of_nat (Suc d) :: u8) \<noteq> 0"
proof
  assume "d < 255" and "(of_nat (Suc d) :: u8) = 0"
  then have "unat (of_nat (Suc d) :: u8) = 0" by simp
  moreover have "unat (of_nat (Suc d) :: u8) = Suc d mod 256"
    by (simp only: unat_of_nat) simp
  ultimately show False using \<open>d < 255\<close> by simp
qed

text \<open>Tags are pairwise different; the collection \<open>tags\<close> decides the branch an item takes.\<close>

lemmas tags = HID_RM_REPORT_ID_def HID_RM_USAGE_PAGE_def HID_RM_USAGE_def HID_RM_REPORT_SIZE_def
  HID_RM_REPORT_COUNT_def HID_RM_INPUT_def HID_RM_OUTPUT_def HID_RM_FEATURE_def
  HID_RM_COLLECTION_def HID_RM_END_COLLECTION_def

text \<open>One plain item inside a collection, field by field.\<close>

lemma plain_item:
  assumes "cmd_cmd c \<noteq> HID_RM_REPORT_ID" "cmd_cmd c \<noteq> HID_RM_COLLECTION"
    "cmd_cmd c \<noteq> HID_RM_END_COLLECTION"
  shows "\<exists>q. handle_main_item mok c p = (0, q)
    \<and> s_parse_step q = s_parse_step p \<and> s_collection_depth q = s_collection_depth p
    \<and> s_temp_hid_report_map q = s_temp_hid_report_map p \<and> s_new_map q = s_new_map p
    \<and> rp_usage_page (s_report_params q) = rp_usage_page (s_report_params p)
    \<and> rp_usage (s_report_params q) = rp_usage (s_report_params p)
    \<and> rp_report_id (s_report_params q) = rp_report_id (s_report_params p)
    \<and> s_report_size q = (if cmd_cmd c = HID_RM_REPORT_SIZE then ucast (cmd_value c) else s_report_size p)
    \<and> s_report_count q = (if cmd_cmd c = HID_RM_REPORT_COUNT then ucast (cmd_value c) else s_report_count p)
    \<and> rp_input_len (s_report_params q) = rp_input_len (s_report_params p)
         + (if cmd_cmd c = HID_RM_INPUT then s_report_size p * s_report_count p else 0)
    \<and> rp_output_len (s_report_params q) = rp_output_len (s_report_params p)
         + (if cmd_cmd c = HID_RM_OUTPUT then s_report_size p * s_report_count p else 0)
    \<and> rp_feature_len (s_report_params q) = rp_feature_len (s_report_params p)
         + (if cmd_cmd c = HID_RM_FEATURE then s_report_size p * s_report_count p else 0)"
proof -
  consider "cmd_cmd c = HID_RM_USAGE_PAGE" | "cmd_cmd c = HID_RM_USAGE"
    | "cmd_cmd c = HID_RM_REPORT_SIZE" | "cmd_cmd c = HID_RM_REPORT_COUNT"
    | "cmd_cmd c = HID_RM_INPUT" | "cmd_cmd c = HID_RM_OUTPUT" | "cmd_cmd c = HID_RM_FEATURE"
    | (rest) "cmd_cmd c \<notin> {HID_RM_USAGE_PAGE, HID_RM_USAGE, HID_RM_REPORT_SIZE,
         HID_RM_REPORT_COUNT, HID_RM_INPUT, HID_RM_OUTPUT, HID_RM_FEATURE}"
    by blast
  then show ?thesis
  proof cases
    case rest
    then show ?thesis using assms by (simp add: handle_main_item_def Let_def)
  qed (simp_all add: handle_main_item_def upd_params_def Let_def tags)
qed

lemma field_bits_Cons:
  assumes "t \<noteq> HID_RM_REPORT_SIZE" "t \<noteq> HID_RM_REPORT_COUNT"
  shows "(of_nat (field_bits t sz n (c # cs)) :: u16) =
    (if cmd_cmd c = t then sz * n else 0)
    + of_nat (field_bits t (if cmd_cmd c = HID_RM_REPORT_SIZE then ucast (cmd_value c) else sz)
        (if cmd_cmd c = HID_RM_REPORT_COUNT then ucast (cmd_value c) else n) cs)"
  using assms by (auto simp: HID_RM_REPORT_SIZE_def HID_RM_REPORT_COUNT_def)

lemma tags_not_size [simp]:
  "HID_RM_INPUT \<noteq> HID_RM_REPORT_SIZE" "HID_RM_INPUT \<noteq> HID_RM_REPORT_COUNT"
  "HID_RM_OUTPUT \<noteq> HID_RM_REPORT_SIZE" "HID_RM_OUTPUT \<noteq> HID_RM_REPORT_COUNT"
  "HID_RM_FEATURE \<noteq> HID_RM_REPORT_SIZE" "HID_RM_FEATURE \<noteq> HID_RM_REPORT_COUNT"
  by (simp_all add: tags)

lemma run_body:
  "nested_body d cs \<Longrightarrow> d \<le> 254 \<Longrightarrow> s_parse_step p = PARSE_WAIT_END_COLLECTION \<Longrightarrow>
   s_collection_depth p = of_nat (Suc d) \<Longrightarrow>
   \<exists>q. run_cmds no_oom cs p = (True, q) \<and> body_result p cs q"
proof (induction cs arbitrary: d p)
  case Nil
  then show ?case by (simp add: body_result_def)
next
  case (Cons c cs)
  let ?p = "p\<lparr>heap_calls := Suc (heap_calls p), heap_live := heap_live p + 1\<rparr>"
  have run: "run_cmds no_oom (c # cs) p = run_cmds no_oom cs (heap_free q)"
    if "handle_main_item no_oom c ?p = (0, q)" for q
    using that Cons.prems by (simp add: heap_alloc_no_oom handle_cmd_def)
  consider (coll) "cmd_cmd c = HID_RM_COLLECTION" | (fin) "cmd_cmd c = HID_RM_END_COLLECTION"
    | (other) "cmd_cmd c \<noteq> HID_RM_COLLECTION" "cmd_cmd c \<noteq> HID_RM_END_COLLECTION" by blast
  then show ?case
  proof cases
    case coll
    then have nb: "nested_body (Suc d) cs" "d < 254" using Cons.prems by (simp_all add: tags)
    let ?q = "?p\<lparr>s_collection_depth := s_collection_depth ?p + 1\<rparr>"
    have "handle_main_item no_oom c ?p = (0, ?q)"
      using coll by (simp add: handle_main_item_def tags)
    moreover obtain q where "run_cmds no_oom cs (heap_free ?q) = (True, q)"
        "body_result (heap_free ?q) cs q"
      using Cons.IH [OF nb(1), of "heap_free ?q"] nb(2) Cons.prems by auto
    ultimately show ?thesis using coll run by (auto simp: body_result_def tags)
  next
    case fin
    then obtain e where e: "d = Suc e" and nb: "nested_body e cs"
      using Cons.prems(1) by (cases d) (simp_all add: tags)
    have depth: "s_collection_depth p - 1 = of_nat (Suc e)" "(of_nat (Suc e) :: u8) \<noteq> 0"
      using Cons.prems(2,4) e depth_of_nat [of e] by auto
    let ?q = "?p\<lparr>s_collection_depth := of_nat (Suc e)\<rparr>"
    have "handle_main_item no_oom c ?p = (0, ?q)"
      using fin depth by (simp only: handle_main_item_def handle_end_collection_def Let_def) (simp add: tags)
    moreover obtain q where "run_cmds no_oom cs (heap_free ?q) = (True, q)"
        "body_result (heap_free ?q) cs q"
      using Cons.IH [OF nb, of "heap_free ?q"] e Cons.prems by auto
    ultimately show ?thesis using fin run by (auto simp: body_result_def tags)
  next
    case other
    then have nb: "cmd_cmd c \<noteq> HID_RM_REPORT_ID" "nested_body d cs"
      using Cons.prems by (simp_all split: if_splits)
    obtain q0 where q0: "handle_main_item no_oom c ?p = (0, q0)"
      using plain_item [OF nb(1) other] by blast
    note fields = plain_item [OF nb(1) other, of no_oom ?p, unfolded q0]
    obtain q where "run_cmds no_oom cs (heap_free q0) = (True, q)" "body_result (heap_free q0) cs q"
      using Cons.IH [OF nb(2), of "heap_free q0"] Cons.prems fields by auto
    moreover from this fields have "body_result p (c # cs) q"
      by (clarsimp simp only: prod.inject body_result_def field_bits_Cons tags_not_size not_False_eq_True
            heap_fields add.assoc) simp
    ultimately show ?thesis using run [OF q0] by auto
  qed
qed

section \<open>Whole collections and whole maps\<close>

text \<open>
  An application collection of a descriptor: its usage page and usage, its report id (0 for a
  collection without one) and the items of its body.
\<close>

record app_collection =
  co_page :: u16
  co_usage :: u16
  co_id :: u8
  co_body :: "hid_report_cmd_t list"

definition short_item :: "u8 \<Rightarrow> u32 \<Rightarrow> hid_report_cmd_t" where
  "short_item tag v = \<lparr>cmd_cmd = tag, cmd_len = (if v < 256 then 1 else if v < 65536 then 2 else 4),
                       cmd_value = v\<rparr>"

definition collection_cmds :: "app_collection \<Rightarrow> hid_report_cmd_t list" where
  "collection_cmds c =
     [short_item HID_RM_USAGE_PAGE (ucast (co_page c)), short_item HID_RM_USAGE (ucast (co_usage c)),
      short_item HID_RM_COLLECTION 1]
     @ (if co_id c = 0 then [] else [short_item HID_RM_REPORT_ID (ucast (co_id c))])
     @ co_body c
     @ [\<lparr>cmd_cmd = HID_RM_END_COLLECTION, cmd_len = 0, cmd_value = 0\<rparr>]"

text \<open>The report a collection describes: the sizes of its fields, in bits modulo 65536.\<close>

definition collection_report :: "app_collection \<Rightarrow> hid_report_params_t" where
  "collection_report c =
     \<lparr>rp_usage_page = co_page c, rp_usage = co_usage c, rp_inner_usage_page = 0, rp_inner_usage = 0,
      rp_report_id = co_id c,
      rp_input_len = of_nat (field_bits HID_RM_INPUT 0 0 (co_body c)),
      rp_output_len = of_nat (field_bits HID_RM_OUTPUT 0 0 (co_body c)),
      rp_feature_len = of_nat (field_bits HID_RM_FEATURE 0 0 (co_body c))\<rparr>"

definition collection_ok :: "app_collection \<Rightarrow> bool" where
  "collection_ok c \<longleftrightarrow> list_all cmd_wf (co_body c) \<and> nested_body 0 (co_body c)
     \<and> whole_bytes (collection_report c)"

abbreviation collection_items :: "app_collection \<Rightarrow> esp_hid_report_item_t list" where
  "collection_items c \<equiv> report_items (collection_report c)"

text \<open>The mask of all usages of a list of collections.\<close>

definition usages_mask :: "app_collection list \<Rightarrow> u8" where
  "usages_mask cs = fold (\<lambda>c m. m OR usage_bits (report_usage (collection_report c))) cs 0"

text \<open>The map the next report is added to: a new one at the start of a descriptor.\<close>

definition acc_map :: "hid_parser \<Rightarrow> temp_hid_report_map_t" where
  "acc_map p = (if s_new_map p then temp_map_zero
                else (case s_temp_hid_report_map p of None \<Rightarrow> temp_map_zero | Some m \<Rightarrow> m))"

definition acc_add :: "hid_report_params_t \<Rightarrow> temp_hid_report_map_t \<Rightarrow> temp_hid_report_map_t" where
  "acc_add r m = \<lparr>tm_usage_mask = tm_usage_mask m OR usage_bits (report_usage r),
                  tm_reports = tm_reports m @ report_items r\<rparr>"

lemma add_reports_fit:
  "length (tm_reports m) + length is \<le> 64 \<Longrightarrow>
   add_reports m is = (0, m\<lparr>tm_reports := tm_reports m @ is\<rparr>)"
  by (induction "is" arbitrary: m) (simp_all add: add_report_def)

lemma add_reports_overflow:
  "64 < length (tm_reports m) + length is \<Longrightarrow> length (tm_reports m) \<le> 64 \<Longrightarrow>
   fst (add_reports m is) = -1"
  by (induction "is" arbitrary: m) (simp_all add: add_report_def)

lemma report_items_cong:
  "rp_usage_page r = rp_usage_page r' \<Longrightarrow> rp_usage r = rp_usage r' \<Longrightarrow>
   rp_report_id r = rp_report_id r' \<Longrightarrow> rp_input_len r = rp_input_len r' \<Longrightarrow>
   rp_output_len r = rp_output_len r' \<Longrightarrow> rp_feature_len r = rp_feature_len r' \<Longrightarrow>
   report_items r = report_items r' \<and> report_usage r = report_usage r'
   \<and> whole_bytes r = whole_bytes r' \<and> acc_add r = acc_add r'"
  by (simp add: report_items_def report_item_def report_usage_def whole_bytes_def acc_add_def
        fun_eq_iff Let_def)

lemma emit_report_fit:
  assumes "length (tm_reports (acc_map p)) + length (report_items (s_report_params p)) \<le> 64"
  shows "\<exists>q. emit_report no_oom p = (0, q)
    \<and> s_temp_hid_report_map q = Some (acc_add (s_report_params p) (acc_map p))
    \<and> s_new_map q = False"
  using assms
  by (cases "s_new_map p"; cases "s_temp_hid_report_map p")
     (simp_all add: emit_report_def handle_report_def acc_map_def acc_add_def heap_alloc_def Let_def
        add_reports_fit)

lemma run_one: "handle_cmd no_oom c (snd (heap_alloc no_oom p)) = (0, q) \<Longrightarrow>
   run_cmds no_oom (c # cs) p = run_cmds no_oom cs (heap_free q)"
  by (simp add: heap_alloc_no_oom)

lemma run_via:
  "handle_cmd no_oom c (snd (heap_alloc no_oom p)) = (0, q) \<Longrightarrow> P (heap_free q) \<Longrightarrow>
   \<exists>q. run_cmds no_oom (c # cs) p = run_cmds no_oom cs q \<and> P q"
  using run_one by blast

text \<open>The items before the body, one at a time; \<open>same_map\<close> says the collected map is untouched.\<close>

definition same_map :: "hid_parser \<Rightarrow> hid_parser \<Rightarrow> bool" where
  "same_map p q \<longleftrightarrow> s_temp_hid_report_map q = s_temp_hid_report_map p \<and> s_new_map q = s_new_map p"

lemma same_map_trans: "same_map p q \<Longrightarrow> same_map q r \<Longrightarrow> same_map p r"
  by (simp add: same_map_def)

lemma run_usage_page:
  "s_parse_step p = PARSE_WAIT_USAGE_PAGE \<Longrightarrow>
   \<exists>q. run_cmds no_oom (short_item HID_RM_USAGE_PAGE (ucast (pg::u16)) # cs) p = run_cmds no_oom cs q
     \<and> s_parse_step q = PARSE_WAIT_USAGE \<and> same_map p q \<and> s_report_size q = 0 \<and> s_report_count q = 0
     \<and> s_report_params q = params_zero\<lparr>rp_usage_page := pg\<rparr>"
  by (rule run_via, simp add: handle_cmd_def short_item_def heap_alloc_no_oom)
     (simp add: same_map_def)

lemma run_usage:
  "s_parse_step p = PARSE_WAIT_USAGE \<Longrightarrow>
   \<exists>q. run_cmds no_oom (short_item HID_RM_USAGE (ucast (us::u16)) # cs) p = run_cmds no_oom cs q
     \<and> s_parse_step q = PARSE_WAIT_COLLECTION_APPLICATION \<and> same_map p q
     \<and> s_report_size q = s_report_size p \<and> s_report_count q = s_report_count p
     \<and> s_report_params q = (s_report_params p)\<lparr>rp_usage := us\<rparr>"
  by (rule run_via, simp add: handle_cmd_def short_item_def heap_alloc_no_oom upd_params_def)
     (simp add: same_map_def)

lemma run_application:
  "s_parse_step p = PARSE_WAIT_COLLECTION_APPLICATION \<Longrightarrow>
   \<exists>q. run_cmds no_oom (short_item HID_RM_COLLECTION 1 # cs) p = run_cmds no_oom cs q
     \<and> s_parse_step q = PARSE_WAIT_END_COLLECTION \<and> s_collection_depth q = 1 \<and> same_map p q
     \<and> s_report_size q = s_report_size p \<and> s_report_count q = s_report_count p
     \<and> s_report_params q = (s_report_params p)\<lparr>rp_report_id := 0\<rparr>"
  by (rule run_via, simp add: handle_cmd_def short_item_def heap_alloc_no_oom upd_params_def)
     (simp add: same_map_def)

lemma run_report_id:
  "s_parse_step p = PARSE_WAIT_END_COLLECTION \<Longrightarrow> rp_report_id (s_report_params p) = 0 \<Longrightarrow>
   \<exists>q. run_cmds no_oom (short_item HID_RM_REPORT_ID (ucast (rid::u8)) # cs) p = run_cmds no_oom cs q
     \<and> s_parse_step q = PARSE_WAIT_END_COLLECTION \<and> s_collection_depth q = s_collection_depth p
     \<and> same_map p q \<and> s_report_size q = s_report_size p \<and> s_report_count q = s_report_count p
     \<and> s_report_params q = (s_report_params p)\<lparr>rp_report_id := rid\<rparr>"
  by (rule run_via, simp add: handle_cmd_def handle_main_item_def handle_report_id_def
        short_item_def heap_alloc_no_oom upd_params_def)
     (simp add: same_map_def)

abbreviation end_item :: hid_report_cmd_t where
  "end_item \<equiv> \<lparr>cmd_cmd = HID_RM_END_COLLECTION, cmd_len = 0, cmd_value = 0\<rparr>"

lemma run_header:
  assumes "s_parse_step p = PARSE_WAIT_USAGE_PAGE"
  shows "\<exists>q. run_cmds no_oom (collection_cmds c) p = run_cmds no_oom (co_body c @ [end_item]) q
     \<and> s_parse_step q = PARSE_WAIT_END_COLLECTION \<and> s_collection_depth q = 1 \<and> same_map p q
     \<and> s_report_size q = 0 \<and> s_report_count q = 0
     \<and> s_report_params q = params_zero\<lparr>rp_usage_page := co_page c, rp_usage := co_usage c,
                                       rp_report_id := co_id c\<rparr>"
proof -
  let ?rest = "co_body c @ [end_item]"
  let ?id = "if co_id c = 0 then [] else [short_item HID_RM_REPORT_ID (ucast (co_id c))]"
  obtain q1 where q1: "run_cmds no_oom (collection_cmds c) p = run_cmds no_oom
      (short_item HID_RM_USAGE (ucast (co_usage c)) # short_item HID_RM_COLLECTION 1 # ?id @ ?rest) q1"
    "s_parse_step q1 = PARSE_WAIT_USAGE" "same_map p q1" "s_report_size q1 = 0" "s_report_count q1 = 0"
    "s_report_params q1 = params_zero\<lparr>rp_usage_page := co_page c\<rparr>"
    using run_usage_page [OF assms] unfolding collection_cmds_def append_Cons append_Nil by blast
  obtain q2 where q2: "run_cmds no_oom
      (short_item HID_RM_USAGE (ucast (co_usage c)) # short_item HID_RM_COLLECTION 1 # ?id @ ?rest) q1
      = run_cmds no_oom (short_item HID_RM_COLLECTION 1 # ?id @ ?rest) q2"
    "s_parse_step q2 = PARSE_WAIT_COLLECTION_APPLICATION" "same_map q1 q2"
    "s_report_size q2 = s_report_size q1" "s_report_count q2 = s_report_count q1"
    "s_report_params q2 = (s_report_params q1)\<lparr>rp_usage := co_usage c\<rparr>"
    using run_usage [OF q1(2)] by blast
  obtain q3 where q3: "run_cmds no_oom (short_item HID_RM_COLLECTION 1 # ?id @ ?rest) q2
      = run_cmds no_oom (?id @ ?rest) q3"
    "s_parse_step q3 = PARSE_WAIT_END_COLLECTION" "s_collection_depth q3 = 1" "same_map q2 q3"
    "s_report_size q3 = s_report_size q2" "s_report_count q3 = s_report_count q2"
    "s_report_params q3 = (s_report_params q2)\<lparr>rp_report_id := 0\<rparr>"
    using run_application [OF q2(2)] by blast
  have run3: "run_cmds no_oom (collection_cmds c) p = run_cmds no_oom (?id @ ?rest) q3"
    using q1(1) q2(1) q3(1) by (simp only:)
  have same3: "same_map p q3" using q1(3) q2(3) q3(4) by (simp add: same_map_def)
  show ?thesis
  proof (cases "co_id c = 0")
    case True
    then show ?thesis using run3 same3 q1 q2 q3
      by (intro exI [of _ q3]) (simp add: params_zero_def)
  next
    case False
    obtain q4 where "run_cmds no_oom (?id @ ?rest) q3 = run_cmds no_oom ?rest q4"
      "s_parse_step q4 = PARSE_WAIT_END_COLLECTION" "s_collection_depth q4 = s_collection_depth q3"
      "same_map q3 q4" "s_report_size q4 = s_report_size q3" "s_report_count q4 = s_report_count q3"
      "s_report_params q4 = (s_report_params q3)\<lparr>rp_report_id := co_id c\<rparr>"
      using run_report_id [OF q3(2), of "co_id c" ?rest] q3(7) False by auto
    then show ?thesis using run3 same3 q1(4-6) q2(4-6) q3(2-7) same_map_trans [of p q3 q4]
      by (intro exI [of _ q4]) simp
  qed
qed

lemma run_end:
  assumes "s_parse_step p = PARSE_WAIT_END_COLLECTION" "s_collection_depth p = 1"
    "whole_bytes (s_report_params p)"
    "length (tm_reports (acc_map p)) + length (report_items (s_report_params p)) \<le> 64"
    "cmd_cmd c = HID_RM_END_COLLECTION"
  shows "\<exists>q. run_cmds no_oom [c] p = (True, q) \<and> s_parse_step q = PARSE_WAIT_USAGE_PAGE
    \<and> s_temp_hid_report_map q = Some (acc_add (s_report_params p) (acc_map p))
    \<and> s_new_map q = False"
proof -
  let ?p = "(snd (heap_alloc no_oom p))\<lparr>s_collection_depth := 0\<rparr>"
  have same: "s_report_params ?p = s_report_params p" "acc_map ?p = acc_map p"
    by (simp_all add: heap_alloc_def acc_map_def)
  then obtain q where q: "emit_report no_oom ?p = (0, q)"
    "s_temp_hid_report_map q = Some (acc_add (s_report_params p) (acc_map p))" "s_new_map q = False"
    using emit_report_fit [of ?p] assms(4) by auto
  have "handle_cmd no_oom c (snd (heap_alloc no_oom p)) = (0, q\<lparr>s_parse_step := PARSE_WAIT_USAGE_PAGE\<rparr>)"
    using assms q by (simp add: handle_cmd_def handle_main_item_def handle_end_collection_def
        heap_alloc_no_oom tags)
  from run_one [OF this, of "[]"] q show ?thesis by simp
qed

text \<open>One collection adds its items to the map.\<close>

lemma run_collection:
  assumes idle: "s_parse_step p = PARSE_WAIT_USAGE_PAGE" and ok: "collection_ok c"
    and room: "length (tm_reports (acc_map p)) + length (collection_items c) \<le> 64"
  shows "\<exists>q. run_cmds no_oom (collection_cmds c) p = (True, q)
    \<and> s_parse_step q = PARSE_WAIT_USAGE_PAGE \<and> s_new_map q = False
    \<and> s_temp_hid_report_map q = Some (acc_add (collection_report c) (acc_map p))"
proof -
  obtain q1 where q1: "run_cmds no_oom (collection_cmds c) p = run_cmds no_oom (co_body c @ [end_item]) q1"
    "s_parse_step q1 = PARSE_WAIT_END_COLLECTION" "s_collection_depth q1 = 1"
    "same_map p q1" "s_report_size q1 = 0" "s_report_count q1 = 0"
    "s_report_params q1 = params_zero\<lparr>rp_usage_page := co_page c, rp_usage := co_usage c,
                                     rp_report_id := co_id c\<rparr>"
    using run_header [OF idle, of c] by blast
  obtain q2 where q2: "run_cmds no_oom (co_body c) q1 = (True, q2)" "body_result q1 (co_body c) q2"
    using run_body [of 0 "co_body c" q1] q1 ok by (auto simp: collection_ok_def)
  have same: "report_items (s_report_params q2) = collection_items c
      \<and> report_usage (s_report_params q2) = report_usage (collection_report c)
      \<and> whole_bytes (s_report_params q2) = whole_bytes (collection_report c)
      \<and> acc_add (s_report_params q2) = acc_add (collection_report c)"
    using q2(2) q1 by (intro report_items_cong)
      (simp_all add: body_result_def collection_report_def params_zero_def)
  have acc: "acc_map q2 = acc_map p"
    using q2(2) q1 by (simp add: body_result_def acc_map_def same_map_def)
  have room2: "length (tm_reports (acc_map q2)) + length (report_items (s_report_params q2)) \<le> 64"
    unfolding acc using room same by simp
  have whole2: "whole_bytes (s_report_params q2)" using same ok by (simp add: collection_ok_def)
  obtain q where "run_cmds no_oom [end_item] q2 = (True, q)" "s_parse_step q = PARSE_WAIT_USAGE_PAGE"
    "s_temp_hid_report_map q = Some (acc_add (s_report_params q2) (acc_map q2))" "s_new_map q = False"
    using run_end [OF _ _ whole2 room2, of end_item] q2(2) by (auto simp: body_result_def)
  then show ?thesis using q1(1) q2(1) same acc by (simp add: run_cmds_append del: run_cmds.simps)
qed

end
