(* ===== verification/HidParserThms.thy ===== *)
theory HidParserThms
  imports HidParserSpec
begin

text \<open>
  What the report-map parser guarantees: descriptors of any number of application collections are
  parsed to exactly the reports they describe, results are within their bounds, memory is balanced
  on every path; and where the static state between two calls shows through.
\<close>

section \<open>Sequences of collections\<close>

lemma usage_bits_and:
  "usage_bits a AND usage_bits b = 0 \<longleftrightarrow> a \<noteq> b \<or> a = ESP_HID_USAGE_GENERIC"
  by (cases a; cases b) simp_all

lemma and_or_zero: "((m::u8) OR x) AND b = 0 \<longleftrightarrow> m AND b = 0 \<and> x AND b = 0"
  by (simp add: bit.conj_disj_distrib2 or_eq_0_iff)

text \<open>The mask holds a usage's bit exactly when some collection has that usage.\<close>

lemma fold_mask_and:
  "(fold (\<lambda>c m. m OR usage_bits (f c)) cs m) AND usage_bits u = 0 \<longleftrightarrow>
   m AND usage_bits u = 0 \<and> (u = ESP_HID_USAGE_GENERIC \<or> u \<notin> f ` set cs)"
proof (induction cs arbitrary: m)
  case Nil
  then show ?case by simp
next
  case (Cons c cs)
  have "fold (\<lambda>c m. m OR usage_bits (f c)) (c # cs) m AND usage_bits u = 0 \<longleftrightarrow>
      (m OR usage_bits (f c)) AND usage_bits u = 0 \<and> (u = ESP_HID_USAGE_GENERIC \<or> u \<notin> f ` set cs)"
    using Cons.IH by simp
  then show ?case by (simp only: and_or_zero usage_bits_and) auto
qed

lemma usages_mask_and:
  "usages_mask cs AND usage_bits u \<noteq> 0 \<longleftrightarrow>
   u \<noteq> ESP_HID_USAGE_GENERIC \<and> u \<in> (\<lambda>c. report_usage (collection_report c)) ` set cs"
  by (simp add: usages_mask_def fold_mask_and [where f = "\<lambda>c. report_usage (collection_report c)"])

text \<open>The appearance that goes with a usage.\<close>

fun usage_appearance :: "esp_hid_usage_t \<Rightarrow> u16" where
  "usage_appearance ESP_HID_USAGE_KEYBOARD = ESP_HID_APPEARANCE_KEYBOARD"
| "usage_appearance ESP_HID_USAGE_MOUSE = ESP_HID_APPEARANCE_MOUSE"
| "usage_appearance ESP_HID_USAGE_JOYSTICK = ESP_HID_APPEARANCE_JOYSTICK"
| "usage_appearance ESP_HID_USAGE_GAMEPAD = ESP_HID_APPEARANCE_GAMEPAD"
| "usage_appearance ESP_HID_USAGE_CCONTROL = ESP_HID_APPEARANCE_KEYBOARD"
| "usage_appearance _ = ESP_HID_APPEARANCE_GENERIC"

lemma Max_usage:
  assumes "finite U"
  shows "Max (insert ESP_HID_USAGE_GENERIC U) =
    (if ESP_HID_USAGE_KEYBOARD \<in> U then ESP_HID_USAGE_KEYBOARD
     else if ESP_HID_USAGE_MOUSE \<in> U then ESP_HID_USAGE_MOUSE
     else if ESP_HID_USAGE_JOYSTICK \<in> U then ESP_HID_USAGE_JOYSTICK
     else if ESP_HID_USAGE_GAMEPAD \<in> U then ESP_HID_USAGE_GAMEPAD
     else if ESP_HID_USAGE_CCONTROL \<in> U then ESP_HID_USAGE_CCONTROL
     else ESP_HID_USAGE_GENERIC)"
proof (rule Max_eqI)
  show "finite (insert ESP_HID_USAGE_GENERIC U)" using assms by simp
next
  fix y assume "y \<in> insert ESP_HID_USAGE_GENERIC U"
  then show "y \<le> (if ESP_HID_USAGE_KEYBOARD \<in> U then ESP_HID_USAGE_KEYBOARD
     else if ESP_HID_USAGE_MOUSE \<in> U then ESP_HID_USAGE_MOUSE
     else if ESP_HID_USAGE_JOYSTICK \<in> U then ESP_HID_USAGE_JOYSTICK
     else if ESP_HID_USAGE_GAMEPAD \<in> U then ESP_HID_USAGE_GAMEPAD
     else if ESP_HID_USAGE_CCONTROL \<in> U then ESP_HID_USAGE_CCONTROL
     else ESP_HID_USAGE_GENERIC)"
    by (cases y) (auto simp: usage_order_defs)
qed auto

lemma dominant_usage_Max:
  assumes "\<And>u. m AND usage_bits u \<noteq> 0 \<longleftrightarrow> u \<noteq> ESP_HID_USAGE_GENERIC \<and> u \<in> U" and "finite U"
  shows "dominant_usage m = (Max (insert ESP_HID_USAGE_GENERIC U),
                             usage_appearance (Max (insert ESP_HID_USAGE_GENERIC U)))"
  unfolding dominant_usage_def assms(1) Max_usage [OF assms(2)] by simp

lemma acc_add_length:
  "length (tm_reports (acc_add r m)) = length (tm_reports m) + length (report_items r)"
  by (simp add: acc_add_def)

text \<open>A run over collections that fit collects their items in order.\<close>

lemma run_collections:
  "s_parse_step p = PARSE_WAIT_USAGE_PAGE \<Longrightarrow> list_all collection_ok cs \<Longrightarrow>
   length (tm_reports (acc_map p)) + length (concat (map collection_items cs)) \<le> 64 \<Longrightarrow>
   \<exists>q. run_cmds no_oom (concat (map collection_cmds cs)) p = (True, q)
     \<and> s_parse_step q = PARSE_WAIT_USAGE_PAGE
     \<and> acc_map q = fold (\<lambda>c. acc_add (collection_report c)) cs (acc_map p)
     \<and> (cs \<noteq> [] \<longrightarrow> s_temp_hid_report_map q = Some (acc_map q))"
proof (induction cs arbitrary: p)
  case Nil
  then show ?case by simp
next
  case (Cons c cs)
  obtain q where q: "run_cmds no_oom (collection_cmds c) p = (True, q)"
    "s_parse_step q = PARSE_WAIT_USAGE_PAGE" "s_new_map q = False"
    "s_temp_hid_report_map q = Some (acc_add (collection_report c) (acc_map p))"
    using run_collection [of p c] Cons.prems by auto
  then have acc: "acc_map q = acc_add (collection_report c) (acc_map p)"
    by (simp add: acc_map_def)
  obtain q' where "run_cmds no_oom (concat (map collection_cmds cs)) q = (True, q')"
    "s_parse_step q' = PARSE_WAIT_USAGE_PAGE"
    "acc_map q' = fold (\<lambda>c. acc_add (collection_report c)) cs (acc_map q)"
    "cs \<noteq> [] \<longrightarrow> s_temp_hid_report_map q' = Some (acc_map q')"
    using Cons.IH [of q] Cons.prems q(2) acc by (auto simp: acc_add_length)
  moreover have "cs = [] \<Longrightarrow> q' = q" using calculation by simp
  ultimately show ?case using q acc by (auto simp: run_cmds_append)
qed

lemma fold_acc_add:
  "fold (\<lambda>c. acc_add (collection_report c)) cs m =
   \<lparr>tm_usage_mask = fold (\<lambda>c m. m OR usage_bits (report_usage (collection_report c))) cs (tm_usage_mask m),
    tm_reports = tm_reports m @ concat (map collection_items cs)\<rparr>"
  by (induction cs arbitrary: m) (simp_all add: acc_add_def)

lemma take_bit_small:
  assumes "unat (v::u32) < 2 ^ n" shows "take_bit n v = v"
proof -
  have "unat (take_bit n v) = take_bit n (unat v)" by (simp add: unsigned_take_bit_eq)
  also have "\<dots> = unat v" using assms by (simp add: take_bit_nat_eq_self)
  finally show ?thesis by (simp only: word_unat_eq_iff)
qed

lemma short_item_wf: "tag AND 3 = 0 \<Longrightarrow> cmd_wf (short_item tag v)"
  using take_bit_small [of v 8] take_bit_small [of v 16] take_bit_length_eq [of v]
  by (auto simp: cmd_wf_def short_item_def word_less_nat_alt)

lemma collection_cmds_wf_body: "list_all cmd_wf (co_body c) \<Longrightarrow> list_all cmd_wf (collection_cmds c)"
proof -
  assume "list_all cmd_wf (co_body c)"
  moreover have "cmd_wf (short_item HID_RM_USAGE_PAGE v)" "cmd_wf (short_item HID_RM_USAGE v)"
    "cmd_wf (short_item HID_RM_COLLECTION v)" "cmd_wf (short_item HID_RM_REPORT_ID v)" for v
    by (simp_all add: short_item_wf tags)
  moreover have "cmd_wf end_item" by (simp add: cmd_wf_def tags)
  ultimately show ?thesis by (simp add: collection_cmds_def)
qed

lemma collection_cmds_wf: "collection_ok c \<Longrightarrow> list_all cmd_wf (collection_cmds c)"
  by (simp add: collection_ok_def collection_cmds_wf_body)

lemma all_cmds_wf: "list_all collection_ok cs \<Longrightarrow> list_all cmd_wf (concat (map collection_cmds cs))"
  by (induction cs) (auto simp: collection_cmds_wf)

definition encode_descriptor :: "app_collection list \<Rightarrow> u8 list" where
  "encode_descriptor cs = concat (map encode_cmd (concat (map collection_cmds cs)))"

lemma parse_items_descriptor:
  "list_all collection_ok cs \<Longrightarrow>
   parse_items no_oom (encode_descriptor cs) 0 p = run_cmds no_oom (concat (map collection_cmds cs)) p"
  using parse_items_encode_from [of "concat (map collection_cmds cs)" no_oom "[]" p]
  by (simp add: encode_descriptor_def all_cmds_wf)

section \<open>Collections that do not fit\<close>

lemma run_cmds_append_fail:
  "fst (run_cmds mok xs p) = False \<Longrightarrow> fst (run_cmds mok (xs @ ys) p) = False"
  by (simp add: run_cmds_append case_prod_beta)

lemma run_end_overflow:
  assumes "s_parse_step p = PARSE_WAIT_END_COLLECTION" "s_collection_depth p = 1"
    "whole_bytes (s_report_params p)" "length (tm_reports (acc_map p)) \<le> 64"
    "64 < length (tm_reports (acc_map p)) + length (report_items (s_report_params p))"
    "cmd_cmd c = HID_RM_END_COLLECTION"
  shows "fst (run_cmds no_oom [c] p) = False"
proof -
  let ?p = "(snd (heap_alloc no_oom p))\<lparr>s_collection_depth := 0\<rparr>"
  have "fst (add_reports (m\<lparr>tm_usage_mask := x\<rparr>) (report_items (s_report_params p))) = -1"
    if "length (tm_reports m) = length (tm_reports (acc_map p))" for m x
    using assms(4,5) that by (intro add_reports_overflow) simp_all
  then have "fst (handle_report no_oom (s_report_params ?p) (s_new_map ?p) ?p) = -1"
    by (cases "s_new_map p"; cases "s_temp_hid_report_map p")
       (simp_all add: handle_report_def acc_map_def heap_alloc_def Let_def case_prod_beta)
  then have "fst (emit_report no_oom ?p) = -1"
    by (auto simp: emit_report_def Let_def split: prod.splits)
  then show ?thesis
    using assms by (auto simp: handle_cmd_def handle_main_item_def handle_end_collection_def
        heap_alloc_no_oom tags Let_def split: prod.splits)
qed

lemma run_collection_overflow:
  assumes idle: "s_parse_step p = PARSE_WAIT_USAGE_PAGE" and ok: "collection_ok c"
    and before: "length (tm_reports (acc_map p)) \<le> 64"
    and full: "64 < length (tm_reports (acc_map p)) + length (collection_items c)"
  shows "fst (run_cmds no_oom (collection_cmds c) p) = False"
proof -
  obtain q1 where q1: "run_cmds no_oom (collection_cmds c) p = run_cmds no_oom (co_body c @ [end_item]) q1"
    "s_parse_step q1 = PARSE_WAIT_END_COLLECTION" "s_collection_depth q1 = 1" "same_map p q1"
    "s_report_size q1 = 0" "s_report_count q1 = 0"
    "s_report_params q1 = params_zero\<lparr>rp_usage_page := co_page c, rp_usage := co_usage c,
                                     rp_report_id := co_id c\<rparr>"
    using run_header [OF idle, of c] by blast
  obtain q2 where q2: "run_cmds no_oom (co_body c) q1 = (True, q2)" "body_result q1 (co_body c) q2"
    using run_body [of 0 "co_body c" q1] q1 ok by (auto simp: collection_ok_def)
  have same: "report_items (s_report_params q2) = collection_items c
      \<and> report_usage (s_report_params q2) = report_usage (collection_report c)
      \<and> whole_bytes (s_report_params q2) = whole_bytes (collection_report c)
      \<and> acc_add (s_report_params q2) = acc_add (collection_report c)"
    using q2(2) q1 by (intro report_items_cong)
      (simp_all add: body_result_def collection_report_def params_zero_def)
  have acc: "acc_map q2 = acc_map p"
    using q2(2) q1 by (simp add: body_result_def acc_map_def same_map_def)
  have "fst (run_cmds no_oom [end_item] q2) = False"
    using q2(2) same acc ok before full
    by (intro run_end_overflow) (simp_all add: body_result_def collection_ok_def)
  then show ?thesis
    using q1(1) q2(1) by (simp add: run_cmds_append del: run_cmds.simps split: prod.splits)
qed

lemma run_collections_overflow:
  "s_parse_step p = PARSE_WAIT_USAGE_PAGE \<Longrightarrow> list_all collection_ok cs \<Longrightarrow>
   length (tm_reports (acc_map p)) \<le> 64 \<Longrightarrow>
   64 < length (tm_reports (acc_map p)) + length (concat (map collection_items cs)) \<Longrightarrow>
   fst (run_cmds no_oom (concat (map collection_cmds cs)) p) = False"
proof (induction cs arbitrary: p)
  case Nil
  then show ?case by simp
next
  case (Cons c cs)
  show ?case
  proof (cases "length (tm_reports (acc_map p)) + length (collection_items c) \<le> 64")
    case True
    obtain q where q: "run_cmds no_oom (collection_cmds c) p = (True, q)"
      "s_parse_step q = PARSE_WAIT_USAGE_PAGE" "s_new_map q = False"
      "s_temp_hid_report_map q = Some (acc_add (collection_report c) (acc_map p))"
      using run_collection [of p c] Cons.prems True by auto
    then have "acc_map q = acc_add (collection_report c) (acc_map p)" by (simp add: acc_map_def)
    then have "fst (run_cmds no_oom (concat (map collection_cmds cs)) q) = False"
      using Cons.IH [of q] Cons.prems q(2) True by (simp add: acc_add_length)
    then show ?thesis using q(1) by (simp add: run_cmds_append split: prod.splits)
  next
    case False
    then have "fst (run_cmds no_oom (collection_cmds c) p) = False"
      using run_collection_overflow [of p c] Cons.prems by simp
    then show ?thesis by (simp add: run_cmds_append_fail)
  qed
qed

section \<open>Properties\<close>

lemma item_usage_le_dominant:
  assumes "usage_bits u OR m = m" and "u \<noteq> ESP_HID_USAGE_TABLET"
  shows "u \<le> fst (dominant_usage m)"
proof -
  have bit: "m AND usage_bits u = usage_bits u"
  proof (rule bit_word_eqI)
    fix n
    have "bit (usage_bits u OR m) n = bit m n" using assms(1) by simp
    then show "bit (m AND usage_bits u) n = bit (usage_bits u) n" by (auto simp: bit_simps)
  qed
  show ?thesis
    using assms(2) bit by (cases u) (auto simp: dominant_usage_def usage_order_defs)
qed

definition descriptor_usage :: "app_collection list \<Rightarrow> esp_hid_usage_t" where
  "descriptor_usage cs =
     Max (insert ESP_HID_USAGE_GENERIC ((\<lambda>c. report_usage (collection_report c)) ` set cs))"

lemma acc_map_new [simp]: "acc_map (p\<lparr>s_new_map := True\<rparr>) = temp_map_zero"
  by (simp add: acc_map_def)

lemma temp_map_zero_simps [simp]:
  "tm_reports temp_map_zero = []" "tm_usage_mask temp_map_zero = 0"
  by (simp_all add: temp_map_zero_def)


definition sample_collection :: app_collection where
  "sample_collection = \<lparr>co_page = 1, co_usage = 6, co_id = 1,
     co_body = [short_item HID_RM_REPORT_SIZE 8, short_item HID_RM_REPORT_COUNT 7,
                short_item HID_RM_INPUT 2]\<rparr>"

lemma sample_collection_ok: "collection_ok sample_collection"
  by code_simp

lemma sample_collection_items: "length (collection_items sample_collection) = 2"
  by code_simp




text \<open>
  C9: Every map the parser returns, for any bytes, any allocation failures and any well-formed
  parser state, has at most 64 reports, counts them in \<open>reports_len\<close> without wrapping, and all
  of them are input, output or feature reports of at most 8191 bytes, boot-protocol ones only for
  keyboards and mice, none with a usage above the map's usage.
\<close>

theorem parse_result_bounds:
  assumes "parser_wf p" and "esp_hid_parse_report_map mok d p = (Inr (Some m), q)"
  shows "length (rm_reports m) \<le> 64 \<and> unat (rm_reports_len m) = length (rm_reports m)
    \<and> (\<forall>i \<in> set (rm_reports m). item_ok i \<and> ri_usage i \<le> rm_usage m)"
proof -
  obtain r where r: "parse_items mok d 0 (p\<lparr>s_new_map := True\<rparr>) = (True, r)" "parser_wf r"
    "\<exists>t. s_temp_hid_report_map r = Some t \<and> rm_reports m = tm_reports t
       \<and> rm_usage m = fst (dominant_usage (tm_usage_mask t))
       \<and> rm_reports_len m = of_nat (length (tm_reports t))"
    using assms wf_loop.parse_items_inv [of "p\<lparr>s_new_map := True\<rparr>" mok d 0]
    by (auto simp: esp_hid_parse_report_map_def heap_alloc_def Let_def
          split: prod.splits if_splits option.splits)
  then obtain t where t: "temp_ok t" "rm_reports m = tm_reports t"
    "rm_usage m = fst (dominant_usage (tm_usage_mask t))"
    "rm_reports_len m = of_nat (length (tm_reports t))"
    by (auto simp: parser_wf_def)
  have "ri_usage i \<le> rm_usage m" if "i \<in> set (tm_reports t)" for i
    using t(1) that unfolding t(3) by (intro item_usage_le_dominant) (auto simp: temp_ok_def item_ok_def)
  moreover have "unat (of_nat (length (tm_reports t)) :: u8) = length (tm_reports t)"
    using t(1) by (simp add: temp_ok_def unat_of_nat)
  ultimately show ?thesis using t by (simp add: temp_ok_def)
qed

lemma sample_parse:
  "\<exists>m q. esp_hid_parse_report_map no_oom (encode_descriptor [sample_collection]) parser_init
      = (Inr (Some m), q)"
proof -
  have "(case fst (esp_hid_parse_report_map no_oom (encode_descriptor [sample_collection]) parser_init)
         of Inr (Some m) \<Rightarrow> True | _ \<Rightarrow> False) = True"
    by code_simp
  then show ?thesis by (auto split: sum.splits option.splits) (metis prod.collapse)
qed

theorem parse_result_bounds_witness:
  "\<exists>m q. esp_hid_parse_report_map no_oom (encode_descriptor [sample_collection]) parser_init
       = (Inr (Some m), q)
     \<and> length (rm_reports m) \<le> 64 \<and> unat (rm_reports_len m) = length (rm_reports m)
     \<and> (\<forall>i \<in> set (rm_reports m). item_ok i \<and> ri_usage i \<le> rm_usage m)"
proof -
  obtain m q where e: "esp_hid_parse_report_map no_oom (encode_descriptor [sample_collection]) parser_init
      = (Inr (Some m), q)" using sample_parse by blast
  have "parser_wf parser_init" by simp
  from parse_result_bounds [OF this e] e show ?thesis by blast
qed

text \<open>
  C10: Memory is balanced on every path, whatever allocations fail: a parse that returns a map leaves
  exactly the map's two blocks to its caller, a parse that returns NULL leaves none, and the only
  other block the module owns is the temporary map of its static variable.
\<close>

theorem parse_heap_balance:
  "heap_owed (snd (esp_hid_parse_report_map mok d p)) =
     heap_owed p + (case fst (esp_hid_parse_report_map mok d p) of
                      Inr (Some m) \<Rightarrow> 2 | Inr None \<Rightarrow> 0 | Inl f \<Rightarrow> 1)"
  by (rule parse_map_owed)

text \<open>
  C27: Reading the bytes of a sequence of items is running the items: each item is decoded to what
  was encoded (tag, length 0, 1, 2 or 4, little-endian value), in order, with no byte skipped or
  read twice.
\<close>

theorem parse_items_roundtrip:
  "list_all cmd_wf cs \<Longrightarrow> parse_items mok (concat (map encode_cmd cs)) 0 p = run_cmds mok cs p"
  using parse_items_encode_from [of cs mok "[]" p] by simp

theorem parse_items_roundtrip_witness:
  "parse_items no_oom (concat (map encode_cmd (collection_cmds sample_collection))) 0 parser_init
     = run_cmds no_oom (collection_cmds sample_collection) parser_init"
  by (rule parse_items_roundtrip) (rule collection_cmds_wf [OF sample_collection_ok])

text \<open>
  A descriptor that ends inside an item is refused with NULL: the item's length code asks for
  more bytes than are left, and none of them is read.
\<close>

theorem parse_cut_item:
  assumes "list_all cmd_wf cs" and "length rest < item_size b"
  shows "fst (esp_hid_parse_report_map mok (concat (map encode_cmd cs) @ b # rest) p) = Inr None"
proof -
  let ?d = "concat (map encode_cmd cs) @ b # rest"
  have cut: "fst (parse_items mok ?d (length (concat (map encode_cmd cs))) q) = False" for q
  proof -
    have "fst (fst (parse_cmd mok ?d (length (concat (map encode_cmd cs))) q)) = -1
      \<and> snd (fst (parse_cmd mok ?d (length (concat (map encode_cmd cs))) q)) = None"
      using assms(2) by (simp add: parse_cmd_def Let_def nth_append case_prod_beta)
    then show ?thesis
      by (simp add: parse_items.simps [of mok ?d "length (concat (map encode_cmd cs))" q] case_prod_beta)
  qed
  have "fst (parse_items mok ?d 0 q) = False" for q
    using parse_items_encode_tail [OF assms(1), of mok "[]" "b # rest" q] cut
    by (simp add: case_prod_beta)
  then show ?thesis by (simp add: esp_hid_parse_report_map_def case_prod_beta)
qed

theorem parse_cut_item_witness:
  "fst (esp_hid_parse_report_map no_oom
     (concat (map encode_cmd (collection_cmds sample_collection)) @ 0x75 # []) parser_init) = Inr None"
  by (rule parse_cut_item [OF collection_cmds_wf [OF sample_collection_ok]]) (simp add: item_size_def)

section \<open>What the static state lets through\<close>

lemma run_collection_unaligned:
  assumes idle: "s_parse_step p = PARSE_WAIT_USAGE_PAGE" and body: "nested_body 0 (co_body c)"
    and part: "\<not> whole_bytes (collection_report c)"
  shows "\<exists>q. run_cmds no_oom (collection_cmds c) p = (True, q)
    \<and> s_parse_step q = PARSE_WAIT_USAGE_PAGE \<and> same_map p q"
proof -
  obtain q1 where q1: "run_cmds no_oom (collection_cmds c) p = run_cmds no_oom (co_body c @ [end_item]) q1"
    "s_parse_step q1 = PARSE_WAIT_END_COLLECTION" "s_collection_depth q1 = 1" "same_map p q1"
    "s_report_size q1 = 0" "s_report_count q1 = 0"
    "s_report_params q1 = params_zero\<lparr>rp_usage_page := co_page c, rp_usage := co_usage c,
                                     rp_report_id := co_id c\<rparr>"
    using run_header [OF idle, of c] by blast
  obtain q2 where q2: "run_cmds no_oom (co_body c) q1 = (True, q2)" "body_result q1 (co_body c) q2"
    using run_body [of 0 "co_body c" q1] q1 body by auto
  have "whole_bytes (s_report_params q2) = whole_bytes (collection_report c)"
    using q2(2) q1 by (simp add: body_result_def whole_bytes_def collection_report_def params_zero_def)
  then have "\<exists>q. run_cmds no_oom [end_item] q2 = (True, q) \<and> s_parse_step q = PARSE_WAIT_USAGE_PAGE
      \<and> same_map q2 q"
    using q2(2) part
    by (simp add: body_result_def handle_cmd_def handle_main_item_def handle_end_collection_def
          heap_alloc_no_oom tags same_map_def)
  moreover have "same_map p q2"
    using q1(4) q2(2) by (simp add: same_map_def body_result_def)
  ultimately show ?thesis
    using q1(1) q2(1) same_map_trans by (auto simp: run_cmds_append simp del: run_cmds.simps)
qed

lemma run_collections_unaligned:
  "s_parse_step p = PARSE_WAIT_USAGE_PAGE \<Longrightarrow>
   (\<forall>c \<in> set cs. nested_body 0 (co_body c) \<and> \<not> whole_bytes (collection_report c)) \<Longrightarrow>
   \<exists>q. run_cmds no_oom (concat (map collection_cmds cs)) p = (True, q) \<and> same_map p q"
proof (induction cs arbitrary: p)
  case Nil
  then show ?case by (simp add: same_map_def)
next
  case (Cons c cs)
  obtain q where q: "run_cmds no_oom (collection_cmds c) p = (True, q)"
    "s_parse_step q = PARSE_WAIT_USAGE_PAGE" "same_map p q"
    using run_collection_unaligned [of p c] Cons.prems by auto
  obtain q' where "run_cmds no_oom (concat (map collection_cmds cs)) q = (True, q')" "same_map q q'"
    using Cons.IH [of q] Cons.prems q(2) by auto
  then show ?case using q same_map_trans [of p q q'] by (simp add: run_cmds_append)
qed

lemma parse_without_map:
  assumes "fst (parse_items no_oom d 0 (p\<lparr>s_new_map := True\<rparr>)) = True"
    and "s_temp_hid_report_map (snd (parse_items no_oom d 0 (p\<lparr>s_new_map := True\<rparr>))) = None"
  shows "fst (esp_hid_parse_report_map no_oom d p) = Inl NullDeref"
  using assms by (simp add: esp_hid_parse_report_map_def case_prod_beta heap_alloc_def)

text \<open>
  C34: A descriptor all of whose collections have a field that does not fill its last byte (or that
  has no collection at all) is accepted item by item, yields no report, and then makes the
  parser dereference the NULL temporary map. The bytes come from the peer.
\<close>

theorem parse_no_report_null_deref:
  assumes "s_parse_step p = PARSE_WAIT_USAGE_PAGE" and "s_temp_hid_report_map p = None"
    and "\<forall>c \<in> set cs. list_all cmd_wf (co_body c) \<and> nested_body 0 (co_body c)
                       \<and> \<not> whole_bytes (collection_report c)"
  shows "fst (esp_hid_parse_report_map no_oom (encode_descriptor cs) p) = Inl NullDeref"
proof -
  have "list_all cmd_wf (concat (map collection_cmds cs))"
    using assms(3) by (induction cs) (auto simp: collection_cmds_wf_body)
  then have eq: "parse_items no_oom (encode_descriptor cs) 0 (p\<lparr>s_new_map := True\<rparr>)
      = run_cmds no_oom (concat (map collection_cmds cs)) (p\<lparr>s_new_map := True\<rparr>)"
    using parse_items_encode_from [of "concat (map collection_cmds cs)" no_oom "[]"]
    by (simp add: encode_descriptor_def)
  obtain q where "run_cmds no_oom (concat (map collection_cmds cs)) (p\<lparr>s_new_map := True\<rparr>) = (True, q)"
    "same_map (p\<lparr>s_new_map := True\<rparr>) q"
    using run_collections_unaligned [of "p\<lparr>s_new_map := True\<rparr>" cs] assms by auto
  then show ?thesis
    using assms(2) by (intro parse_without_map) (simp_all add: eq same_map_def)
qed

definition odd_collection :: app_collection where
  "odd_collection = \<lparr>co_page = 1, co_usage = 6, co_id = 0,
     co_body = [short_item HID_RM_REPORT_SIZE 1, short_item HID_RM_REPORT_COUNT 3,
                short_item HID_RM_INPUT 2]\<rparr>"

theorem parse_no_report_null_deref_witness:
  "fst (esp_hid_parse_report_map no_oom (encode_descriptor [odd_collection]) parser_init)
     = Inl NullDeref"
proof (rule parse_no_report_null_deref)
  have "list_all cmd_wf (co_body odd_collection) \<and> nested_body 0 (co_body odd_collection)
      \<and> \<not> whole_bytes (collection_report odd_collection)"
    by code_simp
  then show "\<forall>c \<in> set [odd_collection]. list_all cmd_wf (co_body c) \<and> nested_body 0 (co_body c)
      \<and> \<not> whole_bytes (collection_report c)" by simp
qed (simp_all add: parser_init_def)

text \<open>
  C35: The parse step is never reset at the start of a descriptor. A parser that a cut-off
  descriptor left inside a collection takes the next descriptor, however well formed, for the
  rest of that collection: its collection closes as an inner one, no report is produced, and
  the NULL temporary map is dereferenced.
\<close>

theorem parse_after_cut_null_deref:
  assumes "s_parse_step p = PARSE_WAIT_END_COLLECTION" and "s_collection_depth p = 1"
    and "s_temp_hid_report_map p = None"
    and "list_all cmd_wf (co_body c)" and "nested_body 0 (collection_cmds c)"
  shows "fst (esp_hid_parse_report_map no_oom (encode_descriptor [c]) p) = Inl NullDeref"
proof -
  obtain q where q: "run_cmds no_oom (collection_cmds c) (p\<lparr>s_new_map := True\<rparr>) = (True, q)"
    "body_result (p\<lparr>s_new_map := True\<rparr>) (collection_cmds c) q"
    using run_body [of 0 "collection_cmds c" "p\<lparr>s_new_map := True\<rparr>"] assms by auto
  have "parse_items no_oom (encode_descriptor [c]) 0 (p\<lparr>s_new_map := True\<rparr>) = (True, q)"
    using parse_items_encode_from [of "collection_cmds c" no_oom "[]" "p\<lparr>s_new_map := True\<rparr>"] q(1) assms(4)
    by (simp add: encode_descriptor_def collection_cmds_wf_body)
  then show ?thesis
    using q(2) assms(3) by (intro parse_without_map) (simp_all add: body_result_def)
qed

text \<open>The state after a real keyboard descriptor cut off inside its tenth item.\<close>

definition cut_keyboard :: "u8 list" where
  "cut_keyboard = [0x05, 0x01, 0x09, 0x06, 0xA1, 0x01, 0x05, 0x07, 0x19, 0xE0, 0x29, 0xE7, 0x15, 0x00,
                   0x25, 0x01, 0x75, 0x01, 0x95]"

definition plain_keyboard :: app_collection where
  "plain_keyboard = \<lparr>co_page = 1, co_usage = 6, co_id = 0,
     co_body = [short_item HID_RM_REPORT_SIZE 8, short_item HID_RM_REPORT_COUNT 8,
                short_item HID_RM_INPUT 2]\<rparr>"

theorem parse_after_cut_null_deref_witness:
  "fst (esp_hid_parse_report_map no_oom cut_keyboard parser_init) = Inr None
   \<and> fst (esp_hid_parse_report_map no_oom (encode_descriptor [plain_keyboard])
            (snd (esp_hid_parse_report_map no_oom cut_keyboard parser_init))) = Inl NullDeref"
proof
  show "fst (esp_hid_parse_report_map no_oom cut_keyboard parser_init) = Inr None" by code_simp
  show "fst (esp_hid_parse_report_map no_oom (encode_descriptor [plain_keyboard])
            (snd (esp_hid_parse_report_map no_oom cut_keyboard parser_init))) = Inl NullDeref"
  proof (rule parse_after_cut_null_deref)
    show "s_parse_step (snd (esp_hid_parse_report_map no_oom cut_keyboard parser_init))
        = PARSE_WAIT_END_COLLECTION" by code_simp
    show "s_collection_depth (snd (esp_hid_parse_report_map no_oom cut_keyboard parser_init)) = 1"
      by code_simp
    show "s_temp_hid_report_map (snd (esp_hid_parse_report_map no_oom cut_keyboard parser_init)) = None"
      by code_simp
    show "list_all cmd_wf (co_body plain_keyboard)" by code_simp
    show "nested_body 0 (collection_cmds plain_keyboard)" by code_simp
  qed
qed

end
