(* ===== verification/KbdTypes.thy ===== *)
theory KbdTypes
  imports HidTypes
begin

text \<open>
  The data of the keyboard host: the public types of \<open>include/esp_ble_kbd_host.h\<close>, the command
  queue types and the module variables of \<open>src/bt_kbd.c\<close>.

  A callback of the application is seen from here as the value it is called with, so the module
  keeps the list \<open>out\<close> of the calls it made, oldest first; the configuration says which callbacks
  are installed. A C string that is passed on is its list of bytes, without the NUL.
\<close>

section \<open>Public types\<close>

definition BLE_KBD_HOST_MAX_SCAN_DEVS :: nat where
  [hid_consts]: "BLE_KBD_HOST_MAX_SCAN_DEVS = 8"

definition BLE_KBD_HOST_NAME_MAX_LEN :: nat where
  [hid_consts]: "BLE_KBD_HOST_NAME_MAX_LEN = 32"

record ble_kbd_scan_dev_t =
  sd_addr :: "u8 list"
  sd_addr_type :: u8
  sd_name :: "u8 list"
  sd_rssi :: "8 word"

datatype ble_kbd_state_t =
    BLE_KBD_STATE_IDLE | BLE_KBD_STATE_RECONNECTING | BLE_KBD_STATE_SCANNING
  | BLE_KBD_STATE_CONNECTING | BLE_KBD_STATE_CONNECTED

text \<open>Which of the four callbacks are installed.\<close>

record ble_kbd_callbacks_t =
  cb_on_key :: bool
  cb_on_status :: bool
  cb_on_passkey :: bool
  cb_on_scan_updated :: bool

record ble_kbd_host_config_t =
  cfg_callbacks :: ble_kbd_callbacks_t
  cfg_force_repair :: bool
  cfg_task_stack :: u32
  cfg_task_priority :: u8
  cfg_reconnect_interval_ms :: u32
  cfg_scan_timeout_ms :: u32

text \<open>The defaults of \<open>Kconfig\<close>.\<close>

definition CONFIG_BLE_KBD_HOST_TASK_STACK :: u32 where
  [hid_consts]: "CONFIG_BLE_KBD_HOST_TASK_STACK = 8192"
definition CONFIG_BLE_KBD_HOST_TASK_PRIORITY :: u8 where
  [hid_consts]: "CONFIG_BLE_KBD_HOST_TASK_PRIORITY = 2"
definition CONFIG_BLE_KBD_HOST_RECONNECT_INTERVAL_MS :: u32 where
  [hid_consts]: "CONFIG_BLE_KBD_HOST_RECONNECT_INTERVAL_MS = 3000"
definition CONFIG_BLE_KBD_HOST_SCAN_TIMEOUT_MS :: u32 where
  [hid_consts]: "CONFIG_BLE_KBD_HOST_SCAN_TIMEOUT_MS = 20000"

section \<open>Command queue types\<close>

datatype kbd_cmd_type_t = CMD_START_PAIRING | CMD_SELECT_DEVICE

record kbd_cmd_t =
  cmd_type :: kbd_cmd_type_t
  cmd_param :: int

section \<open>Calls of the application's callbacks\<close>

datatype kbd_out =
    OnKey u8
  | OnStatus ble_kbd_state_t "u8 list" "u8 list"
  | OnPasskey u32
  | OnScanUpdated "ble_kbd_scan_dev_t list"

text \<open>The bytes of a string literal, and the C string an array holds.\<close>

definition str_bytes :: "string \<Rightarrow> u8 list" where
  "str_bytes = map of_char"

definition c_str :: "u8 list \<Rightarrow> u8 list" where
  "c_str = takeWhile nz"

section \<open>Module variables\<close>

text \<open>
  The static variables of \<open>bt_kbd.c\<close> that are data. The queue, the semaphores and the mutex are
  kernel objects, part of the world the operations of the kernel act on.
\<close>

record kbd_vars =
  s_cfg :: ble_kbd_host_config_t
  s_state :: ble_kbd_state_t
  s_hidh_dev :: "nat option"
  s_scan_devs :: "ble_kbd_scan_dev_t list"
  s_scan_dev_count :: nat
  s_prev_keys :: "u8 list"
  out :: "kbd_out list"

definition scan_dev_zero :: ble_kbd_scan_dev_t where
  "scan_dev_zero = \<lparr>sd_addr = replicate 6 0, sd_addr_type = 0,
     sd_name = replicate (BLE_KBD_HOST_NAME_MAX_LEN + 1) 0, sd_rssi = 0\<rparr>"

text \<open>The module as it is loaded, with a configuration copied in.\<close>

definition kbd_vars_init :: "ble_kbd_host_config_t \<Rightarrow> kbd_vars" where
  "kbd_vars_init cfg = \<lparr>s_cfg = cfg, s_state = BLE_KBD_STATE_IDLE, s_hidh_dev = None,
     s_scan_devs = replicate BLE_KBD_HOST_MAX_SCAN_DEVS scan_dev_zero, s_scan_dev_count = 0,
     s_prev_keys = replicate 6 0, out = []\<rparr>"

section \<open>Helpers of the module\<close>

definition emit :: "kbd_out \<Rightarrow> kbd_vars \<Rightarrow> kbd_vars" where
  "emit e s = s\<lparr>out := out s @ [e]\<rparr>"

text \<open>Report a status without changing the state, as three places of the task do.\<close>

definition on_status :: "ble_kbd_state_t \<Rightarrow> u8 list \<Rightarrow> u8 list \<Rightarrow> kbd_vars \<Rightarrow> kbd_vars" where
  "on_status st line1 line2 s =
     (if cb_on_status (cfg_callbacks (s_cfg s)) then emit (OnStatus st line1 line2) s else s)"

definition set_state :: "ble_kbd_state_t \<Rightarrow> u8 list \<Rightarrow> u8 list \<Rightarrow> kbd_vars \<Rightarrow> kbd_vars" where
  "set_state new_state line1 line2 s = on_status new_state line1 line2 (s\<lparr>s_state := new_state\<rparr>)"

definition emit_key :: "u8 \<Rightarrow> kbd_vars \<Rightarrow> kbd_vars" where
  "emit_key ch s = (if cb_on_key (cfg_callbacks (s_cfg s)) then emit (OnKey ch) s else s)"

definition show_passkey :: "u32 \<Rightarrow> kbd_vars \<Rightarrow> kbd_vars" where
  "show_passkey key s =
     (if cb_on_passkey (cfg_callbacks (s_cfg s)) then emit (OnPasskey key) s else s)"

text \<open>What these helpers leave alone.\<close>

lemma emit_frame [frame_simps]:
  "s_cfg (emit e s) = s_cfg s" "s_state (emit e s) = s_state s" "s_hidh_dev (emit e s) = s_hidh_dev s"
  "s_scan_devs (emit e s) = s_scan_devs s" "s_scan_dev_count (emit e s) = s_scan_dev_count s"
  "s_prev_keys (emit e s) = s_prev_keys s" "out (emit e s) = out s @ [e]"
  by (simp_all add: emit_def)

lemma emit_key_frame [frame_simps]:
  "s_cfg (emit_key c s) = s_cfg s" "s_state (emit_key c s) = s_state s"
  "s_hidh_dev (emit_key c s) = s_hidh_dev s" "s_scan_devs (emit_key c s) = s_scan_devs s"
  "s_scan_dev_count (emit_key c s) = s_scan_dev_count s" "s_prev_keys (emit_key c s) = s_prev_keys s"
  by (simp_all add: emit_key_def frame_simps)

lemma on_status_frame [frame_simps]:
  "s_cfg (on_status st a b s) = s_cfg s" "s_state (on_status st a b s) = s_state s"
  "s_hidh_dev (on_status st a b s) = s_hidh_dev s" "s_scan_devs (on_status st a b s) = s_scan_devs s"
  "s_scan_dev_count (on_status st a b s) = s_scan_dev_count s"
  "s_prev_keys (on_status st a b s) = s_prev_keys s"
  by (simp_all add: on_status_def frame_simps)

lemma set_state_frame [frame_simps]:
  "s_cfg (set_state st a b s) = s_cfg s" "s_state (set_state st a b s) = st"
  "s_hidh_dev (set_state st a b s) = s_hidh_dev s" "s_scan_devs (set_state st a b s) = s_scan_devs s"
  "s_scan_dev_count (set_state st a b s) = s_scan_dev_count s"
  "s_prev_keys (set_state st a b s) = s_prev_keys s"
  by (simp_all add: set_state_def frame_simps)

lemma show_passkey_frame [frame_simps]:
  "s_cfg (show_passkey k s) = s_cfg s" "s_state (show_passkey k s) = s_state s"
  "s_hidh_dev (show_passkey k s) = s_hidh_dev s" "s_scan_devs (show_passkey k s) = s_scan_devs s"
  "s_scan_dev_count (show_passkey k s) = s_scan_dev_count s"
  "s_prev_keys (show_passkey k s) = s_prev_keys s"
  by (simp_all add: show_passkey_def frame_simps)

section \<open>What the application is told\<close>

text \<open>The keys of a list of callback calls, and the last state it reports.\<close>

definition keys_of :: "kbd_out list \<Rightarrow> u8 list" where
  "keys_of es = concat (map (\<lambda>e. case e of OnKey k \<Rightarrow> [k] | _ \<Rightarrow> []) es)"

fun told_state :: "kbd_out list \<Rightarrow> ble_kbd_state_t \<Rightarrow> ble_kbd_state_t" where
  "told_state [] st = st"
| "told_state (OnStatus st' a b # es) st = told_state es st'"
| "told_state (OnKey k # es) st = told_state es st"
| "told_state (OnPasskey k # es) st = told_state es st"
| "told_state (OnScanUpdated ds # es) st = told_state es st"

lemma keys_of_simps [simp]:
  "keys_of [] = []" "keys_of (es @ es') = keys_of es @ keys_of es'"
  "keys_of (OnKey k # es) = k # keys_of es"
  "keys_of (OnStatus st a b # es) = keys_of es" "keys_of (OnPasskey n # es) = keys_of es"
  "keys_of (OnScanUpdated ds # es) = keys_of es"
  by (simp_all add: keys_of_def)

lemma told_state_append [simp]: "told_state (es @ es') st = told_state es' (told_state es st)"
  by (induction es st rule: told_state.induct) auto

end
