(* ===== verification/KbdKeys.thy ===== *)
theory KbdKeys
  imports KbdTypes
begin

text \<open>
  From HID keyboard reports to characters: the two key maps, \<open>send_vt100\<close> and \<open>translate_report\<close> of
  \<open>src/bt_kbd.c\<close> (lines 113 to 194). A report is the list of its bytes; the C function's \<open>len\<close> is
  its length. The abstract view is \<open>key_seq\<close>, what one key code stands for under the modifiers, and
  \<open>new_keys\<close>, the codes a report has that the previous one had not.
\<close>

section \<open>Key maps\<close>

definition keymap_normal :: "u8 list" where
  "keymap_normal =
     [0, 0, 0, 0] @ str_bytes ''abcdefghijklmnopqrstuvwxyz'' @ str_bytes ''1234567890'' @
     [0x0D, 0x1B, 0x7F, 0x09, 0x20] @ str_bytes ''-=[]'' @ [0x5C] @
     [0, 0x3B, 0x27, 0x60] @ str_bytes '',./''"

definition keymap_shift :: "u8 list" where
  "keymap_shift =
     [0, 0, 0, 0] @ str_bytes ''ABCDEFGHIJKLMNOPQRSTUVWXYZ'' @ str_bytes ''!@#$%^&*()'' @
     [0x0D, 0x1B, 0x7F, 0x09, 0x20] @ str_bytes ''_+{}|'' @
     [0, 0x3A, 0x22, 0x7E] @ str_bytes ''<>?''"

definition MOD_SHIFT :: u8 where [hid_consts]: "MOD_SHIFT = (0x02 OR 0x20)"
definition MOD_CTRL :: u8 where [hid_consts]: "MOD_CTRL = (0x01 OR 0x10)"

lemma keymap_normal_bytes [code, simp]: "keymap_normal = [0, 0, 0, 0, 0x61, 0x62, 0x63, 0x64,
     0x65, 0x66, 0x67, 0x68, 0x69, 0x6A, 0x6B, 0x6C, 0x6D, 0x6E, 0x6F, 0x70, 0x71, 0x72, 0x73,
     0x74, 0x75, 0x76, 0x77, 0x78, 0x79, 0x7A, 0x31, 0x32, 0x33, 0x34, 0x35, 0x36, 0x37, 0x38,
     0x39, 0x30, 0x0D, 0x1B, 0x7F, 0x09, 0x20, 0x2D, 0x3D, 0x5B, 0x5D, 0x5C, 0, 0x3B, 0x27, 0x60,
     0x2C, 0x2E, 0x2F]"
  by (simp add: keymap_normal_def str_bytes_def)
lemma keymap_shift_bytes [code, simp]: "keymap_shift = [0, 0, 0, 0, 0x41, 0x42, 0x43, 0x44, 0x45,
     0x46, 0x47, 0x48, 0x49, 0x4A, 0x4B, 0x4C, 0x4D, 0x4E, 0x4F, 0x50, 0x51, 0x52, 0x53, 0x54,
     0x55, 0x56, 0x57, 0x58, 0x59, 0x5A, 0x21, 0x40, 0x23, 0x24, 0x25, 0x5E, 0x26, 0x2A, 0x28,
     0x29, 0x0D, 0x1B, 0x7F, 0x09, 0x20, 0x5F, 0x2B, 0x7B, 0x7D, 0x7C, 0, 0x3A, 0x22, 0x7E, 0x3C,
     0x3E, 0x3F]"
  by (simp add: keymap_shift_def str_bytes_def)
lemma keymap_lengths: "length keymap_normal = 57" "length keymap_shift = 57"
  by simp_all

section \<open>Translation\<close>

definition send_vt100 :: "u8 list \<Rightarrow> kbd_vars \<Rightarrow> kbd_vars" where
  "send_vt100 seq s = fold emit_key (c_str seq) s"

text \<open>Lines 183 to 188: the character of a code that is no arrow key, 0 for none.\<close>

definition key_char :: "bool \<Rightarrow> bool \<Rightarrow> u8 \<Rightarrow> u8" where
  "key_char shifted ctrl code =
     (let ch = (if unat code < length keymap_normal
                then (if shifted then keymap_shift ! unat code else keymap_normal ! unat code)
                else 0);
          ch = (if ctrl \<and> ch \<ge> 0x61 \<and> ch \<le> 0x7A then ch - 96 else ch);
          ch = (if ctrl \<and> ch \<ge> 0x41 \<and> ch \<le> 0x5A then ch - 64 else ch)
      in ch)"

text \<open>Lines 166 to 191, the body of the loop for one code of the current report.\<close>

definition translate_key :: "u8 list \<Rightarrow> bool \<Rightarrow> bool \<Rightarrow> u8 \<Rightarrow> kbd_vars \<Rightarrow> kbd_vars" where
  "translate_key prev shifted ctrl code s =
     (if code = 0 then s
      else if code \<in> set prev then s
      else if code = 0x4F then send_vt100 (0x1B # str_bytes ''[C'') s
      else if code = 0x50 then send_vt100 (0x1B # str_bytes ''[D'') s
      else if code = 0x51 then send_vt100 (0x1B # str_bytes ''[B'') s
      else if code = 0x52 then send_vt100 (0x1B # str_bytes ''[A'') s
      else let ch = key_char shifted ctrl code in if nz ch then emit_key ch s else s)"

definition cur_keys_of :: "u8 list \<Rightarrow> u8 list" where
  "cur_keys_of report = map (\<lambda>i. if i + 1 < length report then report ! (i + 1) else 0) [0..<6]"

definition translate_report :: "u8 list \<Rightarrow> kbd_vars \<Rightarrow> kbd_vars" where
  "translate_report report s =
     (if length report < 3 then s
      else let md = report ! 0;
               shifted = nz (md AND MOD_SHIFT);
               ctrl = nz (md AND MOD_CTRL);
               cur_keys = cur_keys_of report;
               s' = fold (translate_key (s_prev_keys s) shifted ctrl) cur_keys s
           in s'\<lparr>s_prev_keys := cur_keys\<rparr>)"

section \<open>What a report means\<close>

text \<open>The bytes one key stands for.\<close>

definition key_seq :: "bool \<Rightarrow> bool \<Rightarrow> u8 \<Rightarrow> u8 list" where
  "key_seq shifted ctrl code =
     (if code = 0x4F then [0x1B, 0x5B, 0x43]
      else if code = 0x50 then [0x1B, 0x5B, 0x44]
      else if code = 0x51 then [0x1B, 0x5B, 0x42]
      else if code = 0x52 then [0x1B, 0x5B, 0x41]
      else let ch = key_char shifted ctrl code in if nz ch then [ch] else [])"

text \<open>The keys that went down with this report.\<close>

definition new_keys :: "u8 list \<Rightarrow> u8 list \<Rightarrow> u8 list" where
  "new_keys prev cur = filter (\<lambda>c. nz c \<and> c \<notin> set prev) cur"

definition report_chars :: "u8 list \<Rightarrow> u8 list \<Rightarrow> u8 list" where
  "report_chars prev report =
     concat (map (key_seq (nz (report ! 0 AND MOD_SHIFT)) (nz (report ! 0 AND MOD_CTRL)))
                 (new_keys prev (cur_keys_of report)))"

subsection \<open>The implementation emits exactly that\<close>

lemma fold_emit_key:
  "cb_on_key (cfg_callbacks (s_cfg s)) \<Longrightarrow> fold emit_key cs s = s\<lparr>out := out s @ map OnKey cs\<rparr>"
  by (induction cs arbitrary: s) (auto simp: emit_key_def emit_def)

lemma fold_emit_key_mute: "\<not> cb_on_key (cfg_callbacks (s_cfg s)) \<Longrightarrow> fold emit_key cs s = s"
  by (induction cs arbitrary: s) (auto simp: emit_key_def)

lemma translate_key_seq:
  "translate_key prev shifted ctrl code s =
     fold emit_key (if nz code \<and> code \<notin> set prev then key_seq shifted ctrl code else []) s"
proof -
  have "c_str (0x1B # str_bytes ''[C'') = [0x1B, 0x5B, 0x43]"
    "c_str (0x1B # str_bytes ''[D'') = [0x1B, 0x5B, 0x44]"
    "c_str (0x1B # str_bytes ''[B'') = [0x1B, 0x5B, 0x42]"
    "c_str (0x1B # str_bytes ''[A'') = [0x1B, 0x5B, 0x41]"
    by (simp_all add: c_str_def str_bytes_def)
  then show ?thesis
    by (simp add: translate_key_def key_seq_def send_vt100_def Let_def del: fold_simps)
qed

lemma fold_translate_key:
  "fold (translate_key prev shifted ctrl) codes s =
     fold emit_key (concat (map (key_seq shifted ctrl) (new_keys prev codes))) s"
  by (induction codes arbitrary: s) (auto simp: new_keys_def translate_key_seq)

lemma length_cur_keys [simp]: "length (cur_keys_of report) = 6"
  by (simp add: cur_keys_of_def)

lemma fold_emit_key_frame [frame_simps]:
  "s_cfg (fold emit_key cs s) = s_cfg s" "s_state (fold emit_key cs s) = s_state s"
  "s_hidh_dev (fold emit_key cs s) = s_hidh_dev s" "s_scan_devs (fold emit_key cs s) = s_scan_devs s"
  "s_scan_dev_count (fold emit_key cs s) = s_scan_dev_count s"
  "s_prev_keys (fold emit_key cs s) = s_prev_keys s"
  by (induction cs arbitrary: s) (auto simp: frame_simps)

lemma translate_report_frame [frame_simps]:
  "s_cfg (translate_report r s) = s_cfg s" "s_state (translate_report r s) = s_state s"
  "s_hidh_dev (translate_report r s) = s_hidh_dev s"
  "s_scan_devs (translate_report r s) = s_scan_devs s"
  "s_scan_dev_count (translate_report r s) = s_scan_dev_count s"
  by (simp_all add: translate_report_def fold_translate_key frame_simps Let_def)

lemma translate_report_out:
  "cb_on_key (cfg_callbacks (s_cfg s)) \<Longrightarrow> 3 \<le> length r \<Longrightarrow>
   translate_report r s =
     s\<lparr>out := out s @ map OnKey (report_chars (s_prev_keys s) r), s_prev_keys := cur_keys_of r\<rparr>"
  by (simp add: translate_report_def fold_translate_key fold_emit_key report_chars_def Let_def)

end
