(* ===== verification/KbdScan.thy ===== *)
theory KbdScan
  imports KbdTypes "HOL-Library.AList"
begin

text \<open>
  The list of keyboards found by a scan: \<open>collect_scan_cb\<close> of \<open>src/bt_kbd.c\<close> (lines 200 to 238), the
  resets of the list in the task, the snapshot that is handed to \<open>on_scan_updated\<close>, and the
  invariant they share. Parsing the advertisement is a function of the BLE stack and an argument:
  \<open>None\<close> when it fails, otherwise the name bytes it finds (empty for none). Each critical section of
  \<open>s_scan_mutex\<close> is one step.
\<close>

section \<open>Advertisements\<close>

record ble_gap_disc_desc =
  dd_event_type :: u8
  dd_data :: "u8 list"
  dd_addr :: "u8 list"
  dd_addr_type :: u8
  dd_rssi :: "8 word"

datatype ble_gap_scan_event = BLE_GAP_EVENT_DISC ble_gap_disc_desc | BLE_GAP_EVENT_OTHER

definition BLE_HCI_ADV_RPT_EVTYPE_ADV_IND :: u8 where
  [hid_consts]: "BLE_HCI_ADV_RPT_EVTYPE_ADV_IND = 0"

type_synonym adv_parser = "u8 list \<Rightarrow> u8 list option"

section \<open>Collecting\<close>

text \<open>Lines 212 to 218: the index of the entry with this address, if there is one.\<close>

definition find_addr :: "u8 list \<Rightarrow> kbd_vars \<Rightarrow> nat option" where
  "find_addr addr s = find (\<lambda>i. sd_addr (s_scan_devs s ! i) = addr) [0..<s_scan_dev_count s]"

text \<open>Lines 221 to 229: the entry that is written, over what the array held there.\<close>

definition scan_entry :: "ble_gap_disc_desc \<Rightarrow> u8 list \<Rightarrow> ble_kbd_scan_dev_t \<Rightarrow> ble_kbd_scan_dev_t" where
  "scan_entry d name old =
     (let n = (if length name < BLE_KBD_HOST_NAME_MAX_LEN then length name
               else BLE_KBD_HOST_NAME_MAX_LEN)
      in old\<lparr>sd_addr := dd_addr d, sd_addr_type := dd_addr_type d,
             sd_name := take n name @ [0] @ drop (n + 1) (sd_name old), sd_rssi := dd_rssi d\<rparr>)"

definition collect_scan_cb :: "adv_parser \<Rightarrow> ble_gap_scan_event \<Rightarrow> kbd_vars \<Rightarrow> kbd_vars" where
  "collect_scan_cb parse event s =
     (case event of
        BLE_GAP_EVENT_OTHER \<Rightarrow> s
      | BLE_GAP_EVENT_DISC d \<Rightarrow>
          if dd_event_type d \<noteq> BLE_HCI_ADV_RPT_EVTYPE_ADV_IND then s
          else case parse (dd_data d) of
            None \<Rightarrow> s
          | Some name \<Rightarrow>
              if length name = 0 then s
              else case find_addr (dd_addr d) s of
                Some i \<Rightarrow>
                  s\<lparr>s_scan_devs := (s_scan_devs s)[i := (s_scan_devs s ! i)\<lparr>sd_rssi := dd_rssi d\<rparr>]\<rparr>
              | None \<Rightarrow>
                  if s_scan_dev_count s < BLE_KBD_HOST_MAX_SCAN_DEVS
                  then s\<lparr>s_scan_devs := (s_scan_devs s)[s_scan_dev_count s :=
                            scan_entry d name (s_scan_devs s ! s_scan_dev_count s)],
                         s_scan_dev_count := s_scan_dev_count s + 1\<rparr>
                  else s)"

text \<open>The reset of lines 425 to 428, 477 to 480 and 508 to 511.\<close>

definition reset_scan :: "kbd_vars \<Rightarrow> kbd_vars" where
  "reset_scan s = s\<lparr>s_scan_dev_count := 0,
                    s_scan_devs := replicate BLE_KBD_HOST_MAX_SCAN_DEVS scan_dev_zero\<rparr>"

text \<open>Lines 459 to 468: the snapshot and the callback that gets it.\<close>

definition fire_scan_updated :: "kbd_vars \<Rightarrow> kbd_vars" where
  "fire_scan_updated s =
     (let cnt = s_scan_dev_count s; devs_copy = take cnt (s_scan_devs s)
      in if cb_on_scan_updated (cfg_callbacks (s_cfg s)) then emit (OnScanUpdated devs_copy) s else s)"

text \<open>Lines 485 to 491: is this index on the list?\<close>

definition index_valid :: "int \<Rightarrow> kbd_vars \<Rightarrow> bool" where
  "index_valid param s \<longleftrightarrow> param \<ge> 0 \<and> param < int (s_scan_dev_count s)"

lemma collect_scan_cb_frame [frame_simps]:
  "s_cfg (collect_scan_cb parse e s) = s_cfg s" "s_state (collect_scan_cb parse e s) = s_state s"
  "s_hidh_dev (collect_scan_cb parse e s) = s_hidh_dev s"
  "s_prev_keys (collect_scan_cb parse e s) = s_prev_keys s" "out (collect_scan_cb parse e s) = out s"
  by (simp_all add: collect_scan_cb_def split: ble_gap_scan_event.split option.split)

lemma reset_scan_frame [frame_simps]:
  "s_cfg (reset_scan s) = s_cfg s" "s_state (reset_scan s) = s_state s"
  "s_hidh_dev (reset_scan s) = s_hidh_dev s" "s_prev_keys (reset_scan s) = s_prev_keys s"
  "out (reset_scan s) = out s" "s_scan_dev_count (reset_scan s) = 0"
  by (simp_all add: reset_scan_def)

lemma fire_scan_updated_frame [frame_simps]:
  "s_cfg (fire_scan_updated s) = s_cfg s" "s_state (fire_scan_updated s) = s_state s"
  "s_hidh_dev (fire_scan_updated s) = s_hidh_dev s"
  "s_prev_keys (fire_scan_updated s) = s_prev_keys s"
  "s_scan_devs (fire_scan_updated s) = s_scan_devs s"
  "s_scan_dev_count (fire_scan_updated s) = s_scan_dev_count s"
  by (simp_all add: fire_scan_updated_def Let_def frame_simps)

section \<open>The invariant of the list\<close>

text \<open>
  The array keeps its eight entries, the count stays within it, no address is listed twice, an
  address has six bytes, a name has its 33 bytes and a NUL among them, and the
  entries past the count are zero.
\<close>

definition entry_ok :: "ble_kbd_scan_dev_t \<Rightarrow> bool" where
  "entry_ok dev \<longleftrightarrow> length (sd_addr dev) = 6 \<and> length (sd_name dev) = BLE_KBD_HOST_NAME_MAX_LEN + 1
                   \<and> 0 \<in> set (sd_name dev)"

definition scan_list_ok :: "kbd_vars \<Rightarrow> bool" where
  "scan_list_ok s \<longleftrightarrow>
     length (s_scan_devs s) = BLE_KBD_HOST_MAX_SCAN_DEVS
     \<and> s_scan_dev_count s \<le> BLE_KBD_HOST_MAX_SCAN_DEVS
     \<and> list_all entry_ok (s_scan_devs s)
     \<and> distinct (map sd_addr (take (s_scan_dev_count s) (s_scan_devs s)))
     \<and> drop (s_scan_dev_count s) (s_scan_devs s) =
         replicate (BLE_KBD_HOST_MAX_SCAN_DEVS - s_scan_dev_count s) scan_dev_zero"

text \<open>What the controller delivers: a six-byte address.\<close>

definition event_ok :: "ble_gap_scan_event \<Rightarrow> bool" where
  "event_ok e \<longleftrightarrow> (case e of BLE_GAP_EVENT_DISC d \<Rightarrow> length (dd_addr d) = 6 | BLE_GAP_EVENT_OTHER \<Rightarrow> True)"

lemma scan_list_ok_cong:
  "s_scan_devs s' = s_scan_devs s \<Longrightarrow> s_scan_dev_count s' = s_scan_dev_count s \<Longrightarrow>
   scan_list_ok s' = scan_list_ok s"
  by (simp add: scan_list_ok_def)

lemma entry_ok_zero: "entry_ok scan_dev_zero"
  by (simp add: entry_ok_def scan_dev_zero_def)

lemma reset_scan_ok [inv_intros]: "scan_list_ok (reset_scan s)"
  by (simp add: scan_list_ok_def reset_scan_def list_all_iff entry_ok_zero)

lemma kbd_vars_init_scan_ok [inv_intros]: "scan_list_ok (kbd_vars_init cfg)"
  by (simp add: scan_list_ok_def kbd_vars_init_def list_all_iff entry_ok_zero)

lemma find_addr_SomeD:
  "find_addr a s = Some i \<Longrightarrow> i < s_scan_dev_count s \<and> sd_addr (s_scan_devs s ! i) = a"
  by (auto simp: find_addr_def find_Some_iff)

lemma find_addr_None_iff:
  "s_scan_dev_count s \<le> length (s_scan_devs s) \<Longrightarrow>
   find_addr a s = None \<longleftrightarrow> a \<notin> set (map sd_addr (take (s_scan_dev_count s) (s_scan_devs s)))"
  by (auto simp: find_addr_def find_None_iff simp flip: nth_image)

lemma entry_ok_scan_entry:
  "entry_ok old \<Longrightarrow> length (dd_addr d) = 6 \<Longrightarrow> entry_ok (scan_entry d name old)"
  by (auto simp: entry_ok_def scan_entry_def Let_def hid_consts)

lemma map_addr_rssi:
  "i < length xs \<Longrightarrow> map sd_addr (xs[i := (xs ! i)\<lparr>sd_rssi := r\<rparr>]) = map sd_addr xs"
  by (simp add: map_update list_update_same_conv)

text \<open>The two updates, the refresh of an entry and the new entry, keep the invariant.\<close>

lemma refresh_ok:
  assumes "scan_list_ok s" and "i < s_scan_dev_count s"
  shows "scan_list_ok (s\<lparr>s_scan_devs := (s_scan_devs s)[i := (s_scan_devs s ! i)\<lparr>sd_rssi := r\<rparr>]\<rparr>)"
proof -
  have "i < length (s_scan_devs s)" using assms by (simp add: scan_list_ok_def)
  moreover have "entry_ok ((s_scan_devs s ! i)\<lparr>sd_rssi := r\<rparr>)"
    using assms by (auto simp: scan_list_ok_def list_all_length entry_ok_def)
  moreover have "map sd_addr (take (s_scan_dev_count s)
        ((s_scan_devs s)[i := (s_scan_devs s ! i)\<lparr>sd_rssi := r\<rparr>]))
      = map sd_addr (take (s_scan_dev_count s) (s_scan_devs s))"
    using calculation(1) by (simp only: map_addr_rssi flip: take_map)
  ultimately show ?thesis
    using assms by (simp add: scan_list_ok_def list_all_update)
qed

lemma append_entry_ok:
  assumes "scan_list_ok s" and "s_scan_dev_count s < BLE_KBD_HOST_MAX_SCAN_DEVS"
    and "find_addr (sd_addr dev) s = None" and "entry_ok dev"
  shows "scan_list_ok (s\<lparr>s_scan_devs := (s_scan_devs s)[s_scan_dev_count s := dev],
                          s_scan_dev_count := s_scan_dev_count s + 1\<rparr>)"
proof -
  have len: "s_scan_dev_count s < length (s_scan_devs s)" using assms by (simp add: scan_list_ok_def)
  then have "take (Suc (s_scan_dev_count s)) ((s_scan_devs s)[s_scan_dev_count s := dev])
      = take (s_scan_dev_count s) (s_scan_devs s) @ [dev]"
    by (simp add: take_Suc_conv_app_nth)
  moreover have "drop (Suc (s_scan_dev_count s)) (s_scan_devs s) =
      replicate (BLE_KBD_HOST_MAX_SCAN_DEVS - Suc (s_scan_dev_count s)) scan_dev_zero"
  proof -
    have "drop (Suc (s_scan_dev_count s)) (s_scan_devs s) = tl (drop (s_scan_dev_count s) (s_scan_devs s))"
      by (simp only: drop_Suc tl_drop)
    then show ?thesis using assms(1) by (simp add: scan_list_ok_def)
  qed
  moreover have "sd_addr dev \<notin> set (map sd_addr (take (s_scan_dev_count s) (s_scan_devs s)))"
    using assms(3) len find_addr_None_iff [of s "sd_addr dev"] by simp
  ultimately show ?thesis
    using assms len by (simp add: scan_list_ok_def list_all_update)
qed

lemma scan_entry_addr [simp]: "sd_addr (scan_entry d name old) = dd_addr d"
  by (simp add: scan_entry_def Let_def)

lemma scan_list_ok_entry: "scan_list_ok s \<Longrightarrow> i < BLE_KBD_HOST_MAX_SCAN_DEVS \<Longrightarrow> entry_ok (s_scan_devs s ! i)"
  by (simp add: scan_list_ok_def list_all_length)

lemma new_entry_ok:
  assumes "scan_list_ok s" and "s_scan_dev_count s < BLE_KBD_HOST_MAX_SCAN_DEVS"
    and "find_addr (dd_addr d) s = None" and "length (dd_addr d) = 6"
  shows "scan_list_ok (s\<lparr>s_scan_devs := (s_scan_devs s)[s_scan_dev_count s :=
            scan_entry d name (s_scan_devs s ! s_scan_dev_count s)],
            s_scan_dev_count := s_scan_dev_count s + 1\<rparr>)"
  using assms by (intro append_entry_ok) (auto intro: entry_ok_scan_entry scan_list_ok_entry)

lemma collect_scan_cb_ok [inv_intros]:
  assumes "scan_list_ok s" and "event_ok e"
  shows "scan_list_ok (collect_scan_cb parse e s)"
proof (cases e)
  case (BLE_GAP_EVENT_DISC d)
  have "length (dd_addr d) = 6" using assms BLE_GAP_EVENT_DISC by (simp add: event_ok_def)
  then show ?thesis
    using assms(1) refresh_ok [OF assms(1)] new_entry_ok [OF assms(1)] find_addr_SomeD
    by (simp add: collect_scan_cb_def BLE_GAP_EVENT_DISC split: option.split)
next
  case BLE_GAP_EVENT_OTHER
  then show ?thesis using assms by (simp add: collect_scan_cb_def)
qed

section \<open>What the list stands for\<close>

text \<open>
  The addresses on the list with their signal strength, in the order they were found. An accepted
  advertisement (connectable, parsed, named) updates the strength of a known address or, while there
  are fewer than eight, adds a new one at the end.
\<close>

definition seen :: "kbd_vars \<Rightarrow> (u8 list \<times> 8 word) list" where
  "seen s = map (\<lambda>d. (sd_addr d, sd_rssi d)) (take (s_scan_dev_count s) (s_scan_devs s))"

definition accepted :: "adv_parser \<Rightarrow> ble_gap_scan_event \<Rightarrow> (u8 list \<times> 8 word) option" where
  "accepted parse e =
     (case e of
        BLE_GAP_EVENT_OTHER \<Rightarrow> None
      | BLE_GAP_EVENT_DISC d \<Rightarrow>
          if dd_event_type d = BLE_HCI_ADV_RPT_EVTYPE_ADV_IND \<and> (\<exists>c cs. parse (dd_data d) = Some (c # cs))
          then Some (dd_addr d, dd_rssi d) else None)"

definition note_adv :: "(u8 list \<times> 8 word) option \<Rightarrow> (u8 list \<times> 8 word) list \<Rightarrow> (u8 list \<times> 8 word) list" where
  "note_adv a xs =
     (case a of
        None \<Rightarrow> xs
      | Some (addr, rssi) \<Rightarrow>
          if addr \<in> fst ` set xs \<or> length xs < 8 then AList.update addr rssi xs else xs)"

lemma update_at: "distinct (map fst xs) \<Longrightarrow> i < length xs \<Longrightarrow> fst (xs ! i) = a \<Longrightarrow>
  AList.update a r xs = xs[i := (a, r)]"
proof (induction xs arbitrary: i)
  case Nil
  then show ?case by simp
next
  case (Cons x xs)
  show ?case
  proof (cases i)
    case 0
    then show ?thesis using Cons by (cases x) simp
  next
    case (Suc j)
    have "fst (xs ! j) \<in> fst ` set xs" using Cons.prems Suc by (intro imageI nth_mem) simp
    then have "fst x \<noteq> a" using Cons.prems Suc by auto
    then show ?thesis using Cons Suc by (cases x) auto
  qed
qed

lemma update_new: "a \<notin> fst ` set xs \<Longrightarrow> AList.update a r xs = xs @ [(a, r)]"
  by (induction xs) auto

lemma map_fst_seen: "map fst (seen s) = map sd_addr (take (s_scan_dev_count s) (s_scan_devs s))"
  by (simp add: seen_def comp_def)

lemma length_seen: "scan_list_ok s \<Longrightarrow> length (seen s) = s_scan_dev_count s"
  by (simp add: seen_def scan_list_ok_def)

lemma seen_refresh:
  assumes "scan_list_ok s" and "find_addr a s = Some i"
  shows "seen (s\<lparr>s_scan_devs := (s_scan_devs s)[i := (s_scan_devs s ! i)\<lparr>sd_rssi := r\<rparr>]\<rparr>)
       = AList.update a r (seen s)"
proof -
  have i: "i < s_scan_dev_count s" "sd_addr (s_scan_devs s ! i) = a"
    using find_addr_SomeD [OF assms(2)] by simp_all
  then have len: "i < length (seen s)" using assms(1) by (simp add: length_seen)
  have "distinct (map fst (seen s))" using assms(1) by (simp add: map_fst_seen scan_list_ok_def)
  moreover have "fst (seen s ! i) = a" using i len by (simp add: seen_def)
  ultimately have "AList.update a r (seen s) = (seen s)[i := (a, r)]" using len by (simp add: update_at)
  then show ?thesis using i by (simp add: seen_def take_update_swap map_update)
qed

lemma seen_append:
  assumes "scan_list_ok s" and "s_scan_dev_count s < BLE_KBD_HOST_MAX_SCAN_DEVS"
  shows "seen (s\<lparr>s_scan_devs := (s_scan_devs s)[s_scan_dev_count s := d],
                 s_scan_dev_count := s_scan_dev_count s + 1\<rparr>) = seen s @ [(sd_addr d, sd_rssi d)]"
  using assms by (simp add: seen_def scan_list_ok_def take_Suc_conv_app_nth)

lemma scan_entry_rssi [simp]: "sd_rssi (scan_entry d name old) = dd_rssi d"
  by (simp add: scan_entry_def Let_def)

lemma collect_refines:
  assumes "scan_list_ok s"
  shows "seen (collect_scan_cb parse e s) = note_adv (accepted parse e) (seen s)"
proof (cases e)
  case BLE_GAP_EVENT_OTHER
  then show ?thesis by (simp add: collect_scan_cb_def accepted_def note_adv_def)
next
  case (BLE_GAP_EVENT_DISC d)
  show ?thesis
  proof (cases "accepted parse e")
    case None
    then show ?thesis
      using BLE_GAP_EVENT_DISC
      by (auto simp: collect_scan_cb_def accepted_def note_adv_def neq_Nil_conv split: if_splits option.split)
  next
    case (Some ar)
    then obtain name where acc: "dd_event_type d = BLE_HCI_ADV_RPT_EVTYPE_ADV_IND"
      "parse (dd_data d) = Some name" "name \<noteq> []" "ar = (dd_addr d, dd_rssi d)"
      using BLE_GAP_EVENT_DISC by (auto simp: accepted_def split: if_splits)
    have known: "find_addr (dd_addr d) s = None \<longleftrightarrow> dd_addr d \<notin> fst ` set (seen s)"
      using find_addr_None_iff [of s "dd_addr d"] assms map_fst_seen [of s]
      by (metis image_set scan_list_ok_def)
    show ?thesis
    proof (cases "find_addr (dd_addr d) s")
      case (Some i)
      then show ?thesis
        using BLE_GAP_EVENT_DISC acc \<open>accepted parse e = Some ar\<close> known seen_refresh [OF assms Some]
        by (simp add: collect_scan_cb_def note_adv_def)
    next
      case None
      then show ?thesis
        using BLE_GAP_EVENT_DISC acc \<open>accepted parse e = Some ar\<close> known
          seen_append [OF assms, of "scan_entry d name (s_scan_devs s ! s_scan_dev_count s)"]
        by (simp add: collect_scan_cb_def note_adv_def length_seen [OF assms] update_new hid_consts)
    qed
  qed
qed

text \<open>
  C18: Collecting advertisements refines the list of the first eight named connectable devices, each
  with its latest signal strength: for every history of advertisements after a reset.
\<close>

theorem scan_history_refines:
  assumes "list_all event_ok es"
  shows "seen (fold (collect_scan_cb parse) es (reset_scan s)) = fold (\<lambda>e. note_adv (accepted parse e)) es []"
proof -
  have "scan_list_ok t \<Longrightarrow> list_all event_ok es \<Longrightarrow>
      seen (fold (collect_scan_cb parse) es t) = fold (\<lambda>e. note_adv (accepted parse e)) es (seen t)" for t
    by (induction es arbitrary: t) (auto simp: collect_refines collect_scan_cb_ok)
  moreover have "seen (reset_scan s) = []" by (simp add: seen_def reset_scan_def)
  ultimately show ?thesis using assms reset_scan_ok by metis
qed

definition sample_vars :: kbd_vars where
  "sample_vars = kbd_vars_init \<lparr>cfg_callbacks = \<lparr>cb_on_key = True, cb_on_status = True,
     cb_on_passkey = True, cb_on_scan_updated = True\<rparr>, cfg_force_repair = False, cfg_task_stack = 0,
     cfg_task_priority = 0, cfg_reconnect_interval_ms = 0, cfg_scan_timeout_ms = 0\<rparr>"

theorem scan_history_refines_witness:
  "seen (fold (collect_scan_cb Some)
     [BLE_GAP_EVENT_DISC \<lparr>dd_event_type = 0, dd_data = [75], dd_addr = [1, 2, 3, 4, 5, 6], dd_addr_type = 0, dd_rssi = 9\<rparr>,
      BLE_GAP_EVENT_DISC \<lparr>dd_event_type = 0, dd_data = [75], dd_addr = [1, 2, 3, 4, 5, 6], dd_addr_type = 0, dd_rssi = 7\<rparr>]
     (reset_scan sample_vars)) = [([1, 2, 3, 4, 5, 6], 7)]"
  by (subst scan_history_refines) (simp_all add: event_ok_def accepted_def note_adv_def hid_consts)

end
