(* ===== verification/KbdTask.thy ===== *)
theory KbdTask
  imports KbdKeys KbdScan
begin

text \<open>
  The state machine of \<open>src/bt_kbd.c\<close>: \<open>wait_for_start_pairing\<close>, \<open>hidh_cb\<close>, \<open>try_bonded_reconnect\<close>,
  \<open>kbd_main_task\<close> and the public API, as steps of a machine. The kernel (queue, semaphores, clock),
  the BLE stack and the HID host below are not part of this file: their operations are the fields of
  \<open>kbd_os\<close>, functions on a world \<open>'w\<close> nothing is known about, so what is proved holds for every
  result they can return. A call that blocks is one step, taken when the call returns; the other
  tasks (HID events, advertisements, calls of the API) take their steps before it.

  A program point \<open>kbd_pc\<close> stands for the place of the task between two such calls and carries the
  local variables that are alive there.
\<close>

section \<open>The world outside the module\<close>

datatype kbd_sem = s_connected_sem | s_disconnected_sem | s_open_done_sem

datatype store_obj = BLE_STORE_OBJ_TYPE_PEER_SEC | BLE_STORE_OBJ_TYPE_OUR_SEC

text \<open>
  The fields return the result of the call and the world after it; \<open>os_store_count\<close> gives the return
  code and the counter the call left behind, \<open>os_read_peer_sec\<close> the address and its type of the first
  bonded peer, or \<open>None\<close> for an error.
\<close>

record 'w kbd_os =
  os_queue_send :: "kbd_cmd_t \<Rightarrow> u32 \<Rightarrow> 'w \<Rightarrow> bool \<times> 'w"
  os_queue_receive :: "u32 \<Rightarrow> 'w \<Rightarrow> kbd_cmd_t option \<times> 'w"
  os_queue_peek :: "u32 \<Rightarrow> 'w \<Rightarrow> kbd_cmd_t option \<times> 'w"
  os_sem_take :: "kbd_sem \<Rightarrow> u32 \<Rightarrow> 'w \<Rightarrow> bool \<times> 'w"
  os_sem_give :: "kbd_sem \<Rightarrow> 'w \<Rightarrow> 'w"
  os_tick_count :: "'w \<Rightarrow> u32 \<times> 'w"
  os_delay :: "u32 \<Rightarrow> 'w \<Rightarrow> 'w"
  os_ms_to_ticks :: "u32 \<Rightarrow> u32"
  os_ticks_to_ms :: "u32 \<Rightarrow> u32"
  os_store_count :: "store_obj \<Rightarrow> 'w \<Rightarrow> (int \<times> int) \<times> 'w"
  os_store_clear :: "'w \<Rightarrow> 'w"
  os_read_peer_sec :: "'w \<Rightarrow> (u8 list \<times> u8) option \<times> 'w"
  os_gap_disc :: "'w \<Rightarrow> int \<times> 'w"
  os_gap_disc_cancel :: "'w \<Rightarrow> 'w"
  os_gap_conn_cancel :: "'w \<Rightarrow> 'w"
  os_gap_update_params :: "u16 \<Rightarrow> 'w \<Rightarrow> 'w"
  os_dev_open :: "u8 list \<Rightarrow> u8 \<Rightarrow> 'w \<Rightarrow> 'w"
  os_dev_reconnect :: "nat \<Rightarrow> 'w \<Rightarrow> nat option \<times> 'w"
  os_dev_close :: "nat \<Rightarrow> 'w \<Rightarrow> 'w"

definition BLE_ADDR_PUBLIC :: u8 where [hid_consts]: "BLE_ADDR_PUBLIC = 0"
definition BLE_ADDR_RANDOM :: u8 where [hid_consts]: "BLE_ADDR_RANDOM = 1"
definition BLE_ADDR_PUBLIC_ID :: u8 where [hid_consts]: "BLE_ADDR_PUBLIC_ID = 2"
definition BLE_ADDR_RANDOM_ID :: u8 where [hid_consts]: "BLE_ADDR_RANDOM_ID = 3"

section \<open>Program points and states\<close>

datatype wait_site = BeforeAttempt | AfterAttempt

datatype kbd_pc =
    Top
  | WaitEnter wait_site
  | WaitLoop wait_site u32
  | Attempt
  | ReconnectLoop u32
  | ReconnectDone
  | DoPair
  | RestartScan
  | ScanUpdate u32 u32
  | ScanReceive u32 u32
  | ScanTimeout u32 u32
  | Selected nat
  | ConnectLoop u32
  | ConnectDone
  | ConnectFailed
  | Connected
  | ConnectedLoop
  | Disconnected

record 'w kbd_sys =
  sys_vars :: kbd_vars
  sys_pc :: kbd_pc
  sys_w :: 'w

definition goto :: "kbd_pc \<Rightarrow> 'w kbd_sys \<Rightarrow> 'w kbd_sys" where
  "goto l s = s\<lparr>sys_pc := l\<rparr>"

definition on_vars :: "(kbd_vars \<Rightarrow> kbd_vars) \<Rightarrow> 'w kbd_sys \<Rightarrow> 'w kbd_sys" where
  "on_vars f s = s\<lparr>sys_vars := f (sys_vars s)\<rparr>"

definition on_w :: "('w \<Rightarrow> 'w) \<Rightarrow> 'w kbd_sys \<Rightarrow> 'w kbd_sys" where
  "on_w f s = s\<lparr>sys_w := f (sys_w s)\<rparr>"

lemma sys_simps [simp]:
  "sys_vars (goto l s) = sys_vars s" "sys_pc (goto l s) = l" "sys_w (goto l s) = sys_w s"
  "sys_vars (on_vars f s) = f (sys_vars s)" "sys_pc (on_vars f s) = sys_pc s"
  "sys_w (on_vars f s) = sys_w s" "sys_vars (on_w g s) = sys_vars s" "sys_pc (on_w g s) = sys_pc s"
  "sys_w (on_w g s) = g (sys_w s)"
  by (simp_all add: goto_def on_vars_def on_w_def)

section \<open>Waiting for a re-pair command\<close>

text \<open>The length of a wait: \<open>wait_for_start_pairing (0)\<close> or \<open>wait_for_start_pairing (reconnect_ms)\<close>.\<close>

definition reconnect_ms :: "ble_kbd_host_config_t \<Rightarrow> u32" where
  "reconnect_ms cfg = (if nz (cfg_reconnect_interval_ms cfg) then cfg_reconnect_interval_ms cfg
                       else CONFIG_BLE_KBD_HOST_RECONNECT_INTERVAL_MS)"

definition scan_timeout_ms :: "ble_kbd_host_config_t \<Rightarrow> u32" where
  "scan_timeout_ms cfg = (if nz (cfg_scan_timeout_ms cfg) then cfg_scan_timeout_ms cfg
                          else CONFIG_BLE_KBD_HOST_SCAN_TIMEOUT_MS)"

definition wait_ms :: "wait_site \<Rightarrow> ble_kbd_host_config_t \<Rightarrow> u32" where
  "wait_ms site cfg = (case site of BeforeAttempt \<Rightarrow> 0 | AfterAttempt \<Rightarrow> reconnect_ms cfg)"

text \<open>Lines 92 to 105, one round of the loop: \<open>None\<close> to go on, \<open>Some b\<close> to return \<open>b\<close>.\<close>

definition wait_round :: "'w kbd_os \<Rightarrow> u32 \<Rightarrow> 'w \<Rightarrow> bool option \<times> 'w" where
  "wait_round os deadline w =
     (let (now, w) = os_tick_count os w;
          remain = (if now < deadline then deadline - now else 0);
          slice = (if remain > os_ms_to_ticks os 100 then os_ms_to_ticks os 100 else remain);
          (r, w) = os_queue_receive os slice w
      in case r of
           Some cmd \<Rightarrow> (if cmd_type cmd = CMD_START_PAIRING then (Some True, w) else (None, w))
         | None \<Rightarrow> (if remain = 0 then (Some False, w) else (None, w)))"

text \<open>The whole function; \<open>None\<close> when the loop never ends.\<close>

partial_function (option) wait_loop :: "'w kbd_os \<Rightarrow> u32 \<Rightarrow> 'w \<Rightarrow> (bool \<times> 'w) option" where
  "wait_loop os deadline w =
     (case wait_round os deadline w of
        (Some b, w') \<Rightarrow> Some (b, w')
      | (None, w') \<Rightarrow> wait_loop os deadline w')"

definition wait_for_start_pairing :: "'w kbd_os \<Rightarrow> u32 \<Rightarrow> 'w \<Rightarrow> (bool \<times> 'w) option" where
  "wait_for_start_pairing os ms w =
     (let (now, w) = os_tick_count os w in wait_loop os (now + os_ms_to_ticks os ms) w)"

definition step_wait_enter :: "'w kbd_os \<Rightarrow> wait_site \<Rightarrow> 'w kbd_sys \<Rightarrow> 'w kbd_sys" where
  "step_wait_enter os site s =
     (let (now, w) = os_tick_count os (sys_w s)
      in goto (WaitLoop site (now + os_ms_to_ticks os (wait_ms site (s_cfg (sys_vars s)))))
           (s\<lparr>sys_w := w\<rparr>))"

text \<open>Lines 395 and 410: where the task goes when the wait returns.\<close>

definition step_wait_loop :: "'w kbd_os \<Rightarrow> wait_site \<Rightarrow> u32 \<Rightarrow> 'w kbd_sys \<Rightarrow> 'w kbd_sys" where
  "step_wait_loop os site deadline s =
     (case wait_round os deadline (sys_w s) of
        (None, w) \<Rightarrow> s\<lparr>sys_w := w\<rparr>
      | (Some True, w) \<Rightarrow> goto DoPair (s\<lparr>sys_w := w\<rparr>)
      | (Some False, w) \<Rightarrow>
          goto (case site of BeforeAttempt \<Rightarrow> Attempt | AfterAttempt \<Rightarrow> WaitEnter BeforeAttempt)
            (s\<lparr>sys_w := w\<rparr>))"

section \<open>HID host events\<close>

datatype hidh_event =
    ESP_HIDH_OPEN_EVENT int nat u16
  | ESP_HIDH_INPUT_EVENT esp_hid_usage_t "u8 list"
  | ESP_HIDH_CLOSE_EVENT
  | ESP_HIDH_OTHER_EVENT

definition ESP_OK :: int where [hid_consts]: "ESP_OK = 0"

text \<open>
  An open event carries its status, the device and the connection handle found in the device.
\<close>

definition hidh_cb :: "'w kbd_os \<Rightarrow> hidh_event \<Rightarrow> 'w kbd_sys \<Rightarrow> 'w kbd_sys" where
  "hidh_cb os event s =
     (case event of
        ESP_HIDH_OPEN_EVENT status dev conn_id \<Rightarrow>
          let s = (if status = ESP_OK
                   then on_w (os_sem_give os s_connected_sem)
                          (on_w (os_gap_update_params os conn_id)
                            (on_vars (\<lambda>v. v\<lparr>s_hidh_dev := Some dev\<rparr>) s))
                   else s)
          in on_w (os_sem_give os s_open_done_sem) s
      | ESP_HIDH_INPUT_EVENT usage data \<Rightarrow>
          if usage = ESP_HID_USAGE_KEYBOARD then on_vars (translate_report data) s else s
      | ESP_HIDH_CLOSE_EVENT \<Rightarrow>
          on_w (os_sem_give os s_disconnected_sem)
            (on_w (\<lambda>w. snd (os_sem_take os s_connected_sem 0 w)) s)
      | ESP_HIDH_OTHER_EVENT \<Rightarrow> s)"

section \<open>Reconnecting\<close>

text \<open>Lines 385 to 391.\<close>

definition step_top :: "'w kbd_os \<Rightarrow> 'w kbd_sys \<Rightarrow> 'w kbd_sys" where
  "step_top os s =
     (let ((rc, bond_count), w) = os_store_count os BLE_STORE_OBJ_TYPE_OUR_SEC (sys_w s);
          s = s\<lparr>sys_w := w\<rparr>
      in if \<not> cfg_force_repair (s_cfg (sys_vars s)) \<and> bond_count > 0
         then goto (WaitEnter BeforeAttempt)
                (on_vars (set_state BLE_KBD_STATE_RECONNECTING
                   (str_bytes ''Reconnecting...'') (str_bytes ''Hold BOOT 2s to re-pair'')) s)
         else goto DoPair s)"

text \<open>Lines 338 to 340: the identity type of an address type.\<close>

definition identity_type :: "u8 \<Rightarrow> u8" where
  "identity_type addr_type =
     (if addr_type = BLE_ADDR_PUBLIC then BLE_ADDR_PUBLIC_ID
      else if addr_type = BLE_ADDR_RANDOM then BLE_ADDR_RANDOM_ID
      else addr_type)"

text \<open>
  Lines 397 to 407 with lines 318 to 346 of \<open>try_bonded_reconnect\<close>: the light reconnect of a known
  device, or the start of an open of the first bonded peer.
\<close>

definition step_attempt :: "'w kbd_os \<Rightarrow> 'w kbd_sys \<Rightarrow> 'w kbd_sys" where
  "step_attempt os s =
     (case s_hidh_dev (sys_vars s) of
        Some d \<Rightarrow>
          let (dev, w) = os_dev_reconnect os d (sys_w s)
          in goto (if dev \<noteq> None then Connected else WaitEnter AfterAttempt) (s\<lparr>sys_w := w\<rparr>)
      | None \<Rightarrow>
          let ((rc, bond_count), w) = os_store_count os BLE_STORE_OBJ_TYPE_PEER_SEC (sys_w s)
          in if rc \<noteq> 0 \<or> bond_count = 0 then goto (WaitEnter AfterAttempt) (s\<lparr>sys_w := w\<rparr>)
             else case os_read_peer_sec os w of
               (None, w) \<Rightarrow> goto (WaitEnter AfterAttempt) (s\<lparr>sys_w := w\<rparr>)
             | (Some (addr, addr_type), w) \<Rightarrow>
                 let w = snd (os_sem_take os s_open_done_sem 0 w);
                     w = os_dev_open os addr (identity_type addr_type) w;
                     (now, w) = os_tick_count os w
                 in goto (ReconnectLoop (now + os_ms_to_ticks os 15000)) (s\<lparr>sys_w := w\<rparr>))"

text \<open>Lines 347 to 357, one round of the loop.\<close>

definition step_reconnect_loop :: "'w kbd_os \<Rightarrow> u32 \<Rightarrow> 'w kbd_sys \<Rightarrow> 'w kbd_sys" where
  "step_reconnect_loop os deadline s =
     (let (now, w) = os_tick_count os (sys_w s)
      in if now < deadline
         then let (taken, w) = os_sem_take os s_open_done_sem (os_ms_to_ticks os 100) w
              in if taken then goto ReconnectDone (s\<lparr>sys_w := w\<rparr>)
                 else let (r, w) = os_queue_peek os 0 w
                      in case r of
                           Some cmd \<Rightarrow>
                             if cmd_type cmd = CMD_START_PAIRING
                             then goto (WaitEnter AfterAttempt) (s\<lparr>sys_w := os_gap_conn_cancel os w\<rparr>)
                             else s\<lparr>sys_w := w\<rparr>
                         | None \<Rightarrow> s\<lparr>sys_w := w\<rparr>
         else goto ReconnectDone (s\<lparr>sys_w := w\<rparr>))"

text \<open>Lines 359 to 366 and line 407.\<close>

definition step_reconnect_done :: "'w kbd_os \<Rightarrow> 'w kbd_sys \<Rightarrow> 'w kbd_sys" where
  "step_reconnect_done os s =
     (let (taken, w) = os_sem_take os s_connected_sem 0 (sys_w s)
      in if taken then goto Connected (s\<lparr>sys_w := os_sem_give os s_connected_sem w\<rparr>)
         else goto (WaitEnter AfterAttempt) (s\<lparr>sys_w := os_gap_conn_cancel os w\<rparr>))"

section \<open>Pairing and scanning\<close>

text \<open>Lines 420 to 430.\<close>

definition step_do_pair :: "'w kbd_os \<Rightarrow> 'w kbd_sys \<Rightarrow> 'w kbd_sys" where
  "step_do_pair os s =
     goto RestartScan
       (on_vars (\<lambda>v. set_state BLE_KBD_STATE_SCANNING
                       (str_bytes ''BT Keyboard Setup'') (str_bytes ''Select a device'')
                       (reset_scan (v\<lparr>s_cfg := (s_cfg v)\<lparr>cfg_force_repair := False\<rparr>,
                                      s_hidh_dev := None\<rparr>)))
         (on_w (os_store_clear os) s))"

text \<open>Lines 432 to 451.\<close>

definition step_restart_scan :: "'w kbd_os \<Rightarrow> 'w kbd_sys \<Rightarrow> 'w kbd_sys" where
  "step_restart_scan os s =
     (let (scan_rc, w) = os_gap_disc os (sys_w s)
      in if scan_rc \<noteq> 0
         then s\<lparr>sys_w := os_delay os (os_ms_to_ticks os 1000) w\<rparr>
         else let (scan_start, w) = os_tick_count os w
              in goto (ScanUpdate scan_start 0) (s\<lparr>sys_w := w\<rparr>))"

text \<open>Lines 454 to 469.\<close>

definition step_scan_update :: "'w kbd_os \<Rightarrow> u32 \<Rightarrow> u32 \<Rightarrow> 'w kbd_sys \<Rightarrow> 'w kbd_sys" where
  "step_scan_update os scan_start last_update s =
     (let (now, w) = os_tick_count os (sys_w s);
          s = s\<lparr>sys_w := w\<rparr>
      in if os_ticks_to_ms os (now - last_update) \<ge> 500
         then goto (ScanReceive scan_start now) (on_vars fire_scan_updated s)
         else goto (ScanReceive scan_start last_update) s)"

text \<open>Lines 472 to 494.\<close>

definition step_scan_receive :: "'w kbd_os \<Rightarrow> u32 \<Rightarrow> u32 \<Rightarrow> 'w kbd_sys \<Rightarrow> 'w kbd_sys" where
  "step_scan_receive os scan_start last_update s =
     (let (r, w) = os_queue_receive os (os_ms_to_ticks os 100) (sys_w s);
          s = s\<lparr>sys_w := w\<rparr>
      in case r of
           None \<Rightarrow> goto (ScanTimeout scan_start last_update) s
         | Some cmd \<Rightarrow>
             (case cmd_type cmd of
                CMD_START_PAIRING \<Rightarrow>
                  goto RestartScan
                    (on_w (os_store_clear os) (on_vars reset_scan (on_w (os_gap_disc_cancel os) s)))
              | CMD_SELECT_DEVICE \<Rightarrow>
                  if index_valid (cmd_param cmd) (sys_vars s)
                  then goto (Selected (nat (cmd_param cmd))) s
                  else goto (ScanTimeout scan_start last_update) s))"

text \<open>Lines 497 to 513.\<close>

definition step_scan_timeout :: "'w kbd_os \<Rightarrow> u32 \<Rightarrow> u32 \<Rightarrow> 'w kbd_sys \<Rightarrow> 'w kbd_sys" where
  "step_scan_timeout os scan_start last_update s =
     (let cnt = s_scan_dev_count (sys_vars s);
          (now, w) = os_tick_count os (sys_w s);
          s = s\<lparr>sys_w := w\<rparr>;
          elapsed = os_ticks_to_ms os (now - scan_start)
      in if cnt = 0 \<and> elapsed > scan_timeout_ms (s_cfg (sys_vars s))
         then goto RestartScan
                (on_vars reset_scan
                  (on_w (os_delay os (os_ms_to_ticks os 3000))
                    (on_vars (on_status BLE_KBD_STATE_SCANNING
                       (str_bytes ''Put keyboard in'') (str_bytes ''pairing mode''))
                      (on_w (os_gap_disc_cancel os) s))))
         else goto (ScanUpdate scan_start last_update) s)"

section \<open>Connecting\<close>

text \<open>Lines 517 to 532: stop the scan, read the selected entry, open it.\<close>

definition step_selected :: "'w kbd_os \<Rightarrow> nat \<Rightarrow> 'w kbd_sys \<Rightarrow> 'w kbd_sys" where
  "step_selected os selected s =
     (let s = on_w (os_delay os (os_ms_to_ticks os 300)) (on_w (os_gap_disc_cancel os) s);
          sel = s_scan_devs (sys_vars s) ! selected;
          s = on_vars (set_state BLE_KBD_STATE_CONNECTING (c_str (sd_name sel))
                         (str_bytes ''Connecting...'')) s;
          s = on_w (\<lambda>w. snd (os_sem_take os s_open_done_sem 0 w)) s;
          s = on_w (os_dev_open os (sd_addr sel) (sd_addr_type sel)) s;
          (now, w) = os_tick_count os (sys_w s)
      in goto (ConnectLoop (now + os_ms_to_ticks os 60000)) (s\<lparr>sys_w := w\<rparr>))"

text \<open>Lines 533 to 544, one round of the loop.\<close>

definition step_connect_loop :: "'w kbd_os \<Rightarrow> u32 \<Rightarrow> 'w kbd_sys \<Rightarrow> 'w kbd_sys" where
  "step_connect_loop os deadline s =
     (let (now, w) = os_tick_count os (sys_w s)
      in if now < deadline
         then let (taken, w) = os_sem_take os s_open_done_sem (os_ms_to_ticks os 100) w
              in if taken then goto ConnectDone (s\<lparr>sys_w := w\<rparr>)
                 else let (r, w) = os_queue_peek os 0 w
                      in case r of
                           Some cmd \<Rightarrow>
                             if cmd_type cmd = CMD_START_PAIRING
                             then let w = snd (os_queue_receive os 0 w);
                                      w = os_gap_conn_cancel os w;
                                      w = snd (os_sem_take os s_open_done_sem (os_ms_to_ticks os 2000) w)
                                  in goto DoPair (s\<lparr>sys_w := w\<rparr>)
                             else s\<lparr>sys_w := w\<rparr>
                         | None \<Rightarrow> s\<lparr>sys_w := w\<rparr>
         else goto ConnectDone (s\<lparr>sys_w := w\<rparr>))"

text \<open>Lines 545 to 555.\<close>

definition step_connect_done :: "'w kbd_os \<Rightarrow> 'w kbd_sys \<Rightarrow> 'w kbd_sys" where
  "step_connect_done os s =
     (let (taken, w) = os_sem_take os s_connected_sem 0 (sys_w s)
      in if taken then goto Connected (s\<lparr>sys_w := os_sem_give os s_connected_sem w\<rparr>)
         else goto ConnectFailed
                (on_vars (on_status BLE_KBD_STATE_SCANNING
                   (str_bytes ''Connection failed'') (str_bytes ''try again'')) (s\<lparr>sys_w := w\<rparr>)))"

text \<open>Lines 556 and 557.\<close>

definition step_connect_failed :: "'w kbd_os \<Rightarrow> 'w kbd_sys \<Rightarrow> 'w kbd_sys" where
  "step_connect_failed os s = goto DoPair (on_w (os_delay os (os_ms_to_ticks os 1000)) s)"

section \<open>Connected\<close>

text \<open>Lines 564 to 568.\<close>

definition step_connected :: "'w kbd_sys \<Rightarrow> 'w kbd_sys" where
  "step_connected s =
     goto ConnectedLoop
       (on_vars (\<lambda>v. emit_key 0
                       ((set_state BLE_KBD_STATE_CONNECTED (str_bytes ''Keyboard connected!'') [] v)
                          \<lparr>s_prev_keys := replicate 6 0\<rparr>)) s)"

text \<open>Lines 574 to 588, one round of the loop.\<close>

definition step_connected_loop :: "'w kbd_os \<Rightarrow> 'w kbd_sys \<Rightarrow> 'w kbd_sys" where
  "step_connected_loop os s =
     (let (taken, w) = os_sem_take os s_disconnected_sem (os_ms_to_ticks os 100) (sys_w s)
      in if taken then goto Disconnected (s\<lparr>sys_w := w\<rparr>)
         else let (r, w) = os_queue_peek os 0 w
              in case r of
                   Some cmd \<Rightarrow>
                     if cmd_type cmd = CMD_START_PAIRING
                     then let w = snd (os_queue_receive os 0 w);
                              w = (case s_hidh_dev (sys_vars s) of
                                     Some d \<Rightarrow> snd (os_sem_take os s_disconnected_sem
                                                     (os_ms_to_ticks os 2000) (os_dev_close os d w))
                                   | None \<Rightarrow> w)
                          in goto DoPair (s\<lparr>sys_w := w\<rparr>)
                     else s\<lparr>sys_w := w\<rparr>
                 | None \<Rightarrow> s\<lparr>sys_w := w\<rparr>)"

text \<open>Lines 590 to 594.\<close>

definition step_disconnected :: "'w kbd_os \<Rightarrow> 'w kbd_sys \<Rightarrow> 'w kbd_sys" where
  "step_disconnected os s =
     goto Top
       (on_w (os_delay os (os_ms_to_ticks os 300))
         (on_vars (set_state BLE_KBD_STATE_RECONNECTING
            (str_bytes ''Keyboard disconnected'') (str_bytes ''Hold BOOT 2s to re-pair'')) s))"

section \<open>The task\<close>

definition kbd_main_task :: "'w kbd_os \<Rightarrow> 'w kbd_sys \<Rightarrow> 'w kbd_sys" where
  "kbd_main_task os s =
     (case sys_pc s of
        Top \<Rightarrow> step_top os s
      | WaitEnter site \<Rightarrow> step_wait_enter os site s
      | WaitLoop site deadline \<Rightarrow> step_wait_loop os site deadline s
      | Attempt \<Rightarrow> step_attempt os s
      | ReconnectLoop deadline \<Rightarrow> step_reconnect_loop os deadline s
      | ReconnectDone \<Rightarrow> step_reconnect_done os s
      | DoPair \<Rightarrow> step_do_pair os s
      | RestartScan \<Rightarrow> step_restart_scan os s
      | ScanUpdate scan_start last_update \<Rightarrow> step_scan_update os scan_start last_update s
      | ScanReceive scan_start last_update \<Rightarrow> step_scan_receive os scan_start last_update s
      | ScanTimeout scan_start last_update \<Rightarrow> step_scan_timeout os scan_start last_update s
      | Selected selected \<Rightarrow> step_selected os selected s
      | ConnectLoop deadline \<Rightarrow> step_connect_loop os deadline s
      | ConnectDone \<Rightarrow> step_connect_done os s
      | ConnectFailed \<Rightarrow> step_connect_failed os s
      | Connected \<Rightarrow> step_connected s
      | ConnectedLoop \<Rightarrow> step_connected_loop os s
      | Disconnected \<Rightarrow> step_disconnected os s)"

section \<open>The public API\<close>

definition ble_kbd_host_start_pairing :: "'w kbd_os \<Rightarrow> 'w kbd_sys \<Rightarrow> 'w kbd_sys" where
  "ble_kbd_host_start_pairing os =
     on_w (\<lambda>w. snd (os_queue_send os \<lparr>cmd_type = CMD_START_PAIRING, cmd_param = 0\<rparr>
                      (os_ms_to_ticks os 10) w))"

definition ble_kbd_host_select_device :: "'w kbd_os \<Rightarrow> int \<Rightarrow> 'w kbd_sys \<Rightarrow> 'w kbd_sys" where
  "ble_kbd_host_select_device os index =
     on_w (\<lambda>w. snd (os_queue_send os \<lparr>cmd_type = CMD_SELECT_DEVICE, cmd_param = index\<rparr>
                      (os_ms_to_ticks os 10) w))"

definition ble_kbd_host_is_connected :: "'w kbd_sys \<Rightarrow> bool" where
  "ble_kbd_host_is_connected s \<longleftrightarrow> s_state (sys_vars s) = BLE_KBD_STATE_CONNECTED"

definition ble_kbd_host_get_state :: "'w kbd_sys \<Rightarrow> ble_kbd_state_t" where
  "ble_kbd_host_get_state s = s_state (sys_vars s)"

section \<open>The whole module, with the other tasks\<close>

inductive kbd_step :: "'w kbd_os \<Rightarrow> adv_parser \<Rightarrow> 'w kbd_sys \<Rightarrow> 'w kbd_sys \<Rightarrow> bool"
  for os :: "'w kbd_os" and parse :: adv_parser where
  task: "kbd_step os parse s (kbd_main_task os s)"
| hid_event: "kbd_step os parse s (hidh_cb os e s)"
| advertisement: "event_ok a \<Longrightarrow> kbd_step os parse s (on_vars (collect_scan_cb parse a) s)"
| passkey: "kbd_step os parse s (on_vars (show_passkey key) s)"
| start_pairing: "kbd_step os parse s (ble_kbd_host_start_pairing os s)"
| select_device: "kbd_step os parse s (ble_kbd_host_select_device os i s)"

inductive_cases kbd_stepE: "kbd_step os parse s s'"

text \<open>The module right after \<open>xTaskCreate\<close>.\<close>

definition kbd_start :: "ble_kbd_host_config_t \<Rightarrow> 'w \<Rightarrow> 'w kbd_sys" where
  "kbd_start cfg w = \<lparr>sys_vars = kbd_vars_init cfg, sys_pc = Top, sys_w = w\<rparr>"

inductive kbd_reachable :: "'w kbd_os \<Rightarrow> adv_parser \<Rightarrow> ble_kbd_host_config_t \<Rightarrow> 'w kbd_sys \<Rightarrow> bool"
  for os :: "'w kbd_os" and parse :: adv_parser and cfg :: ble_kbd_host_config_t where
  start: "kbd_reachable os parse cfg (kbd_start cfg w)"
| step: "kbd_reachable os parse cfg s \<Longrightarrow> kbd_step os parse s s' \<Longrightarrow> kbd_reachable os parse cfg s'"

end
