(* ===== verification/KbdTaskInv.thy ===== *)
theory KbdTaskInv
  imports KbdTask
begin

text \<open>
  Invariants of the keyboard host under every interleaving of its task with HID events,
  advertisements and API calls, and for every behaviour of the kernel and the stack. The locale
  \<open>kbd_invariant\<close> is the rule: what holds at the start and is kept by every step holds in every
  reachable state; each invariant is an interpretation of it.
\<close>

section \<open>Invariants of reachable states\<close>

locale kbd_invariant =
  fixes os :: "'w kbd_os" and parse :: adv_parser and cfg :: ble_kbd_host_config_t
    and I :: "'w kbd_sys \<Rightarrow> bool"
  assumes start_inv: "I (kbd_start cfg w)"
    and step_inv: "I s \<Longrightarrow> kbd_step os parse s s' \<Longrightarrow> I s'"
begin

lemma reachable_inv: "kbd_reachable os parse cfg s \<Longrightarrow> I s"
  by (induction rule: kbd_reachable.induct) (auto intro: start_inv step_inv)

end

lemmas step_defs = step_top_def step_wait_enter_def step_wait_loop_def step_attempt_def
  step_reconnect_loop_def step_reconnect_done_def step_do_pair_def step_restart_scan_def
  step_scan_update_def step_scan_receive_def step_scan_timeout_def step_selected_def
  step_connect_loop_def step_connect_done_def step_connect_failed_def step_connected_def
  step_connected_loop_def step_disconnected_def

lemmas api_defs = ble_kbd_host_start_pairing_def ble_kbd_host_select_device_def

lemmas task_splits = prod.split option.split bool.split wait_site.split kbd_cmd_type_t.split if_split

text \<open>Case analysis on the program point of a task step.\<close>

lemma kbd_main_task_cases:
  assumes "\<And>site. sys_pc s = Top \<Longrightarrow> P (step_top os s)"
    and "\<And>site. sys_pc s = WaitEnter site \<Longrightarrow> P (step_wait_enter os site s)"
    and "\<And>site d. sys_pc s = WaitLoop site d \<Longrightarrow> P (step_wait_loop os site d s)"
    and "sys_pc s = Attempt \<Longrightarrow> P (step_attempt os s)"
    and "\<And>d. sys_pc s = ReconnectLoop d \<Longrightarrow> P (step_reconnect_loop os d s)"
    and "sys_pc s = ReconnectDone \<Longrightarrow> P (step_reconnect_done os s)"
    and "sys_pc s = DoPair \<Longrightarrow> P (step_do_pair os s)"
    and "sys_pc s = RestartScan \<Longrightarrow> P (step_restart_scan os s)"
    and "\<And>a b. sys_pc s = ScanUpdate a b \<Longrightarrow> P (step_scan_update os a b s)"
    and "\<And>a b. sys_pc s = ScanReceive a b \<Longrightarrow> P (step_scan_receive os a b s)"
    and "\<And>a b. sys_pc s = ScanTimeout a b \<Longrightarrow> P (step_scan_timeout os a b s)"
    and "\<And>i. sys_pc s = Selected i \<Longrightarrow> P (step_selected os i s)"
    and "\<And>d. sys_pc s = ConnectLoop d \<Longrightarrow> P (step_connect_loop os d s)"
    and "sys_pc s = ConnectDone \<Longrightarrow> P (step_connect_done os s)"
    and "sys_pc s = ConnectFailed \<Longrightarrow> P (step_connect_failed os s)"
    and "sys_pc s = Connected \<Longrightarrow> P (step_connected s)"
    and "sys_pc s = ConnectedLoop \<Longrightarrow> P (step_connected_loop os s)"
    and "sys_pc s = Disconnected \<Longrightarrow> P (step_disconnected os s)"
  shows "P (kbd_main_task os s)"
  unfolding kbd_main_task_def by (cases "sys_pc s") (simp_all only: kbd_pc.case assms)

text \<open>The variables after a step of another task.\<close>

lemma hidh_cb_pc [frame_simps]: "sys_pc (hidh_cb os e s) = sys_pc s"
  by (simp add: hidh_cb_def Let_def split: hidh_event.split)

lemma hidh_cb_vars [frame_simps]:
  "s_cfg (sys_vars (hidh_cb os e s)) = s_cfg (sys_vars s)"
  "s_state (sys_vars (hidh_cb os e s)) = s_state (sys_vars s)"
  "s_scan_devs (sys_vars (hidh_cb os e s)) = s_scan_devs (sys_vars s)"
  "s_scan_dev_count (sys_vars (hidh_cb os e s)) = s_scan_dev_count (sys_vars s)"
  by (simp_all add: hidh_cb_def Let_def frame_simps split: hidh_event.split)

section \<open>The list of devices\<close>

definition scan_inv :: "'w kbd_sys \<Rightarrow> bool" where
  "scan_inv s \<longleftrightarrow> scan_list_ok (sys_vars s)"

lemma scan_ok_frame [inv_intros]:
  "scan_list_ok (set_state st a b v) = scan_list_ok v" "scan_list_ok (on_status st a b v) = scan_list_ok v"
  "scan_list_ok (emit_key k v) = scan_list_ok v" "scan_list_ok (show_passkey n v) = scan_list_ok v"
  "scan_list_ok (fire_scan_updated v) = scan_list_ok v" "scan_list_ok (translate_report r v) = scan_list_ok v"
  "scan_list_ok (v\<lparr>s_hidh_dev := d\<rparr>) = scan_list_ok v" "scan_list_ok (v\<lparr>s_prev_keys := ks\<rparr>) = scan_list_ok v"
  by (rule scan_list_ok_cong; simp add: frame_simps)+

lemma scan_inv_task: "scan_inv s \<Longrightarrow> scan_inv (kbd_main_task os s)"
  unfolding scan_inv_def
  by (rule kbd_main_task_cases; simp add: step_defs Let_def inv_intros split: task_splits)

lemma scan_inv_step: "scan_inv s \<Longrightarrow> kbd_step os parse s s' \<Longrightarrow> scan_inv s'"
  by (erule kbd_stepE)
     (auto simp: scan_inv_task, auto simp: scan_inv_def api_defs inv_intros hidh_cb_def Let_def
       split: hidh_event.split)

interpretation scan: kbd_invariant os parse cfg scan_inv for os parse cfg
  by (rule kbd_invariant.intro) (simp add: kbd_start_def scan_inv_def inv_intros, erule (1) scan_inv_step)

section \<open>The selected index\<close>

text \<open>
  Between the check of an index and the use of the entry the mutex is free and advertisements
  arrive, but the list only grows there.
\<close>

definition selected_inv :: "'w kbd_sys \<Rightarrow> bool" where
  "selected_inv s \<longleftrightarrow> (case sys_pc s of Selected i \<Rightarrow> i < s_scan_dev_count (sys_vars s) | _ \<Rightarrow> True)"

lemma collect_grows: "s_scan_dev_count v \<le> s_scan_dev_count (collect_scan_cb parse e v)"
  by (simp add: collect_scan_cb_def split: ble_gap_scan_event.split option.split)

lemma selected_inv_task: "selected_inv (kbd_main_task os s)"
  unfolding selected_inv_def
  by (rule kbd_main_task_cases;
      simp add: step_defs Let_def index_valid_def nat_less_iff split: task_splits)

lemma selected_inv_step: "selected_inv s \<Longrightarrow> kbd_step os parse s s' \<Longrightarrow> selected_inv s'"
  by (erule kbd_stepE)
     (auto simp: selected_inv_task, auto simp: selected_inv_def api_defs frame_simps
       split: kbd_pc.splits intro: less_le_trans collect_grows)

interpretation selected: kbd_invariant os parse cfg selected_inv for os parse cfg
  by (rule kbd_invariant.intro) (simp add: kbd_start_def selected_inv_def, erule (1) selected_inv_step)

section \<open>The state that is announced and the place of the task\<close>

text \<open>The states \<open>s_state\<close> can have at each program point.\<close>

fun states_at :: "kbd_pc \<Rightarrow> ble_kbd_state_t set" where
  "states_at Top = {BLE_KBD_STATE_IDLE, BLE_KBD_STATE_RECONNECTING}"
| "states_at (WaitEnter site) = {BLE_KBD_STATE_RECONNECTING}"
| "states_at (WaitLoop site d) = {BLE_KBD_STATE_RECONNECTING}"
| "states_at Attempt = {BLE_KBD_STATE_RECONNECTING}"
| "states_at (ReconnectLoop d) = {BLE_KBD_STATE_RECONNECTING}"
| "states_at ReconnectDone = {BLE_KBD_STATE_RECONNECTING}"
| "states_at DoPair = - {BLE_KBD_STATE_SCANNING}"
| "states_at RestartScan = {BLE_KBD_STATE_SCANNING}"
| "states_at (ScanUpdate a b) = {BLE_KBD_STATE_SCANNING}"
| "states_at (ScanReceive a b) = {BLE_KBD_STATE_SCANNING}"
| "states_at (ScanTimeout a b) = {BLE_KBD_STATE_SCANNING}"
| "states_at (Selected i) = {BLE_KBD_STATE_SCANNING}"
| "states_at (ConnectLoop d) = {BLE_KBD_STATE_CONNECTING}"
| "states_at ConnectDone = {BLE_KBD_STATE_CONNECTING}"
| "states_at ConnectFailed = {BLE_KBD_STATE_CONNECTING}"
| "states_at Connected = {BLE_KBD_STATE_RECONNECTING, BLE_KBD_STATE_CONNECTING}"
| "states_at ConnectedLoop = {BLE_KBD_STATE_CONNECTED}"
| "states_at Disconnected = {BLE_KBD_STATE_CONNECTED}"

definition state_inv :: "'w kbd_sys \<Rightarrow> bool" where
  "state_inv s \<longleftrightarrow> s_state (sys_vars s) \<in> states_at (sys_pc s)"

lemma state_inv_task: "state_inv s \<Longrightarrow> state_inv (kbd_main_task os s)"
  unfolding state_inv_def
  by (rule kbd_main_task_cases; auto simp: step_defs Let_def frame_simps split: task_splits)

lemma state_inv_step: "state_inv s \<Longrightarrow> kbd_step os parse s s' \<Longrightarrow> state_inv s'"
  by (erule kbd_stepE)
     (auto simp: state_inv_task, auto simp: state_inv_def api_defs frame_simps)

interpretation state: kbd_invariant os parse cfg state_inv for os parse cfg
  by (rule kbd_invariant.intro) (simp add: kbd_start_def kbd_vars_init_def state_inv_def, erule (1) state_inv_step)

section \<open>What the application was told\<close>

text \<open>
  The last state reported through \<open>on_status\<close> is \<open>s_state\<close>, but for a failed connection: there the
  application is told \<open>SCANNING\<close> while the state stays \<open>CONNECTING\<close> until the task is back at
  \<open>do_pair\<close>.
\<close>

definition told :: "kbd_vars \<Rightarrow> ble_kbd_state_t" where
  "told v = told_state (out v) BLE_KBD_STATE_IDLE"

definition told_at :: "kbd_pc \<Rightarrow> ble_kbd_state_t \<Rightarrow> ble_kbd_state_t set" where
  "told_at l st = (case l of
       ConnectFailed \<Rightarrow> {BLE_KBD_STATE_SCANNING}
     | DoPair \<Rightarrow> (if st = BLE_KBD_STATE_CONNECTING then {BLE_KBD_STATE_SCANNING, st} else {st})
     | _ \<Rightarrow> {st})"

definition told_inv :: "ble_kbd_host_config_t \<Rightarrow> 'w kbd_sys \<Rightarrow> bool" where
  "told_inv cfg s \<longleftrightarrow>
     cfg_callbacks (s_cfg (sys_vars s)) = cfg_callbacks cfg
     \<and> state_inv s
     \<and> (cb_on_status (cfg_callbacks cfg) \<longrightarrow>
          told (sys_vars s) \<in> told_at (sys_pc s) (s_state (sys_vars s)))"

lemma told_frame [frame_simps]:
  "told (emit_key k v) = told v" "told (show_passkey n v) = told v" "told (fire_scan_updated v) = told v"
  "told (reset_scan v) = told v" "told (collect_scan_cb parse a v) = told v"
  "told (v\<lparr>s_hidh_dev := d\<rparr>) = told v" "told (v\<lparr>s_prev_keys := ks\<rparr>) = told v" "told (v\<lparr>s_cfg := c\<rparr>) = told v"
  by (simp_all add: told_def emit_key_def show_passkey_def fire_scan_updated_def emit_def frame_simps Let_def)

lemma told_fold_emit_key [frame_simps]: "told (fold emit_key ks v) = told v"
  by (induction ks arbitrary: v) (auto simp: frame_simps)

lemma told_translate [frame_simps]: "told (translate_report r v) = told v"
  by (simp add: translate_report_def fold_translate_key Let_def frame_simps)

lemma told_on_status [frame_simps]:
  "told (on_status st a b v) = (if cb_on_status (cfg_callbacks (s_cfg v)) then st else told v)"
  "told (set_state st a b v) = (if cb_on_status (cfg_callbacks (s_cfg v)) then st else told v)"
  by (simp_all add: told_def set_state_def on_status_def emit_def)

lemma told_hidh_cb [frame_simps]: "told (sys_vars (hidh_cb os e s)) = told (sys_vars s)"
  by (simp add: hidh_cb_def Let_def frame_simps split: hidh_event.split)

lemma callbacks_task [frame_simps]:
  "cfg_callbacks (s_cfg (sys_vars (kbd_main_task os s))) = cfg_callbacks (s_cfg (sys_vars s))"
  by (rule kbd_main_task_cases; simp add: step_defs Let_def frame_simps split: task_splits)

lemma told_task:
  "state_inv s \<Longrightarrow> cb_on_status (cfg_callbacks (s_cfg (sys_vars s))) \<Longrightarrow>
   told (sys_vars s) \<in> told_at (sys_pc s) (s_state (sys_vars s)) \<Longrightarrow>
   told (sys_vars (kbd_main_task os s)) \<in>
     told_at (sys_pc (kbd_main_task os s)) (s_state (sys_vars (kbd_main_task os s)))"
  unfolding state_inv_def
  by (rule kbd_main_task_cases; auto simp: step_defs Let_def frame_simps told_at_def split: task_splits)

lemma told_inv_task: "told_inv cfg s \<Longrightarrow> told_inv cfg (kbd_main_task os s)"
  by (simp add: told_inv_def state_inv_task told_task frame_simps)

lemma told_inv_step: "told_inv cfg s \<Longrightarrow> kbd_step os parse s s' \<Longrightarrow> told_inv cfg s'"
  by (erule kbd_stepE)
     (auto simp: told_inv_task, auto simp: told_inv_def state_inv_def api_defs frame_simps)

interpretation told: kbd_invariant os parse cfg "told_inv cfg" for os parse cfg
  by (rule kbd_invariant.intro)
     (simp add: kbd_start_def kbd_vars_init_def told_inv_def state_inv_def told_at_def told_def,
      erule (1) told_inv_step)

section \<open>The forced re-pair\<close>

text \<open>\<open>force_repair\<close> is acted on once: past the first pairing it is clear, in every phase.\<close>

definition force_inv :: "'w kbd_sys \<Rightarrow> bool" where
  "force_inv s \<longleftrightarrow>
     cfg_force_repair (s_cfg (sys_vars s)) \<longrightarrow>
       sys_pc s \<in> {Top, DoPair} \<and> s_state (sys_vars s) = BLE_KBD_STATE_IDLE"

lemma force_inv_task: "force_inv s \<Longrightarrow> force_inv (kbd_main_task os s)"
  unfolding force_inv_def
  by (rule kbd_main_task_cases; auto simp: step_defs Let_def frame_simps split: task_splits)

lemma force_inv_step: "force_inv s \<Longrightarrow> kbd_step os parse s s' \<Longrightarrow> force_inv s'"
  by (erule kbd_stepE)
     (auto simp: force_inv_task, auto simp: force_inv_def api_defs frame_simps)

interpretation force: kbd_invariant os parse cfg force_inv for os parse cfg
  by (rule kbd_invariant.intro)
     (simp add: kbd_start_def kbd_vars_init_def force_inv_def, erule (1) force_inv_step)

end
