(* ===== verification/KbdKernel.thy ===== *)
theory KbdKernel
  imports KbdTask
begin

text \<open>
  What the documentation of FreeRTOS promises of the queue, the clock and the binary semaphores the
  keyboard host uses, as hypotheses on a \<open>kbd_os\<close>, and a small kernel that keeps them: the laws can
  hold, and runs of the task can be evaluated on it.
\<close>

section \<open>Laws\<close>

text \<open>
  The queue is first in, first out. \<open>q\<close> reads the commands in it. Sends of other tasks are steps of
  their own, so a receive on an empty queue ends with nothing. No other operation touches it.
\<close>

definition other_ops_keep :: "'w kbd_os \<Rightarrow> ('w \<Rightarrow> 'a) \<Rightarrow> bool" where
  "other_ops_keep os q \<longleftrightarrow>
     (\<forall>x t w. q (snd (os_sem_take os x t w)) = q w) \<and> (\<forall>x w. q (os_sem_give os x w) = q w)
     \<and> (\<forall>w. q (snd (os_tick_count os w)) = q w) \<and> (\<forall>t w. q (os_delay os t w) = q w)
     \<and> (\<forall>x w. q (snd (os_store_count os x w)) = q w) \<and> (\<forall>w. q (os_store_clear os w) = q w)
     \<and> (\<forall>w. q (snd (os_read_peer_sec os w)) = q w) \<and> (\<forall>w. q (snd (os_gap_disc os w)) = q w)
     \<and> (\<forall>w. q (os_gap_disc_cancel os w) = q w) \<and> (\<forall>w. q (os_gap_conn_cancel os w) = q w)
     \<and> (\<forall>c w. q (os_gap_update_params os c w) = q w) \<and> (\<forall>a b w. q (os_dev_open os a b w) = q w)
     \<and> (\<forall>d w. q (snd (os_dev_reconnect os d w)) = q w) \<and> (\<forall>d w. q (os_dev_close os d w) = q w)"

definition queue_laws :: "'w kbd_os \<Rightarrow> ('w \<Rightarrow> kbd_cmd_t list) \<Rightarrow> bool" where
  "queue_laws os q \<longleftrightarrow>
     (\<forall>t w. q w = [] \<longrightarrow> fst (os_queue_receive os t w) = None \<and> q (snd (os_queue_receive os t w)) = [])
     \<and> (\<forall>t w c cs. q w = c # cs \<longrightarrow>
          fst (os_queue_receive os t w) = Some c \<and> q (snd (os_queue_receive os t w)) = cs)
     \<and> (\<forall>t w. q w = [] \<longrightarrow> fst (os_queue_peek os t w) = None)
     \<and> (\<forall>t w c cs. q w = c # cs \<longrightarrow> fst (os_queue_peek os t w) = Some c)
     \<and> (\<forall>t w. q (snd (os_queue_peek os t w)) = q w)
     \<and> other_ops_keep os q"

text \<open>
  The tick counter, 32 bits wide: reading it does not move it, and a receive on an empty queue
  returns after the time it was given.
\<close>

definition clock_laws :: "'w kbd_os \<Rightarrow> ('w \<Rightarrow> kbd_cmd_t list) \<Rightarrow> ('w \<Rightarrow> u32) \<Rightarrow> bool" where
  "clock_laws os q clk \<longleftrightarrow>
     (\<forall>w. fst (os_tick_count os w) = clk w \<and> clk (snd (os_tick_count os w)) = clk w)
     \<and> (\<forall>t w. clk (snd (os_queue_receive os t w)) = (if q w = [] then clk w + t else clk w))
     \<and> 0 < os_ms_to_ticks os 100"

lemma queue_lawsD:
  assumes "queue_laws os q"
  shows "q w = [] \<Longrightarrow> fst (os_queue_receive os t w) = None" "q w = [] \<Longrightarrow> q (snd (os_queue_receive os t w)) = []"
    "q w = c # cs \<Longrightarrow> fst (os_queue_receive os t w) = Some c"
    "q w = c # cs \<Longrightarrow> q (snd (os_queue_receive os t w)) = cs"
    "q w = [] \<Longrightarrow> fst (os_queue_peek os t w) = None" "q w = c # cs \<Longrightarrow> fst (os_queue_peek os t w) = Some c"
    "q (snd (os_queue_peek os t w)) = q w"
    "q (snd (os_sem_take os x t w)) = q w" "q (os_sem_give os x w) = q w"
    "q (snd (os_tick_count os w)) = q w" "q (os_delay os t w) = q w"
    "q (snd (os_store_count os b w)) = q w" "q (os_store_clear os w) = q w"
    "q (snd (os_read_peer_sec os w)) = q w" "q (snd (os_gap_disc os w)) = q w"
    "q (os_gap_disc_cancel os w) = q w" "q (os_gap_conn_cancel os w) = q w"
    "q (os_gap_update_params os h w) = q w" "q (os_dev_open os a y w) = q w"
    "q (snd (os_dev_reconnect os d w)) = q w" "q (os_dev_close os d w) = q w"
  using assms by (simp_all add: queue_laws_def other_ops_keep_def)

lemma clock_lawsD:
  assumes "clock_laws os q clk"
  shows "fst (os_tick_count os w) = clk w" "clk (snd (os_tick_count os w)) = clk w"
    "clk (snd (os_queue_receive os t w)) = (if q w = [] then clk w + t else clk w)"
    "0 < os_ms_to_ticks os 100"
  using assms by (simp_all add: clock_laws_def)

section \<open>A small kernel\<close>

text \<open>
  A queue of four commands, three binary semaphores, a clock of one tick per millisecond, a store of
  bonds, and what the stack is scripted to answer.
\<close>

record sim =
  sim_queue :: "kbd_cmd_t list"
  sim_sems :: "kbd_sem list"
  sim_clock :: u32
  sim_bonds :: "(u8 list \<times> u8) list"
  sim_reconnects :: bool
  sim_opened :: "(u8 list \<times> u8) list"

definition sim_init :: sim where
  "sim_init = \<lparr>sim_queue = [], sim_sems = [], sim_clock = 0, sim_bonds = [], sim_reconnects = False,
               sim_opened = []\<rparr>"

definition sim_os :: "sim kbd_os" where
  "sim_os = \<lparr>
     os_queue_send = (\<lambda>c t w. if length (sim_queue w) < 4 then (True, w\<lparr>sim_queue := sim_queue w @ [c]\<rparr>)
                              else (False, w)),
     os_queue_receive = (\<lambda>t w. case sim_queue w of
                                 [] \<Rightarrow> (None, w\<lparr>sim_clock := sim_clock w + t\<rparr>)
                               | c # cs \<Rightarrow> (Some c, w\<lparr>sim_queue := cs\<rparr>)),
     os_queue_peek = (\<lambda>t w. (case sim_queue w of [] \<Rightarrow> None | c # cs \<Rightarrow> Some c, w)),
     os_sem_take = (\<lambda>x t w. if x \<in> set (sim_sems w) then (True, w\<lparr>sim_sems := removeAll x (sim_sems w)\<rparr>)
                            else (False, w\<lparr>sim_clock := sim_clock w + t\<rparr>)),
     os_sem_give = (\<lambda>x w. w\<lparr>sim_sems := List.insert x (sim_sems w)\<rparr>),
     os_tick_count = (\<lambda>w. (sim_clock w, w)),
     os_delay = (\<lambda>t w. w\<lparr>sim_clock := sim_clock w + t\<rparr>),
     os_ms_to_ticks = (\<lambda>ms. ms), os_ticks_to_ms = (\<lambda>t. t),
     os_store_count = (\<lambda>obj w. ((0, int (length (sim_bonds w))), w)),
     os_store_clear = (\<lambda>w. w\<lparr>sim_bonds := []\<rparr>),
     os_read_peer_sec = (\<lambda>w. (case sim_bonds w of [] \<Rightarrow> None | b # bs \<Rightarrow> Some b, w)),
     os_gap_disc = (\<lambda>w. (0, w)), os_gap_disc_cancel = (\<lambda>w. w), os_gap_conn_cancel = (\<lambda>w. w),
     os_gap_update_params = (\<lambda>c w. w),
     os_dev_open = (\<lambda>addr ty w. w\<lparr>sim_opened := sim_opened w @ [(addr, ty)]\<rparr>),
     os_dev_reconnect = (\<lambda>d w. (if sim_reconnects w then Some d else None, w)),
     os_dev_close = (\<lambda>d w. w)\<rparr>"

lemma sim_queue_laws: "queue_laws sim_os sim_queue"
  by (simp add: queue_laws_def other_ops_keep_def sim_os_def split: list.split)

lemma sim_clock_laws: "clock_laws sim_os sim_queue sim_clock"
  by (simp add: clock_laws_def sim_os_def split: list.split)

section \<open>Runs\<close>

text \<open>A schedule: which task takes the next step, and with what.\<close>

datatype kbd_act =
  RunTask | Event hidh_event | Advert ble_gap_scan_event | Passkey u32 | StartPairing | SelectDevice int

fun kbd_act_step :: "'w kbd_os \<Rightarrow> adv_parser \<Rightarrow> kbd_act \<Rightarrow> 'w kbd_sys \<Rightarrow> 'w kbd_sys" where
  "kbd_act_step os parse RunTask s = kbd_main_task os s"
| "kbd_act_step os parse (Event e) s = hidh_cb os e s"
| "kbd_act_step os parse (Advert a) s = on_vars (collect_scan_cb parse a) s"
| "kbd_act_step os parse (Passkey k) s = on_vars (show_passkey k) s"
| "kbd_act_step os parse StartPairing s = ble_kbd_host_start_pairing os s"
| "kbd_act_step os parse (SelectDevice i) s = ble_kbd_host_select_device os i s"

definition kbd_run :: "'w kbd_os \<Rightarrow> adv_parser \<Rightarrow> kbd_act list \<Rightarrow> 'w kbd_sys \<Rightarrow> 'w kbd_sys" where
  "kbd_run os parse acts s = fold (kbd_act_step os parse) acts s"

fun act_ok :: "kbd_act \<Rightarrow> bool" where
  "act_ok (Advert a) = event_ok a"
| "act_ok _ = True"

lemma kbd_act_is_step: "act_ok act \<Longrightarrow> kbd_step os parse s (kbd_act_step os parse act s)"
  by (cases act) (auto intro: kbd_step.intros)

lemma kbd_run_reachable:
  "list_all act_ok acts \<Longrightarrow> kbd_reachable os parse cfg s \<Longrightarrow> kbd_reachable os parse cfg (kbd_run os parse acts s)"
proof (induction acts arbitrary: s)
  case Nil
  then show ?case by (simp add: kbd_run_def)
next
  case (Cons act acts)
  then have "kbd_reachable os parse cfg (kbd_act_step os parse act s)"
    by (auto intro: kbd_reachable.step kbd_act_is_step)
  then show ?case using Cons by (simp add: kbd_run_def)
qed

text \<open>An advertisement of a keyboard with a name.\<close>

definition sample_adv :: "u8 list \<Rightarrow> ble_gap_scan_event" where
  "sample_adv addr = BLE_GAP_EVENT_DISC \<lparr>dd_event_type = 0, dd_data = str_bytes ''kbd'', dd_addr = addr,
                                          dd_addr_type = 1, dd_rssi = 200\<rparr>"

lemma sample_adv_ok: "length addr = 6 \<Longrightarrow> event_ok (sample_adv addr)"
  by (simp add: event_ok_def sample_adv_def)

end
