(* ===== verification/KbdWait.thy ===== *)
theory KbdWait
  imports KbdKernel
begin

text \<open>
  \<open>wait_for_start_pairing\<close>: the loop ends, and what it returns, what it leaves in the queue and how
  long it takes, for a queue and a clock that keep their laws.
\<close>

definition is_start :: "kbd_cmd_t \<Rightarrow> bool" where
  "is_start c \<longleftrightarrow> cmd_type c = CMD_START_PAIRING"

definition has_start :: "kbd_cmd_t list \<Rightarrow> bool" where
  "has_start = list_ex is_start"

text \<open>What stays in the queue: what is behind the first re-pair command.\<close>

definition after_start :: "kbd_cmd_t list \<Rightarrow> kbd_cmd_t list" where
  "after_start cs = tl (dropWhile (\<lambda>c. \<not> is_start c) cs)"

lemma wait_round_nonempty:
  assumes "queue_laws os q" and "clock_laws os q clk" and "q w = c # cs"
  shows "\<exists>w'. wait_round os deadline w = (if is_start c then Some True else None, w')
              \<and> q w' = cs \<and> clk w' = clk w"
  using assms queue_lawsD [OF assms(1)] clock_lawsD [OF assms(2)]
  by (simp add: wait_round_def Let_def case_prod_beta is_start_def)

lemma wait_round_empty:
  assumes "queue_laws os q" and "clock_laws os q clk" and "q w = []"
  shows "\<exists>w'. wait_round os deadline w = (if clk w < deadline then None else Some False, w') \<and> q w' = []
       \<and> clk w' = clk w + (if clk w < deadline then min (deadline - clk w) (os_ms_to_ticks os 100) else 0)"
  using assms queue_lawsD [OF assms(1)] clock_lawsD [OF assms(2)]
  by (auto simp: wait_round_def Let_def case_prod_beta min_def not_le)

text \<open>Commands of other kinds are dropped one by one; a re-pair command ends the loop.\<close>

lemma wait_loop_queue:
  assumes "queue_laws os q" and "clock_laws os q clk"
  shows "\<exists>w'. clk w' = clk w \<and>
    (if has_start (q w) then wait_loop os deadline w = Some (True, w') \<and> q w' = after_start (q w)
     else wait_loop os deadline w = wait_loop os deadline w' \<and> q w' = [])"
proof (induction "q w" arbitrary: w)
  case Nil
  then show ?case by (intro exI [of _ w]) (simp add: has_start_def)
next
  case (Cons c cs)
  obtain w1 where w1: "wait_round os deadline w = (if is_start c then Some True else None, w1)"
    "q w1 = cs" "clk w1 = clk w"
    using wait_round_nonempty [OF assms Cons(2) [symmetric]] by blast
  show ?case
  proof (cases "is_start c")
    case True
    then show ?thesis
      using w1 Cons(2) [symmetric]
      by (intro exI [of _ w1]) (simp add: has_start_def after_start_def wait_loop.simps [of os deadline w])
  next
    case False
    then have "wait_loop os deadline w = wait_loop os deadline w1"
      using w1 by (simp add: wait_loop.simps [of os deadline w])
    then show ?thesis
      using Cons(1) [of w1] w1 False Cons(2) [symmetric]
      by (auto simp: has_start_def after_start_def split: if_splits)
  qed
qed

text \<open>With nothing in the queue the loop waits for the deadline.\<close>

lemma wait_loop_empty:
  assumes "queue_laws os q" and "clock_laws os q clk" and "q w = []"
  shows "\<exists>w'. wait_loop os deadline w = Some (False, w') \<and> q w' = []
              \<and> clk w' = (if clk w < deadline then deadline else clk w)"
  using assms(3)
proof (induction "unat (deadline - clk w)" arbitrary: w rule: less_induct)
  case less
  obtain w1 where w1: "wait_round os deadline w = (if clk w < deadline then None else Some False, w1)"
    "q w1 = []"
    "clk w1 = clk w + (if clk w < deadline then min (deadline - clk w) (os_ms_to_ticks os 100) else 0)"
    using wait_round_empty [OF assms(1,2) less(2)] by blast
  show ?case
  proof (cases "clk w < deadline")
    case False
    then show ?thesis using w1 by (intro exI [of _ w1]) (simp add: wait_loop.simps [of os deadline w])
  next
    case True
    have step: "wait_loop os deadline w = wait_loop os deadline w1"
      using w1 True by (simp add: wait_loop.simps [of os deadline w])
    let ?d = "min (deadline - clk w) (os_ms_to_ticks os 100)"
    have pos: "0 < unat ?d"
      using True clock_lawsD(4) [OF assms(2)]
      by (auto simp: min_def word_less_nat_alt word_le_nat_alt unat_sub)
    have sub: "unat (deadline - clk w) = unat deadline - unat (clk w)" "unat (clk w) < unat deadline"
      using True by (simp_all add: unat_sub word_less_nat_alt word_le_nat_alt)
    have le: "unat ?d \<le> unat (deadline - clk w)"
      by (metis min.cobounded1 word_le_nat_alt)
    have top: "unat deadline < 4294967296" using unsigned_less [of deadline] by simp
    have sum: "unat (clk w1) = unat (clk w) + unat ?d"
      using w1(3) True le sub top by (simp add: unat_word_ariths(1))
    then have ge: "clk w1 \<le> deadline" using le sub by (simp add: word_le_nat_alt)
    then have lt: "unat (deadline - clk w1) < unat (deadline - clk w)"
      using sum pos sub by (simp add: unat_sub)
    show ?thesis
      using less(1) [OF lt w1(2)] step ge True by (auto simp: order.order_iff_strict)
  qed
qed

text \<open>
  C11: Waiting for a re-pair command returns, whatever is queued and also at the wrap of the tick
  counter: it returns true exactly when a re-pair command is queued, it consumes the queue up to that
  command and nothing behind it, at once; without one it empties the queue and returns when the
  deadline is reached, or at once when adding the wait to the counter wraps.
\<close>

theorem wait_for_start_pairing_returns:
  assumes "queue_laws os q" and "clock_laws os q clk"
  shows "\<exists>w'. wait_for_start_pairing os ms w = Some (has_start (q w), w')
     \<and> q w' = after_start (q w)
     \<and> clk w' = (if has_start (q w) then clk w
                 else max (clk w) (clk w + os_ms_to_ticks os ms))"
proof -
  define w0 where "w0 = snd (os_tick_count os w)"
  define deadline where "deadline = clk w + os_ms_to_ticks os ms"
  have start: "wait_for_start_pairing os ms w = wait_loop os deadline w0" "q w0 = q w" "clk w0 = clk w"
    using queue_lawsD(10) [OF assms(1)] clock_lawsD(1,2) [OF assms(2)]
    by (simp_all add: wait_for_start_pairing_def w0_def deadline_def case_prod_beta)
  obtain w1 where w1: "clk w1 = clk w"
    "if has_start (q w) then wait_loop os deadline w0 = Some (True, w1) \<and> q w1 = after_start (q w)
     else wait_loop os deadline w0 = wait_loop os deadline w1 \<and> q w1 = []"
    using wait_loop_queue [OF assms, of w0 deadline] start by auto
  show ?thesis
  proof (cases "has_start (q w)")
    case True
    then show ?thesis using w1 start by auto
  next
    case False
    then have "dropWhile (\<lambda>c. \<not> is_start c) (q w) = []"
      by (simp only: dropWhile_eq_Nil_conv) (auto simp: has_start_def list_ex_iff)
    then have "after_start (q w) = []" by (simp only: after_start_def list.sel)
    then show ?thesis
      using False w1 start wait_loop_empty [OF assms, of w1 deadline]
      by (auto simp: deadline_def max_def not_le)
  qed
qed

theorem wait_for_start_pairing_returns_witness:
  "\<exists>w'. wait_for_start_pairing sim_os 3000
     (sim_init\<lparr>sim_queue := [\<lparr>cmd_type = CMD_SELECT_DEVICE, cmd_param = 2\<rparr>,
                            \<lparr>cmd_type = CMD_START_PAIRING, cmd_param = 0\<rparr>]\<rparr>) = Some (True, w') \<and> sim_queue w' = []"
  using wait_for_start_pairing_returns [OF sim_queue_laws sim_clock_laws, of 3000
     "sim_init\<lparr>sim_queue := [\<lparr>cmd_type = CMD_SELECT_DEVICE, cmd_param = 2\<rparr>,
                            \<lparr>cmd_type = CMD_START_PAIRING, cmd_param = 0\<rparr>]\<rparr>"]
  by (auto simp: has_start_def after_start_def is_start_def)

end
