(* ===== verification/KbdKeysThms.thy ===== *)
theory KbdKeysThms
  imports KbdKeys
begin

text \<open>
  What the application receives from \<open>on_key\<close>: the refinement of a history of reports to the
  characters it stands for, typing as an encoding that the translation decodes, the range of the
  characters, key repeat, control characters, and the two places where the reading of a boot
  report differs from the HID keyboard format.
\<close>

section \<open>A history of reports\<close>

text \<open>
  The characters a history of reports stands for, given the keys that were down before. Reports of
  fewer than three bytes do not count, not even as a release.
\<close>

fun typed :: "u8 list \<Rightarrow> u8 list list \<Rightarrow> u8 list" where
  "typed prev [] = []"
| "typed prev (r # rs) =
     (if length r < 3 then typed prev rs else report_chars prev r @ typed (cur_keys_of r) rs)"

lemma typed_append:
  "typed prev (rs @ rs') = typed prev rs @ typed (foldl (\<lambda>p r. if length r < 3 then p else cur_keys_of r) prev rs) rs'"
  by (induction prev rs rule: typed.induct) auto

lemma translate_short: "length r < 3 \<Longrightarrow> translate_report r s = s"
  by (simp add: translate_report_def)

lemma fold_translate_out:
  "cb_on_key (cfg_callbacks (s_cfg s)) \<Longrightarrow>
   out (fold translate_report rs s) = out s @ map OnKey (typed (s_prev_keys s) rs)"
proof (induction rs arbitrary: s)
  case Nil
  then show ?case by simp
next
  case (Cons r rs)
  then show ?case
    by (cases "length r < 3") (simp_all add: translate_short translate_report_out)
qed

lemma keys_of_map_OnKey [simp]: "keys_of (map OnKey ks) = ks"
  by (induction ks) auto

lemma translate_reports_out:
  "out (fold translate_report rs s) =
     out s @ (if cb_on_key (cfg_callbacks (s_cfg s)) then map OnKey (typed (s_prev_keys s) rs) else [])"
proof (cases "cb_on_key (cfg_callbacks (s_cfg s))")
  case True
  then show ?thesis by (simp add: fold_translate_out)
next
  case False
  moreover have "out (translate_report r t) = out t" if "\<not> cb_on_key (cfg_callbacks (s_cfg t))" for r t
    using that by (simp add: translate_report_def fold_translate_key fold_emit_key_mute Let_def)
  ultimately have "out (fold translate_report rs s) = out s"
    by (induction rs arbitrary: s) (auto simp: frame_simps)
  then show ?thesis using False by simp
qed


section \<open>Typing a text\<close>

text \<open>How a keyboard types a character: the modifier byte and the key code.\<close>

fun index_of :: "u8 \<Rightarrow> u8 list \<Rightarrow> nat" where
  "index_of c [] = 0"
| "index_of c (x # xs) = (if x = c then 0 else Suc (index_of c xs))"

definition keystroke :: "u8 \<Rightarrow> u8 \<times> u8" where
  "keystroke c = (if c \<in> set keymap_normal then (0, word_of_nat (index_of c keymap_normal))
                  else (0x02, word_of_nat (index_of c keymap_shift)))"

definition typeable :: "u8 \<Rightarrow> bool" where
  "typeable c \<longleftrightarrow> nz c \<and> (c \<in> set keymap_normal \<or> c \<in> set keymap_shift)"

text \<open>One key pressed and released, as two boot reports.\<close>

definition press_release :: "u8 \<Rightarrow> u8 list list" where
  "press_release c = [[fst (keystroke c), 0, snd (keystroke c), 0, 0, 0, 0, 0], replicate 8 0]"

text \<open>The typeable characters one by one: a small evaluation for each.\<close>

lemma typed_press_release:
  "typeable c \<Longrightarrow> typed (replicate 6 0) (press_release c) = [c]"
  unfolding typeable_def keymap_normal_bytes keymap_shift_bytes
  by (simp only: list.set insert_iff empty_iff Un_iff simp_thms, elim conjE disjE)
     (simp_all add: press_release_def keystroke_def report_chars_def new_keys_def cur_keys_of_def
        key_seq_def key_char_def upt_rec hid_consts)

lemma typed_text:
  "list_all typeable cs \<Longrightarrow> typed (replicate 6 0) (concat (map press_release cs)) = cs"
proof (induction cs)
  case Nil
  then show ?case by simp
next
  case (Cons c cs)
  have "foldl (\<lambda>p r. if length r < 3 then p else cur_keys_of r) (replicate 6 0) (press_release c)
      = replicate 6 (0::u8)"
    by (simp add: press_release_def cur_keys_of_def upt_rec numeral_eq_Suc)
  then show ?case using Cons by (simp add: typed_append typed_press_release)
qed


definition sample_cfg :: ble_kbd_host_config_t where
  "sample_cfg = \<lparr>cfg_callbacks = \<lparr>cb_on_key = True, cb_on_status = True, cb_on_passkey = True,
     cb_on_scan_updated = True\<rparr>, cfg_force_repair = False, cfg_task_stack = 0,
     cfg_task_priority = 0, cfg_reconnect_interval_ms = 0, cfg_scan_timeout_ms = 0\<rparr>"


lemma typeable_bounds: "typeable c \<Longrightarrow> 0x20 \<le> c \<and> c \<le> 0x7F \<or> c = 0x09 \<or> c = 0x0D \<or> c = 0x1B"
  by (auto simp: typeable_def)

lemma typeable_controls: "typeable 0x09" "typeable 0x0D" "typeable 0x1B"
  by (simp_all add: typeable_def)

lemma typeable_range: "0x20 \<le> c \<Longrightarrow> c \<le> 0x7F \<Longrightarrow> typeable c"
proof (rule u8_range)
  show "list_all typeable (map word_of_nat [0x20..<0x80])"
    by (simp add: typeable_def upt_rec)
qed (simp_all add: word_le_nat_alt)

text \<open>Every printable ASCII character, and return, escape, delete and tab, is typeable.\<close>

theorem printable_typeable:
  "{c. typeable c} = {c. 0x20 \<le> c \<and> c \<le> 0x7F} \<union> {0x09, 0x0D, 0x1B}"
  using typeable_bounds typeable_range typeable_controls by blast

section \<open>The range of the characters\<close>

lemma keymaps_range: "i < 57 \<Longrightarrow> keymap_normal ! i < 0x80 \<and> keymap_shift ! i < 0x80"
proof -
  have "list_all (\<lambda>c. c < 0x80) keymap_normal" "list_all (\<lambda>c. c < 0x80) keymap_shift" by simp_all
  then show "i < 57 \<Longrightarrow> ?thesis" by (simp only: list_all_length keymap_lengths)
qed

lemma sub_lt_0x80: "ch < 0x80 \<Longrightarrow> a \<le> ch \<Longrightarrow> ch - a < (0x80::u8)"
  by (simp add: word_less_nat_alt word_le_nat_alt unat_sub)

lemma key_char_range: "key_char sh ct code < 0x80"
proof -
  have low: "(if ct \<and> ch \<ge> 0x61 \<and> ch \<le> 0x7A then ch - 96 else ch) < 0x80" if "ch < 0x80" for ch :: u8
    using that sub_lt_0x80 [of ch 96] by (auto simp: word_le_nat_alt)
  have up: "(if ct \<and> ch \<ge> 0x41 \<and> ch \<le> 0x5A then ch - 64 else ch) < 0x80" if "ch < 0x80" for ch :: u8
    using that sub_lt_0x80 [of ch 64] by (auto simp: word_le_nat_alt)
  have "(if unat code < length keymap_normal
         then (if sh then keymap_shift ! unat code else keymap_normal ! unat code) else 0) < 0x80"
    using keymaps_range [of "unat code"] by (simp only: keymap_lengths) simp
  then show ?thesis unfolding key_char_def Let_def by (intro up low)
qed

lemma key_seq_range: "k \<in> set (key_seq sh ct code) \<Longrightarrow> nz k \<and> k < 0x80"
  using key_char_range [of sh ct code] by (auto simp: key_seq_def Let_def split: if_splits)

lemma typed_range: "k \<in> set (typed prev rs) \<Longrightarrow> nz k \<and> k < 0x80"
  by (induction prev rs rule: typed.induct)
     (auto simp: report_chars_def dest: key_seq_range split: if_splits)

text \<open>
  Whatever a peer sends, what \<open>on_key\<close> receives for it is a 7-bit character and never the NUL
  that the host keeps for its wake-up.
\<close>

theorem typed_ascii_never_nul:
  assumes "OnKey k \<in> set (out (fold translate_report rs s)) - set (out s)"
  shows "k \<noteq> 0 \<and> k < 0x80"
  using assms typed_range [of k "s_prev_keys s" rs]
  by (auto simp: translate_reports_out split: if_splits)

theorem typed_ascii_never_nul_witness:
  "OnKey 0x61 \<in> set (out (fold translate_report [[0, 0, 4]] (kbd_vars_init sample_cfg))) \<and> (0x61::u8) < 0x80"
proof -
  have "OnKey 0x61 \<in> set (out (fold translate_report [[0, 0, 4]] (kbd_vars_init sample_cfg)))
      - set (out (kbd_vars_init sample_cfg))"
    by code_simp
  then show ?thesis using typed_ascii_never_nul [of "0x61"] by blast
qed

section \<open>Repeat, release, control\<close>

lemma new_keys_held: "set (cur_keys_of r) \<subseteq> insert 0 (set prev) \<Longrightarrow> report_chars prev r = []"
proof -
  assume "set (cur_keys_of r) \<subseteq> insert 0 (set prev)"
  then have "new_keys prev (cur_keys_of r) = []" by (auto simp: new_keys_def filter_empty_conv)
  then show ?thesis by (simp add: report_chars_def)
qed

text \<open>
  Keys that stay down type nothing: after a report, a further report whose keys are among its
  keys (the same keys in another order, some of them released, other modifiers) calls nothing.
\<close>

theorem held_keys_silent:
  assumes "3 \<le> length r" and "set (cur_keys_of r') \<subseteq> insert 0 (set (cur_keys_of r))"
  shows "out (translate_report r' (translate_report r s)) = out (translate_report r s)"
  using translate_reports_out [of "[r, r']" s] translate_reports_out [of "[r]" s] assms
  by (simp add: new_keys_held)

theorem held_keys_silent_witness:
  "out (translate_report [0, 0, 5, 4] (translate_report [0, 0, 4, 5, 6] (kbd_vars_init sample_cfg))) =
   [OnKey 0x61, OnKey 0x62, OnKey 0x63]"
proof -
  have "3 \<le> length [0, 0, 4, 5, 6::u8]" by simp
  moreover have "set (cur_keys_of [0, 0, 5, 4]) \<subseteq> insert 0 (set (cur_keys_of [0, 0, 4, 5, 6]))"
    by code_simp
  moreover have "out (translate_report [0, 0, 4, 5, 6] (kbd_vars_init sample_cfg)) =
      [OnKey 0x61, OnKey 0x62, OnKey 0x63]"
    by code_simp
  ultimately show ?thesis
    using held_keys_silent [of "[0, 0, 4, 5, 6]" "[0, 0, 5, 4]" "kbd_vars_init sample_cfg"] by simp
qed

text \<open>
  With a control key down, the key of the n-th letter types the n-th control character, with
  shift or without.
\<close>

theorem ctrl_letter:
  assumes "4 \<le> code" and "code \<le> 29"
  shows "key_char shifted True code = code - 3"
proof (rule u8_range [where P = "\<lambda>c. key_char shifted True c = c - 3"])
  show "list_all (\<lambda>c. key_char shifted True c = c - 3) (map word_of_nat [4..<30])"
    by (cases shifted) (simp_all add: key_char_def upt_rec word_le_nat_alt)
qed (use assms in \<open>simp_all add: word_le_nat_alt\<close>)

theorem ctrl_letter_witness: "key_char False True 6 = 3"
  using ctrl_letter [of 6 False] by simp

section \<open>Where the code and the boot report differ\<close>

text \<open>
  Only the first seven bytes of a report are read. In the eight-byte boot report of a keyboard,
  whose keys are bytes 2 to 7, the sixth key is never seen.
\<close>

theorem sixth_key_ignored:
  assumes "length r = 7"
  shows "translate_report (r @ rest) s = translate_report r s"
proof -
  have "cur_keys_of (r @ rest) = cur_keys_of r"
    using assms by (auto simp: cur_keys_of_def nth_append)
  moreover have "(r @ rest) ! 0 = r ! 0" using assms by (simp add: nth_append)
  ultimately show ?thesis using assms by (simp add: translate_report_def)
qed

theorem sixth_key_ignored_witness:
  "out (translate_report [0, 0, 4, 5, 6, 7, 8, 9] (kbd_vars_init sample_cfg)) =
   map OnKey (str_bytes ''abcde'')"
proof -
  have "translate_report ([0, 0, 4, 5, 6, 7, 8] @ [9]) (kbd_vars_init sample_cfg) =
      translate_report [0, 0, 4, 5, 6, 7, 8] (kbd_vars_init sample_cfg)"
    by (rule sixth_key_ignored) simp
  moreover have "out (translate_report [0, 0, 4, 5, 6, 7, 8] (kbd_vars_init sample_cfg)) =
      map OnKey (str_bytes ''abcde'')"
    by code_simp
  ultimately show ?thesis by simp
qed

text \<open>
  A phantom report (every key code ErrorRollOver, 1) types nothing but counts as a release, so
  the keys that are still down when it ends are typed again.
\<close>

theorem rollover_retypes:
  assumes "3 \<le> length r" and "1 \<notin> set (cur_keys_of r)"
  shows "typed prev [r, [0, 0, 1, 1, 1, 1, 1, 1], r] =
         report_chars prev r @ report_chars (replicate 6 0) r"
proof -
  have cur: "cur_keys_of [0, 0, 1, 1, 1, 1, 1, 1] = [0, 1, 1, 1, 1, 1]"
    by code_simp
  have none: "key_seq False False 1 = []" by (simp add: key_seq_def key_char_def)
  have "report_chars p [0, 0, 1, 1, 1, 1, 1, 1] = []" for p
    by (simp add: report_chars_def cur new_keys_def none)
  moreover have "report_chars [0, 1, 1, 1, 1, 1] r = report_chars (replicate 6 0) r"
    using assms(2) by (auto simp: report_chars_def new_keys_def intro!: arg_cong [where f = concat]
      arg_cong [where f = "map _"] filter_cong)
  ultimately show ?thesis using assms by (simp add: cur)
qed

theorem rollover_retypes_witness:
  "typed (replicate 6 0) [[0, 0, 4], [0, 0, 1, 1, 1, 1, 1, 1], [0, 0, 4]] = [0x61, 0x61]"
proof -
  have "1 \<notin> set (cur_keys_of [0, 0, 4])" by code_simp
  moreover have "report_chars (replicate 6 0) [0, 0, 4] = [0x61]" by code_simp
  ultimately show ?thesis using rollover_retypes [of "[0, 0, 4]" "replicate 6 0"] by simp
qed

end
