(* ===== verification/KbdTaskThms.thy ===== *)
theory KbdTaskThms
  imports KbdTaskInv KbdWait KbdKeysThms
begin

text \<open>
  What holds of the keyboard host as a whole: its state diagram, the list of devices and its
  snapshots, what the application is told, and the re-pair command, which every phase obeys when it
  is at the head of the queue, and which a command in front of it can hold up.
\<close>

section \<open>The state diagram\<close>

text \<open>
  The diagram of the README, with the edge back to scanning that a failed connection takes and the
  edge from the loss of a connection.
\<close>

fun diagram :: "ble_kbd_state_t \<Rightarrow> ble_kbd_state_t set" where
  "diagram BLE_KBD_STATE_IDLE = {BLE_KBD_STATE_RECONNECTING, BLE_KBD_STATE_SCANNING}"
| "diagram BLE_KBD_STATE_RECONNECTING = {BLE_KBD_STATE_CONNECTED, BLE_KBD_STATE_SCANNING}"
| "diagram BLE_KBD_STATE_SCANNING = {BLE_KBD_STATE_CONNECTING}"
| "diagram BLE_KBD_STATE_CONNECTING = {BLE_KBD_STATE_CONNECTED, BLE_KBD_STATE_SCANNING}"
| "diagram BLE_KBD_STATE_CONNECTED = {BLE_KBD_STATE_RECONNECTING, BLE_KBD_STATE_SCANNING}"

lemma diagram_task:
  "state_inv s \<Longrightarrow> s_state (sys_vars (kbd_main_task os s)) \<in>
     insert (s_state (sys_vars s)) (diagram (s_state (sys_vars s)))"
  unfolding state_inv_def
  by (rule kbd_main_task_cases; cases "s_state (sys_vars s)";
      auto simp: step_defs Let_def frame_simps split: task_splits)

text \<open>
  C2: The module refines its state diagram: in every reachable state, whatever the kernel and the
  stack answer and however the other tasks interleave, a step leaves the state of the host alone or
  follows an edge of the diagram, and the state fits the place of the task.
\<close>

theorem kbd_refines_diagram:
  assumes "kbd_reachable os parse cfg s" and "kbd_step os parse s s'"
  shows "(s_state (sys_vars s') = s_state (sys_vars s)
            \<or> s_state (sys_vars s') \<in> diagram (s_state (sys_vars s)))
         \<and> s_state (sys_vars s') \<in> states_at (sys_pc s')"
proof (rule conjI)
  have inv: "state_inv s" using assms(1) by (rule state.reachable_inv)
  show "s_state (sys_vars s') = s_state (sys_vars s)
      \<or> s_state (sys_vars s') \<in> diagram (s_state (sys_vars s))"
    using assms(2) diagram_task [OF inv, of os]
    by (cases rule: kbd_step.cases) (auto simp: api_defs frame_simps)
  show "s_state (sys_vars s') \<in> states_at (sys_pc s')"
    using state_inv_step [OF inv assms(2)] by (simp add: state_inv_def)
qed

lemma sim_first_step:
  "kbd_reachable sim_os (\<lambda>d. None) sample_cfg (kbd_start sample_cfg sim_init)"
  "kbd_step sim_os (\<lambda>d. None) (kbd_start sample_cfg sim_init)
     (kbd_main_task sim_os (kbd_start sample_cfg sim_init))"
  by (rule kbd_reachable.start, rule kbd_step.task)

theorem kbd_refines_diagram_witness:
  "s_state (sys_vars (kbd_main_task sim_os (kbd_start sample_cfg sim_init))) \<in>
     states_at (sys_pc (kbd_main_task sim_os (kbd_start sample_cfg sim_init)))"
  by (rule kbd_refines_diagram [OF sim_first_step, THEN conjunct2])

section \<open>The list of devices\<close>

text \<open>Every snapshot that was handed out.\<close>

definition snapshot_ok :: "ble_kbd_scan_dev_t list \<Rightarrow> bool" where
  "snapshot_ok ds \<longleftrightarrow> length ds \<le> BLE_KBD_HOST_MAX_SCAN_DEVS \<and> distinct (map sd_addr ds) \<and> list_all entry_ok ds"

definition snapshots_of :: "kbd_out list \<Rightarrow> ble_kbd_scan_dev_t list list" where
  "snapshots_of es = concat (map (\<lambda>e. case e of OnScanUpdated ds \<Rightarrow> [ds] | _ \<Rightarrow> []) es)"

lemma snapshots_of_simps [simp]:
  "snapshots_of [] = []" "snapshots_of (es @ es') = snapshots_of es @ snapshots_of es'"
  "snapshots_of (OnKey k # es) = snapshots_of es" "snapshots_of (OnStatus st a b # es) = snapshots_of es"
  "snapshots_of (OnPasskey n # es) = snapshots_of es" "snapshots_of (OnScanUpdated ds # es) = ds # snapshots_of es"
  by (simp_all add: snapshots_of_def)

definition snaps :: "kbd_vars \<Rightarrow> ble_kbd_scan_dev_t list list" where
  "snaps v = snapshots_of (out v)"

lemma snaps_frame [frame_simps]:
  "snaps (emit_key k v) = snaps v" "snaps (show_passkey n v) = snaps v" "snaps (on_status st a b v) = snaps v"
  "snaps (set_state st a b v) = snaps v" "snaps (reset_scan v) = snaps v"
  "snaps (collect_scan_cb parse e v) = snaps v" "snaps (v\<lparr>s_hidh_dev := d\<rparr>) = snaps v"
  "snaps (v\<lparr>s_prev_keys := ks\<rparr>) = snaps v" "snaps (v\<lparr>s_cfg := c\<rparr>) = snaps v"
  "snaps (v\<lparr>s_state := st\<rparr>) = snaps v"
  by (simp_all add: snaps_def emit_key_def show_passkey_def on_status_def set_state_def emit_def frame_simps)

lemma snaps_fold_emit_key [frame_simps]: "snaps (fold emit_key ks v) = snaps v"
  by (induction ks arbitrary: v) (auto simp: frame_simps)

lemma snaps_translate [frame_simps]: "snaps (translate_report r v) = snaps v"
  by (simp add: translate_report_def fold_translate_key Let_def frame_simps)

lemma snaps_hidh_cb [frame_simps]: "snaps (sys_vars (hidh_cb os e s)) = snaps (sys_vars s)"
  by (simp add: hidh_cb_def Let_def frame_simps split: hidh_event.split)

lemma snaps_fire:
  "snaps (fire_scan_updated v) = snaps v @
     (if cb_on_scan_updated (cfg_callbacks (s_cfg v)) then [take (s_scan_dev_count v) (s_scan_devs v)] else [])"
  by (simp add: snaps_def fire_scan_updated_def emit_def Let_def)

lemma scan_list_snapshot: "scan_list_ok v \<Longrightarrow> snapshot_ok (take (s_scan_dev_count v) (s_scan_devs v))"
  by (simp add: snapshot_ok_def scan_list_ok_def list_all_take)

definition snap_inv :: "'w kbd_sys \<Rightarrow> bool" where
  "snap_inv s \<longleftrightarrow> scan_inv s \<and> list_all snapshot_ok (snaps (sys_vars s))"

lemma snap_task:
  "scan_inv s \<Longrightarrow> list_all snapshot_ok (snaps (sys_vars s)) \<Longrightarrow>
   list_all snapshot_ok (snaps (sys_vars (kbd_main_task os s)))"
  unfolding scan_inv_def
  by (rule kbd_main_task_cases;
      simp add: step_defs Let_def frame_simps snaps_fire scan_list_snapshot split: task_splits)

lemma snap_inv_step:
  assumes "snap_inv s" and "kbd_step os parse s s'"
  shows "snap_inv s'"
proof -
  have "list_all snapshot_ok (snaps (sys_vars s'))"
    using assms(2,1)
    by (cases rule: kbd_step.cases) (auto simp: snap_inv_def snap_task api_defs frame_simps)
  then show ?thesis using assms scan_inv_step by (auto simp: snap_inv_def)
qed

lemma snap_inv_start: "snap_inv (kbd_start cfg w)"
  using kbd_vars_init_scan_ok [of cfg]
  by (simp add: snap_inv_def scan_inv_def kbd_start_def) (simp add: snaps_def kbd_vars_init_def)

interpretation snap: kbd_invariant os parse cfg snap_inv for os parse cfg
  by (rule kbd_invariant.intro) (rule snap_inv_start, erule (1) snap_inv_step)

text \<open>
  C17: In every reachable state the scan list and every snapshot the application was given have at most
  eight devices with pairwise different addresses, and every name is NUL-terminated in its 33 bytes.
\<close>

theorem scan_lists_ok:
  assumes "kbd_reachable os parse cfg s"
  shows "scan_list_ok (sys_vars s)
     \<and> (\<forall>ds. OnScanUpdated ds \<in> set (out (sys_vars s)) \<longrightarrow> snapshot_ok ds)"
proof (intro conjI allI impI)
  have inv: "snap_inv s" using assms by (rule snap.reachable_inv)
  then show "scan_list_ok (sys_vars s)" by (simp add: snap_inv_def scan_inv_def)
  fix ds
  assume "OnScanUpdated ds \<in> set (out (sys_vars s))"
  then have "ds \<in> set (snaps (sys_vars s))" by (force simp: snaps_def snapshots_of_def)
  then show "snapshot_ok ds" using inv by (simp add: snap_inv_def list_all_iff)
qed

theorem scan_lists_ok_witness: "scan_list_ok (sys_vars (kbd_start sample_cfg sim_init))"
  by (rule scan_lists_ok [OF sim_first_step(1), THEN conjunct1])

text \<open>
  C26: The index of the selected device is on the list at the moment its entry is read, although
  advertisements may arrive between the check and the read.
\<close>

theorem selected_on_list:
  assumes "kbd_reachable os parse cfg s" and "sys_pc s = Selected i"
  shows "i < s_scan_dev_count (sys_vars s) \<and> s_scan_dev_count (sys_vars s) \<le> length (s_scan_devs (sys_vars s))"
  using selected.reachable_inv [OF assms(1)] scan.reachable_inv [OF assms(1)] assms(2)
  by (simp add: selected_inv_def scan_inv_def scan_list_ok_def)

text \<open>A run that finds one keyboard and selects it.\<close>

definition select_run :: "kbd_act list" where
  "select_run = [RunTask, RunTask, RunTask, Advert (sample_adv [1, 2, 3, 4, 5, 6]), RunTask,
                 SelectDevice 0, RunTask]"

definition name_of_data :: adv_parser where
  "name_of_data d = Some d"

lemma select_run_reachable:
  "kbd_reachable sim_os name_of_data sample_cfg
     (kbd_run sim_os name_of_data select_run (kbd_start sample_cfg sim_init))"
  by (rule kbd_run_reachable) (simp_all add: select_run_def sample_adv_ok kbd_reachable.start)

theorem selected_on_list_witness:
  "0 < s_scan_dev_count (sys_vars (kbd_run sim_os name_of_data select_run (kbd_start sample_cfg sim_init)))"
proof -
  have "sys_pc (kbd_run sim_os name_of_data select_run (kbd_start sample_cfg sim_init)) = Selected 0"
    by code_simp
  then show ?thesis using selected_on_list [OF select_run_reachable] by blast
qed

section \<open>What the application is told\<close>

text \<open>
  C25: With \<open>on_status\<close> installed, the state the application was told last is the one
  \<open>ble_kbd_host_get_state\<close> returns, in every reachable state but those between the report of a failed
  connection and the new scan, where it was told \<open>SCANNING\<close> and the state is \<open>CONNECTING\<close>.
\<close>

theorem told_is_state:
  assumes "kbd_reachable os parse cfg s" and "cb_on_status (cfg_callbacks cfg)"
  shows "told (sys_vars s) = ble_kbd_host_get_state s
     \<or> (sys_pc s \<in> {ConnectFailed, DoPair} \<and> told (sys_vars s) = BLE_KBD_STATE_SCANNING
        \<and> ble_kbd_host_get_state s = BLE_KBD_STATE_CONNECTING)"
  using told.reachable_inv [OF assms(1)] assms(2)
  by (cases "sys_pc s")
     (auto simp: told_inv_def told_at_def state_inv_def ble_kbd_host_get_state_def split: if_splits)

theorem told_is_state_witness:
  "told (sys_vars (kbd_start sample_cfg sim_init)) = BLE_KBD_STATE_IDLE"
  using told_is_state [OF sim_first_step(1)]
  by (simp add: sample_cfg_def kbd_start_def ble_kbd_host_get_state_def kbd_vars_init_def)

text \<open>
  The forced re-pair is acted on once: it is pending only before the first scan, so a lost
  connection never erases the bonds because of it.
\<close>

theorem force_repair_once:
  assumes "kbd_reachable os parse cfg s" and "cfg_force_repair (s_cfg (sys_vars s))"
  shows "sys_pc s \<in> {Top, DoPair} \<and> ble_kbd_host_get_state s = BLE_KBD_STATE_IDLE"
  using force.reachable_inv [OF assms(1)] assms(2)
  by (simp add: force_inv_def ble_kbd_host_get_state_def)

theorem force_repair_once_witness:
  "ble_kbd_host_get_state (kbd_start (sample_cfg\<lparr>cfg_force_repair := True\<rparr>) sim_init) = BLE_KBD_STATE_IDLE"
proof -
  have "kbd_reachable sim_os (\<lambda>d. None) (sample_cfg\<lparr>cfg_force_repair := True\<rparr>)
      (kbd_start (sample_cfg\<lparr>cfg_force_repair := True\<rparr>) sim_init)"
    by (rule kbd_reachable.start)
  moreover have "cfg_force_repair (s_cfg (sys_vars
      (kbd_start (sample_cfg\<lparr>cfg_force_repair := True\<rparr>) sim_init)))"
    by (simp add: kbd_start_def kbd_vars_init_def)
  ultimately show ?thesis using force_repair_once by blast
qed

end
