(* ===== verification/KbdRaces.thy ===== *)
theory KbdRaces
  imports KbdTaskThms
begin

text \<open>
  Two orders of events in which a semaphore of \<open>bt_kbd.c\<close> is left over from an earlier connection.
  They are runs on the small kernel, evaluated: reachable states, so the wished-for invariants
  (connected means there is a device; a connection ends with a close event) do not hold.
\<close>

definition open_ok :: kbd_act where
  "open_ok = Event (ESP_HIDH_OPEN_EVENT ESP_OK 7 1)"

text \<open>
  The user selects a keyboard, asks for a re-pair while it connects, and the connection completes
  just then: \<open>s_connected_sem\<close> is given for a device the pairing phase forgets. The next keyboard that
  is selected fails to open.
\<close>

definition stale_connected_run :: "kbd_act list" where
  "stale_connected_run = select_run @
     [RunTask, StartPairing, RunTask, open_ok,
      RunTask, RunTask, RunTask, Advert (sample_adv [6, 5, 4, 3, 2, 1]), SelectDevice 0,
      RunTask, RunTask, Event (ESP_HIDH_OPEN_EVENT (-1) 0 0), RunTask, RunTask, RunTask]"


text \<open>The link drops once while the keyboard connects and is back when the open completes.\<close>

definition stale_disconnected_run :: "kbd_act list" where
  "stale_disconnected_run = select_run @ [RunTask, Event ESP_HIDH_CLOSE_EVENT, open_ok,
      RunTask, RunTask, RunTask, RunTask, RunTask]"

text \<open>
  A close event that arrives before the open event of a connection makes the host leave the
  connected phase at once: after the successful open no close event comes, the device is known, and
  yet the host reports that it is reconnecting.
\<close>

theorem dropped_without_close:
  "\<exists>acts. list_all act_ok acts
     \<and> drop (length acts - 6) acts = open_ok # replicate 5 RunTask
     \<and> ble_kbd_host_get_state (kbd_run sim_os name_of_data acts (kbd_start sample_cfg sim_init)) =
         BLE_KBD_STATE_RECONNECTING
     \<and> s_hidh_dev (sys_vars (kbd_run sim_os name_of_data acts (kbd_start sample_cfg sim_init))) = Some 7"
proof (intro exI conjI)
  show "list_all act_ok stale_disconnected_run"
    by (simp add: stale_disconnected_run_def select_run_def open_ok_def sample_adv_ok)
  show "drop (length stale_disconnected_run - 6) stale_disconnected_run = open_ok # replicate 5 RunTask"
    by (simp add: stale_disconnected_run_def select_run_def numeral_eq_Suc)
  show "ble_kbd_host_get_state (kbd_run sim_os name_of_data stale_disconnected_run (kbd_start sample_cfg sim_init)) =
      BLE_KBD_STATE_RECONNECTING"
    by code_simp
  show "s_hidh_dev (sys_vars (kbd_run sim_os name_of_data stale_disconnected_run (kbd_start sample_cfg sim_init))) = Some 7"
    by code_simp
qed

end
