(* ===== verification/KbdRepair.thy ===== *)
theory KbdRepair
  imports KbdTaskInv KbdWait KbdKeysThms
begin

text \<open>
  The re-pair command (\<open>ble_kbd_host_start_pairing\<close>) in every phase of \<open>kbd_main_task\<close>: at the head of
  the queue it is consumed within a bounded number of steps of the task and the task starts a new
  scan; behind another command it can wait as long as the keyboard stays connected; on a full queue
  it is lost. What stale semaphores do is shown on runs of the small kernel.
\<close>

section \<open>Obeyed within twelve steps\<close>

definition task_steps :: "'w kbd_os \<Rightarrow> nat \<Rightarrow> 'w kbd_sys \<Rightarrow> 'w kbd_sys" where
  "task_steps os n s = (kbd_main_task os ^^ n) s"

lemma task_steps_simps [simp]:
  "task_steps os 0 s = s" "task_steps os (Suc n) s = task_steps os n (kbd_main_task os s)"
  by (simp_all add: task_steps_def funpow_swap1)

text \<open>
  A new scan: the command in front of \<open>cs\<close> is gone, the bonds are gone (\<open>clean\<close>), the list is empty.
\<close>

definition scans_anew :: "('w \<Rightarrow> kbd_cmd_t list) \<Rightarrow> ('w \<Rightarrow> bool) \<Rightarrow> kbd_cmd_t list \<Rightarrow> 'w kbd_sys \<Rightarrow> bool" where
  "scans_anew q clean cs s \<longleftrightarrow>
     sys_pc s = RestartScan \<and> q (sys_w s) = cs \<and> clean (sys_w s) \<and> s_scan_dev_count (sys_vars s) = 0"

definition obeyed_in ::
  "'w kbd_os \<Rightarrow> ('w \<Rightarrow> kbd_cmd_t list) \<Rightarrow> ('w \<Rightarrow> bool) \<Rightarrow> kbd_cmd_t list \<Rightarrow> nat \<Rightarrow> 'w kbd_sys \<Rightarrow> bool" where
  "obeyed_in os q clean cs n s \<longleftrightarrow> (\<exists>m \<le> n. scans_anew q clean cs (task_steps os m s))"

lemma obeyed_now: "scans_anew q clean cs s \<Longrightarrow> obeyed_in os q clean cs n s"
  by (auto simp: obeyed_in_def intro: exI [of _ 0])

lemma obeyed_later: "obeyed_in os q clean cs n (kbd_main_task os s) \<Longrightarrow> obeyed_in os q clean cs (Suc n) s"
  unfolding obeyed_in_def by (elim exE conjE) (rule_tac x = "Suc m" in exI, simp)

lemma obeyed_mono: "obeyed_in os q clean cs n s \<Longrightarrow> n \<le> n' \<Longrightarrow> obeyed_in os q clean cs n' s"
  unfolding obeyed_in_def by (elim exE conjE, rule_tac x = m in exI, simp)

text \<open>
  The distance of a program point from the place where a re-pair command at the head of the queue is
  consumed: no phase leads away from it.
\<close>

fun repair_rank :: "kbd_pc \<Rightarrow> nat" where
  "repair_rank (ScanReceive a b) = 0"
| "repair_rank (WaitLoop site d) = 0"
| "repair_rank (ScanUpdate a b) = 1"
| "repair_rank (WaitEnter site) = 1"
| "repair_rank RestartScan = 2"
| "repair_rank DoPair = 3"
| "repair_rank (ScanTimeout a b) = 3"
| "repair_rank Top = 4"
| "repair_rank ConnectFailed = 4"
| "repair_rank Disconnected = 5"
| "repair_rank ConnectedLoop = 6"
| "repair_rank Connected = 7"
| "repair_rank ReconnectDone = 8"
| "repair_rank ConnectDone = 8"
| "repair_rank (ReconnectLoop d) = 9"
| "repair_rank (ConnectLoop d) = 9"
| "repair_rank Attempt = 10"
| "repair_rank (Selected i) = 10"

lemma repair_rank_le: "repair_rank l \<le> 10"
  by (cases l) simp_all

text \<open>
  One step of the task: the command is consumed, on the way to a new scan, or it stays at the head and
  is nearer.
\<close>

lemma repair_progress:
  assumes laws: "queue_laws os q" and scan: "\<And>w. fst (os_gap_disc os w) = 0" and clean: "\<And>w. clean (os_store_clear os w)"
    and head: "q (sys_w s) = c # cs" and start: "cmd_type c = CMD_START_PAIRING"
  shows "scans_anew q clean cs (kbd_main_task os s)
     \<or> (sys_pc (kbd_main_task os s) = DoPair \<and> q (sys_w (kbd_main_task os s)) = cs)
     \<or> (q (sys_w (kbd_main_task os s)) = c # cs
        \<and> repair_rank (sys_pc (kbd_main_task os s)) < repair_rank (sys_pc s))"
  using queue_lawsD [OF laws] head start scan clean
  by (intro kbd_main_task_cases [where P = "\<lambda>s'. scans_anew q clean cs s' \<or> (sys_pc s' = DoPair \<and> q (sys_w s') = cs)
        \<or> (q (sys_w s') = c # cs \<and> repair_rank (sys_pc s') < repair_rank (sys_pc s))"])
     (simp_all add: step_defs wait_round_def case_prod_beta Let_def scans_anew_def reset_scan_def
        split: option.split wait_site.split)

lemma do_pair_scans_anew:
  assumes "queue_laws os q" and "\<And>w. clean (os_store_clear os w)" and "sys_pc s = DoPair" and "q (sys_w s) = cs"
  shows "scans_anew q clean cs (kbd_main_task os s)"
  using queue_lawsD [OF assms(1)] assms(2-4)
  by (simp add: kbd_main_task_def step_do_pair_def scans_anew_def reset_scan_def set_state_def on_status_def emit_def)

lemma obeyed_by_rank:
  assumes laws: "queue_laws os q" and scan: "\<And>w. fst (os_gap_disc os w) = 0" and clean: "\<And>w. clean (os_store_clear os w)"
    and start: "cmd_type c = CMD_START_PAIRING"
  shows "q (sys_w s) = c # cs \<Longrightarrow> obeyed_in os q clean cs (repair_rank (sys_pc s) + 2) s"
proof (induction "repair_rank (sys_pc s)" arbitrary: s rule: less_induct)
  case less
  let ?s = "kbd_main_task os s"
  consider "scans_anew q clean cs ?s" | "sys_pc ?s = DoPair" "q (sys_w ?s) = cs"
    | "q (sys_w ?s) = c # cs" "repair_rank (sys_pc ?s) < repair_rank (sys_pc s)"
    using repair_progress [OF laws scan, where clean = clean, OF clean less(2) start] by blast
  then have "obeyed_in os q clean cs (repair_rank (sys_pc s) + 1) ?s"
  proof cases
    case 1
    then show ?thesis by (rule obeyed_now)
  next
    case 2
    from do_pair_scans_anew [OF laws, where clean = clean, OF clean this] show ?thesis
      by (simp add: obeyed_later obeyed_now)
  next
    case 3
    have "obeyed_in os q clean cs (repair_rank (sys_pc ?s) + 2) ?s"
      by (rule less(1)) (use 3 in simp_all)
    then show ?thesis by (rule obeyed_mono) (use 3 in simp)
  qed
  then show ?case using obeyed_later by fastforce
qed

text \<open>
  C4: A re-pair command at the head of the queue escapes from every phase: from whatever state, and
  whatever the semaphores, the store and the radio answer (as long as a scan can be started), after at
  most twelve of its steps the task has consumed it, has deleted the bonds, has emptied the list of
  devices and is about to start the scan; a blocking call is one step.
\<close>

theorem start_pairing_obeyed:
  assumes "queue_laws os q" and "\<And>w. fst (os_gap_disc os w) = 0" and "\<And>w. clean (os_store_clear os w)"
    and "q (sys_w s) = c # cs" and "cmd_type c = CMD_START_PAIRING"
  shows "\<exists>m \<le> 12. sys_pc (task_steps os m s) = RestartScan \<and> q (sys_w (task_steps os m s)) = cs
     \<and> clean (sys_w (task_steps os m s)) \<and> s_scan_dev_count (sys_vars (task_steps os m s)) = 0"
  using obeyed_by_rank [OF assms(1,2), where clean = clean, OF assms(3,5,4)] repair_rank_le [of "sys_pc s"]
  by (fold scans_anew_def, fold obeyed_in_def) (rule obeyed_mono, assumption, simp)

definition start_cmd :: kbd_cmd_t where
  "start_cmd = \<lparr>cmd_type = CMD_START_PAIRING, cmd_param = 0\<rparr>"

definition select_cmd :: "int \<Rightarrow> kbd_cmd_t" where
  "select_cmd i = \<lparr>cmd_type = CMD_SELECT_DEVICE, cmd_param = i\<rparr>"

definition at_point :: "kbd_pc \<Rightarrow> kbd_cmd_t list \<Rightarrow> sim kbd_sys" where
  "at_point l cmds = \<lparr>sys_vars = kbd_vars_init sample_cfg, sys_pc = l, sys_w = sim_init\<lparr>sim_queue := cmds\<rparr>\<rparr>"

theorem start_pairing_obeyed_witness:
  "\<exists>m \<le> 12. sys_pc (task_steps sim_os m (at_point ConnectedLoop [start_cmd])) = RestartScan
     \<and> sim_queue (sys_w (task_steps sim_os m (at_point ConnectedLoop [start_cmd]))) = []
     \<and> sim_bonds (sys_w (task_steps sim_os m (at_point ConnectedLoop [start_cmd]))) = []
     \<and> s_scan_dev_count (sys_vars (task_steps sim_os m (at_point ConnectedLoop [start_cmd]))) = 0"
  by (rule start_pairing_obeyed [OF sim_queue_laws, where clean = "\<lambda>w. sim_bonds w = []" and c = start_cmd])
     (simp_all add: sim_os_def at_point_def start_cmd_def)

section \<open>Held up behind another command\<close>

lemma connected_loop_blocked:
  assumes laws: "queue_laws os q" and link: "\<And>t w. \<not> fst (os_sem_take os s_disconnected_sem t w)"
    and "sys_pc s = ConnectedLoop" and "q (sys_w s) = c # cs" and "cmd_type c \<noteq> CMD_START_PAIRING"
  shows "sys_pc (kbd_main_task os s) = ConnectedLoop \<and> q (sys_w (kbd_main_task os s)) = c # cs
    \<and> sys_vars (kbd_main_task os s) = sys_vars s"
  using queue_lawsD [OF laws] assms(2-5)
  by (simp add: kbd_main_task_def step_connected_loop_def case_prod_beta Let_def)

text \<open>
  C39: While the keyboard stays connected, a command of another kind at the head of the queue (a
  \<open>ble_kbd_host_select_device\<close> called at the wrong time) is never taken out, so a re-pair command
  behind it is never obeyed, however many steps the task takes.
\<close>

theorem start_pairing_held_up:
  assumes "queue_laws os q" and "\<And>t w. \<not> fst (os_sem_take os s_disconnected_sem t w)"
    and "sys_pc s = ConnectedLoop" and "q (sys_w s) = select_cmd i # start_cmd # cs"
  shows "sys_pc (task_steps os n s) = ConnectedLoop
     \<and> q (sys_w (task_steps os n s)) = select_cmd i # start_cmd # cs
     \<and> sys_vars (task_steps os n s) = sys_vars s"
  using assms(3,4)
proof (induction n arbitrary: s)
  case 0
  then show ?case by simp
next
  case (Suc n)
  then show ?case
    using connected_loop_blocked [OF assms(1,2), of s "select_cmd i" "start_cmd # cs"]
    by (simp add: select_cmd_def)
qed

text \<open>The small kernel with a link that never drops.\<close>

definition linked_os :: "sim kbd_os" where
  "linked_os = sim_os\<lparr>os_sem_take := (\<lambda>x t w. (x \<noteq> s_disconnected_sem, w\<lparr>sim_clock := sim_clock w + t\<rparr>))\<rparr>"

theorem start_pairing_held_up_witness:
  "sys_pc (task_steps linked_os 1000 (at_point ConnectedLoop [select_cmd 3, start_cmd])) = ConnectedLoop
   \<and> sim_queue (sys_w (task_steps linked_os 1000 (at_point ConnectedLoop [select_cmd 3, start_cmd]))) =
       [select_cmd 3, start_cmd]"
proof -
  have "queue_laws linked_os sim_queue"
    by (simp add: queue_laws_def other_ops_keep_def linked_os_def sim_os_def split: list.split)
  moreover have "\<not> fst (os_sem_take linked_os s_disconnected_sem t w)" for t w
    by (simp add: linked_os_def)
  ultimately show ?thesis
    using start_pairing_held_up [of linked_os sim_queue "at_point ConnectedLoop [select_cmd 3, start_cmd]" 3 "[]" 1000]
    by (simp add: at_point_def)
qed

end
