(* ===== verification/HidGap.thy ===== *)
theory HidGap
  imports KbdPrelude
begin

text \<open>
  Bringing up the radio: \<open>init_low_level\<close> and \<open>esp_hid_gap_init\<close> of \<open>src/hid_gap.c\<close>. The calls of the
  SDK are arguments, functions from the world to a return code and the world after the call. The two
  bodies the preprocessor chooses from are told apart by \<open>p4\<close>, the target \<open>CONFIG_IDF_TARGET_ESP32P4\<close>.
\<close>

record 'w gap_ops =
  gap_hosted_controller_init :: "'w \<Rightarrow> int \<times> 'w"
  gap_hosted_controller_enable :: "'w \<Rightarrow> int \<times> 'w"
  gap_nimble_port_init :: "'w \<Rightarrow> int \<times> 'w"
  gap_controller_mem_release :: "'w \<Rightarrow> int \<times> 'w"
  gap_controller_init :: "'w \<Rightarrow> int \<times> 'w"
  gap_controller_enable :: "'w \<Rightarrow> int \<times> 'w"
  gap_nimble_init :: "'w \<Rightarrow> int \<times> 'w"

definition init_low_level :: "'w gap_ops \<Rightarrow> bool \<Rightarrow> 'w \<Rightarrow> int \<times> 'w" where
  "init_low_level ops p4 w =
     (if p4 then
        let (ret, w) = gap_hosted_controller_init ops w in
        if ret \<noteq> 0 then (ret, w) else
        let (ret, w) = gap_hosted_controller_enable ops w in
        if ret \<noteq> 0 then (ret, w) else
        let (ret, w) = gap_nimble_port_init ops w in
        if ret \<noteq> 0 then (ret, w) else (0, w)
      else
        let (ret, w) = gap_controller_mem_release ops w in
        if ret \<noteq> 0 then (ret, w) else
        let (ret, w) = gap_controller_init ops w in
        if ret \<noteq> 0 then (ret, w) else
        let (ret, w) = gap_controller_enable ops w in
        if ret \<noteq> 0 then (ret, w) else
        let (ret, w) = gap_nimble_init ops w in
        if ret \<noteq> 0 then (ret, w) else (0, w))"

definition esp_hid_gap_init :: "'w gap_ops \<Rightarrow> bool \<Rightarrow> u8 \<Rightarrow> 'w \<Rightarrow> int \<times> 'w" where
  "esp_hid_gap_init ops p4 mode w = init_low_level ops p4 w"

section \<open>First failure wins\<close>

text \<open>The calls in order, up to the first that fails.\<close>

fun first_failure :: "('w \<Rightarrow> int \<times> 'w) list \<Rightarrow> 'w \<Rightarrow> int \<times> 'w" where
  "first_failure [] w = (0, w)"
| "first_failure (f # fs) w = (let (ret, w) = f w in if ret \<noteq> 0 then (ret, w) else first_failure fs w)"

definition bring_up_calls :: "'w gap_ops \<Rightarrow> bool \<Rightarrow> ('w \<Rightarrow> int \<times> 'w) list" where
  "bring_up_calls ops p4 =
     (if p4 then [gap_hosted_controller_init ops, gap_hosted_controller_enable ops, gap_nimble_port_init ops]
      else [gap_controller_mem_release ops, gap_controller_init ops, gap_controller_enable ops,
            gap_nimble_init ops])"

text \<open>
  Bringing up the radio makes its calls in order, stops at the first that fails with that call's
  error, whatever the mode, and returns \<open>ESP_OK\<close> when none fails.
\<close>

theorem gap_init_first_failure:
  "esp_hid_gap_init ops p4 mode w = first_failure (bring_up_calls ops p4) w"
  by (simp add: esp_hid_gap_init_def init_low_level_def bring_up_calls_def Let_def split: prod.split)

end
