(* ===== verification/KbdInit.thy ===== *)
theory KbdInit
  imports KbdKernel HidGap KbdKeysThms
begin

text \<open>
  Starting the keyboard host: \<open>ble_kbd_host_init\<close> of \<open>src/bt_kbd.c\<close> (lines 601 to 663) and
  \<open>ble_kbd_host_wait_connected\<close>. The creation of kernel objects, \<open>esp_hidh_init\<close>, the NimBLE host
  settings and its task are arguments; \<open>esp_hid_gap_init\<close> is the model of \<open>HidGap\<close>. A failed
  \<open>ESP_ERROR_CHECK\<close> aborts the program.
\<close>

datatype init_outcome = Returned int | Aborted int

definition ESP_ERR_NO_MEM :: int where [hid_consts]: "ESP_ERR_NO_MEM = 0x101"
definition ESP_ERR_TIMEOUT :: int where [hid_consts]: "ESP_ERR_TIMEOUT = 0x107"

record 'w init_ops =
  io_queue_create :: "nat \<Rightarrow> 'w \<Rightarrow> bool \<times> 'w"
  io_sem_create :: "kbd_sem \<Rightarrow> 'w \<Rightarrow> bool \<times> 'w"
  io_mutex_create :: "'w \<Rightarrow> bool \<times> 'w"
  io_hidh_init :: "'w \<Rightarrow> int \<times> 'w"
  io_hs_config :: "'w \<Rightarrow> 'w"
  io_set_passkey_cb :: "'w \<Rightarrow> 'w"
  io_nimble_enable :: "'w \<Rightarrow> int \<times> 'w"
  io_hs_synced :: "'w \<Rightarrow> bool \<times> 'w"
  io_task_create :: "u32 \<Rightarrow> u8 \<Rightarrow> 'w \<Rightarrow> bool \<times> 'w"

text \<open>Lines 605 to 613: all five objects are created before any is looked at.\<close>

definition create_objects :: "'w init_ops \<Rightarrow> 'w \<Rightarrow> bool \<times> 'w" where
  "create_objects io w =
     (let (q, w) = io_queue_create io 4 w;
          (c, w) = io_sem_create io s_connected_sem w;
          (d, w) = io_sem_create io s_disconnected_sem w;
          (n, w) = io_sem_create io s_open_done_sem w;
          (m, w) = io_mutex_create io w
      in (q \<and> c \<and> d \<and> n \<and> m, w))"

text \<open>Lines 640 to 646: \<open>True\<close> when the host is in sync, \<open>False\<close> for the timeout, \<open>None\<close> for never.\<close>

partial_function (option) sync_loop ::
    "'w kbd_os \<Rightarrow> 'w init_ops \<Rightarrow> u32 \<Rightarrow> 'w \<Rightarrow> (bool \<times> 'w) option" where
  "sync_loop os io sync_deadline w =
     (case io_hs_synced io w of (synced, w) \<Rightarrow>
        if synced then Some (True, w)
        else case os_tick_count os w of (now, w) \<Rightarrow>
          if now > sync_deadline then Some (False, w)
          else sync_loop os io sync_deadline (os_delay os (os_ms_to_ticks os 20) w))"

text \<open>Lines 648 to 662.\<close>

definition task_stack_of :: "ble_kbd_host_config_t \<Rightarrow> u32" where
  "task_stack_of cfg = (if nz (cfg_task_stack cfg) then cfg_task_stack cfg else CONFIG_BLE_KBD_HOST_TASK_STACK)"

definition task_priority_of :: "ble_kbd_host_config_t \<Rightarrow> u8" where
  "task_priority_of cfg =
     (if nz (cfg_task_priority cfg) then cfg_task_priority cfg else CONFIG_BLE_KBD_HOST_TASK_PRIORITY)"

definition start_task :: "'w kbd_os \<Rightarrow> 'w init_ops \<Rightarrow> ble_kbd_host_config_t \<Rightarrow> 'w \<Rightarrow> init_outcome \<times> 'w" where
  "start_task os io cfg w =
     (let w = (if cfg_force_repair cfg then os_store_clear os w else w);
          (ret, w) = io_task_create io (task_stack_of cfg) (task_priority_of cfg) w
      in (Returned (if ret then ESP_OK else ESP_ERR_NO_MEM), w))"

text \<open>Lines 615 to 634: the stack; \<open>Some e\<close> for a failed \<open>ESP_ERROR_CHECK\<close>.\<close>

definition start_stack :: "'w gap_ops \<Rightarrow> bool \<Rightarrow> 'w init_ops \<Rightarrow> 'w \<Rightarrow> int option \<times> 'w" where
  "start_stack gap p4 io w =
     (let (e, w) = esp_hid_gap_init gap p4 1 w
      in if e \<noteq> ESP_OK then (Some e, w)
         else let (e, w) = io_hidh_init io w
              in if e \<noteq> ESP_OK then (Some e, w)
                 else let w = io_set_passkey_cb io (io_hs_config io w);
                          (e, w) = io_nimble_enable io w
                      in if e \<noteq> ESP_OK then (Some e, w) else (None, w))"

definition ble_kbd_host_init :: "'w kbd_os \<Rightarrow> 'w gap_ops \<Rightarrow> bool \<Rightarrow> 'w init_ops \<Rightarrow> ble_kbd_host_config_t \<Rightarrow>
    'w \<Rightarrow> (init_outcome \<times> kbd_vars \<times> 'w) option" where
  "ble_kbd_host_init os gap p4 io cfg w =
     (let v = kbd_vars_init cfg;
          (ok, w) = create_objects io w
      in if \<not> ok then Some (Returned ESP_ERR_NO_MEM, v, w)
         else case start_stack gap p4 io w of
           (Some e, w) \<Rightarrow> Some (Aborted e, v, w)
         | (None, w) \<Rightarrow>
             let (now, w) = os_tick_count os w
             in case sync_loop os io (now + os_ms_to_ticks os 5000) w of
                  None \<Rightarrow> None
                | Some (False, w) \<Rightarrow> Some (Returned ESP_ERR_TIMEOUT, v, w)
                | Some (True, w) \<Rightarrow> let (r, w) = start_task os io cfg w in Some (r, v, w))"

text \<open>
  Lines 687 to 691: the states a waiting task reads, one per poll; the number of polls it sleeps
  through, or \<open>None\<close> when none of them is \<open>CONNECTED\<close>.
\<close>

fun ble_kbd_host_wait_connected :: "ble_kbd_state_t list \<Rightarrow> nat option" where
  "ble_kbd_host_wait_connected [] = None"
| "ble_kbd_host_wait_connected (st # sts) =
     (if st \<noteq> BLE_KBD_STATE_CONNECTED then map_option Suc (ble_kbd_host_wait_connected sts) else Some 0)"

section \<open>The initialisation ends\<close>

text \<open>The clock of the sync loop: a delay advances it by the time given, asking the host does not.\<close>

definition sync_laws :: "'w kbd_os \<Rightarrow> 'w init_ops \<Rightarrow> ('w \<Rightarrow> u32) \<Rightarrow> bool" where
  "sync_laws os io clk \<longleftrightarrow>
     (\<forall>w. fst (os_tick_count os w) = clk w \<and> clk (snd (os_tick_count os w)) = clk w)
     \<and> (\<forall>t w. clk (os_delay os t w) = clk w + t)
     \<and> (\<forall>w. clk (snd (io_hs_synced io w)) = clk w)
     \<and> 0 < os_ms_to_ticks os 20"

lemma sync_loop_returns:
  assumes laws: "sync_laws os io clk"
    and room: "unat deadline + unat (os_ms_to_ticks os 20) < 2 ^ 32"
  shows "\<exists>b w'. sync_loop os io deadline w = Some (b, w')"
proof (induction "Suc (unat deadline) - unat (clk w)" arbitrary: w rule: less_induct)
  case less
  obtain b w1 where synced: "io_hs_synced io w = (b, w1)" by (cases "io_hs_synced io w")
  obtain now w2 where tick: "os_tick_count os w1 = (now, w2)" by (cases "os_tick_count os w1")
  have clks: "now = clk w" "clk w2 = clk w"
    using laws synced tick unfolding sync_laws_def by (metis fst_conv snd_conv)+
  show ?case
  proof (cases "b \<or> now > deadline")
    case True
    then show ?thesis using synced tick by (auto simp: sync_loop.simps [of os io deadline w])
  next
    case False
    let ?w = "os_delay os (os_ms_to_ticks os 20) w2"
    have le: "unat (clk w) \<le> unat deadline" using False clks by (simp add: word_le_nat_alt not_less)
    have "clk ?w = clk w + os_ms_to_ticks os 20" using laws clks by (simp add: sync_laws_def)
    then have "unat (clk ?w) = unat (clk w) + unat (os_ms_to_ticks os 20)"
      using le room by (simp add: unat_word_ariths(1))
    moreover have "0 < unat (os_ms_to_ticks os 20)"
      using laws by (simp add: sync_laws_def word_less_nat_alt)
    ultimately have "\<exists>b w'. sync_loop os io deadline ?w = Some (b, w')"
      using le by (intro less(1)) simp
    then show ?thesis using False synced tick by (simp add: sync_loop.simps [of os io deadline w])
  qed
qed

text \<open>
  C36: Starting the host always comes to an end: with a clock that advances and does not wrap during
  the five seconds of the wait, \<open>ble_kbd_host_init\<close> returns \<open>ESP_OK\<close>, \<open>ESP_ERR_NO_MEM\<close> or
  \<open>ESP_ERR_TIMEOUT\<close>, or aborts with the error of a failed check; the module then has the
  configuration and is idle.
\<close>

theorem host_init_ends:
  assumes "sync_laws os io clk"
    and "unat (clk (snd (start_stack gap p4 io (snd (create_objects io w)))))
           + unat (os_ms_to_ticks os 5000) + unat (os_ms_to_ticks os 20) < 2 ^ 32"
  shows "\<exists>r w'. ble_kbd_host_init os gap p4 io cfg w = Some (r, kbd_vars_init cfg, w')
     \<and> (r \<in> Returned ` {ESP_OK, ESP_ERR_NO_MEM, ESP_ERR_TIMEOUT} \<or> (\<exists>e. e \<noteq> ESP_OK \<and> r = Aborted e))"
proof -
  obtain ok w1 where objs: "create_objects io w = (ok, w1)" by (cases "create_objects io w")
  obtain e w2 where stack: "start_stack gap p4 io w1 = (e, w2)" by (cases "start_stack gap p4 io w1")
  have err: "e = Some x \<Longrightarrow> x \<noteq> ESP_OK" for x
    using stack by (auto simp: start_stack_def Let_def split: prod.splits if_splits)
  have "\<exists>b w3. sync_loop os io (fst (os_tick_count os w2) + os_ms_to_ticks os 5000)
      (snd (os_tick_count os w2)) = Some (b, w3)"
    using assms(1,2) objs stack
    by (intro sync_loop_returns [OF assms(1)]) (simp add: sync_laws_def unat_word_ariths(1))
  then obtain b w3 where loop: "sync_loop os io (fst (os_tick_count os w2) + os_ms_to_ticks os 5000)
      (snd (os_tick_count os w2)) = Some (b, w3)"
    by blast
  show ?thesis
    using objs stack err loop
    by (cases ok; cases e; cases b)
       (auto simp: ble_kbd_host_init_def case_prod_beta start_task_def Let_def)
qed

text \<open>A start on the small kernel whose host never comes into sync.\<close>

definition sim_gap :: "sim gap_ops" where
  "sim_gap = \<lparr>gap_hosted_controller_init = Pair 0, gap_hosted_controller_enable = Pair 0,
     gap_nimble_port_init = Pair 0, gap_controller_mem_release = Pair 0, gap_controller_init = Pair 0,
     gap_controller_enable = Pair 0, gap_nimble_init = Pair 0\<rparr>"

definition sim_io :: "sim init_ops" where
  "sim_io = \<lparr>io_queue_create = (\<lambda>n. Pair True), io_sem_create = (\<lambda>x. Pair True), io_mutex_create = Pair True,
     io_hidh_init = Pair 0, io_hs_config = (\<lambda>w. w), io_set_passkey_cb = (\<lambda>w. w), io_nimble_enable = Pair 0,
     io_hs_synced = Pair False, io_task_create = (\<lambda>st p. Pair True)\<rparr>"

theorem host_init_ends_witness:
  "\<exists>r w'. ble_kbd_host_init sim_os sim_gap False sim_io sample_cfg sim_init = Some (r, kbd_vars_init sample_cfg, w')"
proof -
  have "sync_laws sim_os sim_io sim_clock"
    by (simp add: sync_laws_def sim_os_def sim_io_def)
  moreover have "snd (start_stack sim_gap False sim_io (snd (create_objects sim_io sim_init))) = sim_init"
    by (simp add: start_stack_def create_objects_def esp_hid_gap_init_def init_low_level_def sim_gap_def
        sim_io_def Let_def ESP_OK_def)
  ultimately show ?thesis
    using host_init_ends [of sim_os sim_io sim_clock sim_gap False sim_init sample_cfg]
    by (simp add: sim_os_def sim_init_def) blast
qed

text \<open>
  When a kernel object cannot be created, \<open>ble_kbd_host_init\<close> returns \<open>ESP_ERR_NO_MEM\<close> before it
  touches the radio: its outcome does not depend on the stack at all.
\<close>

lemma host_init_no_mem:
  assumes "\<not> fst (create_objects io w)"
  shows "ble_kbd_host_init os gap p4 io cfg w =
    Some (Returned ESP_ERR_NO_MEM, kbd_vars_init cfg, snd (create_objects io w))"
  using assms by (simp add: ble_kbd_host_init_def case_prod_beta Let_def)

end
