(* ===== verification/KbdMonad.thy ===== *)
theory KbdMonad
  imports KbdPrelude
begin

text \<open>
  Programs that change a state and can end in a fault: a function from the state to a fault or to a
  result and the next state. The rules \<open>sbind_Inr\<close> and \<open>sbind_simps\<close> carry the proofs about them; a
  Hoare-style triple \<open>runs_ok\<close> says that a program started in a good state ends without a fault, in a
  state and with a result that are good again.
\<close>

section \<open>State and faults\<close>

type_synonym ('s, 'a) prog = "'s \<Rightarrow> fault + ('a \<times> 's)"

definition sret :: "'a \<Rightarrow> ('s, 'a) prog" where
  "sret x s = Inr (x, s)"

definition sfail :: "fault \<Rightarrow> ('s, 'a) prog" where
  "sfail e s = Inl e"

definition sbind :: "('s, 'a) prog \<Rightarrow> ('a \<Rightarrow> ('s, 'b) prog) \<Rightarrow> ('s, 'b) prog" where
  "sbind m f s = (case m s of Inl e \<Rightarrow> Inl e | Inr (x, s') \<Rightarrow> f x s')"

definition sget :: "('s \<Rightarrow> 'a) \<Rightarrow> ('s, 'a) prog" where
  "sget f s = Inr (f s, s)"

definition smod :: "('s \<Rightarrow> 's) \<Rightarrow> ('s, unit) prog" where
  "smod f s = Inr ((), f s)"

definition sseq :: "('s, 'a) prog \<Rightarrow> ('s, 'b) prog \<Rightarrow> ('s, 'b) prog" where
  "sseq m k = sbind m (\<lambda>_. k)"

lemma prog_simps [simp]:
  "sret x s = Inr (x, s)" "sfail e s = Inl e" "sget g s = Inr (g s, s)" "smod h s = Inr ((), h s)"
  by (simp_all add: sret_def sfail_def sget_def smod_def)

lemma sbind_simps [simp]:
  "sbind (sret x) f s = f x s" "sbind (sfail e) f' s = Inl e" "sbind (sget g) f'' s = f'' (g s) s"
  "sbind (smod h) u s = u () (h s)"
  by (simp_all add: sbind_def)

lemma sseq_simps [simp]:
  "sseq (sret x) k s = k s" "sseq (sfail e) k s = Inl e" "sseq (sget g) k s = k s"
  "sseq (smod h) k s = k (h s)"
  by (simp_all add: sseq_def)

lemma sbind_Inr: "m s = Inr (x, s') \<Longrightarrow> sbind m f s = f x s'"
  by (simp add: sbind_def)

lemma sbind_Inl: "m s = Inl e \<Longrightarrow> sbind m f s = Inl e"
  by (simp add: sbind_def)

lemma sseq_Inr: "m s = Inr (x, s') \<Longrightarrow> sseq m k s = k s'"
  by (simp add: sseq_def sbind_def)

lemma sbind_assoc: "sbind (sbind m f) g = sbind m (\<lambda>x. sbind (f x) g)"
  by (rule ext) (auto simp: sbind_def split: sum.split)

lemma sbind_if: "sbind (if b then m else m') f = (if b then sbind m f else sbind m' f)"
  by simp

lemma sbind_Inr_conv:
  "sbind m f s = Inr r \<longleftrightarrow> (\<exists>x s'. m s = Inr (x, s') \<and> f x s' = Inr r)"
  by (auto simp: sbind_def split: sum.split)

text \<open>A program for each element of a list, in order.\<close>

fun sfor :: "'a list \<Rightarrow> ('a \<Rightarrow> ('s, unit) prog) \<Rightarrow> ('s, unit) prog" where
  "sfor [] f = sret ()"
| "sfor (x # xs) f = sseq (f x) (sfor xs f)"

section \<open>Triples\<close>

definition runs_ok :: "('s \<Rightarrow> bool) \<Rightarrow> ('s, 'a) prog \<Rightarrow> ('a \<Rightarrow> 's \<Rightarrow> bool) \<Rightarrow> bool" where
  "runs_ok P m Q \<longleftrightarrow> (\<forall>s. P s \<longrightarrow> (\<exists>x s'. m s = Inr (x, s') \<and> Q x s'))"

lemma runs_okI: "(\<And>s. P s \<Longrightarrow> \<exists>x s'. m s = Inr (x, s') \<and> Q x s') \<Longrightarrow> runs_ok P m Q"
  by (simp add: runs_ok_def)

lemma runs_okD: "runs_ok P m Q \<Longrightarrow> P s \<Longrightarrow> \<exists>x s'. m s = Inr (x, s') \<and> Q x s'"
  by (simp add: runs_ok_def)

lemma runs_ok_bind:
  "runs_ok P m Q \<Longrightarrow> (\<And>x. runs_ok (Q x) (f x) R) \<Longrightarrow> runs_ok P (sbind m f) R"
  by (fastforce simp: runs_ok_def sbind_def)

lemma runs_ok_seq: "runs_ok P m (\<lambda>_. Q) \<Longrightarrow> runs_ok Q k R \<Longrightarrow> runs_ok P (sseq m k) R"
  unfolding sseq_def by (rule runs_ok_bind)

lemma runs_ok_ret: "(\<And>s. P s \<Longrightarrow> Q x s) \<Longrightarrow> runs_ok P (sret x) Q"
  by (simp add: runs_ok_def)

lemma runs_ok_conseq:
  "runs_ok P m Q \<Longrightarrow> (\<And>s. P' s \<Longrightarrow> P s) \<Longrightarrow> (\<And>x s. Q x s \<Longrightarrow> Q' x s) \<Longrightarrow> runs_ok P' m Q'"
  by (fastforce simp: runs_ok_def)

lemma runs_ok_if:
  "(b \<Longrightarrow> runs_ok P m Q) \<Longrightarrow> (\<not> b \<Longrightarrow> runs_ok P m' Q) \<Longrightarrow> runs_ok P (if b then m else m') Q"
  by simp

lemma runs_ok_for:
  "(\<And>x. x \<in> set xs \<Longrightarrow> runs_ok P (f x) (\<lambda>_. P)) \<Longrightarrow> runs_ok P (sfor xs f) (\<lambda>_. P)"
  by (induction xs) (auto intro: runs_ok_ret runs_ok_seq)

end
