(* ===== verification/HidhDev.thy ===== *)
theory HidhDev
  imports HidTypes KbdMonad
begin

text \<open>
  The data of the HID host library: \<open>esp_hidh_dev_report_t\<close> and \<open>struct esp_hidh_dev_s\<close> of
  \<open>esp_private/esp_hidh_private.h\<close>, the static variables of \<open>src/esp_hidh.c\<close>, and a heap.

  A device is a cell of the heap and a pointer to it is its address, \<open>None\<close> for NULL; the registry
  (the TAILQ) is the list of the addresses it links. Strings and raw report maps are byte buffers of
  a second heap, so that a buffer that is freed twice, or two owners of one buffer, show. The report
  nodes of a device are reached only from it and are a list in the order of the links. A mutex is a
  flag that is set while it is held: taking one that is held by the same task never returns.
\<close>

type_synonym dev_ptr = "nat option"
type_synonym buf_ptr = "nat option"

section \<open>Reports\<close>

record esp_hidh_dev_report_t =
  hr_map_index :: u8
  hr_report_id :: u8
  hr_report_type :: u8
  hr_protocol_mode :: u8
  hr_value_len :: u32
  hr_usage :: esp_hid_usage_t
  hr_handle :: u16
  hr_ccc_handle :: u16
  hr_permissions :: u8

section \<open>Devices\<close>

text \<open>
  The configuration inside a device, with its strings and maps by address. \<open>hc_report_maps\<close> is the
  array, \<open>None\<close> for NULL, of an address and a length each.
\<close>

record hidh_config =
  hc_vendor_id :: u16
  hc_product_id :: u16
  hc_version :: u16
  hc_device_name :: buf_ptr
  hc_manufacturer_name :: buf_ptr
  hc_serial_number :: buf_ptr
  hc_report_maps :: "(buf_ptr \<times> u16) list option"
  hc_report_maps_len :: u8

record esp_hidh_dev_t =
  dv_bda :: "u8 list"
  dv_config :: hidh_config
  dv_usage :: esp_hid_usage_t
  dv_transport :: esp_hid_transport_t
  dv_protocol_mode :: buf_ptr
  dv_connected :: bool
  dv_in_use :: bool
  dv_status :: int
  dv_reports_len :: nat
  dv_reports :: "esp_hidh_dev_report_t list"
  dv_semaphore :: bool
  dv_given :: bool
  dv_mutex :: bool
  dv_locked :: bool
  dv_ops :: bool
  dv_address_type :: u8
  dv_conn_id :: int
  dv_appearance :: u16
  dv_battery_handle :: u16
  dv_battery_ccc_handle :: u16

text \<open>What \<open>calloc\<close> leaves: every field zero.\<close>

definition config_zero :: hidh_config where
  "config_zero = \<lparr>hc_vendor_id = 0, hc_product_id = 0, hc_version = 0, hc_device_name = None,
     hc_manufacturer_name = None, hc_serial_number = None, hc_report_maps = None,
     hc_report_maps_len = 0\<rparr>"

definition dev_zero :: esp_hidh_dev_t where
  "dev_zero = \<lparr>dv_bda = replicate 6 0, dv_config = config_zero, dv_usage = ESP_HID_USAGE_GENERIC,
     dv_transport = ESP_HID_TRANSPORT_BT, dv_protocol_mode = None, dv_connected = False,
     dv_in_use = False, dv_status = 0, dv_reports_len = 0, dv_reports = [], dv_semaphore = False, dv_given = False,
     dv_mutex = False, dv_locked = False, dv_ops = False, dv_address_type = 0, dv_conn_id = 0,
     dv_appearance = 0, dv_battery_handle = 0, dv_battery_ccc_handle = 0\<rparr>"

section \<open>The state of the library\<close>

record hidh_st =
  hh_devs :: "nat \<Rightarrow> esp_hidh_dev_t option"
  hh_bufs :: "nat \<Rightarrow> u8 list option"
  hh_next :: nat
  hh_allocs :: nat
  s_esp_hidh_devices :: "nat list"
  s_esp_hidh_devices_semaphore :: bool
  hh_locked :: bool
  s_esp_hidh_event_loop_h :: bool
  s_event_callback :: bool

definition hidh_st_init :: hidh_st where
  "hidh_st_init = \<lparr>hh_devs = (\<lambda>_. None), hh_bufs = (\<lambda>_. None), hh_next = 1, hh_allocs = 0,
     s_esp_hidh_devices = [], s_esp_hidh_devices_semaphore = False, hh_locked = False,
     s_esp_hidh_event_loop_h = False, s_event_callback = False\<rparr>"

type_synonym ('z, 'a) hidh = "('z hidh_st_scheme, 'a) prog"

section \<open>The heap\<close>

text \<open>
  The allocator: the n-th request of the run succeeds when the argument \<open>aok n\<close> says so. Kernel
  objects are requested in the same way.
\<close>

definition request :: "(nat \<Rightarrow> bool) \<Rightarrow> ('z, bool) hidh" where
  "request aok s = Inr (aok (hh_allocs s), s\<lparr>hh_allocs := hh_allocs s + 1\<rparr>)"

definition new_dev :: "esp_hidh_dev_t \<Rightarrow> ('z, nat) hidh" where
  "new_dev d s = Inr (hh_next s, s\<lparr>hh_devs := (hh_devs s)(hh_next s := Some d), hh_next := hh_next s + 1\<rparr>)"

definition new_buf :: "u8 list \<Rightarrow> ('z, nat) hidh" where
  "new_buf bs s = Inr (hh_next s, s\<lparr>hh_bufs := (hh_bufs s)(hh_next s := Some bs), hh_next := hh_next s + 1\<rparr>)"

text \<open>Reading and writing through a device pointer.\<close>

definition get_dev :: "dev_ptr \<Rightarrow> ('z, esp_hidh_dev_t) hidh" where
  "get_dev p s = (case p of
     None \<Rightarrow> Inl NullDeref
   | Some a \<Rightarrow> (case hh_devs s a of None \<Rightarrow> Inl UseAfterFree | Some d \<Rightarrow> Inr (d, s)))"

definition upd_dev :: "dev_ptr \<Rightarrow> (esp_hidh_dev_t \<Rightarrow> esp_hidh_dev_t) \<Rightarrow> ('z, unit) hidh" where
  "upd_dev p f s = (case p of
     None \<Rightarrow> Inl NullDeref
   | Some a \<Rightarrow> (case hh_devs s a of
                  None \<Rightarrow> Inl UseAfterFree
                | Some d \<Rightarrow> Inr ((), s\<lparr>hh_devs := (hh_devs s)(a := Some (f d))\<rparr>)))"

definition get_buf :: "buf_ptr \<Rightarrow> ('z, u8 list) hidh" where
  "get_buf p s = (case p of
     None \<Rightarrow> Inl NullDeref
   | Some a \<Rightarrow> (case hh_bufs s a of None \<Rightarrow> Inl UseAfterFree | Some bs \<Rightarrow> Inr (bs, s)))"

text \<open>\<open>free\<close>: nothing for NULL, a fault for a block that is not allocated.\<close>

definition free_buf :: "buf_ptr \<Rightarrow> ('z, unit) hidh" where
  "free_buf p s = (case p of
     None \<Rightarrow> Inr ((), s)
   | Some a \<Rightarrow> (case hh_bufs s a of
                  None \<Rightarrow> Inl UseAfterFree
                | Some bs \<Rightarrow> Inr ((), s\<lparr>hh_bufs := (hh_bufs s)(a := None)\<rparr>)))"

definition free_dev :: "nat \<Rightarrow> ('z, unit) hidh" where
  "free_dev a s = (case hh_devs s a of
                     None \<Rightarrow> Inl UseAfterFree
                   | Some d \<Rightarrow> Inr ((), s\<lparr>hh_devs := (hh_devs s)(a := None)\<rparr>))"

end
