(* ===== verification/HidhCore.thy ===== *)
theory HidhCore
  imports HidhDev
begin

text \<open>
  The operations of \<open>esp_hid/src/esp_hidh.c\<close> in a NimBLE build, in the order of the file: the locks,
  the life of the library, the calls that go through a device's function pointers, the getters, the
  report look-ups, and the life of a device. The function pointers a transport puts into a device are
  an argument, a record \<open>hidh_vtable\<close>; a pointer that may be NULL is an option there. Calls of the
  event loop library are results given as arguments.
\<close>

section \<open>Error codes\<close>

definition ESP_FAIL :: int where [hid_consts]: "ESP_FAIL = -1"
definition ESP_ERR_INVALID_ARG :: int where [hid_consts]: "ESP_ERR_INVALID_ARG = 0x102"
definition ESP_ERR_INVALID_STATE :: int where [hid_consts]: "ESP_ERR_INVALID_STATE = 0x103"
definition ESP_ERR_NOT_SUPPORTED :: int where [hid_consts]: "ESP_ERR_NOT_SUPPORTED = 0x106"
definition HIDH_OK :: int where [hid_consts]: "HIDH_OK = 0"
definition HIDH_NO_MEM :: int where [hid_consts]: "HIDH_NO_MEM = 0x101"

section \<open>Locks\<close>

definition lock_devices :: "('z, unit) hidh" where
  "lock_devices s =
     (if s_esp_hidh_devices_semaphore s
      then (if hh_locked s then Inl Deadlock else Inr ((), s\<lparr>hh_locked := True\<rparr>))
      else Inr ((), s))"

definition unlock_devices :: "('z, unit) hidh" where
  "unlock_devices s =
     (if s_esp_hidh_devices_semaphore s then Inr ((), s\<lparr>hh_locked := False\<rparr>) else Inr ((), s))"

definition esp_hidh_dev_lock :: "dev_ptr \<Rightarrow> ('z, unit) hidh" where
  "esp_hidh_dev_lock dev =
     (if dev = None then sret ()
      else sbind (get_dev dev) (\<lambda>d.
             if dv_mutex d
             then (if dv_locked d then sfail Deadlock else upd_dev dev (\<lambda>d. d\<lparr>dv_locked := True\<rparr>))
             else sret ()))"

definition esp_hidh_dev_unlock :: "dev_ptr \<Rightarrow> ('z, unit) hidh" where
  "esp_hidh_dev_unlock dev =
     (if dev = None then sret ()
      else sbind (get_dev dev) (\<lambda>d.
             if dv_mutex d then upd_dev dev (\<lambda>d. d\<lparr>dv_locked := False\<rparr>) else sret ()))"

text \<open>The semaphore of a device: waiting for it and giving it.\<close>

definition esp_hidh_dev_wait :: "dev_ptr \<Rightarrow> ('z, unit) hidh" where
  "esp_hidh_dev_wait dev =
     (if dev = None then sret ()
      else sbind (get_dev dev) (\<lambda>d.
             if dv_semaphore d
             then (if dv_given d then upd_dev dev (\<lambda>d. d\<lparr>dv_given := False\<rparr>) else sfail Deadlock)
             else sret ()))"

definition esp_hidh_dev_send :: "dev_ptr \<Rightarrow> ('z, unit) hidh" where
  "esp_hidh_dev_send dev =
     (if dev = None then sret ()
      else sbind (get_dev dev) (\<lambda>d.
             if dv_semaphore d then upd_dev dev (\<lambda>d. d\<lparr>dv_given := True\<rparr>) else sret ()))"

section \<open>The registry\<close>

definition esp_hidh_dev_exists :: "dev_ptr \<Rightarrow> ('z, bool) hidh" where
  "esp_hidh_dev_exists dev =
     (case dev of
        None \<Rightarrow> sret False
      | Some a \<Rightarrow> sseq lock_devices
                   (sbind (sget (\<lambda>s. a \<in> set (s_esp_hidh_devices s))) (\<lambda>found.
                    sseq unlock_devices (sret found))))"

text \<open>The first device of the registry with a property, as the look-ups walk it.\<close>

fun find_dev :: "(esp_hidh_dev_t \<Rightarrow> bool) \<Rightarrow> nat list \<Rightarrow> ('z, dev_ptr) hidh" where
  "find_dev P [] = sret None"
| "find_dev P (a # as) = sbind (get_dev (Some a)) (\<lambda>d. if P d then sret (Some a) else find_dev P as)"

definition esp_hidh_dev_get_by_bda :: "u8 list \<Rightarrow> ('z, dev_ptr) hidh" where
  "esp_hidh_dev_get_by_bda bda =
     sseq lock_devices
       (sbind (sget s_esp_hidh_devices) (\<lambda>ds.
        sbind (find_dev (\<lambda>d. dv_bda d = bda) ds) (\<lambda>r.
        sseq unlock_devices (sret r))))"

definition esp_hidh_dev_get_by_conn_id :: "u16 \<Rightarrow> ('z, dev_ptr) hidh" where
  "esp_hidh_dev_get_by_conn_id conn_id =
     sseq lock_devices
       (sbind (sget s_esp_hidh_devices) (\<lambda>ds.
        sbind (find_dev (\<lambda>d. dv_conn_id d = uint conn_id) ds) (\<lambda>r.
        sseq unlock_devices (sret r))))"

section \<open>Life of the library\<close>

text \<open>The results of the calls of the event loop library and of the transport's initialisation.\<close>

record hidh_init_env =
  ie_loop_created :: bool
  ie_mutex_created :: bool
  ie_register :: int
  ie_ble_init :: int

definition esp_hidh_init :: "hidh_init_env \<Rightarrow> bool option \<Rightarrow> ('z, int) hidh" where
  "esp_hidh_init env config s =
     (case config of
        None \<Rightarrow> Inr (ESP_ERR_INVALID_ARG, s)
      | Some has_callback \<Rightarrow>
          if s_esp_hidh_devices_semaphore s then Inr (ESP_ERR_INVALID_STATE, s)
          else
            let s = s\<lparr>s_esp_hidh_devices := [], s_event_callback := has_callback\<rparr>;
                s = s\<lparr>s_esp_hidh_event_loop_h := s_esp_hidh_event_loop_h s \<or> ie_loop_created env,
                      s_esp_hidh_devices_semaphore := ie_mutex_created env, hh_locked := False\<rparr>;
                alloc_fail = (\<lambda>ret. Inr (ret, s\<lparr>s_esp_hidh_devices_semaphore := False,
                                                 s_esp_hidh_event_loop_h := False\<rparr>))
            in if \<not> (s_esp_hidh_devices_semaphore s \<and> s_esp_hidh_event_loop_h s)
               then alloc_fail HIDH_NO_MEM
               else if ie_register env \<noteq> 0 then alloc_fail (ie_register env)
               else if ie_ble_init env \<noteq> 0 then alloc_fail (ie_ble_init env)
               else Inr (HIDH_OK, s))"

definition esp_hidh_get_event_loop :: "('z, bool) hidh" where
  "esp_hidh_get_event_loop = sget s_esp_hidh_event_loop_h"

definition esp_hidh_deinit :: "int \<Rightarrow> ('z, int) hidh" where
  "esp_hidh_deinit ble_deinit s =
     (if \<not> s_esp_hidh_devices_semaphore s then Inr (ESP_ERR_INVALID_STATE, s)
      else if s_esp_hidh_devices s \<noteq> [] then Inr (ESP_ERR_INVALID_STATE, s)
      else if ble_deinit \<noteq> 0 then Inr (ble_deinit, s)
      else Inr (HIDH_OK, s\<lparr>s_esp_hidh_devices := [], s_esp_hidh_devices_semaphore := False,
                           hh_locked := False, s_esp_hidh_event_loop_h := False\<rparr>))"

section \<open>Calls through a device\<close>

text \<open>The function pointers of a device.\<close>

record 'z hidh_vtable =
  vt_close :: "dev_ptr \<Rightarrow> ('z, int) hidh"
  vt_report_write :: "dev_ptr \<Rightarrow> nat \<Rightarrow> nat \<Rightarrow> int \<Rightarrow> u8 list \<Rightarrow> ('z, int) hidh"
  vt_report_read :: "dev_ptr \<Rightarrow> nat \<Rightarrow> nat \<Rightarrow> int \<Rightarrow> nat \<Rightarrow> bool \<Rightarrow> ('z, int \<times> u8 list) hidh"
  vt_set_report :: "(dev_ptr \<Rightarrow> nat \<Rightarrow> nat \<Rightarrow> int \<Rightarrow> u8 list \<Rightarrow> ('z, int) hidh) option"
  vt_get_idle :: "(dev_ptr \<Rightarrow> ('z, int) hidh) option"
  vt_set_idle :: "(dev_ptr \<Rightarrow> u8 \<Rightarrow> ('z, int) hidh) option"
  vt_get_protocol :: "(dev_ptr \<Rightarrow> ('z, int) hidh) option"
  vt_set_protocol :: "(dev_ptr \<Rightarrow> u8 \<Rightarrow> ('z, int) hidh) option"
  vt_dump :: "dev_ptr \<Rightarrow> ('z, string list) hidh"

text \<open>
  The shape all these calls share: the device must be on the registry, its mutex is held around the
  body, and the result for an unknown device is \<open>fallback\<close>.
\<close>

definition with_dev :: "dev_ptr \<Rightarrow> 'a \<Rightarrow> ('z, 'a) hidh \<Rightarrow> ('z, 'a) hidh" where
  "with_dev dev fallback body =
     sbind (esp_hidh_dev_exists dev) (\<lambda>found.
       if found
       then sseq (esp_hidh_dev_lock dev)
              (sbind body (\<lambda>ret. sseq (esp_hidh_dev_unlock dev) (sret ret)))
       else sret fallback)"

text \<open>A call of a pointer that may be NULL.\<close>

definition if_supported :: "('f \<Rightarrow> ('z, int) hidh) \<Rightarrow> 'f option \<Rightarrow> ('z, int) hidh" where
  "if_supported call fp = (case fp of Some f \<Rightarrow> call f | None \<Rightarrow> sret ESP_ERR_NOT_SUPPORTED)"

definition esp_hidh_dev_close :: "'z hidh_vtable \<Rightarrow> dev_ptr \<Rightarrow> ('z, int) hidh" where
  "esp_hidh_dev_close vt dev = with_dev dev ESP_FAIL (vt_close vt dev)"

definition esp_hidh_dev_dump :: "'z hidh_vtable \<Rightarrow> dev_ptr \<Rightarrow> ('z, string list) hidh" where
  "esp_hidh_dev_dump vt dev = with_dev dev [] (vt_dump vt dev)"

definition esp_hidh_dev_output_set ::
    "'z hidh_vtable \<Rightarrow> dev_ptr \<Rightarrow> nat \<Rightarrow> nat \<Rightarrow> u8 list \<Rightarrow> ('z, int) hidh" where
  "esp_hidh_dev_output_set vt dev map_index report_id v =
     with_dev dev ESP_FAIL
       (vt_report_write vt dev map_index report_id (uint ESP_HID_REPORT_TYPE_OUTPUT) v)"

definition esp_hidh_dev_feature_set ::
    "'z hidh_vtable \<Rightarrow> dev_ptr \<Rightarrow> nat \<Rightarrow> nat \<Rightarrow> u8 list \<Rightarrow> ('z, int) hidh" where
  "esp_hidh_dev_feature_set vt dev map_index report_id v =
     with_dev dev ESP_FAIL
       (vt_report_write vt dev map_index report_id (uint ESP_HID_REPORT_TYPE_FEATURE) v)"

text \<open>
  Reading: the flag of \<open>vt_report_read\<close> says whether the caller passed buffers for the value and its
  length; \<open>esp_hidh_dev_get_report\<close> passes NULL for both.
\<close>

definition esp_hidh_dev_feature_get ::
    "'z hidh_vtable \<Rightarrow> dev_ptr \<Rightarrow> nat \<Rightarrow> nat \<Rightarrow> nat \<Rightarrow> ('z, int \<times> u8 list) hidh" where
  "esp_hidh_dev_feature_get vt dev map_index report_id max_length =
     with_dev dev (ESP_FAIL, [])
       (vt_report_read vt dev map_index report_id (uint ESP_HID_REPORT_TYPE_FEATURE) max_length True)"

definition esp_hidh_dev_set_report ::
    "'z hidh_vtable \<Rightarrow> dev_ptr \<Rightarrow> nat \<Rightarrow> nat \<Rightarrow> int \<Rightarrow> u8 list \<Rightarrow> ('z, int) hidh" where
  "esp_hidh_dev_set_report vt dev map_index report_id report_type data =
     with_dev dev ESP_FAIL
       (if_supported (\<lambda>f. f dev map_index report_id report_type data) (vt_set_report vt))"

definition esp_hidh_dev_get_report ::
    "'z hidh_vtable \<Rightarrow> dev_ptr \<Rightarrow> nat \<Rightarrow> nat \<Rightarrow> int \<Rightarrow> nat \<Rightarrow> ('z, int) hidh" where
  "esp_hidh_dev_get_report vt dev map_index report_id report_type max_len =
     with_dev dev ESP_FAIL
       (sbind (vt_report_read vt dev map_index report_id report_type max_len False) (\<lambda>r. sret (fst r)))"

definition esp_hidh_dev_get_idle :: "'z hidh_vtable \<Rightarrow> dev_ptr \<Rightarrow> ('z, int) hidh" where
  "esp_hidh_dev_get_idle vt dev = with_dev dev ESP_FAIL (if_supported (\<lambda>f. f dev) (vt_get_idle vt))"

definition esp_hidh_dev_set_idle :: "'z hidh_vtable \<Rightarrow> dev_ptr \<Rightarrow> u8 \<Rightarrow> ('z, int) hidh" where
  "esp_hidh_dev_set_idle vt dev idle_time =
     with_dev dev ESP_FAIL (if_supported (\<lambda>f. f dev idle_time) (vt_set_idle vt))"

definition esp_hidh_dev_get_protocol :: "'z hidh_vtable \<Rightarrow> dev_ptr \<Rightarrow> ('z, int) hidh" where
  "esp_hidh_dev_get_protocol vt dev =
     with_dev dev ESP_FAIL (if_supported (\<lambda>f. f dev) (vt_get_protocol vt))"

definition esp_hidh_dev_set_protocol :: "'z hidh_vtable \<Rightarrow> dev_ptr \<Rightarrow> u8 \<Rightarrow> ('z, int) hidh" where
  "esp_hidh_dev_set_protocol vt dev protocol_mode =
     with_dev dev ESP_FAIL (if_supported (\<lambda>f. f dev protocol_mode) (vt_set_protocol vt))"

section \<open>Getters\<close>

text \<open>Reading a field of a device on the registry.\<close>

definition field_get :: "dev_ptr \<Rightarrow> 'a \<Rightarrow> (esp_hidh_dev_t \<Rightarrow> 'a) \<Rightarrow> ('z, 'a) hidh" where
  "field_get dev fallback field = with_dev dev fallback (sbind (get_dev dev) (\<lambda>d. sret (field d)))"

definition esp_hidh_dev_bda_get :: "dev_ptr \<Rightarrow> ('z, u8 list option) hidh" where
  "esp_hidh_dev_bda_get dev = field_get dev None (\<lambda>d. Some (dv_bda d))"

definition esp_hidh_dev_transport_get :: "dev_ptr \<Rightarrow> ('z, esp_hid_transport_t) hidh" where
  "esp_hidh_dev_transport_get dev = field_get dev ESP_HID_TRANSPORT_MAX dv_transport"

definition esp_hidh_dev_config_get :: "dev_ptr \<Rightarrow> ('z, hidh_config option) hidh" where
  "esp_hidh_dev_config_get dev = field_get dev None (\<lambda>d. Some (dv_config d))"

text \<open>A string getter returns the address in the configuration, or that of an empty literal.\<close>

datatype str_ptr = StrNull | StrEmpty | StrAt nat

definition str_or_empty :: "buf_ptr \<Rightarrow> str_ptr" where
  "str_or_empty p = (case p of Some a \<Rightarrow> StrAt a | None \<Rightarrow> StrEmpty)"

definition esp_hidh_dev_name_get :: "dev_ptr \<Rightarrow> ('z, str_ptr) hidh" where
  "esp_hidh_dev_name_get dev =
     field_get dev StrNull (\<lambda>d. str_or_empty (hc_device_name (dv_config d)))"

definition esp_hidh_dev_manufacturer_get :: "dev_ptr \<Rightarrow> ('z, str_ptr) hidh" where
  "esp_hidh_dev_manufacturer_get dev =
     field_get dev StrNull (\<lambda>d. str_or_empty (hc_manufacturer_name (dv_config d)))"

definition esp_hidh_dev_serial_get :: "dev_ptr \<Rightarrow> ('z, str_ptr) hidh" where
  "esp_hidh_dev_serial_get dev =
     field_get dev StrNull (\<lambda>d. str_or_empty (hc_serial_number (dv_config d)))"

definition esp_hidh_dev_vendor_id_get :: "dev_ptr \<Rightarrow> ('z, u16) hidh" where
  "esp_hidh_dev_vendor_id_get dev = field_get dev 0 (\<lambda>d. hc_vendor_id (dv_config d))"

definition esp_hidh_dev_product_id_get :: "dev_ptr \<Rightarrow> ('z, u16) hidh" where
  "esp_hidh_dev_product_id_get dev = field_get dev 0 (\<lambda>d. hc_product_id (dv_config d))"

text \<open>This one asks for a device that is \<^emph>\<open>not\<close> on the registry.\<close>

definition esp_hidh_dev_version_get :: "dev_ptr \<Rightarrow> ('z, u16) hidh" where
  "esp_hidh_dev_version_get dev =
     sbind (esp_hidh_dev_exists dev) (\<lambda>found.
       if \<not> found
       then sseq (esp_hidh_dev_lock dev)
              (sbind (get_dev dev) (\<lambda>d.
                 sseq (esp_hidh_dev_unlock dev) (sret (hc_version (dv_config d)))))
       else sret 0)"

definition esp_hidh_dev_usage_get :: "dev_ptr \<Rightarrow> ('z, esp_hid_usage_t) hidh" where
  "esp_hidh_dev_usage_get dev = field_get dev ESP_HID_USAGE_GENERIC dv_usage"

text \<open>
  Copying the reports into an array (lines 496 to 512). The counter is eight bits wide; a list of
  reports that ends before the count, or a count the counter never reaches, is an error.
\<close>

definition report_item_of :: "esp_hidh_dev_report_t \<Rightarrow> esp_hid_report_item_t" where
  "report_item_of dr = \<lparr>ri_map_index = hr_map_index dr, ri_report_id = hr_report_id dr,
     ri_report_type = hr_report_type dr, ri_protocol_mode = hr_protocol_mode dr,
     ri_usage = hr_usage dr, ri_value_len = ucast (hr_value_len dr)\<rparr>"

fun copy_reports :: "u8 \<Rightarrow> nat \<Rightarrow> esp_hidh_dev_report_t list \<Rightarrow> esp_hid_report_item_t list \<Rightarrow>
    esp_hid_report_item_t list option" where
  "copy_reports i n drs r =
     (if unat i < n
      then (case drs of
              [] \<Rightarrow> None
            | dr # ds \<Rightarrow> copy_reports (i + 1) n ds (r[unat i := report_item_of dr]))
      else Some r)"

declare copy_reports.simps [simp del]

definition item_zero :: esp_hid_report_item_t where
  "item_zero = \<lparr>ri_map_index = 0, ri_report_id = 0, ri_report_type = 0, ri_protocol_mode = 0,
                ri_usage = ESP_HID_USAGE_GENERIC, ri_value_len = 0\<rparr>"

definition esp_hidh_dev_reports_get ::
    "(nat \<Rightarrow> bool) \<Rightarrow> dev_ptr \<Rightarrow> ('z, int \<times> esp_hid_report_item_t list) hidh" where
  "esp_hidh_dev_reports_get aok dev =
     with_dev dev (ESP_FAIL, [])
       (sbind (get_dev dev) (\<lambda>d.
        sbind (request aok) (\<lambda>ok.
          if \<not> ok then sret (ESP_FAIL, [])
          else case copy_reports 0 (dv_reports_len d) (dv_reports d)
                      (replicate (dv_reports_len d) item_zero) of
                 None \<Rightarrow> sret (ESP_FAIL, [])
               | Some r \<Rightarrow> sret (0, r))))"

definition esp_hidh_dev_report_maps_get ::
    "dev_ptr \<Rightarrow> ('z, int \<times> (nat \<times> (buf_ptr \<times> u16) list option)) hidh" where
  "esp_hidh_dev_report_maps_get dev =
     field_get dev (ESP_FAIL, (0, None))
       (\<lambda>d. (HIDH_OK, (unat (hc_report_maps_len (dv_config d)), hc_report_maps (dv_config d))))"

end
