(* ===== verification/HidhLife.thy ===== *)
theory HidhLife
  imports HidhCore
begin

text \<open>
  The rest of \<open>esp_hid/src/esp_hidh.c\<close> in a NimBLE build: finding a report of a device, allocating and
  freeing a device, and the handlers that run before and after the application's event callback.
\<close>

section \<open>Finding a report\<close>

definition esp_hidh_dev_get_report_by_handle :: "esp_hidh_dev_t \<Rightarrow> u16 \<Rightarrow> esp_hidh_dev_report_t option" where
  "esp_hidh_dev_get_report_by_handle d handle = find (\<lambda>r. hr_handle r = handle) (dv_reports d)"

definition esp_hidh_dev_get_report_by_id_type_proto ::
    "esp_hidh_dev_t \<Rightarrow> nat \<Rightarrow> nat \<Rightarrow> int \<Rightarrow> u8 \<Rightarrow> esp_hidh_dev_report_t option" where
  "esp_hidh_dev_get_report_by_id_type_proto d map_index report_id report_type protocol_mode =
     find (\<lambda>r. unat (hr_map_index r) = map_index \<and> uint (hr_report_type r) = report_type
             \<and> unat (hr_report_id r) = report_id \<and> hr_protocol_mode r = protocol_mode) (dv_reports d)"

definition esp_hidh_dev_get_report_by_id_and_type ::
    "esp_hidh_dev_t \<Rightarrow> nat \<Rightarrow> nat \<Rightarrow> int \<Rightarrow> esp_hidh_dev_report_t option" where
  "esp_hidh_dev_get_report_by_id_and_type d map_index report_id report_type =
     find (\<lambda>r. unat (hr_map_index r) = map_index \<and> unat (hr_report_id r) = report_id
             \<and> uint (hr_report_type r) = report_type
             \<and> hr_protocol_mode r = ESP_HID_PROTOCOL_MODE_REPORT) (dv_reports d)"

definition esp_hidh_dev_get_input_report_by_id_and_proto ::
    "esp_hidh_dev_t \<Rightarrow> nat \<Rightarrow> int \<Rightarrow> esp_hidh_dev_report_t option" where
  "esp_hidh_dev_get_input_report_by_id_and_proto d report_id protocol_mode =
     find (\<lambda>r. unat (hr_report_id r) = report_id \<and> nz (hr_report_type r AND ESP_HID_REPORT_TYPE_INPUT)
             \<and> uint (hr_protocol_mode r) = protocol_mode) (dv_reports d)"

definition esp_hidh_dev_get_input_report_by_len_and_proto ::
    "esp_hidh_dev_t \<Rightarrow> u32 \<Rightarrow> int \<Rightarrow> esp_hidh_dev_report_t option" where
  "esp_hidh_dev_get_input_report_by_len_and_proto d len protocol_mode =
     find (\<lambda>r. hr_value_len r = len \<and> nz (hr_report_type r AND ESP_HID_REPORT_TYPE_INPUT)
             \<and> uint (hr_protocol_mode r) = protocol_mode) (dv_reports d)"

text \<open>
  The report that received data belong to, and whether they start with its id. \<open>len\<close> is 32 bits wide;
  reading the first byte of no data is a fault.
\<close>

definition esp_hidh_dev_get_input_report_by_proto_and_data ::
    "esp_hidh_dev_t \<Rightarrow> int \<Rightarrow> u32 \<Rightarrow> u8 list \<Rightarrow> (esp_hidh_dev_report_t option \<times> bool) res" where
  "esp_hidh_dev_get_input_report_by_proto_and_data d protocol_mode len data =
     (case find (\<lambda>r. hr_value_len r = len \<and> hr_report_id r = 0
                   \<and> nz (hr_report_type r AND ESP_HID_REPORT_TYPE_INPUT)
                   \<and> uint (hr_protocol_mode r) = protocol_mode) (dv_reports d) of
        Some r \<Rightarrow> Inr (Some r, False)
      | None \<Rightarrow>
          (case data of
             [] \<Rightarrow> Inl OutOfBounds
           | first # _ \<Rightarrow>
               if first = 0 then Inr (None, False)
               else case find (\<lambda>r. hr_value_len r \<le> len - 1 \<and> hr_report_id r = first
                                 \<and> nz (hr_report_type r AND ESP_HID_REPORT_TYPE_INPUT)
                                 \<and> uint (hr_protocol_mode r) = protocol_mode) (dv_reports d) of
                      Some r \<Rightarrow> Inr (Some r, True)
                    | None \<Rightarrow> Inr (None, False)))"

section \<open>Life of a device\<close>

text \<open>Lines 688 to 694: the data of the report maps and the array. Reading the entries of a NULL array
  is a fault.\<close>

definition free_report_maps :: "hidh_config \<Rightarrow> ('z, unit) hidh" where
  "free_report_maps c =
     (case hc_report_maps c of
        None \<Rightarrow> (if hc_report_maps_len c = 0 then sret () else sfail NullDeref)
      | Some ms \<Rightarrow>
          (if unat (hc_report_maps_len c) \<le> length ms
           then sfor (take (unat (hc_report_maps_len c)) ms) (\<lambda>m. free_buf (fst m))
           else sfail OutOfBounds))"

definition esp_hidh_dev_resources_free :: "nat \<Rightarrow> ('z, unit) hidh" where
  "esp_hidh_dev_resources_free a =
     sseq (esp_hidh_dev_lock (Some a))
       (sbind (get_dev (Some a)) (\<lambda>d.
        sseq (free_buf (hc_device_name (dv_config d)))
        (sseq (free_buf (hc_manufacturer_name (dv_config d)))
        (sseq (free_buf (hc_serial_number (dv_config d)))
        (sseq (free_report_maps (dv_config d))
        (sseq (upd_dev (Some a) (\<lambda>d. d\<lparr>dv_reports := []\<rparr>))
        (sseq (esp_hidh_dev_unlock (Some a))
              (free_dev a))))))))"

definition esp_hidh_dev_malloc :: "(nat \<Rightarrow> bool) \<Rightarrow> ('z, dev_ptr) hidh" where
  "esp_hidh_dev_malloc aok =
     sbind (request aok) (\<lambda>ok.
       if \<not> ok then sret None
       else sbind (new_dev dev_zero) (\<lambda>a.
            sbind (request aok) (\<lambda>sem.
              if \<not> sem then sseq (esp_hidh_dev_resources_free a) (sret None)
              else sseq (upd_dev (Some a) (\<lambda>d. d\<lparr>dv_semaphore := True\<rparr>))
                   (sbind (request aok) (\<lambda>mutex.
                     if \<not> mutex then sseq (esp_hidh_dev_resources_free a) (sret None)
                     else sseq (upd_dev (Some a) (\<lambda>d. d\<lparr>dv_mutex := True\<rparr>))
                          (sseq lock_devices
                          (sseq (smod (\<lambda>s. s\<lparr>s_esp_hidh_devices := s_esp_hidh_devices s @ [a]\<rparr>))
                          (sseq unlock_devices (sret (Some a)))))))))) "

definition esp_hidh_dev_free :: "dev_ptr \<Rightarrow> ('z, int) hidh" where
  "esp_hidh_dev_free dev = sret HIDH_OK"

definition esp_hidh_dev_free_inner :: "dev_ptr \<Rightarrow> ('z, int) hidh" where
  "esp_hidh_dev_free_inner dev =
     (case dev of
        None \<Rightarrow> sret ESP_FAIL
      | Some a \<Rightarrow>
          sseq lock_devices
            (sbind (sget (\<lambda>s. a \<in> set (s_esp_hidh_devices s))) (\<lambda>found.
             if found
             then sseq (smod (\<lambda>s. s\<lparr>s_esp_hidh_devices := remove1 a (s_esp_hidh_devices s)\<rparr>))
                    (sseq (esp_hidh_dev_resources_free a)
                    (sseq unlock_devices (sret HIDH_OK)))
             else sseq unlock_devices (sret ESP_FAIL))))"

text \<open>Opening: the transport's open is an argument.\<close>

definition esp_hidh_dev_open ::
    "(u8 list \<Rightarrow> u8 \<Rightarrow> ('z, dev_ptr) hidh) \<Rightarrow> u8 list \<Rightarrow> u8 \<Rightarrow> ('z, dev_ptr) hidh" where
  "esp_hidh_dev_open ble_open bda remote_addr_type =
     sbind (esp_hidh_dev_get_by_bda bda) (\<lambda>known.
       if known \<noteq> None then sret None else ble_open bda remote_addr_type)"

section \<open>Events\<close>

text \<open>
  A posted event. An input or feature event carries its length and a pointer to its data; the bytes
  themselves travel behind the event, and the pointer still leads into the block the sender freed
  (\<open>StaleData\<close>) until it is set to the copy (\<open>TailData\<close>).
\<close>

datatype data_ptr = NoData | StaleData | TailData

record hidh_report_event =
  he_dev :: dev_ptr
  he_usage :: esp_hid_usage_t
  he_report_id :: u16
  he_length :: u16
  he_data :: data_ptr
  he_map_index :: u8
  he_tail :: "u8 list"

datatype hidh_event_data =
    StartEvent int
  | OpenEvent dev_ptr int
  | BatteryEvent dev_ptr u8
  | InputEvent hidh_report_event
  | FeatureEvent hidh_report_event
  | CloseEvent dev_ptr int int
  | StopEvent int

definition relocate :: "hidh_report_event \<Rightarrow> hidh_report_event" where
  "relocate p = (if nz (he_length p) \<and> he_data p \<noteq> NoData then p\<lparr>he_data := TailData\<rparr> else p)"

definition esp_hidh_preprocess_event_handler :: "hidh_event_data \<Rightarrow> hidh_event_data" where
  "esp_hidh_preprocess_event_handler e =
     (case e of
        InputEvent p \<Rightarrow> InputEvent (relocate p)
      | FeatureEvent p \<Rightarrow> FeatureEvent (relocate p)
      | _ \<Rightarrow> e)"

definition esp_hidh_postprocess_event_handler :: "hidh_event_data \<Rightarrow> ('z, unit) hidh" where
  "esp_hidh_postprocess_event_handler e =
     (case e of
        OpenEvent dev st \<Rightarrow>
          (if st \<noteq> HIDH_OK \<and> dev \<noteq> None then sseq (esp_hidh_dev_free_inner dev) (sret ()) else sret ())
      | _ \<Rightarrow> sret ())"

definition esp_hidh_event_handler_wrapper ::
    "(hidh_event_data \<Rightarrow> ('z, unit) hidh) \<Rightarrow> hidh_event_data \<Rightarrow> ('z, unit) hidh" where
  "esp_hidh_event_handler_wrapper cb e =
     (let e = esp_hidh_preprocess_event_handler e
      in sbind (sget s_event_callback) (\<lambda>installed.
         sseq (if installed then cb e else sret ())
              (esp_hidh_postprocess_event_handler e)))"

end
