(* ===== verification/HidhInv.thy ===== *)
theory HidhInv
  imports HidhLife
begin

text \<open>
  The invariant of the HID host library: the registry links exactly the devices that are allocated,
  each once; no lock is held between two calls; every buffer a device points to is allocated and has
  no other owner. Every operation keeps it, without a fault. The contract of the registry is the
  locale \<open>registry\<close>, interpreted on the operations of \<open>HidhLife\<close>.
\<close>

section \<open>The invariant\<close>

definition map_bufs :: "hidh_config \<Rightarrow> nat list" where
  "map_bufs c = (case hc_report_maps c of
     None \<Rightarrow> [] | Some ms \<Rightarrow> List.map_filter fst (take (unat (hc_report_maps_len c)) ms))"

definition opt_list :: "'a option \<Rightarrow> 'a list" where
  "opt_list p = (case p of None \<Rightarrow> [] | Some x \<Rightarrow> [x])"

text \<open>The buffers that freeing a device frees, and all that it owns.\<close>

definition freed_bufs :: "esp_hidh_dev_t \<Rightarrow> nat list" where
  "freed_bufs d = opt_list (hc_device_name (dv_config d)) @ opt_list (hc_manufacturer_name (dv_config d))
     @ opt_list (hc_serial_number (dv_config d)) @ map_bufs (dv_config d)"

definition owned_bufs :: "esp_hidh_dev_t \<Rightarrow> nat list" where
  "owned_bufs d = freed_bufs d @ opt_list (dv_protocol_mode d)"

definition maps_ok :: "hidh_config \<Rightarrow> bool" where
  "maps_ok c \<longleftrightarrow> (case hc_report_maps c of
     None \<Rightarrow> hc_report_maps_len c = 0 | Some ms \<Rightarrow> unat (hc_report_maps_len c) \<le> length ms)"

definition dev_ok :: "(nat \<Rightarrow> u8 list option) \<Rightarrow> esp_hidh_dev_t \<Rightarrow> bool" where
  "dev_ok bufs d \<longleftrightarrow> maps_ok (dv_config d) \<and> distinct (owned_bufs d) \<and> set (owned_bufs d) \<subseteq> dom bufs
     \<and> \<not> dv_locked d"

definition hidh_inv :: "'z hidh_st_scheme \<Rightarrow> bool" where
  "hidh_inv s \<longleftrightarrow>
     distinct (s_esp_hidh_devices s)
     \<and> dom (hh_devs s) = set (s_esp_hidh_devices s)
     \<and> (\<forall>a \<in> dom (hh_devs s) \<union> dom (hh_bufs s). a < hh_next s)
     \<and> \<not> hh_locked s
     \<and> (\<forall>a d. hh_devs s a = Some d \<longrightarrow> dev_ok (hh_bufs s) d)
     \<and> (\<forall>a b d e. hh_devs s a = Some d \<longrightarrow> hh_devs s b = Some e \<longrightarrow> a \<noteq> b \<longrightarrow>
          set (owned_bufs d) \<inter> set (owned_bufs e) = {})"

lemma hidh_init_inv [inv_intros]: "hidh_inv hidh_st_init"
  by (simp add: hidh_inv_def hidh_st_init_def)

lemma hidh_invD:
  assumes "hidh_inv s"
  shows "distinct (s_esp_hidh_devices s)" "dom (hh_devs s) = set (s_esp_hidh_devices s)" "\<not> hh_locked s"
    "hh_devs s a = Some d \<Longrightarrow> dev_ok (hh_bufs s) d" "hh_devs s a = Some d \<Longrightarrow> a < hh_next s"
    "hh_devs s a = Some d \<Longrightarrow> \<not> dv_locked d" "a \<in> set (s_esp_hidh_devices s) \<Longrightarrow> \<exists>d. hh_devs s a = Some d"
    "hh_devs s (hh_next s) = None" "hh_bufs s (hh_next s) = None"
  using assms by (auto simp: hidh_inv_def dev_ok_def dom_def)

lemma hidh_inv_cong:
  assumes "hh_devs u = hh_devs t" "hh_bufs u = hh_bufs t" "hh_next u = hh_next t"
    "s_esp_hidh_devices u = s_esp_hidh_devices t" "hh_locked u = hh_locked t"
  shows "hidh_inv u \<longleftrightarrow> hidh_inv t"
  unfolding hidh_inv_def assms ..

section \<open>Locks and look-ups\<close>

lemma lock_unlock_devices:
  assumes "\<not> hh_locked s"
  shows "lock_devices s = Inr ((), s\<lparr>hh_locked := s_esp_hidh_devices_semaphore s\<rparr>)"
    and "s_esp_hidh_devices_semaphore t = s_esp_hidh_devices_semaphore s \<Longrightarrow>
         hh_locked t = s_esp_hidh_devices_semaphore s \<Longrightarrow> unlock_devices t = Inr ((), t\<lparr>hh_locked := False\<rparr>)"
  using assms by (simp_all add: lock_devices_def unlock_devices_def)

lemma exists_spec:
  assumes "\<not> hh_locked s"
  shows "esp_hidh_dev_exists dev s = Inr (dev \<in> Some ` set (s_esp_hidh_devices s), s)"
  using assms
  by (cases dev)
     (auto simp: esp_hidh_dev_exists_def sseq_def sbind_def lock_devices_def unlock_devices_def image_iff)

lemma find_dev_spec:
  "set as \<subseteq> dom (hh_devs s) \<Longrightarrow>
   find_dev P as s = Inr (find (\<lambda>a. P (the (hh_devs s a))) as, s)"
  by (induction as) (auto simp: sbind_def get_dev_def)

lemma get_by_spec:
  assumes "hidh_inv s"
  shows "esp_hidh_dev_get_by_bda bda s =
           Inr (find (\<lambda>a. dv_bda (the (hh_devs s a)) = bda) (s_esp_hidh_devices s), s)"
    and "esp_hidh_dev_get_by_conn_id c s =
           Inr (find (\<lambda>a. dv_conn_id (the (hh_devs s a)) = uint c) (s_esp_hidh_devices s), s)"
  using hidh_invD(2,3) [OF assms]
  by (simp_all add: esp_hidh_dev_get_by_bda_def esp_hidh_dev_get_by_conn_id_def sseq_def sbind_def
      lock_devices_def unlock_devices_def find_dev_spec)

lemma dev_lock_spec:
  "hh_devs s a = Some d \<Longrightarrow> \<not> dv_locked d \<Longrightarrow>
   esp_hidh_dev_lock (Some a) s = Inr ((), s\<lparr>hh_devs := (hh_devs s)(a := Some (d\<lparr>dv_locked := dv_mutex d\<rparr>))\<rparr>)"
  by (simp add: esp_hidh_dev_lock_def sbind_def get_dev_def upd_dev_def fun_upd_idem)

lemma dev_unlock_spec:
  "hh_devs s a = Some d \<Longrightarrow>
   esp_hidh_dev_unlock (Some a) s =
     Inr ((), s\<lparr>hh_devs := (hh_devs s)(a := Some (if dv_mutex d then d\<lparr>dv_locked := False\<rparr> else d))\<rparr>)"
  by (simp add: esp_hidh_dev_unlock_def sbind_def get_dev_def upd_dev_def fun_upd_idem)

section \<open>Freeing\<close>

definition drop_bufs :: "nat list \<Rightarrow> 'z hidh_st_scheme \<Rightarrow> 'z hidh_st_scheme" where
  "drop_bufs bs s = s\<lparr>hh_bufs := (\<lambda>b. if b \<in> set bs then None else hh_bufs s b)\<rparr>"

lemma drop_bufs_simps [simp]:
  "drop_bufs [] s = s" "drop_bufs bs (drop_bufs cs s) = drop_bufs (cs @ bs) s"
  "hh_devs (drop_bufs bs s) = hh_devs s" "hh_bufs (drop_bufs bs s) b = (if b \<in> set bs then None else hh_bufs s b)"
  "s_esp_hidh_devices (drop_bufs bs s) = s_esp_hidh_devices s" "hh_next (drop_bufs bs s) = hh_next s"
  "hh_locked (drop_bufs bs s) = hh_locked s"
  "s_esp_hidh_devices_semaphore (drop_bufs bs s) = s_esp_hidh_devices_semaphore s"
  by (auto simp: drop_bufs_def fun_eq_iff)

lemma drop_bufs_update [simp]:
  "drop_bufs bs (s\<lparr>hh_devs := x\<rparr>) = (drop_bufs bs s)\<lparr>hh_devs := x\<rparr>"
  by (simp add: drop_bufs_def cong: if_cong)

lemma dom_drop_bufs [simp]: "dom (hh_bufs (drop_bufs bs s)) = dom (hh_bufs s) - set bs"
  by (auto simp: dom_def)

lemma free_buf_spec:
  "set (opt_list p) \<subseteq> dom (hh_bufs s) \<Longrightarrow> free_buf p s = Inr ((), drop_bufs (opt_list p) s)"
  by (cases p) (auto simp: free_buf_def opt_list_def drop_bufs_def fun_eq_iff split: option.split)

lemma sfor_free_spec:
  "distinct (List.map_filter fst ms) \<Longrightarrow> set (List.map_filter fst ms) \<subseteq> dom (hh_bufs s) \<Longrightarrow>
   sfor ms (\<lambda>m. free_buf (fst m)) s = Inr ((), drop_bufs (List.map_filter fst ms) s)"
proof (induction ms arbitrary: s)
  case Nil
  then show ?case by simp
next
  case (Cons m ms)
  have one: "free_buf (fst m) s = Inr ((), drop_bufs (opt_list (fst m)) s)"
    using Cons.prems by (intro free_buf_spec) (auto simp: opt_list_def List.map_filter_simps split: option.splits)
  have eq: "List.map_filter fst (m # ms) = opt_list (fst m) @ List.map_filter fst ms"
    by (simp add: List.map_filter_simps opt_list_def split: option.split)
  show ?case
    using Cons.prems unfolding eq by (simp add: sseq_def sbind_def one) (subst Cons.IH; auto)
qed

lemma free_report_maps_spec:
  assumes "maps_ok c" and "distinct (map_bufs c)" and "set (map_bufs c) \<subseteq> dom (hh_bufs s)"
  shows "free_report_maps c s = Inr ((), drop_bufs (map_bufs c) s)"
  using assms
  by (cases "hc_report_maps c") (simp_all add: free_report_maps_def maps_ok_def map_bufs_def sfor_free_spec)

lemma resources_free_spec:
  assumes d: "hh_devs s a = Some d" and ok: "dev_ok (hh_bufs s) d"
  shows "esp_hidh_dev_resources_free a s =
     Inr ((), (drop_bufs (freed_bufs d) s)\<lparr>hh_devs := (hh_devs s)(a := None)\<rparr>)"
proof -
  let ?c = "dv_config d"
  let ?d = "d\<lparr>dv_locked := dv_mutex d\<rparr>"
  let ?s0 = "s\<lparr>hh_devs := (hh_devs s)(a := Some ?d)\<rparr>"
  let ?n = "opt_list (hc_device_name ?c)" and ?m = "opt_list (hc_manufacturer_name ?c)"
    and ?r = "opt_list (hc_serial_number ?c)"
  have sub: "set (freed_bufs d) \<subseteq> dom (hh_bufs s)" "distinct (freed_bufs d)" "\<not> dv_locked d" "maps_ok ?c"
    using ok by (auto simp: dev_ok_def owned_bufs_def)
  have lock: "esp_hidh_dev_lock (Some a) s = Inr ((), ?s0)" by (rule dev_lock_spec [OF d sub(3)])
  have dev: "get_dev (Some a) ?s0 = Inr (?d, ?s0)" by (simp add: get_dev_def)
  have f1: "free_buf (hc_device_name ?c) ?s0 = Inr ((), drop_bufs ?n ?s0)"
    using sub(1) by (intro free_buf_spec) (simp add: freed_bufs_def)
  have f2: "free_buf (hc_manufacturer_name ?c) (drop_bufs ?n ?s0) = Inr ((), drop_bufs (?n @ ?m) ?s0)"
    using sub by (subst free_buf_spec) (auto simp: freed_bufs_def)
  have f3: "free_buf (hc_serial_number ?c) (drop_bufs (?n @ ?m) ?s0) = Inr ((), drop_bufs (?n @ ?m @ ?r) ?s0)"
    using sub by (subst free_buf_spec) (auto simp: freed_bufs_def)
  have f4: "free_report_maps ?c (drop_bufs (?n @ ?m @ ?r) ?s0) = Inr ((), drop_bufs (freed_bufs d) ?s0)"
    using sub by (subst free_report_maps_spec) (auto simp: freed_bufs_def)
  show ?thesis
    unfolding esp_hidh_dev_resources_free_def
    using lock dev f1 f2 f3 f4
    by (simp add: sseq_def sbind_def upd_dev_def dev_unlock_spec free_dev_def del: drop_bufs_update)
       simp
qed


lemma unlocked_idem [simp]: "\<not> hh_locked s \<Longrightarrow> s\<lparr>hh_locked := False\<rparr> = s"
  by (cases s) simp

text \<open>What allocating and freeing a device do, on every path.\<close>

lemma resources_free_fresh:
  assumes "hh_devs s a = Some d" and "dv_config d = config_zero" and "\<not> dv_locked d"
  shows "esp_hidh_dev_resources_free a s = Inr ((), s\<lparr>hh_devs := (hh_devs s)(a := None)\<rparr>)"
  using assms
  by (simp add: esp_hidh_dev_resources_free_def sseq_def sbind_def dev_lock_spec dev_unlock_spec get_dev_def
      upd_dev_def free_dev_def free_buf_def free_report_maps_def config_zero_def)

definition new_device :: esp_hidh_dev_t where
  "new_device = dev_zero\<lparr>dv_semaphore := True, dv_mutex := True\<rparr>"

definition add_device :: "nat \<Rightarrow> esp_hidh_dev_t \<Rightarrow> 'z hidh_st_scheme \<Rightarrow> 'z hidh_st_scheme" where
  "add_device a d s = s\<lparr>hh_devs := (hh_devs s)(a := Some d), s_esp_hidh_devices := s_esp_hidh_devices s @ [a]\<rparr>"

definition del_device :: "nat \<Rightarrow> 'z hidh_st_scheme \<Rightarrow> 'z hidh_st_scheme" where
  "del_device a s = s\<lparr>hh_devs := (hh_devs s)(a := None), s_esp_hidh_devices := remove1 a (s_esp_hidh_devices s)\<rparr>"

lemma malloc_spec:
  assumes inv: "hidh_inv s"
  shows "esp_hidh_dev_malloc aok s =
    (let n = hh_allocs s; a = hh_next s in
     if \<not> aok n then Inr (None, s\<lparr>hh_allocs := n + 1\<rparr>)
     else if \<not> aok (n + 1) then Inr (None, s\<lparr>hh_allocs := n + 2, hh_next := a + 1\<rparr>)
     else if \<not> aok (n + 2) then Inr (None, s\<lparr>hh_allocs := n + 3, hh_next := a + 1\<rparr>)
     else Inr (Some a, add_device a new_device (s\<lparr>hh_allocs := n + 3, hh_next := a + 1\<rparr>)))"
proof -
  have fresh: "hh_devs s (hh_next s) = None" and idle: "\<not> hh_locked s"
    using hidh_invD [OF inv] by auto
  have same: "(hh_devs s)(hh_next s := None) = hh_devs s" using fresh by (rule fun_upd_idem)
  show ?thesis
    using fresh idle same
    by (simp add: esp_hidh_dev_malloc_def sbind_def sseq_def request_def new_dev_def upd_dev_def
        resources_free_fresh dev_zero_def lock_devices_def unlock_devices_def add_device_def new_device_def
        Let_def numeral_2_eq_2 numeral_3_eq_3)
qed

lemma free_inner_spec:
  assumes inv: "hidh_inv s"
  shows "esp_hidh_dev_free_inner dev s =
    (case dev of
       None \<Rightarrow> Inr (ESP_FAIL, s)
     | Some a \<Rightarrow> (case hh_devs s a of
                    None \<Rightarrow> Inr (ESP_FAIL, s)
                  | Some d \<Rightarrow> Inr (HIDH_OK, del_device a (drop_bufs (freed_bufs d) s))))"
proof (cases dev)
  case None
  then show ?thesis by (simp add: esp_hidh_dev_free_inner_def)
next
  case (Some a)
  have idle: "\<not> hh_locked s" and dom: "a \<in> set (s_esp_hidh_devices s) \<longleftrightarrow> a \<in> dom (hh_devs s)"
    using hidh_invD [OF inv] by auto
  show ?thesis
  proof (cases "hh_devs s a")
    case None
    then have "a \<notin> set (s_esp_hidh_devices s)" using dom by auto
    then show ?thesis using Some None idle
      by (simp add: esp_hidh_dev_free_inner_def sseq_def sbind_def lock_devices_def unlock_devices_def)
  next
    case (Some d)
    let ?t = "\<lambda>l. s\<lparr>hh_locked := l, s_esp_hidh_devices := remove1 a (s_esp_hidh_devices s)\<rparr>"
    have ok: "dev_ok (hh_bufs s) d" and reg: "a \<in> set (s_esp_hidh_devices s)"
      using hidh_invD [OF inv] Some dom by auto
    have free: "esp_hidh_dev_resources_free a (?t l) =
        Inr ((), (drop_bufs (freed_bufs d) (?t l))\<lparr>hh_devs := (hh_devs (?t l))(a := None)\<rparr>)" for l
      by (rule resources_free_spec) (simp_all add: Some ok)
    show ?thesis
      using \<open>dev = Some a\<close> Some idle reg free [of True]
        resources_free_spec [of "s\<lparr>s_esp_hidh_devices := remove1 a (s_esp_hidh_devices s)\<rparr>" a d]
      by (simp add: esp_hidh_dev_free_inner_def sseq_def sbind_def lock_devices_def unlock_devices_def
          ok del_device_def drop_bufs_def cong: if_cong)
  qed
qed

section \<open>The invariant is kept\<close>

lemma hidh_inv_fresh [inv_intros]:
  "hidh_inv s \<Longrightarrow> hh_next s \<le> n \<Longrightarrow> hidh_inv (s\<lparr>hh_allocs := k, hh_next := n\<rparr>)"
  "hidh_inv s \<Longrightarrow> hidh_inv (s\<lparr>hh_allocs := k\<rparr>)"
  by (auto simp: hidh_inv_def dest!: bspec intro: less_le_trans)

lemma add_device_inv:
  assumes inv: "hidh_inv s" and n: "n = hh_next s + 1"
  shows "hidh_inv (add_device (hh_next s) new_device (s\<lparr>hh_allocs := k, hh_next := n\<rparr>))"
proof -
  have own: "owned_bufs new_device = []" and ok: "dev_ok (hh_bufs s) new_device"
    by (simp_all add: new_device_def owned_bufs_def freed_bufs_def dev_zero_def config_zero_def opt_list_def
        map_bufs_def dev_ok_def maps_ok_def)
  have fresh: "hh_next s \<notin> set (s_esp_hidh_devices s)" using hidh_invD [OF inv] by auto
  show ?thesis
    using inv own ok fresh unfolding hidh_inv_def add_device_def n by (auto intro: less_SucI)
qed

lemma dev_ok_drop:
  assumes "dev_ok bufs d" and "set bs \<inter> set (owned_bufs d) = {}"
  shows "dev_ok (\<lambda>b. if b \<in> set bs then None else bufs b) d"
  using assms by (auto simp: dev_ok_def dom_def)

lemma freed_owned: "set (freed_bufs d) \<subseteq> set (owned_bufs d)"
  by (simp add: owned_bufs_def)

lemma del_device_inv:
  assumes inv: "hidh_inv s" and d: "hh_devs s a = Some d"
  shows "hidh_inv (del_device a (drop_bufs (freed_bufs d) s))"
proof -
  have apart: "set (freed_bufs d) \<inter> set (owned_bufs e) = {}" if "hh_devs s b = Some e" "b \<noteq> a" for b e
    using inv d that freed_owned [of d] unfolding hidh_inv_def by blast
  have "dev_ok (hh_bufs (drop_bufs (freed_bufs d) s)) e" if "hh_devs s b = Some e" "b \<noteq> a" for b e
    using dev_ok_drop [OF _ apart [OF that]] hidh_invD(4) [OF inv that(1)] by (simp add: drop_bufs_def)
  then show ?thesis
    using inv by (auto simp: hidh_inv_def del_device_def split: if_splits)
qed

text \<open>A new block changes nothing for the devices.\<close>

lemma dev_ok_new: "dev_ok B d \<Longrightarrow> dev_ok (B(p := Some bs)) d"
  by (auto simp: dev_ok_def)

lemma hidh_inv_new_buf:
  assumes inv: "hidh_inv s" and p: "hh_next s \<le> p" "p < n"
    and t: "hh_devs t = hh_devs s" "s_esp_hidh_devices t = s_esp_hidh_devices s" "hh_locked t = hh_locked s"
      "hh_bufs t = (hh_bufs s)(p := Some bs)" "hh_next t = n"
  shows "hidh_inv t" and "hh_bufs s p = None"
proof -
  have below: "a < hh_next s" if "a \<in> dom (hh_devs s) \<union> dom (hh_bufs s)" for a
    using inv that unfolding hidh_inv_def by blast
  then have "a < n" if "a \<in> dom (hh_devs s) \<union> dom (hh_bufs s) \<or> a = p" for a
    using that p by fastforce
  then show "hidh_inv t"
    using inv dev_ok_new unfolding hidh_inv_def t by (auto simp del: not_None_eq)
  show "hh_bufs s p = None" using below [of p] p by fastforce
qed

end
