(* ===== verification/HidhThms.thy ===== *)
theory HidhThms
  imports HidhInv
begin

text \<open>
  What the HID host library promises: the contract of the registry of devices and its refinement of a
  set of live handles, the discipline of the locks in the calls that go through a device, the getters,
  the copy of the reports, the life of the library and the relocation of an event's data.
\<close>

section \<open>The contract of a registry\<close>

text \<open>
  What a client of a registry of devices relies on: allocating gives a fresh handle or none, releasing
  removes exactly its handle and refuses a handle that is not there, and nothing ever faults.
\<close>

datatype reg_op = RAlloc | RFree nat

datatype reg_ans = Handle dev_ptr | Freed int

fun reg_run :: "('s, dev_ptr) prog \<Rightarrow> (nat \<Rightarrow> ('s, int) prog) \<Rightarrow> reg_op list \<Rightarrow> ('s, reg_ans list) prog" where
  "reg_run alloc release [] = sret []"
| "reg_run alloc release (RAlloc # ops) =
     sbind alloc (\<lambda>p. sbind (reg_run alloc release ops) (\<lambda>as. sret (Handle p # as)))"
| "reg_run alloc release (RFree a # ops) =
     sbind (release a) (\<lambda>r. sbind (reg_run alloc release ops) (\<lambda>as. sret (Freed r # as)))"

text \<open>The abstract registry: the list of the live handles, oldest first.\<close>

fun reg_abs :: "nat list \<Rightarrow> reg_op list \<Rightarrow> reg_ans list \<Rightarrow> nat list" where
  "reg_abs H (RAlloc # ops) (Handle (Some a) # as) = reg_abs (H @ [a]) ops as"
| "reg_abs H (RFree a # ops) (Freed r # as) = reg_abs (remove1 a H) ops as"
| "reg_abs H (op # ops) (ans # as) = reg_abs H ops as"
| "reg_abs H _ _ = H"

text \<open>The answers the contract allows: fresh handles, and success exactly for live ones.\<close>

fun reg_allowed :: "nat list \<Rightarrow> reg_op list \<Rightarrow> reg_ans list \<Rightarrow> bool" where
  "reg_allowed H [] [] = True"
| "reg_allowed H (RAlloc # ops) (Handle p # as) =
     (case p of None \<Rightarrow> reg_allowed H ops as | Some a \<Rightarrow> a \<notin> set H \<and> reg_allowed (H @ [a]) ops as)"
| "reg_allowed H (RFree a # ops) (Freed r # as) =
     (r = (if a \<in> set H then HIDH_OK else ESP_FAIL) \<and> reg_allowed (remove1 a H) ops as)"
| "reg_allowed H _ _ = False"

locale registry =
  fixes inv :: "'s \<Rightarrow> bool"
    and members :: "'s \<Rightarrow> nat list"
    and alloc :: "('s, dev_ptr) prog"
    and release :: "nat \<Rightarrow> ('s, int) prog"
    and member :: "nat \<Rightarrow> ('s, bool) prog"
  assumes alloc_ok: "inv s \<Longrightarrow> \<exists>p s'. alloc s = Inr (p, s') \<and> inv s' \<and>
      (case p of None \<Rightarrow> members s' = members s | Some a \<Rightarrow> a \<notin> set (members s) \<and> members s' = members s @ [a])"
    and release_ok: "inv s \<Longrightarrow> \<exists>s'. release a s = Inr (if a \<in> set (members s) then HIDH_OK else ESP_FAIL, s')
      \<and> inv s' \<and> members s' = remove1 a (members s)"
    and member_ok: "inv s \<Longrightarrow> member a s = Inr (a \<in> set (members s), s)"
    and members_distinct: "inv s \<Longrightarrow> distinct (members s)"
begin

lemma run_refines:
  assumes "inv s"
  shows "\<exists>as s'. reg_run alloc release ops s = Inr (as, s') \<and> inv s'
     \<and> reg_allowed (members s) ops as \<and> members s' = reg_abs (members s) ops as"
  using assms
proof (induction ops arbitrary: s)
  case Nil
  then show ?case by simp
next
  case (Cons op ops)
  show ?case
  proof (cases op)
    case RAlloc
    obtain p s1 where one: "alloc s = Inr (p, s1)" "inv s1"
      "case p of None \<Rightarrow> members s1 = members s | Some a \<Rightarrow> a \<notin> set (members s) \<and> members s1 = members s @ [a]"
      using alloc_ok [OF Cons.prems] by blast
    obtain as s2 where rest: "reg_run alloc release ops s1 = Inr (as, s2)" "inv s2"
      "reg_allowed (members s1) ops as" "members s2 = reg_abs (members s1) ops as"
      using Cons.IH [OF one(2)] by blast
    show ?thesis using one rest by (cases p) (simp_all add: RAlloc sbind_def)
  next
    case (RFree a)
    obtain s1 where one: "release a s = Inr (if a \<in> set (members s) then HIDH_OK else ESP_FAIL, s1)" "inv s1"
      "members s1 = remove1 a (members s)"
      using release_ok [OF Cons.prems] by blast
    obtain as s2 where rest: "reg_run alloc release ops s1 = Inr (as, s2)" "inv s2"
      "reg_allowed (members s1) ops as" "members s2 = reg_abs (members s1) ops as"
      using Cons.IH [OF one(2)] by blast
    show ?thesis using one rest by (simp add: RFree sbind_def)
  qed
qed

lemma release_all:
  assumes "inv s"
  shows "\<exists>s'. reg_run alloc release (List.map RFree (members s)) s
                = Inr (List.map (\<lambda>_. Freed HIDH_OK) (members s), s') \<and> inv s' \<and> members s' = []"
  using assms
proof (induction "members s" arbitrary: s)
  case Nil
  then show ?case by simp
next
  case (Cons a H)
  have mem: "members s = a # H" using Cons.hyps(2) by simp
  obtain s1 where one: "release a s = Inr (HIDH_OK, s1)" "inv s1" "members s1 = H"
    using release_ok [OF Cons.prems, of a] by (auto simp: mem)
  have "\<exists>s'. reg_run alloc release (List.map RFree H) s1 = Inr (List.map (\<lambda>_. Freed HIDH_OK) H, s')
      \<and> inv s' \<and> members s' = []"
    using Cons.hyps(1) [OF one(3) [symmetric] one(2)] by (simp add: one(3))
  then show ?case using one(1) by (auto simp: mem sbind_def)
qed

lemma released_gone:
  assumes "inv s" and "release a s = Inr (r, s')"
  shows "member a s' = Inr (False, s')"
  using release_ok [OF assms(1), of a] member_ok [of s' a] members_distinct [OF assms(1)] assms(2) by auto

end

section \<open>The registry of the library keeps it\<close>

text \<open>The invariant, with the mutex of the registry created or not.\<close>

definition hidh_inv_sem :: "bool \<Rightarrow> 'z hidh_st_scheme \<Rightarrow> bool" where
  "hidh_inv_sem b s \<longleftrightarrow> hidh_inv s \<and> s_esp_hidh_devices_semaphore s = b"

lemma malloc_ok:
  assumes "hidh_inv_sem b s"
  shows "\<exists>p s'. esp_hidh_dev_malloc aok s = Inr (p, s') \<and> hidh_inv_sem b s' \<and>
     (case p of None \<Rightarrow> s_esp_hidh_devices s' = s_esp_hidh_devices s
      | Some a \<Rightarrow> a \<notin> set (s_esp_hidh_devices s) \<and> s_esp_hidh_devices s' = s_esp_hidh_devices s @ [a])"
proof -
  have inv: "hidh_inv s" and sem: "s_esp_hidh_devices_semaphore s = b"
    using assms by (simp_all add: hidh_inv_sem_def)
  have fresh: "hh_next s \<notin> set (s_esp_hidh_devices s)" using hidh_invD [OF inv] by auto
  show ?thesis
    unfolding malloc_spec [OF inv] Let_def hidh_inv_sem_def
    using fresh sem add_device_inv [OF inv refl, of "hh_allocs s + 3"]
    by (auto intro!: inv_intros inv simp: add_device_def)
qed

lemma free_inner_ok:
  assumes "hidh_inv_sem b s"
  shows "\<exists>s'. esp_hidh_dev_free_inner (Some a) s =
        Inr (if a \<in> set (s_esp_hidh_devices s) then HIDH_OK else ESP_FAIL, s')
      \<and> hidh_inv_sem b s' \<and> s_esp_hidh_devices s' = remove1 a (s_esp_hidh_devices s)"
proof -
  have inv: "hidh_inv s" and sem: "s_esp_hidh_devices_semaphore s = b"
    using assms by (simp_all add: hidh_inv_sem_def)
  show ?thesis
  proof (cases "hh_devs s a")
    case None
    then have "a \<notin> set (s_esp_hidh_devices s)" using hidh_invD(2) [OF inv] by auto
    then show ?thesis using None assms by (simp add: free_inner_spec [OF inv] remove1_idem)
  next
    case (Some d)
    then have "a \<in> set (s_esp_hidh_devices s)" using hidh_invD(2) [OF inv] by auto
    then show ?thesis
      using Some del_device_inv [OF inv Some] sem
      by (simp add: free_inner_spec [OF inv] del_device_def hidh_inv_sem_def)
  qed
qed

lemma exists_ok: "hidh_inv_sem b s \<Longrightarrow> esp_hidh_dev_exists (Some a) s = Inr (a \<in> set (s_esp_hidh_devices s), s)"
  by (simp add: exists_spec hidh_inv_sem_def hidh_invD image_iff)

lemma registry_distinct: "hidh_inv_sem b s \<Longrightarrow> distinct (s_esp_hidh_devices s)"
  by (simp add: hidh_inv_sem_def hidh_invD)

interpretation hidh_reg: registry "hidh_inv_sem b" s_esp_hidh_devices "esp_hidh_dev_malloc aok"
  "\<lambda>a. esp_hidh_dev_free_inner (Some a)" "\<lambda>a. esp_hidh_dev_exists (Some a)"
  for b aok
  by (rule registry.intro; (erule malloc_ok free_inner_ok exists_ok registry_distinct))

text \<open>
  C5: Any sequence of allocations and releases, with any allocator and any handles, runs without a fault
  (no double free, no use after free, no lock that is taken twice), gives the answers of a set of live
  handles, and leaves the registry with exactly the live ones.
\<close>
theorem registry_refines_handles:
  assumes "hidh_inv s"
  shows "\<exists>as s'. reg_run (esp_hidh_dev_malloc aok) (\<lambda>a. esp_hidh_dev_free_inner (Some a)) ops s = Inr (as, s')
     \<and> hidh_inv s' \<and> reg_allowed (s_esp_hidh_devices s) ops as
     \<and> s_esp_hidh_devices s' = reg_abs (s_esp_hidh_devices s) ops as"
  using hidh_reg.run_refines [of "s_esp_hidh_devices_semaphore s" s aok ops] assms
  by (auto simp: hidh_inv_sem_def)

theorem registry_refines_handles_witness:
  "\<exists>as s'. reg_run (esp_hidh_dev_malloc (\<lambda>n. n \<noteq> 4)) (\<lambda>a. esp_hidh_dev_free_inner (Some a))
       [RAlloc, RAlloc, RFree 1, RFree 1] hidh_st_init = Inr (as, s')
     \<and> hidh_inv s' \<and> reg_allowed (s_esp_hidh_devices hidh_st_init) [RAlloc, RAlloc, RFree 1, RFree 1] as
     \<and> s_esp_hidh_devices s' = reg_abs (s_esp_hidh_devices hidh_st_init) [RAlloc, RAlloc, RFree 1, RFree 1] as"
  by (rule registry_refines_handles [OF hidh_init_inv])

text \<open>
  C28: Releasing every device of the registry succeeds for each, and after it the library can be shut down;
  while one is left it cannot.
\<close>
theorem deinit_after_release:
  assumes "hidh_inv s" and "s_esp_hidh_devices_semaphore s"
  shows "(s_esp_hidh_devices s \<noteq> [] \<longrightarrow> esp_hidh_deinit e s = Inr (ESP_ERR_INVALID_STATE, s))
    \<and> (\<exists>s'. reg_run (esp_hidh_dev_malloc aok) (\<lambda>a. esp_hidh_dev_free_inner (Some a))
               (List.map RFree (s_esp_hidh_devices s)) s
             = Inr (List.map (\<lambda>_. Freed HIDH_OK) (s_esp_hidh_devices s), s')
         \<and> s_esp_hidh_devices s' = [] \<and> esp_hidh_deinit e s'
             = (if e \<noteq> 0 then Inr (e, s')
                else Inr (HIDH_OK, s'\<lparr>s_esp_hidh_devices_semaphore := False, s_esp_hidh_event_loop_h := False\<rparr>)))"
proof -
  have "hidh_inv_sem True s" using assms by (simp add: hidh_inv_sem_def)
  from hidh_reg.release_all [OF this, of aok] obtain s' where
    run: "reg_run (esp_hidh_dev_malloc aok) (\<lambda>a. esp_hidh_dev_free_inner (Some a))
        (List.map RFree (s_esp_hidh_devices s)) s = Inr (List.map (\<lambda>_. Freed HIDH_OK) (s_esp_hidh_devices s), s')"
    and inv: "hidh_inv_sem True s'" and none: "s_esp_hidh_devices s' = []"
    by blast
  have "s'\<lparr>s_esp_hidh_devices := [], s_esp_hidh_devices_semaphore := False, hh_locked := False,
      s_esp_hidh_event_loop_h := False\<rparr> = s'\<lparr>s_esp_hidh_devices_semaphore := False, s_esp_hidh_event_loop_h := False\<rparr>"
    using none inv by (cases s') (simp add: hidh_inv_sem_def hidh_inv_def)
  then show ?thesis
    using run inv none assms by (auto simp: esp_hidh_deinit_def hidh_inv_sem_def)
qed

theorem deinit_after_release_witness:
  "\<exists>s :: hidh_st. s_esp_hidh_devices s = [1] \<and> esp_hidh_deinit 0 s = Inr (ESP_ERR_INVALID_STATE, s)"
proof -
  let ?s = "add_device 1 new_device (hidh_st_init\<lparr>s_esp_hidh_devices_semaphore := True, hh_allocs := 3, hh_next := 2\<rparr>)"
  have "hidh_inv (hidh_st_init\<lparr>s_esp_hidh_devices_semaphore := True\<rparr>)"
    by (simp add: hidh_inv_def hidh_st_init_def)
  from add_device_inv [OF this, of 2 3] have "hidh_inv ?s" by (simp add: hidh_st_init_def)
  have "s_esp_hidh_devices_semaphore ?s" by (simp add: add_device_def)
  from deinit_after_release [OF \<open>hidh_inv ?s\<close> this, of 0 "\<lambda>_. True"] show ?thesis
    by (intro exI [of _ ?s]) (simp add: add_device_def hidh_st_init_def)
qed


section \<open>Calls through a device\<close>

lemma registered: "hidh_inv s \<Longrightarrow> a \<in> set (s_esp_hidh_devices s) \<longleftrightarrow> (\<exists>d. hh_devs s a = Some d)"
  by (auto simp: hidh_inv_def dom_def)

text \<open>
  The state a body runs in: the device's mutex, where it has one, is held.
\<close>

definition held :: "nat \<Rightarrow> 'z hidh_st_scheme \<Rightarrow> 'z hidh_st_scheme" where
  "held a s = (case hh_devs s a of
     None \<Rightarrow> s | Some d \<Rightarrow> s\<lparr>hh_devs := (hh_devs s)(a := Some (d\<lparr>dv_locked := dv_mutex d\<rparr>))\<rparr>)"

lemma with_dev_unknown:
  assumes "hidh_inv s" and "dev \<notin> Some ` set (s_esp_hidh_devices s)"
  shows "with_dev dev fallback body s = Inr (fallback, s)"
  using assms by (simp add: with_dev_def sbind_def exists_spec hidh_invD)

lemma with_dev_known:
  assumes inv: "hidh_inv s" and a: "hh_devs s a = Some d"
  shows "with_dev (Some a) fallback body s =
    sbind body (\<lambda>ret. sseq (esp_hidh_dev_unlock (Some a)) (sret ret)) (held a s)"
proof -
  have "a \<in> set (s_esp_hidh_devices s)" "\<not> hh_locked s" "\<not> dv_locked d"
    using hidh_invD [OF inv] a by auto
  then show ?thesis
    by (simp add: with_dev_def sbind_def sseq_def exists_spec dev_lock_spec a held_def)
qed

lemma dev_unlocked_idem: "\<not> dv_locked d \<Longrightarrow> d\<lparr>dv_locked := False\<rparr> = d"
  by (cases d) simp

lemma devs_upd_idem: "hh_devs s a = Some d \<Longrightarrow> s\<lparr>hh_devs := (hh_devs s)(a := Some d)\<rparr> = s"
  by (cases s) (simp add: fun_upd_idem)

lemma release_held:
  assumes inv: "hidh_inv s" and a: "hh_devs s a = Some d"
  shows "esp_hidh_dev_unlock (Some a) (held a s) = Inr ((), s)"
proof -
  have "\<not> dv_locked d" using hidh_invD [OF inv] a by auto
  then show ?thesis
    using devs_upd_idem [OF a] by (cases "dv_mutex d") (simp_all add: held_def a dev_unlock_spec dev_unlocked_idem)
qed

text \<open>
  A getter reads its field of a registered device and gives back the locks; for a pointer that is not
  on the registry, a stale one or NULL included, it gives its fallback and touches nothing.
\<close>

lemma field_get_spec:
  assumes inv: "hidh_inv s"
    and "\<And>d l. field (d\<lparr>dv_locked := l\<rparr>) = field d"
  shows "field_get dev fallback field s =
    Inr (case dev of None \<Rightarrow> fallback
         | Some a \<Rightarrow> (case hh_devs s a of None \<Rightarrow> fallback | Some d \<Rightarrow> field d), s)"
proof (cases "dev \<in> Some ` set (s_esp_hidh_devices s)")
  case False
  then show ?thesis
    using inv hidh_invD(2) [OF inv]
    by (cases dev) (auto simp: field_get_def with_dev_unknown split: option.split)
next
  case True
  then obtain a d where a: "dev = Some a" "hh_devs s a = Some d" by (auto simp: registered [OF inv])
  have "get_dev (Some a) (held a s) = Inr (d\<lparr>dv_locked := dv_mutex d\<rparr>, held a s)"
    by (simp add: get_dev_def held_def a)
  then show ?thesis
    using a assms by (simp add: field_get_def with_dev_known sbind_def sseq_def release_held)
qed

text \<open>
  Reading the version of a device is the exception: its test is negated. A registered device answers 0
  whatever its version, NULL is dereferenced, and a stale pointer is followed.
\<close>
theorem version_get_inverted:
  assumes inv: "hidh_inv s"
  shows "esp_hidh_dev_version_get dev s =
    (case dev of
       None \<Rightarrow> Inl NullDeref
     | Some a \<Rightarrow> (if a \<in> set (s_esp_hidh_devices s) then Inr (0, s) else Inl UseAfterFree))"
proof (cases dev)
  case None
  then show ?thesis
    by (simp add: esp_hidh_dev_version_get_def sbind_def sseq_def esp_hidh_dev_exists_def esp_hidh_dev_lock_def
        get_dev_def)
next
  case (Some a)
  have "a \<notin> set (s_esp_hidh_devices s) \<Longrightarrow> hh_devs s a = None" using hidh_invD(2) [OF inv] by auto
  then show ?thesis
    using Some hidh_invD(3) [OF inv]
    by (auto simp: esp_hidh_dev_version_get_def sbind_def sseq_def exists_spec esp_hidh_dev_lock_def get_dev_def)
qed

theorem version_get_inverted_witness:
  "esp_hidh_dev_version_get None hidh_st_init = Inl NullDeref"
  using version_get_inverted [OF hidh_init_inv, of None] by simp

text \<open>
  Every getter that goes through the registry is safe for every pointer: it never faults, leaves the
  state as it was, and answers with the field of a registered device or with its fallback. (The bus
  address stands here for all of them; they share \<open>field_get\<close>.)
\<close>
theorem getters_safe:
  assumes inv: "hidh_inv s"
  shows "esp_hidh_dev_vendor_id_get dev s =
      Inr (case Option.bind dev (hh_devs s) of None \<Rightarrow> 0 | Some d \<Rightarrow> hc_vendor_id (dv_config d), s)
    \<and> esp_hidh_dev_bda_get dev s = Inr (map_option dv_bda (Option.bind dev (hh_devs s)), s)
    \<and> esp_hidh_dev_usage_get dev s =
      Inr (case Option.bind dev (hh_devs s) of None \<Rightarrow> ESP_HID_USAGE_GENERIC | Some d \<Rightarrow> dv_usage d, s)
    \<and> esp_hidh_dev_name_get dev s =
      Inr (case Option.bind dev (hh_devs s) of None \<Rightarrow> StrNull
           | Some d \<Rightarrow> str_or_empty (hc_device_name (dv_config d)), s)"
  unfolding esp_hidh_dev_vendor_id_get_def esp_hidh_dev_bda_get_def esp_hidh_dev_usage_get_def
    esp_hidh_dev_name_get_def
  by (auto simp: field_get_spec [OF inv] split: option.split)

theorem getters_safe_witness:
  "esp_hidh_dev_bda_get (Some 7) hidh_st_init = Inr (None, hidh_st_init)"
  using getters_safe [OF hidh_init_inv, of "Some 7"] by (simp add: hidh_st_init_def)



section \<open>Copying the reports\<close>

lemma copy_reports_step:
  "unat i < n \<Longrightarrow> copy_reports i n (dr # ds) r = copy_reports (i + 1) n ds (r[unat i := report_item_of dr])"
  "unat i < n \<Longrightarrow> copy_reports i n [] r = None"
  "\<not> unat i < n \<Longrightarrow> copy_reports i n drs r = Some r"
  by (simp_all add: copy_reports.simps)

lemma copy_reports_loop:
  "k + length ds = n \<Longrightarrow> n \<le> 255 \<Longrightarrow> length r = n \<Longrightarrow>
   copy_reports (of_nat k) n ds r = Some (take k r @ List.map report_item_of ds)"
proof (induction ds arbitrary: k r)
  case Nil
  have "unat (of_nat k :: u8) = k" using Nil by (simp add: unat_of_nat)
  then show ?case using Nil by (simp add: copy_reports_step)
next
  case (Cons dr ds)
  have "unat (of_nat k :: u8) = k" using Cons.prems by (simp add: unat_of_nat)
  moreover have "copy_reports (of_nat k + 1) n ds (r[k := report_item_of dr])
      = Some (take (Suc k) (r[k := report_item_of dr]) @ List.map report_item_of ds)"
    using Cons.IH [of "Suc k"] Cons.prems by (simp add: add.commute)
  ultimately show ?case
    using Cons.prems by (simp add: copy_reports_step take_Suc_conv_app_nth)
qed

text \<open>A counter of eight bits never reaches a count above 255; the list ends first.\<close>

lemma copy_reports_never:
  "256 \<le> n \<Longrightarrow> copy_reports i n ds r = None"
proof (induction ds arbitrary: i r)
  case Nil
  have "unat i < n" using Nil unsigned_less [of i, where ?'a = nat] by simp
  then show ?case by (simp add: copy_reports_step)
next
  case (Cons dr ds)
  have "unat i < n" using Cons.prems unsigned_less [of i, where ?'a = nat] by simp
  then show ?case using Cons by (simp add: copy_reports_step)
qed

text \<open>
  Getting the reports of a device whose count is the length of its list: up to 255 reports come back as
  an array, in the order of the list; with 256 or more the call fails.
\<close>
theorem reports_get_copies:
  assumes inv: "hidh_inv s" and a: "hh_devs s a = Some d" and len: "dv_reports_len d = length (dv_reports d)"
    and mem: "aok (hh_allocs s)"
  shows "\<exists>s'. esp_hidh_dev_reports_get aok (Some a) s =
      Inr (if length (dv_reports d) \<le> 255 then (0, List.map report_item_of (dv_reports d)) else (ESP_FAIL, []), s')
    \<and> hidh_inv s' \<and> hh_devs s' = hh_devs s"
proof -
  let ?t = "s\<lparr>hh_allocs := hh_allocs s + 1\<rparr>"
  have dev: "get_dev (Some a) (held a s) = Inr (d\<lparr>dv_locked := dv_mutex d\<rparr>, held a s)"
    by (simp add: get_dev_def held_def a)
  have ask: "request aok (held a s) = Inr (True, held a ?t)"
    using mem by (simp add: request_def held_def a)
  have release: "esp_hidh_dev_unlock (Some a) (held a ?t) = Inr ((), ?t)"
    by (rule release_held [where d = d]) (simp_all add: a inv inv_intros)
  have "length (dv_reports d) \<le> 255 \<Longrightarrow> copy_reports 0 (length (dv_reports d)) (dv_reports d)
      (replicate (length (dv_reports d)) item_zero) = Some (List.map report_item_of (dv_reports d))"
    using copy_reports_loop [of 0 "dv_reports d" "length (dv_reports d)"] by simp
  then show ?thesis
    using inv dev ask release
    by (simp add: esp_hidh_dev_reports_get_def with_dev_known a len sseq_def sbind_def copy_reports_never inv_intros)
qed

theorem reports_get_copies_witness:
  "\<exists>s :: hidh_st. \<exists>s'. esp_hidh_dev_reports_get (\<lambda>_. True) (Some 1) s = Inr ((0, []), s') \<and> hidh_inv s'"
proof -
  let ?s = "add_device 1 new_device (hidh_st_init\<lparr>hh_allocs := 3, hh_next := 2\<rparr>)"
  have "hidh_inv ?s" using add_device_inv [OF hidh_init_inv, of 2 3] by (simp add: hidh_st_init_def)
  moreover have "hh_devs ?s 1 = Some new_device" "dv_reports new_device = []" "dv_reports_len new_device = 0"
    by (simp_all add: add_device_def new_device_def dev_zero_def)
  ultimately show ?thesis
    using reports_get_copies [of ?s 1 new_device "\<lambda>_. True"] by auto
qed

section \<open>Events\<close>

text \<open>
  An application sees the data of an event only through the copy that travels with it: the pointer
  into the sender's block is replaced before the callback runs, for every event whose length is not 0.
\<close>
theorem callback_sees_copy:
  assumes "\<And>e' s. (case e' of InputEvent p \<Rightarrow> he_data p = StaleData \<and> he_length p \<noteq> 0
                    | FeatureEvent p \<Rightarrow> he_data p = StaleData \<and> he_length p \<noteq> 0 | _ \<Rightarrow> False)
                  \<or> cb e' s = cb' e' s"
  shows "esp_hidh_event_handler_wrapper cb e = esp_hidh_event_handler_wrapper cb' e"
proof (rule ext)
  fix s
  let ?e = "esp_hidh_preprocess_event_handler e"
  have "cb ?e t = cb' ?e t" for t
    using assms [of ?e t]
    by (auto simp: esp_hidh_preprocess_event_handler_def relocate_def split: hidh_event_data.splits if_splits)
  then show "esp_hidh_event_handler_wrapper cb e s = esp_hidh_event_handler_wrapper cb' e s"
    by (simp add: esp_hidh_event_handler_wrapper_def Let_def sbind_def sseq_def)
qed



theorem callback_sees_copy_witness:
  "\<forall>p. esp_hidh_event_handler_wrapper (\<lambda>e s. Inr ((), s)) (InputEvent p) =
   esp_hidh_event_handler_wrapper (\<lambda>e s. case e of
       InputEvent q \<Rightarrow> (if he_data q = StaleData \<and> he_length q \<noteq> 0 then Inl UseAfterFree else Inr ((), s))
     | _ \<Rightarrow> Inr ((), s)) (InputEvent p)"
  by (intro allI callback_sees_copy) (auto split: hidh_event_data.split)

text \<open>
  Looking up the report of received data that are empty: unless a report of length 0 and id 0 exists,
  the first byte of no data is read.
\<close>
theorem report_lookup_empty:
  "esp_hidh_dev_get_input_report_by_proto_and_data d pm 0 [] =
     (case find (\<lambda>r. hr_value_len r = 0 \<and> hr_report_id r = 0
                   \<and> nz (hr_report_type r AND ESP_HID_REPORT_TYPE_INPUT) \<and> uint (hr_protocol_mode r) = pm) (dv_reports d) of
        Some r \<Rightarrow> Inr (Some r, False) | None \<Rightarrow> Inl OutOfBounds)"
  by (simp add: esp_hidh_dev_get_input_report_by_proto_and_data_def split: option.split)

section \<open>Starting the library\<close>

text \<open>
  Starting the library: it succeeds exactly when the library was not started, the two objects exist and
  both registrations succeed; after any failure it can be started again, and the result is an empty
  registry in good order when no device is left from before.
\<close>
theorem init_all_or_nothing:
  assumes inv: "hidh_inv s" and off: "\<not> s_esp_hidh_devices_semaphore s" "s_esp_hidh_devices s = []"
  shows "\<exists>r s'. esp_hidh_init env (Some cb) s = Inr (r, s') \<and> hidh_inv s' \<and> s_esp_hidh_devices s' = []
     \<and> s_esp_hidh_devices_semaphore s' = (r = HIDH_OK)
     \<and> (r = HIDH_OK \<longleftrightarrow> ie_mutex_created env \<and> (ie_loop_created env \<or> s_esp_hidh_event_loop_h s)
                       \<and> ie_register env = 0 \<and> ie_ble_init env = 0)"
proof -
  have codes: "HIDH_OK = 0" "HIDH_NO_MEM \<noteq> 0" by (simp_all add: HIDH_OK_def HIDH_NO_MEM_def)
  show ?thesis
    using inv off codes by (auto simp: esp_hidh_init_def Let_def hidh_inv_def)
qed

theorem init_all_or_nothing_witness:
  "\<exists>r s'. esp_hidh_init \<lparr>ie_loop_created = True, ie_mutex_created = True, ie_register = 0, ie_ble_init = -1\<rparr>
      (Some True) hidh_st_init = Inr (r, s') \<and> r \<noteq> HIDH_OK \<and> \<not> s_esp_hidh_devices_semaphore s'"
  using init_all_or_nothing [OF hidh_init_inv, of
      "\<lparr>ie_loop_created = True, ie_mutex_created = True, ie_register = 0, ie_ble_init = -1\<rparr>" True]
  by (auto simp: hidh_st_init_def)

end
