(* ===== verification/NimState.thy ===== *)
theory NimState
  imports HidhLife HidParser
begin

text \<open>
  The state of the NimBLE transport of the HID host, \<open>esp_hid/src/nimble_hidh.c\<close>, and the stack below
  it. The stack is not part of the repository: its operations are the fields of the record \<open>nimble\<close>,
  functions on a world \<open>'w\<close> nothing is known about.

  A procedure of the stack returns a code, and later calls back, from the host task. The callbacks a
  call leads to, with whatever GAP events the stack delivers among them, are appended to the list
  \<open>nh_pending\<close>. A task that waits for a semaphore lets the host task work: \<open>nb_early\<close> callbacks are
  served in any case, and then more until the semaphore is given. With none left, nobody will ever
  give it.
\<close>

section \<open>Constants of the stack\<close>

text \<open>Assigned numbers of the Bluetooth SIG, and codes the NimBLE headers document.\<close>

definition BLE_SVC_GAP_UUID16 :: u16 where [hid_consts]: "BLE_SVC_GAP_UUID16 = 0x1800"
definition BLE_SVC_DIS_UUID16 :: u16 where [hid_consts]: "BLE_SVC_DIS_UUID16 = 0x180A"
definition BLE_SVC_BAS_UUID16 :: u16 where [hid_consts]: "BLE_SVC_BAS_UUID16 = 0x180F"
definition BLE_SVC_HID_UUID16 :: u16 where [hid_consts]: "BLE_SVC_HID_UUID16 = 0x1812"
definition BLE_SVC_GAP_CHR_UUID16_DEVICE_NAME :: u16 where
  [hid_consts]: "BLE_SVC_GAP_CHR_UUID16_DEVICE_NAME = 0x2A00"
definition BLE_SVC_BAS_CHR_UUID16_BATTERY_LEVEL :: u16 where
  [hid_consts]: "BLE_SVC_BAS_CHR_UUID16_BATTERY_LEVEL = 0x2A19"
definition BLE_SVC_DIS_CHR_UUID16_PNP_ID :: u16 where
  [hid_consts]: "BLE_SVC_DIS_CHR_UUID16_PNP_ID = 0x2A50"
definition BLE_SVC_DIS_CHR_UUID16_MANUFACTURER_NAME :: u16 where
  [hid_consts]: "BLE_SVC_DIS_CHR_UUID16_MANUFACTURER_NAME = 0x2A29"
definition BLE_SVC_DIS_CHR_UUID16_SERIAL_NUMBER :: u16 where
  [hid_consts]: "BLE_SVC_DIS_CHR_UUID16_SERIAL_NUMBER = 0x2A25"
definition BLE_SVC_HID_CHR_UUID16_PROTOCOL_MODE :: u16 where
  [hid_consts]: "BLE_SVC_HID_CHR_UUID16_PROTOCOL_MODE = 0x2A4E"
definition BLE_SVC_HID_CHR_UUID16_REPORT_MAP :: u16 where
  [hid_consts]: "BLE_SVC_HID_CHR_UUID16_REPORT_MAP = 0x2A4B"
definition BLE_SVC_HID_CHR_UUID16_BOOT_KBD_INP :: u16 where
  [hid_consts]: "BLE_SVC_HID_CHR_UUID16_BOOT_KBD_INP = 0x2A22"
definition BLE_SVC_HID_CHR_UUID16_BOOT_KBD_OUT :: u16 where
  [hid_consts]: "BLE_SVC_HID_CHR_UUID16_BOOT_KBD_OUT = 0x2A32"
definition BLE_SVC_HID_CHR_UUID16_BOOT_MOUSE_INP :: u16 where
  [hid_consts]: "BLE_SVC_HID_CHR_UUID16_BOOT_MOUSE_INP = 0x2A33"
definition BLE_SVC_HID_CHR_UUID16_RPT :: u16 where [hid_consts]: "BLE_SVC_HID_CHR_UUID16_RPT = 0x2A4D"
definition BLE_GATT_DSC_CLT_CFG_UUID16 :: u16 where [hid_consts]: "BLE_GATT_DSC_CLT_CFG_UUID16 = 0x2902"
definition BLE_SVC_HID_DSC_UUID16_RPT_REF :: u16 where
  [hid_consts]: "BLE_SVC_HID_DSC_UUID16_RPT_REF = 0x2908"
definition BLE_GATT_CHR_PROP_READ :: u8 where [hid_consts]: "BLE_GATT_CHR_PROP_READ = 0x02"
definition BLE_GATT_CHR_PROP_NOTIFY :: u8 where [hid_consts]: "BLE_GATT_CHR_PROP_NOTIFY = 0x10"
definition BLE_HS_EDONE :: int where [hid_consts]: "BLE_HS_EDONE = 14"
definition BLE_ERR_REM_USER_CONN_TERM :: int where [hid_consts]: "BLE_ERR_REM_USER_CONN_TERM = 0x13"
definition BLE_GAP_REPEAT_PAIRING_RETRY :: int where [hid_consts]: "BLE_GAP_REPEAT_PAIRING_RETRY = 1"

section \<open>What the stack reports\<close>

text \<open>Attributes, with the UUID as \<open>ble_uuid_u16\<close> reads it.\<close>

record ble_gatt_svc =
  gs_uuid :: u16
  gs_start_handle :: u16
  gs_end_handle :: u16

record ble_gatt_chr =
  gc_uuid :: u16
  gc_def_handle :: u16
  gc_val_handle :: u16
  gc_properties :: u8

record ble_gatt_dsc =
  gd_uuid :: u16
  gd_handle :: u16

text \<open>GAP events. A notification carries the bytes of its buffer.\<close>

datatype ble_gap_event =
    BLE_GAP_EVENT_CONNECT int u16
  | BLE_GAP_EVENT_DISCONNECT int u16
  | BLE_GAP_EVENT_NOTIFY_RX u16 u16 "u8 list"
  | BLE_GAP_EVENT_MTU
  | BLE_GAP_EVENT_PASSKEY_ACTION bool u16
  | BLE_GAP_EVENT_ENC_CHANGE int
  | BLE_GAP_EVENT_REPEAT_PAIRING u16
  | BLE_GAP_EVENT_OTHER

text \<open>
  The argument of a write's callback: a pointer to a parameter of the waiting function, or to the
  connection handle inside a device.
\<close>

datatype write_arg = ArgParam u16 | ArgDev nat

datatype nim_cb =
    OnRead int "u8 list"
  | SvcDisced u16 int ble_gatt_svc
  | ChrDisced int ble_gatt_chr
  | DescDisced int ble_gatt_dsc
  | OnSubscribe write_arg u16
  | OnWrite write_arg u16
  | OnGap ble_gap_event

text \<open>What a procedure leads to: answers of its own, and GAP events between them.\<close>

datatype 'r nim_reply = Reply 'r | Event ble_gap_event

section \<open>The stack\<close>

record ble_gap_conn_params =
  cp_scan_itvl :: u16
  cp_scan_window :: u16
  cp_itvl_min :: u16
  cp_itvl_max :: u16
  cp_latency :: u16
  cp_supervision_timeout :: u16
  cp_min_ce_len :: u16
  cp_max_ce_len :: u16

text \<open>
  \<open>nb_conn_find\<close> gives the over-the-air and the identity address of the peer. \<open>nb_garbage\<close> is what a
  block from \<open>malloc\<close> holds before it is written, by the number of the request
  and the offset.
\<close>

record 'w nimble =
  nb_malloc :: "nat \<Rightarrow> bool"
  nb_garbage :: "nat \<Rightarrow> nat \<Rightarrow> u8"
  nb_early :: "'w \<Rightarrow> nat"
  nb_in_time :: "'w \<Rightarrow> nat"
  nb_read_long :: "u16 \<Rightarrow> u16 \<Rightarrow> 'w \<Rightarrow> int \<times> (int \<times> u8 list) nim_reply list \<times> 'w"
  nb_disc_all_svcs :: "u16 \<Rightarrow> 'w \<Rightarrow> int \<times> (int \<times> ble_gatt_svc) nim_reply list \<times> 'w"
  nb_disc_all_chrs :: "u16 \<Rightarrow> u16 \<Rightarrow> u16 \<Rightarrow> 'w \<Rightarrow> int \<times> (int \<times> ble_gatt_chr) nim_reply list \<times> 'w"
  nb_disc_all_dscs :: "u16 \<Rightarrow> u16 \<Rightarrow> u16 \<Rightarrow> 'w \<Rightarrow> int \<times> (int \<times> ble_gatt_dsc) nim_reply list \<times> 'w"
  nb_write_flat :: "u16 \<Rightarrow> u16 \<Rightarrow> u8 list \<Rightarrow> 'w \<Rightarrow> int \<times> u16 nim_reply list \<times> 'w"
  nb_gap_connect :: "u8 \<Rightarrow> u8 \<Rightarrow> u8 list \<Rightarrow> nat \<Rightarrow> ble_gap_conn_params \<Rightarrow> 'w \<Rightarrow> int \<times> unit nim_reply list \<times> 'w"
  nb_gap_security_initiate :: "u16 \<Rightarrow> 'w \<Rightarrow> int \<times> unit nim_reply list \<times> 'w"
  nb_gap_terminate :: "u16 \<Rightarrow> int \<Rightarrow> 'w \<Rightarrow> int \<times> unit nim_reply list \<times> 'w"
  nb_conn_find :: "u16 \<Rightarrow> 'w \<Rightarrow> (u8 list \<times> u8 list) option"
  nb_set_preferred_mtu :: "'w \<Rightarrow> int \<times> 'w"
  nb_exchange_mtu :: "u16 \<Rightarrow> 'w \<Rightarrow> int \<times> 'w"
  nb_sm_inject_io :: "u16 \<Rightarrow> u32 \<Rightarrow> 'w \<Rightarrow> int \<times> 'w"
  nb_store_delete_peer :: "u8 list \<Rightarrow> 'w \<Rightarrow> int \<times> 'w"
  nb_random :: "'w \<Rightarrow> u32 \<times> 'w"

section \<open>The state\<close>

text \<open>
  The static variables of the file, the arrays of \<open>read_device_services\<close> (\<open>None\<close> once their block is
  left; an element is \<open>None\<close> until it is written), those of its locals that outlive an iteration, the
  callbacks still to come, the events posted to the application's loop (oldest first), the passkeys
  shown, and the static variables of the report map parser. A binary semaphore is \<open>None\<close> before it is
  created.
\<close>

record 'w nimble_st = hidh_st +
  nh_world :: 'w
  s_ble_hidh_cb_semaphore :: "bool option"
  s_ble_hidh_sec_semaphore :: "bool option"
  s_hidh_passkey_cb :: bool
  services_discovered :: nat
  chrs_discovered :: nat
  dscs_discovered :: nat
  nh_status :: int
  event_loop_handle :: bool
  s_read_data_val :: buf_ptr
  s_read_data_len :: u16
  s_read_status :: int
  service_result :: "ble_gatt_svc option list option"
  char_result :: "ble_gatt_chr option list option"
  descr_result :: "ble_gatt_dsc option list option"
  rs_rdata :: buf_ptr
  rs_rlen :: u16
  rs_hidindex :: u8
  nh_pending :: "nim_cb list"
  nh_posted :: "hidh_event_data list"
  nh_shown :: "u32 list"
  nh_parser :: hid_parser

type_synonym ('w, 'a) nim = "('w nimble_st, 'a) prog"

section \<open>Giving the semaphores, posting\<close>

definition SEND_CB :: "('w, unit) nim" where
  "SEND_CB s = (case s_ble_hidh_cb_semaphore s of
                  None \<Rightarrow> Inl NullDeref
                | Some g \<Rightarrow> Inr ((), s\<lparr>s_ble_hidh_cb_semaphore := Some True\<rparr>))"

definition give_sec :: "('w, unit) nim" where
  "give_sec = smod (\<lambda>s. s\<lparr>s_ble_hidh_sec_semaphore := map_option (\<lambda>_. True) (s_ble_hidh_sec_semaphore s)\<rparr>)"

definition post_event :: "hidh_event_data \<Rightarrow> ('w, unit) nim" where
  "post_event e = smod (\<lambda>s. s\<lparr>nh_posted := nh_posted s @ [e]\<rparr>)"

text \<open>A call of the stack that only changes the world.\<close>

definition call_world :: "('w \<Rightarrow> 'a \<times> 'w) \<Rightarrow> ('w, 'a) nim" where
  "call_world f s = (case f (nh_world s) of (x, w) \<Rightarrow> Inr (x, s\<lparr>nh_world := w\<rparr>))"

text \<open>A call that leads to callbacks.\<close>

fun cb_of :: "('r \<Rightarrow> nim_cb) \<Rightarrow> 'r nim_reply \<Rightarrow> nim_cb" where
  "cb_of mk (Reply r) = mk r"
| "cb_of mk (Event e) = OnGap e"

definition procedure :: "('w \<Rightarrow> int \<times> 'r nim_reply list \<times> 'w) \<Rightarrow> ('r \<Rightarrow> nim_cb) \<Rightarrow> ('w, int) nim" where
  "procedure call mk s =
     (case call (nh_world s) of
        (rc, rs, w) \<Rightarrow> Inr (rc, s\<lparr>nh_world := w, nh_pending := nh_pending s @ List.map (cb_of mk) rs\<rparr>))"

text \<open>The stack's view of a connection handle in a device: its lower 16 bits.\<close>

definition conn16 :: "int \<Rightarrow> u16" where
  "conn16 c = word_of_int c"

end
