(* ===== verification/NimBack.thy ===== *)
theory NimBack
  imports NimState
begin

text \<open>
  The callbacks of \<open>esp_hid/src/nimble_hidh.c\<close> that run in the host task, in the order of the file, and
  waiting for them: the read callback and its growing buffer, the three discovery callbacks and their
  arrays, the write callbacks, the GAP event handler, \<open>WAIT_CB\<close>.
\<close>

section \<open>Blocks and arrays\<close>

definition buf_write :: "buf_ptr \<Rightarrow> nat \<Rightarrow> u8 list \<Rightarrow> ('w, unit) nim" where
  "buf_write p off data =
     (if data = [] then sret ()
      else sbind (get_buf p) (\<lambda>bs.
             if off + length data \<le> length bs
             then smod (\<lambda>s. s\<lparr>hh_bufs := (hh_bufs s)(the p := Some (take off bs @ data @ drop (off + length data) bs))\<rparr>)
             else sfail OutOfBounds))"

definition nim_malloc :: "'w nimble \<Rightarrow> nat \<Rightarrow> ('w, buf_ptr) nim" where
  "nim_malloc nb n =
     sbind (sget hh_allocs) (\<lambda>k.
     sbind (request (nb_malloc nb)) (\<lambda>ok.
       if ok then sbind (new_buf (List.map (nb_garbage nb k) [0..<n])) (\<lambda>a. sret (Some a)) else sret None))"

text \<open>\<open>realloc\<close>: a new block with what fits of the old one, which is freed; the old one stays when it fails.\<close>

definition nim_realloc :: "'w nimble \<Rightarrow> buf_ptr \<Rightarrow> nat \<Rightarrow> ('w, buf_ptr) nim" where
  "nim_realloc nb p n =
     sbind (if p = None then sret [] else get_buf p) (\<lambda>old.
     sbind (nim_malloc nb n) (\<lambda>q.
       if q = None then sret None
       else sseq (free_buf p)
              (sseq (buf_write q 0 (take n old)) (sret q))))"

text \<open>Writing an element of an array on a stack frame.\<close>

definition put_slot :: "nat \<Rightarrow> 'a \<Rightarrow> 'a option list option \<Rightarrow> 'a option list option res" where
  "put_slot i x arr = (case arr of
     None \<Rightarrow> Inl UseAfterFree
   | Some xs \<Rightarrow> (if i < length xs then Inr (Some (xs[i := Some x])) else Inl OutOfBounds))"

definition get_slot :: "nat \<Rightarrow> 'a option list option \<Rightarrow> 'a res" where
  "get_slot i arr = (case arr of
     None \<Rightarrow> Inl UseAfterFree
   | Some xs \<Rightarrow> (if i < length xs then (case xs ! i of None \<Rightarrow> Inl UninitRead | Some x \<Rightarrow> Inr x) else Inl OutOfBounds))"

definition slift :: "'a res \<Rightarrow> ('s, 'a) prog" where
  "slift r s = (case r of Inl e \<Rightarrow> Inl e | Inr x \<Rightarrow> Inr (x, s))"

lemma slift_simps [simp]: "slift (Inl e) s = Inl e" "slift (Inr x) s = Inr (x, s)"
  by (simp_all add: slift_def)

section \<open>Reading\<close>

definition nimble_on_read :: "'w nimble \<Rightarrow> int \<Rightarrow> u8 list \<Rightarrow> ('w, int) nim" where
  "nimble_on_read nb st data =
     sseq (smod (\<lambda>s. s\<lparr>s_read_status := st\<rparr>))
       (if st = 0 then
          sbind (sget s_read_data_len) (\<lambda>old_offset.
          sseq (smod (\<lambda>s. s\<lparr>s_read_data_len := s_read_data_len s + of_nat (length data)\<rparr>))
          (sbind (sget s_read_data_val) (\<lambda>old.
           sbind (sget s_read_data_len) (\<lambda>len.
           sbind (nim_realloc nb old (unat len + 1)) (\<lambda>p.
           sseq (smod (\<lambda>s. s\<lparr>s_read_data_val := p\<rparr>))
           (sseq (buf_write p (unat old_offset) data) (sret 0)))))))
        else if st = BLE_HS_EDONE then
          sbind (sget s_read_data_val) (\<lambda>p.
          sbind (sget s_read_data_len) (\<lambda>len.
          sseq (buf_write p (unat len) [0])
          (sseq (smod (\<lambda>s. s\<lparr>s_read_status := 0\<rparr>)) (sseq SEND_CB (sret 0)))))
        else sret 0)"

section \<open>Discovery\<close>

definition svc_disced :: "u16 \<Rightarrow> int \<Rightarrow> ble_gatt_svc \<Rightarrow> ('w, int) nim" where
  "svc_disced conn_handle st service =
     sseq (smod (\<lambda>s. s\<lparr>nh_status := st\<rparr>))
       (if st = 0 then
          sbind (sget (\<lambda>s. put_slot (services_discovered s) service (service_result s))) (\<lambda>r.
          sbind (slift r) (\<lambda>arr.
          sseq (smod (\<lambda>s. s\<lparr>service_result := arr, services_discovered := services_discovered s + 1\<rparr>))
          (sbind (esp_hidh_dev_get_by_conn_id conn_handle) (\<lambda>dev.
             if dev = None then sret 0
             else if gs_uuid service = BLE_SVC_HID_UUID16
             then sseq (upd_dev dev (\<lambda>d. d\<lparr>dv_status := 0,
                     dv_config := (dv_config d)\<lparr>hc_report_maps_len := hc_report_maps_len (dv_config d) + 1\<rparr>\<rparr>))
                    (sret 0)
             else sret 0))))
        else if st = BLE_HS_EDONE then
          sseq (smod (\<lambda>s. s\<lparr>nh_status := 0\<rparr>)) (sseq SEND_CB (sret 0))
        else sseq SEND_CB (sret st))"

definition chr_disced :: "int \<Rightarrow> ble_gatt_chr \<Rightarrow> ('w, int) nim" where
  "chr_disced st chr =
     sseq (smod (\<lambda>s. s\<lparr>nh_status := st\<rparr>))
       (if st = 0 then
          sbind (sget (\<lambda>s. put_slot (chrs_discovered s) chr (char_result s))) (\<lambda>r.
          sbind (slift r) (\<lambda>arr.
          sseq (smod (\<lambda>s. s\<lparr>char_result := arr, chrs_discovered := chrs_discovered s + 1\<rparr>)) (sret 0)))
        else if st = BLE_HS_EDONE then
          sseq (smod (\<lambda>s. s\<lparr>nh_status := 0\<rparr>)) (sseq SEND_CB (sret 0))
        else sseq SEND_CB (sret st))"

definition desc_disced :: "int \<Rightarrow> ble_gatt_dsc \<Rightarrow> ('w, int) nim" where
  "desc_disced st dsc =
     sseq (smod (\<lambda>s. s\<lparr>nh_status := st\<rparr>))
       (if st = 0 then
          sbind (sget (\<lambda>s. put_slot (dscs_discovered s) dsc (descr_result s))) (\<lambda>r.
          sbind (slift r) (\<lambda>arr.
          sseq (smod (\<lambda>s. s\<lparr>descr_result := arr, dscs_discovered := dscs_discovered s + 1\<rparr>)) (sret 0)))
        else if st = BLE_HS_EDONE then
          sseq (smod (\<lambda>s. s\<lparr>nh_status := 0\<rparr>)) (sseq SEND_CB (sret 0))
        else sseq SEND_CB (sret st))"

section \<open>Writing\<close>

definition arg_conn_id :: "write_arg \<Rightarrow> ('w, u16) nim" where
  "arg_conn_id a = (case a of
     ArgParam c \<Rightarrow> sret c
   | ArgDev p \<Rightarrow> sbind (get_dev (Some p)) (\<lambda>d. sret (conn16 (dv_conn_id d))))"

definition on_subscribe :: "write_arg \<Rightarrow> u16 \<Rightarrow> ('w, int) nim" where
  "on_subscribe a conn_handle =
     sbind (arg_conn_id a) (\<lambda>conn_id.
       if conn_id = conn_handle then sseq SEND_CB (sret 0) else sfail AssertFailed)"

definition on_write :: "write_arg \<Rightarrow> u16 \<Rightarrow> ('w, int) nim" where
  "on_write a conn_handle =
     sbind (arg_conn_id a) (\<lambda>conn_id.
       if conn_id = conn_handle then sseq SEND_CB (sret 0) else sfail AssertFailed)"

section \<open>GAP events\<close>

definition gap_connect :: "'w nimble \<Rightarrow> int \<Rightarrow> u16 \<Rightarrow> ('w, int) nim" where
  "gap_connect nb st conn_handle =
     (if st = 0 then
        sbind (sget (\<lambda>s. nb_conn_find nb conn_handle (nh_world s))) (\<lambda>desc.
          case desc of
            None \<Rightarrow> sfail AssertFailed
          | Some (peer_ota_addr, peer_id_addr) \<Rightarrow>
              sbind (esp_hidh_dev_get_by_bda peer_ota_addr) (\<lambda>dev.
              sbind (if dev = None then esp_hidh_dev_get_by_bda peer_id_addr else sret dev) (\<lambda>dev.
                if dev = None then sseq SEND_CB (sret 0)
                else sseq (upd_dev dev (\<lambda>d. d\<lparr>dv_status := -1, dv_conn_id := uint conn_handle\<rparr>))
                     (sseq (call_world (nb_set_preferred_mtu nb))
                     (sseq (call_world (nb_exchange_mtu nb conn_handle))
                     (sseq SEND_CB (sret 0)))))))
      else sseq SEND_CB (sret 0))"

definition gap_disconnect :: "int \<Rightarrow> u16 \<Rightarrow> ('w, int) nim" where
  "gap_disconnect reason conn_handle =
     sbind (esp_hidh_dev_get_by_conn_id conn_handle) (\<lambda>dev.
       if dev = None then sret 0
       else sbind (get_dev dev) (\<lambda>d.
              if \<not> dv_connected d
              then sseq (upd_dev dev (\<lambda>d. d\<lparr>dv_status := reason, dv_conn_id := -1\<rparr>)) (sret 0)
              else sseq (upd_dev dev (\<lambda>d. d\<lparr>dv_connected := False, dv_status := reason, dv_conn_id := -1\<rparr>))
                     (sbind (sget event_loop_handle) (\<lambda>loop.
                        if loop then sseq (post_event (CloseEvent dev reason HIDH_OK)) (sret 0) else sret 0))))"

definition report_event :: "dev_ptr \<Rightarrow> esp_hidh_dev_report_t \<Rightarrow> u8 list \<Rightarrow> hidh_report_event" where
  "report_event dev report om =
     \<lparr>he_dev = dev, he_usage = hr_usage report, he_report_id = ucast (hr_report_id report),
      he_length = of_nat (length om), he_data = StaleData, he_map_index = hr_map_index report, he_tail = om\<rparr>"

definition gap_notify_rx :: "'w nimble \<Rightarrow> u16 \<Rightarrow> u16 \<Rightarrow> u8 list \<Rightarrow> ('w, int) nim" where
  "gap_notify_rx nb conn_handle attr_handle om =
     sbind (esp_hidh_dev_get_by_conn_id conn_handle) (\<lambda>dev.
       if dev = None then sret 0
       else sbind (sget event_loop_handle) (\<lambda>loop.
            if \<not> loop then sret 0
            else sbind (get_dev dev) (\<lambda>d.
              if attr_handle = dv_battery_handle d
              then sseq (post_event (BatteryEvent dev (case om of [] \<Rightarrow> 0 | b # _ \<Rightarrow> b))) (sret 0)
              else case esp_hidh_dev_get_report_by_handle d attr_handle of
                     None \<Rightarrow> sret 0
                   | Some report \<Rightarrow>
                       sbind (get_buf (dv_protocol_mode d)) (\<lambda>pm.
                         if length pm \<le> unat (hr_map_index report) then sfail OutOfBounds
                         else if hr_protocol_mode report \<noteq> pm ! unat (hr_map_index report) then sret 0
                         else sbind (request (nb_malloc nb)) (\<lambda>ok.
                                if \<not> ok then sret 0
                                else if hr_report_type report = ESP_HID_REPORT_TYPE_FEATURE
                                then sseq (post_event (FeatureEvent (report_event dev report om))) (sret 0)
                                else sseq (post_event (InputEvent (report_event dev report om))) (sret 0))))))"

definition gap_passkey_action :: "'w nimble \<Rightarrow> bool \<Rightarrow> u16 \<Rightarrow> ('w, int) nim" where
  "gap_passkey_action nb display conn_handle =
     (if display then
        sbind (call_world (nb_random nb)) (\<lambda>r.
        sbind (sret (r mod 1000000)) (\<lambda>passkey.
        sseq (smod (\<lambda>s. if s_hidh_passkey_cb s then s\<lparr>nh_shown := nh_shown s @ [passkey]\<rparr> else s))
        (sseq (call_world (nb_sm_inject_io nb conn_handle passkey)) (sret 0))))
      else sret 0)"

definition gap_repeat_pairing :: "'w nimble \<Rightarrow> u16 \<Rightarrow> ('w, int) nim" where
  "gap_repeat_pairing nb conn_handle =
     sbind (sget (\<lambda>s. nb_conn_find nb conn_handle (nh_world s))) (\<lambda>desc.
       case desc of
         None \<Rightarrow> sfail UninitRead
       | Some (peer_ota_addr, peer_id_addr) \<Rightarrow>
           sseq (call_world (nb_store_delete_peer nb peer_id_addr)) (sret BLE_GAP_REPEAT_PAIRING_RETRY))"

definition esp_hidh_gattc_event_handler :: "'w nimble \<Rightarrow> ble_gap_event \<Rightarrow> ('w, int) nim" where
  "esp_hidh_gattc_event_handler nb event =
     (case event of
        BLE_GAP_EVENT_CONNECT st conn_handle \<Rightarrow> gap_connect nb st conn_handle
      | BLE_GAP_EVENT_DISCONNECT reason conn_handle \<Rightarrow> gap_disconnect reason conn_handle
      | BLE_GAP_EVENT_NOTIFY_RX conn_handle attr_handle om \<Rightarrow> gap_notify_rx nb conn_handle attr_handle om
      | BLE_GAP_EVENT_MTU \<Rightarrow> sret 0
      | BLE_GAP_EVENT_PASSKEY_ACTION display conn_handle \<Rightarrow> gap_passkey_action nb display conn_handle
      | BLE_GAP_EVENT_ENC_CHANGE st \<Rightarrow> sseq give_sec (sret 0)
      | BLE_GAP_EVENT_REPEAT_PAIRING conn_handle \<Rightarrow> gap_repeat_pairing nb conn_handle
      | BLE_GAP_EVENT_OTHER \<Rightarrow> sret 0)"

section \<open>The host task and waiting for it\<close>

text \<open>One callback; the stack alone sees what it returns.\<close>

definition run_cb :: "'w nimble \<Rightarrow> nim_cb \<Rightarrow> ('w, unit) nim" where
  "run_cb nb c =
     sseq (case c of
             OnRead st data \<Rightarrow> nimble_on_read nb st data
           | SvcDisced conn_handle st service \<Rightarrow> svc_disced conn_handle st service
           | ChrDisced st chr \<Rightarrow> chr_disced st chr
           | DescDisced st dsc \<Rightarrow> desc_disced st dsc
           | OnSubscribe a conn_handle \<Rightarrow> on_subscribe a conn_handle
           | OnWrite a conn_handle \<Rightarrow> on_write a conn_handle
           | OnGap event \<Rightarrow> esp_hidh_gattc_event_handler nb event)
          (sret ())"

fun serve_until :: "('s \<Rightarrow> bool) \<Rightarrow> ('c \<Rightarrow> ('s, unit) prog) \<Rightarrow> 'c list \<Rightarrow> ('s, 'c list) prog" where
  "serve_until ready run [] s = Inr ([], s)"
| "serve_until ready run (c # cs) s =
     (if ready s then Inr (c # cs, s) else sseq (run c) (serve_until ready run cs) s)"

text \<open>
  The task blocks: the first \<open>early\<close> pending callbacks have run before it asked, the rest run until it
  can go on, and no more than \<open>limit\<close> of them in the time it waits.
\<close>

definition host_serves :: "'w nimble \<Rightarrow> ('w nimble_st \<Rightarrow> bool) \<Rightarrow> nat \<Rightarrow> nat \<Rightarrow> ('w, unit) nim" where
  "host_serves nb ready early limit =
     sbind (sget nh_pending) (\<lambda>cs.
     sseq (smod (\<lambda>s. s\<lparr>nh_pending := []\<rparr>))
     (sseq (sfor (take early cs) (run_cb nb))
     (sbind (serve_until ready (run_cb nb) (take limit (drop early cs))) (\<lambda>rest.
      smod (\<lambda>s. s\<lparr>nh_pending := rest @ drop limit (drop early cs)\<rparr>)))))"

definition WAIT_CB :: "'w nimble \<Rightarrow> ('w, unit) nim" where
  "WAIT_CB nb =
     sbind (sget s_ble_hidh_cb_semaphore) (\<lambda>sem.
       if sem = None then sfail NullDeref
       else sbind (sget (\<lambda>s. nb_early nb (nh_world s))) (\<lambda>early.
            sbind (sget (\<lambda>s. length (nh_pending s))) (\<lambda>limit.
            sseq (host_serves nb (\<lambda>s. s_ble_hidh_cb_semaphore s = Some True) early limit)
            (sbind (sget s_ble_hidh_cb_semaphore) (\<lambda>sem.
               if sem = Some True then smod (\<lambda>s. s\<lparr>s_ble_hidh_cb_semaphore := Some False\<rparr>)
               else sfail Deadlock)))))"

text \<open>Waiting at most 30 seconds for the link to be encrypted; what happened is not asked.\<close>

definition wait_sec :: "'w nimble \<Rightarrow> ('w, unit) nim" where
  "wait_sec nb =
     sbind (sget s_ble_hidh_sec_semaphore) (\<lambda>sem.
       if sem = None then sfail NullDeref
       else sbind (sget (\<lambda>s. nb_early nb (nh_world s))) (\<lambda>early.
            sbind (sget (\<lambda>s. nb_in_time nb (nh_world s))) (\<lambda>limit.
            sseq (host_serves nb (\<lambda>s. s_ble_hidh_sec_semaphore s = Some True) early limit)
            (smod (\<lambda>s. s\<lparr>s_ble_hidh_sec_semaphore := Some False\<rparr>)))))"

end
