(* ===== verification/NimDisc.thy ===== *)
theory NimDisc
  imports NimBack
begin

text \<open>
  Reading the attributes of a HID device, \<open>read_char\<close> to \<open>read_device_services\<close> of
  \<open>esp_hid/src/nimble_hidh.c\<close>. The one large C function is cut along its loops: one definition for the
  body of each, in the order of the lines. The locals that outlive an iteration (\<open>rdata\<close>, \<open>rlen\<close>,
  \<open>hidindex\<close>) are in the state; \<open>report\<close> is set anew by every characteristic that uses it and is passed
  on. A \<open>return\<close> in the middle is \<open>Abort\<close>, or the result False of a loop.
\<close>

section \<open>Reading a value\<close>

definition read_out :: "('w, int \<times> (buf_ptr \<times> u16) option) nim" where
  "read_out =
     sbind (sget s_read_status) (\<lambda>st.
     sbind (sget (\<lambda>s. (s_read_data_val s, s_read_data_len s))) (\<lambda>out.
     sret (st, if st = 0 then Some out else None)))"

definition read_char :: "'w nimble \<Rightarrow> u16 \<Rightarrow> u16 \<Rightarrow> ('w, int \<times> (buf_ptr \<times> u16) option) nim" where
  "read_char nb conn_handle handle =
     sseq (smod (\<lambda>s. s\<lparr>s_read_data_val := None, s_read_data_len := 0\<rparr>))
       (sbind (procedure (nb_read_long nb conn_handle handle) (\<lambda>(st, data). OnRead st data)) (\<lambda>rc.
          if rc \<noteq> 0 then sret (rc, None) else sseq (WAIT_CB nb) read_out))"

definition read_descr :: "'w nimble \<Rightarrow> u16 \<Rightarrow> u16 \<Rightarrow> ('w, int \<times> (buf_ptr \<times> u16) option) nim" where
  "read_descr nb conn_handle handle =
     sseq (smod (\<lambda>s. s\<lparr>s_read_data_val := None, s_read_data_len := 0\<rparr>))
       (sbind (procedure (nb_read_long nb conn_handle handle) (\<lambda>(st, data). OnRead st data)) (\<lambda>rc.
          if rc \<noteq> 0 then sret (rc, None) else sseq (WAIT_CB nb) read_out))"

text \<open>A read into the locals \<open>rdata\<close> and \<open>rlen\<close>, which keep what they held when it fails.\<close>

definition into_locals :: "('w, int \<times> (buf_ptr \<times> u16) option) nim \<Rightarrow> ('w, int) nim" where
  "into_locals rd =
     sbind rd (\<lambda>(st, out). case out of
       None \<Rightarrow> sret st
     | Some (p, n) \<Rightarrow> sseq (smod (\<lambda>s. s\<lparr>rs_rdata := p, rs_rlen := n\<rparr>)) (sret st))"

text \<open>\<open>read_char(...) == 0 && rlen\<close> for a handle of the device at \<open>a\<close>.\<close>

definition dev_conn :: "nat \<Rightarrow> ('w, u16) nim" where
  "dev_conn a = sbind (get_dev (Some a)) (\<lambda>d. sret (conn16 (dv_conn_id d)))"

definition read_value :: "'w nimble \<Rightarrow> nat \<Rightarrow> u16 \<Rightarrow> ('w, bool) nim" where
  "read_value nb a handle =
     sbind (dev_conn a) (\<lambda>conn.
     sbind (into_locals (read_char nb conn handle)) (\<lambda>st.
     sbind (sget rs_rlen) (\<lambda>rlen. sret (st = 0 \<and> nz rlen))))"

text \<open>Reading a byte of a block, and a 16-bit value in the byte order of the target.\<close>

definition byte_at :: "buf_ptr \<Rightarrow> nat \<Rightarrow> ('w, u8) nim" where
  "byte_at p i = sbind (get_buf p) (\<lambda>bs. if i < length bs then sret (bs ! i) else sfail OutOfBounds)"

definition u16_at :: "buf_ptr \<Rightarrow> nat \<Rightarrow> ('w, u16) nim" where
  "u16_at p i = sbind (byte_at p i) (\<lambda>lo. sbind (byte_at p (i + 1)) (\<lambda>hi.
     sret (ucast (le_value [lo, hi]))))"

section \<open>Characteristics\<close>

text \<open>How a characteristic goes on: \<open>continue\<close>, its descriptors, or \<open>return\<close>.\<close>

datatype chr_step = Continue | Descriptors "esp_hidh_dev_report_t option" | Abort

definition set_config :: "nat \<Rightarrow> (hidh_config \<Rightarrow> hidh_config) \<Rightarrow> ('w, unit) nim" where
  "set_config a f = upd_dev (Some a) (\<lambda>d. d\<lparr>dv_config := f (dv_config d)\<rparr>)"

definition readable :: "ble_gatt_chr \<Rightarrow> bool" where
  "readable chr = nz (gc_properties chr AND BLE_GATT_CHR_PROP_READ)"

definition read_gap_chr :: "'w nimble \<Rightarrow> nat \<Rightarrow> ble_gatt_chr \<Rightarrow> ('w, chr_step) nim" where
  "read_gap_chr nb a chr =
     sbind (get_dev (Some a)) (\<lambda>d.
       if hc_device_name (dv_config d) = None \<and> gc_uuid chr = BLE_SVC_GAP_CHR_UUID16_DEVICE_NAME \<and> readable chr
       then sbind (read_value nb a (gc_val_handle chr)) (\<lambda>ok.
            sbind (sget rs_rdata) (\<lambda>rdata.
            sseq (if ok then set_config a (\<lambda>c. c\<lparr>hc_device_name := rdata\<rparr>) else sret ())
                 (sret (Descriptors None))))
       else sret Continue)"

definition read_bas_chr :: "nat \<Rightarrow> ble_gatt_chr \<Rightarrow> ('w, chr_step) nim" where
  "read_bas_chr a chr =
     (if gc_uuid chr = BLE_SVC_BAS_CHR_UUID16_BATTERY_LEVEL \<and> readable chr
      then sseq (upd_dev (Some a) (\<lambda>d. d\<lparr>dv_battery_handle := gc_val_handle chr\<rparr>)) (sret (Descriptors None))
      else sret Continue)"

definition read_pnp_id :: "'w nimble \<Rightarrow> nat \<Rightarrow> u16 \<Rightarrow> ('w, unit) nim" where
  "read_pnp_id nb a handle =
     sbind (dev_conn a) (\<lambda>conn.
     sbind (into_locals (read_char nb conn handle)) (\<lambda>st.
     sbind (sget rs_rlen) (\<lambda>rlen.
     sbind (sget rs_rdata) (\<lambda>rdata.
     sseq (if st = 0 \<and> rlen = 7
           then sbind (u16_at rdata 1) (\<lambda>vid. sbind (u16_at rdata 3) (\<lambda>pid. sbind (u16_at rdata 5) (\<lambda>ver.
                  set_config a (\<lambda>c. c\<lparr>hc_vendor_id := vid, hc_product_id := pid, hc_version := ver\<rparr>))))
           else sret ())
          (free_buf rdata)))))"

definition read_dis_chr :: "'w nimble \<Rightarrow> nat \<Rightarrow> ble_gatt_chr \<Rightarrow> ('w, chr_step) nim" where
  "read_dis_chr nb a chr =
     sseq
       (if \<not> readable chr then sret ()
        else if gc_uuid chr = BLE_SVC_DIS_CHR_UUID16_PNP_ID then read_pnp_id nb a (gc_val_handle chr)
        else if gc_uuid chr = BLE_SVC_DIS_CHR_UUID16_MANUFACTURER_NAME
        then sbind (read_value nb a (gc_val_handle chr)) (\<lambda>ok. sbind (sget rs_rdata) (\<lambda>rdata.
               if ok then set_config a (\<lambda>c. c\<lparr>hc_manufacturer_name := rdata\<rparr>) else sret ()))
        else if gc_uuid chr = BLE_SVC_DIS_CHR_UUID16_SERIAL_NUMBER
        then sbind (read_value nb a (gc_val_handle chr)) (\<lambda>ok. sbind (sget rs_rdata) (\<lambda>rdata.
               if ok then set_config a (\<lambda>c. c\<lparr>hc_serial_number := rdata\<rparr>) else sret ()))
        else sret ())
       (sret Continue)"

definition read_protocol_mode :: "'w nimble \<Rightarrow> nat \<Rightarrow> u16 \<Rightarrow> ('w, unit) nim" where
  "read_protocol_mode nb a handle =
     sbind (read_value nb a handle) (\<lambda>ok.
       if ok
       then sbind (sget rs_rdata) (\<lambda>rdata. sbind (byte_at rdata 0) (\<lambda>b.
            sbind (get_dev (Some a)) (\<lambda>d. sbind (sget rs_hidindex) (\<lambda>i.
            buf_write (dv_protocol_mode d) (unat i) [b]))))
       else sret ())"

definition set_raw_map :: "nat \<Rightarrow> nat \<Rightarrow> buf_ptr \<times> u16 \<Rightarrow> ('w, unit) nim" where
  "set_raw_map a i m =
     sbind (get_dev (Some a)) (\<lambda>d. case hc_report_maps (dv_config d) of
       None \<Rightarrow> sfail NullDeref
     | Some ms \<Rightarrow> (if i < length ms then set_config a (\<lambda>c. c\<lparr>hc_report_maps := Some (ms[i := m])\<rparr>)
                   else sfail OutOfBounds))"

definition read_report_map :: "'w nimble \<Rightarrow> nat \<Rightarrow> u16 \<Rightarrow> ('w, unit) nim" where
  "read_report_map nb a handle =
     sbind (read_value nb a handle) (\<lambda>ok.
       if ok
       then sbind (sget rs_rdata) (\<lambda>rdata. sbind (sget rs_rlen) (\<lambda>rlen. sbind (sget rs_hidindex) (\<lambda>i.
            set_raw_map a (unat i) (rdata, rlen))))
       else sret ())"

text \<open>A new report: boot reports have a fixed shape, others are filled in from the report map.\<close>

definition new_report :: "u8 \<Rightarrow> ble_gatt_chr \<Rightarrow> esp_hidh_dev_report_t" where
  "new_report hidindex chr =
     (let shape = (\<lambda>mode ty usage len.
            \<lparr>hr_map_index = hidindex, hr_report_id = 0, hr_report_type = ty, hr_protocol_mode = mode,
             hr_value_len = len, hr_usage = usage, hr_handle = gc_val_handle chr, hr_ccc_handle = 0,
             hr_permissions = gc_properties chr\<rparr>)
      in if gc_uuid chr = BLE_SVC_HID_CHR_UUID16_BOOT_KBD_INP
         then shape ESP_HID_PROTOCOL_MODE_BOOT ESP_HID_REPORT_TYPE_INPUT ESP_HID_USAGE_KEYBOARD 8
         else if gc_uuid chr = BLE_SVC_HID_CHR_UUID16_BOOT_KBD_OUT
         then shape ESP_HID_PROTOCOL_MODE_BOOT ESP_HID_REPORT_TYPE_OUTPUT ESP_HID_USAGE_KEYBOARD 8
         else if gc_uuid chr = BLE_SVC_HID_CHR_UUID16_BOOT_MOUSE_INP
         then shape ESP_HID_PROTOCOL_MODE_BOOT ESP_HID_REPORT_TYPE_INPUT ESP_HID_USAGE_MOUSE 8
         else shape ESP_HID_PROTOCOL_MODE_REPORT 0 ESP_HID_USAGE_GENERIC 0)"

definition is_report_chr :: "u16 \<Rightarrow> bool" where
  "is_report_chr cuuid \<longleftrightarrow> cuuid = BLE_SVC_HID_CHR_UUID16_BOOT_KBD_INP \<or> cuuid = BLE_SVC_HID_CHR_UUID16_BOOT_KBD_OUT
     \<or> cuuid = BLE_SVC_HID_CHR_UUID16_BOOT_MOUSE_INP \<or> cuuid = BLE_SVC_HID_CHR_UUID16_RPT"

definition read_hid_chr :: "'w nimble \<Rightarrow> nat \<Rightarrow> ble_gatt_chr \<Rightarrow> ('w, chr_step) nim" where
  "read_hid_chr nb a chr =
     (if gc_uuid chr = BLE_SVC_HID_CHR_UUID16_PROTOCOL_MODE
      then sseq (if readable chr then read_protocol_mode nb a (gc_val_handle chr) else sret ()) (sret Continue)
      else if gc_uuid chr = BLE_SVC_HID_CHR_UUID16_REPORT_MAP
      then sseq (if readable chr then read_report_map nb a (gc_val_handle chr) else sret ()) (sret Continue)
      else if is_report_chr (gc_uuid chr)
      then sbind (request (nb_malloc nb)) (\<lambda>ok.
           sbind (sget rs_hidindex) (\<lambda>i.
             if ok then sret (Descriptors (Some (new_report i chr))) else sret Abort))
      else sret Continue)"

definition read_chr :: "'w nimble \<Rightarrow> nat \<Rightarrow> u16 \<Rightarrow> ble_gatt_chr \<Rightarrow> ('w, chr_step) nim" where
  "read_chr nb a suuid chr =
     (if suuid = BLE_SVC_GAP_UUID16 then read_gap_chr nb a chr
      else if suuid = BLE_SVC_BAS_UUID16 then read_bas_chr a chr
      else if suuid = BLE_SVC_DIS_UUID16 then read_dis_chr nb a chr
      else read_hid_chr nb a chr)"

section \<open>Descriptors\<close>

definition read_dsc ::
    "'w nimble \<Rightarrow> nat \<Rightarrow> u16 \<Rightarrow> ble_gatt_chr \<Rightarrow> ble_gatt_dsc \<Rightarrow> esp_hidh_dev_report_t option \<Rightarrow>
     ('w, esp_hidh_dev_report_t option) nim" where
  "read_dsc nb a suuid chr dsc report =
     (if suuid = BLE_SVC_BAS_UUID16 then
        (if gd_uuid dsc = BLE_GATT_DSC_CLT_CFG_UUID16 \<and> nz (gc_properties chr AND BLE_GATT_CHR_PROP_NOTIFY)
         then sseq (upd_dev (Some a) (\<lambda>d. d\<lparr>dv_battery_ccc_handle := gd_handle dsc\<rparr>)) (sret report)
         else sret report)
      else if suuid = BLE_SVC_HID_UUID16 then
        (case report of
           None \<Rightarrow> sret report
         | Some r \<Rightarrow>
             if gd_uuid dsc = BLE_GATT_DSC_CLT_CFG_UUID16 \<and> nz (hr_permissions r AND BLE_GATT_CHR_PROP_NOTIFY)
             then sret (Some (r\<lparr>hr_ccc_handle := gd_handle dsc\<rparr>))
             else if gd_uuid dsc = BLE_SVC_HID_DSC_UUID16_RPT_REF
             then sbind (dev_conn a) (\<lambda>conn.
                  sbind (into_locals (read_descr nb conn (gd_handle dsc))) (\<lambda>st.
                  sbind (sget rs_rlen) (\<lambda>rlen. sbind (sget rs_rdata) (\<lambda>rdata.
                    if st = 0 \<and> nz rlen
                    then sbind (byte_at rdata 0) (\<lambda>rid. sbind (byte_at rdata 1) (\<lambda>ty.
                         sseq (free_buf rdata) (sret (Some (r\<lparr>hr_report_id := rid, hr_report_type := ty\<rparr>)))))
                    else sret report))))
             else sret report)
      else sret report)"

fun dsc_loop ::
    "'w nimble \<Rightarrow> nat \<Rightarrow> u16 \<Rightarrow> ble_gatt_chr \<Rightarrow> nat list \<Rightarrow> esp_hidh_dev_report_t option \<Rightarrow>
     ('w, esp_hidh_dev_report_t option) nim" where
  "dsc_loop nb a suuid chr [] report = sret report"
| "dsc_loop nb a suuid chr (d # ds) report =
     sbind (sget (\<lambda>s. get_slot d (descr_result s))) (\<lambda>r.
     sbind (slift r) (\<lambda>dsc.
     sbind (read_dsc nb a suuid chr dsc report) (\<lambda>report. dsc_loop nb a suuid chr ds report)))"

text \<open>Every discovery ends with waiting and an assertion that it went well.\<close>

definition discovered :: "'w nimble \<Rightarrow> ('w, unit) nim" where
  "discovered nb =
     sseq (WAIT_CB nb)
       (sbind (sget nh_status) (\<lambda>st. if st \<noteq> 0 then sfail AssertFailed else sret ()))"

definition read_descriptors ::
    "'w nimble \<Rightarrow> nat \<Rightarrow> u16 \<Rightarrow> ble_gatt_chr \<Rightarrow> u16 \<Rightarrow> esp_hidh_dev_report_t option \<Rightarrow> ('w, unit) nim" where
  "read_descriptors nb a suuid chr chr_end_handle report =
     sseq (smod (\<lambda>s. s\<lparr>descr_result := Some (replicate 20 None)\<rparr>))
     (sbind (dev_conn a) (\<lambda>conn.
      sbind (procedure (nb_disc_all_dscs nb conn (gc_val_handle chr) chr_end_handle) (\<lambda>(st, dsc). DescDisced st dsc)) (\<lambda>rc.
      sseq (discovered nb)
      (sbind (sget dscs_discovered) (\<lambda>dcount.
       sbind (if rc = 0 then dsc_loop nb a suuid chr [0..<dcount] report else sret report) (\<lambda>report.
       sseq (case report of
               None \<Rightarrow> sret ()
             | Some r \<Rightarrow> (if suuid = BLE_SVC_HID_UUID16
                         then upd_dev (Some a) (\<lambda>d. d\<lparr>dv_reports := r # dv_reports d, dv_reports_len := dv_reports_len d + 1\<rparr>)
                         else sret ()))
            (smod (\<lambda>s. s\<lparr>dscs_discovered := 0, descr_result := None\<rparr>))))))))"

section \<open>Services\<close>

fun chr_loop :: "'w nimble \<Rightarrow> nat \<Rightarrow> ble_gatt_svc \<Rightarrow> nat \<Rightarrow> nat list \<Rightarrow> ('w, bool) nim" where
  "chr_loop nb a svc ccount [] = sret True"
| "chr_loop nb a svc ccount (c # cs) =
     sbind (sget (\<lambda>s. get_slot c (char_result s))) (\<lambda>r.
     sbind (slift r) (\<lambda>chr.
     sbind (read_chr nb a (gs_uuid svc) chr) (\<lambda>step.
       case step of
         Continue \<Rightarrow> chr_loop nb a svc ccount cs
       | Abort \<Rightarrow> sret False
       | Descriptors report \<Rightarrow>
           sbind (if c + 1 < ccount
                  then sbind (sget (\<lambda>s. get_slot (c + 1) (char_result s))) (\<lambda>r.
                       sbind (slift r) (\<lambda>nxt. sret (gc_def_handle nxt)))
                  else sret (gs_end_handle svc)) (\<lambda>chr_end_handle.
           sseq (read_descriptors nb a (gs_uuid svc) chr chr_end_handle report)
                (chr_loop nb a svc ccount cs)))))"

definition known_service :: "u16 \<Rightarrow> bool" where
  "known_service suuid \<longleftrightarrow> suuid = BLE_SVC_BAS_UUID16 \<or> suuid = BLE_SVC_DIS_UUID16 \<or> suuid = BLE_SVC_HID_UUID16
     \<or> suuid = 0x1800"

definition read_service :: "'w nimble \<Rightarrow> nat \<Rightarrow> ble_gatt_svc \<Rightarrow> ('w, bool) nim" where
  "read_service nb a svc =
     (if \<not> known_service (gs_uuid svc) then sret True
      else
        sseq (smod (\<lambda>s. s\<lparr>char_result := Some (replicate 20 None)\<rparr>))
        (sbind (dev_conn a) (\<lambda>conn.
         sbind (procedure (nb_disc_all_chrs nb conn (gs_start_handle svc) (gs_end_handle svc))
                          (\<lambda>(st, chr). ChrDisced st chr)) (\<lambda>rc.
         sseq (discovered nb)
         (sbind (sget chrs_discovered) (\<lambda>ccount.
          sbind (if rc = 0
                 then sbind (chr_loop nb a svc ccount [0..<ccount]) (\<lambda>more_to_do.
                      sseq (if more_to_do \<and> gs_uuid svc = BLE_SVC_HID_UUID16
                            then smod (\<lambda>s. s\<lparr>rs_hidindex := rs_hidindex s + 1\<rparr>) else sret ())
                           (sret more_to_do))
                 else sret True) (\<lambda>more_to_do.
          sseq (smod (\<lambda>s. s\<lparr>chrs_discovered := (if more_to_do then 0 else chrs_discovered s), char_result := None\<rparr>))
               (sret more_to_do))))))))"

fun svc_loop :: "'w nimble \<Rightarrow> nat \<Rightarrow> nat list \<Rightarrow> ('w, bool) nim" where
  "svc_loop nb a [] = sret True"
| "svc_loop nb a (i # is) =
     sbind (sget (\<lambda>s. get_slot i (service_result s))) (\<lambda>r.
     sbind (slift r) (\<lambda>svc.
     sbind (read_service nb a svc) (\<lambda>more_to_do.
       if more_to_do then svc_loop nb a is else sret False)))"

section \<open>The report maps\<close>

text \<open>What the entries of a parsed map say about a report (lines 525 to 543).\<close>

definition merge_item :: "esp_hid_report_item_t \<Rightarrow> esp_hidh_dev_report_t \<Rightarrow> esp_hidh_dev_report_t" where
  "merge_item r report =
     (if hr_protocol_mode report = ESP_HID_PROTOCOL_MODE_BOOT \<and> hr_protocol_mode report = ri_protocol_mode r
         \<and> hr_report_type report = ri_report_type r \<and> hr_usage report = ri_usage r
      then report\<lparr>hr_report_id := ri_report_id r, hr_value_len := ucast (ri_value_len r)\<rparr>
      else if hr_protocol_mode report = ri_protocol_mode r \<and> hr_report_type report = ri_report_type r
              \<and> hr_report_id report = ri_report_id r
      then report\<lparr>hr_usage := ri_usage r, hr_value_len := ucast (ri_value_len r)\<rparr>
      else report)"

definition merge_map :: "u8 \<Rightarrow> esp_hid_report_map_t \<Rightarrow> esp_hidh_dev_report_t \<Rightarrow> esp_hidh_dev_report_t" where
  "merge_map d mp report =
     (if hr_map_index report = d then fold merge_item (take (unat (rm_reports_len mp)) (rm_reports mp)) report
      else report)"

definition parse_map :: "'w nimble \<Rightarrow> u8 list \<Rightarrow> ('w, esp_hid_report_map_t option) nim" where
  "parse_map nb data s =
     (case esp_hid_parse_report_map (nb_malloc nb) data (nh_parser s) of
        (Inl e, p) \<Rightarrow> Inl e
      | (Inr m, p) \<Rightarrow> Inr (m, s\<lparr>nh_parser := p\<rparr>))"

definition read_map :: "'w nimble \<Rightarrow> nat \<Rightarrow> nat \<Rightarrow> ('w, unit) nim" where
  "read_map nb a d =
     sbind (get_dev (Some a)) (\<lambda>dev. case hc_report_maps (dv_config dev) of
       None \<Rightarrow> if dv_reports_len dev = 0 then sret () else sfail NullDeref
     | Some ms \<Rightarrow>
         if dv_reports_len dev = 0 then sret ()
         else if length ms \<le> d then sfail OutOfBounds
         else if snd (ms ! d) = 0 then sret ()
         else sbind (get_buf (fst (ms ! d))) (\<lambda>data.
              sbind (parse_map nb (take (unat (snd (ms ! d))) data)) (\<lambda>m.
                case m of
                  None \<Rightarrow> sret ()
                | Some mp \<Rightarrow>
                    sseq (upd_dev (Some a) (\<lambda>dev. dev\<lparr>
                            dv_appearance := (if dv_appearance dev = 0 then rm_appearance mp else dv_appearance dev),
                            dv_reports := List.map (merge_map (of_nat d) mp) (dv_reports dev)\<rparr>))
                         (smod (\<lambda>s. s\<lparr>nh_parser := heap_free (heap_free (nh_parser s))\<rparr>)))))"

section \<open>All of it\<close>

text \<open>
  Line 315 asserts that the code it has just found to be not 0 is not 0, so the function goes on to
  wait for callbacks when the discovery was not even started. A block for the maps that was not
  filled is an array of pointers that lead nowhere.
\<close>

definition wild_map :: "buf_ptr \<times> u16" where
  "wild_map = (Some 0, 0)"

definition alloc_maps :: "'w nimble \<Rightarrow> nat \<Rightarrow> ('w, bool) nim" where
  "alloc_maps nb a =
     sbind (get_dev (Some a)) (\<lambda>d.
     sbind (request (nb_malloc nb)) (\<lambda>ok.
       if \<not> ok then sret False
       else let n = unat (hc_report_maps_len (dv_config d))
            in sseq (set_config a (\<lambda>c. c\<lparr>hc_report_maps := Some (replicate n wild_map)\<rparr>))
               (sbind (nim_malloc nb n) (\<lambda>pm.
                  if pm = None then sret False
                  else sseq (upd_dev (Some a) (\<lambda>d. d\<lparr>dv_protocol_mode := pm\<rparr>))
                       (sseq (set_config a (\<lambda>c. c\<lparr>hc_report_maps := Some (replicate n (None, 0))\<rparr>))
                             (sret True))))))"

definition leave_frame :: "('w, unit) nim" where
  "leave_frame = smod (\<lambda>s. s\<lparr>service_result := None, char_result := None, descr_result := None\<rparr>)"

definition read_device_services :: "'w nimble \<Rightarrow> nat \<Rightarrow> ('w, unit) nim" where
  "read_device_services nb a =
     sseq (smod (\<lambda>s. s\<lparr>service_result := Some (replicate 10 None), rs_rdata := None, rs_rlen := 0, rs_hidindex := 0\<rparr>))
     (sbind (dev_conn a) (\<lambda>conn.
      sbind (procedure (nb_disc_all_svcs nb conn) (\<lambda>(st, svc). SvcDisced conn st svc)) (\<lambda>rc.
      sseq (discovered nb)
      (sbind (sget services_discovered) (\<lambda>dcount.
       sseq
         (if rc = 0
          then sbind (alloc_maps nb a) (\<lambda>ok.
               if \<not> ok then sret ()
               else sbind (svc_loop nb a [0..<dcount]) (\<lambda>more_to_do.
                    if \<not> more_to_do then sret ()
                    else sbind (get_dev (Some a)) (\<lambda>d.
                         sfor [0..<unat (hc_report_maps_len (dv_config d))] (read_map nb a))))
          else sret ())
         leave_frame)))))"

end
