(* ===== verification/NimHost.thy ===== *)
theory NimHost
  imports NimDisc HidStrings
begin

text \<open>
  The rest of \<open>esp_hid/src/nimble_hidh.c\<close>: subscribing to the reports, the functions a device points
  to, and the public functions, which run in the application's task.
\<close>

section \<open>Subscribing\<close>

definition register_for_notify :: "'w nimble \<Rightarrow> u16 \<Rightarrow> u16 \<Rightarrow> ('w, unit) nim" where
  "register_for_notify nb conn_handle handle =
     sseq (procedure (nb_write_flat nb conn_handle handle [1, 0]) (OnSubscribe (ArgParam conn_handle)))
          (WAIT_CB nb)"

definition write_char_descr :: "'w nimble \<Rightarrow> u16 \<Rightarrow> u16 \<Rightarrow> u8 list \<Rightarrow> ('w, unit) nim" where
  "write_char_descr nb conn_id handle v =
     sseq (procedure (nb_write_flat nb conn_id handle v) (OnWrite (ArgParam conn_id)))
          (WAIT_CB nb)"

text \<open>A value and its descriptor, written when the handle of the latter is known.\<close>

definition subscribe :: "'w nimble \<Rightarrow> nat \<Rightarrow> u16 \<Rightarrow> u16 \<Rightarrow> ('w, unit) nim" where
  "subscribe nb a handle ccc_handle =
     sbind (dev_conn a) (\<lambda>conn.
     sseq (register_for_notify nb conn handle)
     (if nz ccc_handle
      then sbind (dev_conn a) (\<lambda>conn. write_char_descr nb conn ccc_handle [1, 0])
      else sret ()))"

definition listens :: "esp_hidh_dev_report_t \<Rightarrow> bool" where
  "listens report \<longleftrightarrow> nz (hr_permissions report AND BLE_GATT_CHR_PROP_NOTIFY)
     \<and> hr_protocol_mode report = ESP_HID_PROTOCOL_MODE_REPORT"

definition attach_report_listeners :: "'w nimble \<Rightarrow> dev_ptr \<Rightarrow> ('w, unit) nim" where
  "attach_report_listeners nb dev =
     (case dev of
        None \<Rightarrow> sret ()
      | Some a \<Rightarrow>
          sbind (get_dev dev) (\<lambda>d.
          sseq (if nz (dv_battery_handle d) then subscribe nb a (dv_battery_handle d) (dv_battery_ccc_handle d)
                else sret ())
               (sfor (dv_reports d) (\<lambda>report.
                  if listens report then subscribe nb a (hr_handle report) (hr_ccc_handle report) else sret ()))))"

section \<open>The functions of a device\<close>

definition esp_ble_hidh_dev_close :: "'w nimble \<Rightarrow> dev_ptr \<Rightarrow> ('w, int) nim" where
  "esp_ble_hidh_dev_close nb dev =
     sbind (get_dev dev) (\<lambda>d.
       procedure (nb_gap_terminate nb (conn16 (dv_conn_id d)) BLE_ERR_REM_USER_CONN_TERM)
         (\<lambda>_. OnGap BLE_GAP_EVENT_OTHER))"

definition esp_ble_hidh_dev_report_write ::
    "'w nimble \<Rightarrow> dev_ptr \<Rightarrow> nat \<Rightarrow> nat \<Rightarrow> int \<Rightarrow> u8 list \<Rightarrow> ('w, int) nim" where
  "esp_ble_hidh_dev_report_write nb dev map_index report_id report_type v =
     sbind (get_dev dev) (\<lambda>d.
       case esp_hidh_dev_get_report_by_id_and_type d map_index report_id report_type of
         None \<Rightarrow> sret ESP_FAIL
       | Some report \<Rightarrow>
           if unat (hr_value_len report) < length v then sret ESP_FAIL
           else sbind (procedure (nb_write_flat nb (conn16 (dv_conn_id d)) (hr_handle report) v)
                         (OnWrite (ArgDev (the dev)))) (\<lambda>rc.
                sseq (WAIT_CB nb) (sret rc)))"

text \<open>Line 878: the result goes through the caller's pointers, which \<open>esp_hidh_dev_get_report\<close> leaves NULL.\<close>

definition esp_ble_hidh_dev_report_read ::
    "'w nimble \<Rightarrow> dev_ptr \<Rightarrow> nat \<Rightarrow> nat \<Rightarrow> int \<Rightarrow> nat \<Rightarrow> bool \<Rightarrow> ('w, int \<times> u8 list) nim" where
  "esp_ble_hidh_dev_report_read nb dev map_index report_id report_type max_length has_out =
     sbind (get_dev dev) (\<lambda>d.
       case esp_hidh_dev_get_report_by_id_and_type d map_index report_id report_type of
         None \<Rightarrow> sret (ESP_FAIL, [])
       | Some report \<Rightarrow>
           sbind (read_char nb (conn16 (dv_conn_id d)) (hr_handle report)) (\<lambda>(st, out).
             case out of
               None \<Rightarrow> sret (ESP_FAIL, [])
             | Some (v, len) \<Rightarrow>
                 if st \<noteq> 0 then sret (ESP_FAIL, [])
                 else if \<not> has_out then sfail NullDeref
                 else let n = min (unat len) max_length
                      in if n = 0 then sret (0, [])
                         else sbind (get_buf v) (\<lambda>bs.
                                if n \<le> length bs then sret (0, take n bs) else sfail OutOfBounds)))"

text \<open>Formatting: \<open>%d\<close>, \<open>%x\<close> of a width with zeros, a width with blanks.\<close>

definition digit :: "nat \<Rightarrow> char" where
  "digit n = (if n < 10 then char_of (48 + n) else char_of (87 + n))"

fun numeral_in :: "nat \<Rightarrow> nat \<Rightarrow> nat \<Rightarrow> string" where
  "numeral_in 0 base n = []"
| "numeral_in (Suc fuel) base n =
     (if n < base then [digit n] else numeral_in fuel base (n div base) @ [digit (n mod base)])"

definition dec :: "nat \<Rightarrow> string" where
  "dec n = numeral_in (n + 1) 10 n"

definition dec_int :: "int \<Rightarrow> string" where
  "dec_int i = (if i < 0 then ''-'' @ dec (nat (- i)) else dec (nat i))"

definition pad :: "char \<Rightarrow> nat \<Rightarrow> string \<Rightarrow> string" where
  "pad ch n str = replicate (n - length str) ch @ str"

definition hex :: "nat \<Rightarrow> nat \<Rightarrow> string" where
  "hex w n = pad (CHR ''0'') w (numeral_in (n + 1) 16 n)"

definition c_string :: "buf_ptr \<Rightarrow> ('w, string) nim" where
  "c_string p = (case p of
     None \<Rightarrow> sret []
   | Some a \<Rightarrow> sbind (get_buf p) (\<lambda>bs.
       if 0 \<in> set bs then sret (List.map (\<lambda>b. char_of (unat b)) (takeWhile (\<lambda>b. b \<noteq> 0) bs)) else sfail OutOfBounds))"

definition dump_report :: "esp_hidh_dev_report_t \<Rightarrow> string" where
  "dump_report r =
     ''    '' @ pad (CHR '' '') 8 (esp_hid_usage_str (hr_usage r))
     @ '' '' @ pad (CHR '' '') 7 (esp_hid_report_type_str (hr_report_type r))
     @ '' '' @ pad (CHR '' '') 6 (esp_hid_protocol_mode_str (hr_protocol_mode r))
     @ '', ID: '' @ pad (CHR '' '') 2 (dec (unat (hr_report_id r)))
     @ '', Length: '' @ pad (CHR '' '') 3 (dec (unat (hr_value_len r)))
     @ '', Permissions: 0x'' @ hex 2 (unat (hr_permissions r))
     @ '', Handle: '' @ pad (CHR '' '') 3 (dec (unat (hr_handle r)))
     @ '', CCC Handle: '' @ pad (CHR '' '') 3 (dec (unat (hr_ccc_handle r)))"

definition dump_map :: "esp_hidh_dev_t \<Rightarrow> nat \<Rightarrow> string list res" where
  "dump_map d i = (case hc_report_maps (dv_config d) of
     None \<Rightarrow> Inl NullDeref
   | Some ms \<Rightarrow>
       (if i < length ms
        then Inr ((''  Report Map Length: '' @ dec (unat (snd (ms ! i))))
                  # List.map dump_report (filter (\<lambda>r. unat (hr_map_index r) = i) (dv_reports d)))
        else Inl OutOfBounds))"

fun dump_maps :: "esp_hidh_dev_t \<Rightarrow> nat list \<Rightarrow> string list res" where
  "dump_maps d [] = Inr []"
| "dump_maps d (i # is) = bindE (dump_map d i) (\<lambda>ls. bindE (dump_maps d is) (\<lambda>rest. Inr (ls @ rest)))"

definition bda_string :: "u8 list \<Rightarrow> string" where
  "bda_string bda = (case List.map (\<lambda>b. hex 2 (unat b)) bda of
     [] \<Rightarrow> [] | x # xs \<Rightarrow> x @ concat (List.map (\<lambda>y. '':'' @ y) xs))"

definition esp_ble_hidh_dev_dump :: "dev_ptr \<Rightarrow> ('w, string list) nim" where
  "esp_ble_hidh_dev_dump dev =
     sbind (get_dev dev) (\<lambda>d.
     sbind (c_string (hc_device_name (dv_config d))) (\<lambda>name.
     sbind (c_string (hc_manufacturer_name (dv_config d))) (\<lambda>manufacturer.
     sbind (c_string (hc_serial_number (dv_config d))) (\<lambda>serial.
     sbind (slift (dump_maps d [0..<unat (hc_report_maps_len (dv_config d))])) (\<lambda>maps.
     sret ([''BDA:'' @ bda_string (dv_bda d) @ '', Appearance: 0x'' @ hex 4 (unat (dv_appearance d))
              @ '', Connection ID: '' @ dec_int (dv_conn_id d),
            ''Name: '' @ name @ '', Manufacturer: '' @ manufacturer @ '', Serial Number: '' @ serial,
            ''PID: 0x'' @ hex 4 (unat (hc_product_id (dv_config d))) @ '', VID: 0x'' @ hex 4 (unat (hc_vendor_id (dv_config d)))
              @ '', VERSION: 0x'' @ hex 4 (unat (hc_version (dv_config d))),
            ''Battery: Handle: '' @ dec (unat (dv_battery_handle d)) @ '', CCC Handle: ''
              @ dec (unat (dv_battery_ccc_handle d)),
            ''Report Maps: '' @ dec (unat (hc_report_maps_len (dv_config d)))] @ maps))))))"

definition nimble_vtable :: "'w nimble \<Rightarrow> ('w, unit) nimble_st_ext hidh_vtable" where
  "nimble_vtable nb = \<lparr>vt_close = esp_ble_hidh_dev_close nb, vt_report_write = esp_ble_hidh_dev_report_write nb,
     vt_report_read = esp_ble_hidh_dev_report_read nb, vt_set_report = None, vt_get_idle = None,
     vt_set_idle = None, vt_get_protocol = None, vt_set_protocol = None, vt_dump = esp_ble_hidh_dev_dump\<rparr>"

section \<open>Starting and stopping\<close>

definition esp_ble_hidh_init :: "bool \<Rightarrow> bool \<Rightarrow> bool option \<Rightarrow> ('w, int) nim" where
  "esp_ble_hidh_init cb_created sec_created config s =
     (if config = None then Inr (ESP_ERR_INVALID_ARG, s)
      else if s_ble_hidh_cb_semaphore s \<noteq> None then Inr (ESP_ERR_INVALID_STATE, s)
      else
        let s = s\<lparr>event_loop_handle := s_esp_hidh_event_loop_h s,
                  s_ble_hidh_cb_semaphore := (if cb_created then Some False else None)\<rparr>
        in if \<not> cb_created then Inr (HIDH_NO_MEM, s)
           else Inr (HIDH_OK, s\<lparr>s_ble_hidh_sec_semaphore := (if sec_created then Some False else None)\<rparr>))"

definition esp_ble_hidh_deinit :: "('w, int) nim" where
  "esp_ble_hidh_deinit s =
     (if s_ble_hidh_cb_semaphore s = None then Inr (ESP_ERR_INVALID_STATE, s)
      else Inr (HIDH_OK, s\<lparr>s_ble_hidh_cb_semaphore := None\<rparr>))"

definition esp_ble_hidh_set_passkey_cb :: "bool \<Rightarrow> ('w, unit) nim" where
  "esp_ble_hidh_set_passkey_cb cb = smod (\<lambda>s. s\<lparr>s_hidh_passkey_cb := cb\<rparr>)"

section \<open>Connecting\<close>

definition drain :: "('w, unit) nim" where
  "drain s = (case s_ble_hidh_cb_semaphore s of
     None \<Rightarrow> Inl NullDeref
   | Some g \<Rightarrow> Inr ((), s\<lparr>s_ble_hidh_cb_semaphore := Some False,
                     s_ble_hidh_sec_semaphore := map_option (\<lambda>_. False) (s_ble_hidh_sec_semaphore s)\<rparr>))"

text \<open>10 ms scans, 7.5 to 30 ms intervals, a supervision timeout of 5 s.\<close>

definition conn_params :: ble_gap_conn_params where
  "conn_params = \<lparr>cp_scan_itvl = 0x0010, cp_scan_window = 0x0010, cp_itvl_min = 6, cp_itvl_max = 24,
     cp_latency = 4, cp_supervision_timeout = 500, cp_min_ce_len = 0, cp_max_ce_len = 0\<rparr>"

definition secure_link :: "'w nimble \<Rightarrow> nat \<Rightarrow> ('w, unit) nim" where
  "secure_link nb a =
     sbind (dev_conn a) (\<lambda>conn.
     sbind (procedure (nb_gap_security_initiate nb conn) (\<lambda>_. OnGap BLE_GAP_EVENT_OTHER)) (\<lambda>rc.
       if rc = 0 then wait_sec nb else sret ()))"

definition post_open :: "nat \<Rightarrow> ('w, unit) nim" where
  "post_open a = sbind (sget event_loop_handle) (\<lambda>loop. if loop then post_event (OpenEvent (Some a) HIDH_OK) else sret ())"

definition esp_ble_hidh_dev_open :: "'w nimble \<Rightarrow> u8 list \<Rightarrow> u8 \<Rightarrow> ('w, dev_ptr) nim" where
  "esp_ble_hidh_dev_open nb bda address_type =
     sbind (esp_hidh_dev_malloc (nb_malloc nb)) (\<lambda>dev.
       case dev of
         None \<Rightarrow> sret None
       | Some a \<Rightarrow>
           sseq (upd_dev dev (\<lambda>d. d\<lparr>dv_in_use := True, dv_transport := ESP_HID_TRANSPORT_BLE, dv_bda := bda,
                   dv_address_type := address_type, dv_appearance := ESP_HID_APPEARANCE_GENERIC, dv_conn_id := -1\<rparr>))
           (sseq drain
           (sbind (procedure (nb_gap_connect nb 0 address_type bda 10000 conn_params) (\<lambda>_. OnGap BLE_GAP_EVENT_OTHER)) (\<lambda>rc.
              if rc \<noteq> 0 then sseq (esp_hidh_dev_free_inner dev) (sret None)
              else sseq (WAIT_CB nb)
                (sbind (get_dev dev) (\<lambda>d.
                   if dv_conn_id d < 0 then sseq (esp_hidh_dev_free_inner dev) (sret None)
                   else sseq (upd_dev dev (\<lambda>d. d\<lparr>dv_ops := True\<rparr>))
                        (sseq (secure_link nb a)
                        (sseq (read_device_services nb a)
                        (sseq (upd_dev dev (\<lambda>d. d\<lparr>dv_connected := True\<rparr>))
                        (sseq (post_open a)
                        (sseq (attach_report_listeners nb dev) (sret dev)))))))))))) "

text \<open>The identity type of an address type: \<open>BLE_ADDR_PUBLIC\<close> is 0, \<open>BLE_ADDR_RANDOM\<close> 1, their \<open>_ID\<close>s 2 and 3.\<close>

definition id_address_type :: "u8 \<Rightarrow> u8" where
  "id_address_type t = (if t = 0 then 2 else if t = 1 then 3 else t)"

definition esp_ble_hidh_dev_reconnect :: "'w nimble \<Rightarrow> dev_ptr \<Rightarrow> ('w, dev_ptr) nim" where
  "esp_ble_hidh_dev_reconnect nb dev =
     (case dev of
        None \<Rightarrow> sret None
      | Some a \<Rightarrow>
          sbind (get_dev dev) (\<lambda>d.
            if \<not> dv_in_use d then sret None
            else sseq drain
              (sbind (procedure (nb_gap_connect nb 0 (id_address_type (dv_address_type d)) (dv_bda d) 5000 conn_params)
                        (\<lambda>_. OnGap BLE_GAP_EVENT_OTHER)) (\<lambda>rc.
                 if rc \<noteq> 0 then sret None
                 else sseq (WAIT_CB nb)
                   (sbind (get_dev dev) (\<lambda>d.
                      if dv_conn_id d < 0 then sret None
                      else sseq (secure_link nb a)
                           (sseq (upd_dev dev (\<lambda>d. d\<lparr>dv_connected := True\<rparr>))
                           (sseq (attach_report_listeners nb dev)
                           (sseq (post_open a) (sret dev)))))))))) "

end
