(* ===== verification/NimWait.thy ===== *)
theory NimWait
  imports NimHost HidhInv
begin

text \<open>
  What waiting does, and reading a value. While a procedure's callbacks leave the semaphore alone
  until the last of them, it does not matter how many have run when the task starts to wait
  (\<open>WAIT_CB_quiet\<close>); the read callback collects the bytes it is given (\<open>reading\<close>).
\<close>

section \<open>Waiting\<close>

text \<open>No callback of the list finds the semaphore given.\<close>

fun quiet :: "('s \<Rightarrow> bool) \<Rightarrow> ('c \<Rightarrow> ('s, unit) prog) \<Rightarrow> 'c list \<Rightarrow> 's \<Rightarrow> bool" where
  "quiet ready run [] s = True"
| "quiet ready run (c # cs) s =
     (\<not> ready s \<and> (case run c s of Inl e \<Rightarrow> True | Inr (x, s') \<Rightarrow> quiet ready run cs s'))"

lemma quiet_serve:
  "quiet ready run cs s \<Longrightarrow>
   serve_until ready run cs s = (case sfor cs run s of Inl e \<Rightarrow> Inl e | Inr (u, s') \<Rightarrow> Inr ([], s'))"
proof (induction cs arbitrary: s)
  case Nil
  then show ?case by simp
next
  case (Cons c cs)
  then show ?case by (cases "run c s") (auto simp: sseq_def sbind_def)
qed

lemma quiet_early:
  "quiet ready run cs s \<Longrightarrow>
   sseq (sfor (take e cs) run) (serve_until ready run (drop e cs)) s
     = (case sfor cs run s of Inl e \<Rightarrow> Inl e | Inr (u, s') \<Rightarrow> Inr ([], s'))"
proof (induction cs arbitrary: e s)
  case Nil
  then show ?case by (simp add: sseq_def sbind_def)
next
  case (Cons c cs)
  show ?case
  proof (cases e)
    case 0
    then show ?thesis using quiet_serve [OF Cons.prems] by (simp add: sseq_def sbind_def)
  next
    case (Suc e')
    then show ?thesis using Cons by (cases "run c s") (auto simp: sseq_def sbind_def)
  qed
qed

lemma sfor_append: "sfor (xs @ ys) f s = sseq (sfor xs f) (sfor ys f) s"
proof (induction xs arbitrary: s)
  case Nil
  then show ?case by (simp add: sseq_def sbind_def)
next
  case (Cons x xs)
  then show ?case by (simp add: sseq_def sbind_def split: sum.split)
qed

lemma quiet_append:
  "quiet ready run (cs @ ds) s \<longleftrightarrow>
   quiet ready run cs s \<and> (\<forall>s'. sfor cs run s = Inr ((), s') \<longrightarrow> quiet ready run ds s')"
proof (induction cs arbitrary: s)
  case Nil
  then show ?case by simp
next
  case (Cons c cs)
  then show ?case by (cases "run c s") (auto simp: sseq_def sbind_def)
qed

abbreviation cb_given :: "'w nimble_st \<Rightarrow> bool" where
  "cb_given s \<equiv> s_ble_hidh_cb_semaphore s = Some True"

lemma host_serves_quiet:
  assumes q: "quiet ready (run_cb nb) (nh_pending s) (s\<lparr>nh_pending := []\<rparr>)"
    and limit: "length (nh_pending s) \<le> limit"
  shows "host_serves nb ready early limit s =
    (case sfor (nh_pending s) (run_cb nb) (s\<lparr>nh_pending := []\<rparr>) of
       Inl e \<Rightarrow> Inl e | Inr (u, t) \<Rightarrow> Inr ((), t\<lparr>nh_pending := []\<rparr>))"
proof -
  have rest: "take limit (drop early (nh_pending s)) = drop early (nh_pending s)"
    "drop limit (drop early (nh_pending s)) = []" using limit by simp_all
  have "host_serves nb ready early limit s =
      sbind (sseq (sfor (take early (nh_pending s)) (run_cb nb)) (serve_until ready (run_cb nb) (drop early (nh_pending s))))
        (\<lambda>r. smod (\<lambda>s. s\<lparr>nh_pending := r\<rparr>)) (s\<lparr>nh_pending := []\<rparr>)"
    using limit by (simp add: host_serves_def rest(1)) (simp add: sseq_def sbind_def split: sum.split)
  then show ?thesis
    by (simp add: sbind_def quiet_early [OF q] split: sum.split)
qed

lemma WAIT_CB_quiet:
  assumes sem: "s_ble_hidh_cb_semaphore s \<noteq> None"
    and q: "quiet cb_given (run_cb nb) (nh_pending s) (s\<lparr>nh_pending := []\<rparr>)"
  shows "WAIT_CB nb s = (case sfor (nh_pending s) (run_cb nb) (s\<lparr>nh_pending := []\<rparr>) of
      Inl e \<Rightarrow> Inl e
    | Inr (u, t) \<Rightarrow> if cb_given t then Inr ((), t\<lparr>nh_pending := [], s_ble_hidh_cb_semaphore := Some False\<rparr>)
                    else Inl Deadlock)"
  using host_serves_quiet [OF q order_refl] sem
  by (simp add: WAIT_CB_def sbind_def sseq_def del: not_None_eq split: sum.split)

text \<open>Nothing is under way and nobody has given the semaphore: the task waits for ever.\<close>

lemma WAIT_CB_nothing:
  "s_ble_hidh_cb_semaphore s = Some False \<Longrightarrow> nh_pending s = [] \<Longrightarrow> WAIT_CB nb s = Inl Deadlock"
  by (subst WAIT_CB_quiet) auto

section \<open>The read callback\<close>

text \<open>
  Between the start \<open>s0\<close> of a read and its end: \<open>acc\<close> has come in and is in a block of its own, with
  one byte more; nothing else has changed but the allocator.
\<close>

definition reading :: "'w nimble_st \<Rightarrow> u8 list \<Rightarrow> 'w nimble_st \<Rightarrow> bool" where
  "reading s0 acc s \<longleftrightarrow> length acc < 2 ^ 16 \<and>
     (\<exists>k n st v B. s = s0\<lparr>hh_allocs := k, hh_next := n, hh_bufs := B, s_read_data_val := v,
           s_read_data_len := of_nat (length acc), s_read_status := st\<rparr>
        \<and> hh_next s0 \<le> n
        \<and> (case v of None \<Rightarrow> acc = [] \<and> B = hh_bufs s0
           | Some p \<Rightarrow> hh_next s0 \<le> p \<and> p < n \<and> (\<exists>x. B = (hh_bufs s0)(p := Some (acc @ [x])))))"

definition bufs_fresh :: "'z hidh_st_scheme \<Rightarrow> bool" where
  "bufs_fresh s \<longleftrightarrow> (\<forall>b \<ge> hh_next s. hh_bufs s b = None)"

lemma hidh_inv_fresh_bufs: "hidh_inv s \<Longrightarrow> bufs_fresh s"
  unfolding hidh_inv_def bufs_fresh_def by (metis UnI2 domIff leD)

lemma reading_start:
  assumes "s_read_data_val s = None" and "s_read_data_len s = 0"
  shows "reading s [] s"
proof -
  have "s = s\<lparr>hh_allocs := hh_allocs s, hh_next := hh_next s, hh_bufs := hh_bufs s, s_read_data_val := None,
      s_read_data_len := of_nat (length ([] :: u8 list)), s_read_status := s_read_status s\<rparr>"
    using assms by (cases s) simp
  then show ?thesis unfolding reading_def by fastforce
qed

lemma buf_write_fresh:
  assumes "hh_bufs s p = Some bs" and "off + length data \<le> length bs"
  shows "buf_write (Some p) off data s =
    Inr ((), s\<lparr>hh_bufs := (hh_bufs s)(p := Some (take off bs @ data @ drop (off + length data) bs))\<rparr>)"
  using assms by (simp add: buf_write_def sbind_def get_buf_def fun_upd_idem)

lemma nim_malloc_ok:
  "nb_malloc nb (hh_allocs s) \<Longrightarrow>
   nim_malloc nb n s = Inr (Some (hh_next s), s\<lparr>hh_allocs := hh_allocs s + 1,
     hh_bufs := (hh_bufs s)(hh_next s := Some (List.map (nb_garbage nb (hh_allocs s)) [0..<n])), hh_next := hh_next s + 1\<rparr>)"
  by (simp add: nim_malloc_def sbind_def request_def new_buf_def)

text \<open>Growing a block that is as long as what came in and one more.\<close>

lemma nim_realloc_grow:
  assumes mem: "nb_malloc nb (hh_allocs s)" and fresh: "hh_bufs s (hh_next s) = None"
    and old: "case v of None \<Rightarrow> acc = [] | Some p \<Rightarrow> hh_bufs s p = Some (acc @ [x])" and len: "length acc < n"
  shows "\<exists>rest. nim_realloc nb v n s = Inr (Some (hh_next s), s\<lparr>hh_allocs := hh_allocs s + 1, hh_next := hh_next s + 1,
      hh_bufs := (case v of None \<Rightarrow> hh_bufs s | Some p \<Rightarrow> (hh_bufs s)(p := None))(hh_next s := Some (acc @ rest))\<rparr>)
    \<and> length (acc @ rest) = n"
proof (cases v)
  case None
  then show ?thesis
    using assms
    by (intro exI [of _ "List.map (nb_garbage nb (hh_allocs s)) [0..<n]"])
       (simp add: nim_realloc_def nim_malloc_ok sbind_def sseq_def free_buf_def buf_write_def)
next
  case (Some p)
  then have neq: "p \<noteq> hh_next s" using old fresh by auto
  let ?junk = "List.map (nb_garbage nb (hh_allocs s)) [0..<n]"
  let ?keep = "take n (acc @ [x])"
  have keep: "?keep = acc @ take (n - length acc) [x]" using len by simp
  show ?thesis
    using Some old mem neq len
    apply (intro exI [of _ "take (n - length acc) [x] @ drop (length ?keep) ?junk"])
    apply (simp add: nim_realloc_def nim_malloc_ok sbind_def sseq_def free_buf_def get_buf_def)
    apply (subst buf_write_fresh)
    apply (auto simp: fun_upd_twist)
    done
qed


lemma u16_len_add:
  "length acc + length d < 2 ^ 16 \<Longrightarrow>
   unat (of_nat (length acc) + of_nat (length d) :: u16) = length acc + length d"
  by (simp add: unat_of_nat flip: of_nat_add)

lemma u16_len: "length acc < 2 ^ 16 \<Longrightarrow> unat (of_nat (length acc) :: u16) = length acc"
  by (simp add: unat_of_nat)

lemma on_read_chunk:
  assumes r: "reading s0 acc s" and fresh: "bufs_fresh s0" and mem: "\<And>k. nb_malloc nb k"
    and len: "length acc + length d < 2 ^ 16"
  shows "\<exists>s'. run_cb nb (OnRead 0 d) s = Inr ((), s') \<and> reading s0 (acc @ d) s' \<and> s_read_data_val s' \<noteq> None"
proof -
  obtain k n st v B where s: "s = s0\<lparr>hh_allocs := k, hh_next := n, hh_bufs := B, s_read_data_val := v,
        s_read_data_len := of_nat (length acc), s_read_status := st\<rparr>" and n: "hh_next s0 \<le> n"
    and v: "case v of None \<Rightarrow> acc = [] \<and> B = hh_bufs s0
           | Some p \<Rightarrow> hh_next s0 \<le> p \<and> p < n \<and> (\<exists>x. B = (hh_bufs s0)(p := Some (acc @ [x])))"
    using r unfolding reading_def by blast
  have acc: "length acc < 2 ^ 16" using len by simp
  let ?m = "length acc + length d"
  let ?s1 = "s0\<lparr>hh_allocs := k, hh_next := n, hh_bufs := B, s_read_data_val := v,
        s_read_status := 0, s_read_data_len := of_nat ?m\<rparr>"
  have gone: "hh_bufs s0 b = None" if "hh_next s0 \<le> b" for b using fresh that by (simp add: bufs_fresh_def)
  have old: "\<exists>x. case v of None \<Rightarrow> acc = [] | Some p \<Rightarrow> hh_bufs ?s1 p = Some (acc @ [x])"
    using v by (auto split: option.splits)
  then obtain x where old: "case v of None \<Rightarrow> acc = [] | Some p \<Rightarrow> hh_bufs ?s1 p = Some (acc @ [x])" ..
  have clear: "hh_bufs ?s1 (hh_next ?s1) = None" using v n gone by (auto split: option.splits)
  have dropped: "(case v of None \<Rightarrow> hh_bufs ?s1 | Some p \<Rightarrow> (hh_bufs ?s1)(p := None)) = hh_bufs s0"
    using v gone by (cases v) (auto simp: fun_eq_iff)
  obtain rest where grow: "nim_realloc nb v (?m + 1) ?s1 = Inr (Some n, ?s1\<lparr>hh_allocs := k + 1, hh_next := n + 1,
      hh_bufs := (hh_bufs s0)(n := Some (acc @ rest))\<rparr>)" and rest: "length (acc @ rest) = ?m + 1"
    using nim_realloc_grow [OF mem clear old, of "?m + 1"] unfolding dropped by auto
  let ?s2 = "s0\<lparr>hh_allocs := k + 1, hh_next := n + 1, hh_bufs := (hh_bufs s0)(n := Some (acc @ rest)),
      s_read_data_val := Some n, s_read_data_len := of_nat ?m, s_read_status := 0\<rparr>"
  let ?tail = "drop (length d) rest"
  have "length ?tail = 1" using rest by simp
  then obtain y where tail: "?tail = [y]" by (metis One_nat_def length_0_conv length_Suc_conv)
  let ?s3 = "?s2\<lparr>hh_bufs := (hh_bufs s0)(n := Some ((acc @ d) @ [y]))\<rparr>"
  have "run_cb nb (OnRead 0 d) s = Inr ((), ?s3)"
    using grow tail rest u16_len [OF acc] u16_len_add [OF len]
    by (simp add: run_cb_def nimble_on_read_def s sseq_def sbind_def buf_write_fresh)
  moreover have "reading s0 (acc @ d) ?s3"
    unfolding reading_def using n len
    by (intro conjI exI [of _ "k + 1"] exI [of _ "n + 1"] exI [of _ 0] exI [of _ "Some n"]
        exI [of _ "(hh_bufs s0)(n := Some ((acc @ d) @ [y]))"]) auto
  ultimately show ?thesis by fastforce
qed

text \<open>The end of a read: the block is closed with a zero byte and the semaphore is given.\<close>

lemma on_read_done:
  assumes r: "reading s0 acc s" and fresh: "bufs_fresh s0" and val: "s_read_data_val s \<noteq> None"
    and sem: "s_ble_hidh_cb_semaphore s0 \<noteq> None"
  shows "\<exists>k n p. run_cb nb (OnRead BLE_HS_EDONE d) s = Inr ((), s0\<lparr>hh_allocs := k, hh_next := n,
      hh_bufs := (hh_bufs s0)(p := Some (acc @ [0])), s_read_data_val := Some p,
      s_read_data_len := of_nat (length acc), s_read_status := 0, s_ble_hidh_cb_semaphore := Some True\<rparr>)
    \<and> hh_next s0 \<le> p \<and> p < n"
proof -
  obtain k n st v B where s: "s = s0\<lparr>hh_allocs := k, hh_next := n, hh_bufs := B, s_read_data_val := v,
        s_read_data_len := of_nat (length acc), s_read_status := st\<rparr>" and len: "length acc < 2 ^ 16"
    and v: "case v of None \<Rightarrow> acc = [] \<and> B = hh_bufs s0
           | Some p \<Rightarrow> hh_next s0 \<le> p \<and> p < n \<and> (\<exists>x. B = (hh_bufs s0)(p := Some (acc @ [x])))"
    using r unfolding reading_def by blast
  obtain p where v': "v = Some p" using val s by auto
  obtain x where B: "B = (hh_bufs s0)(p := Some (acc @ [x]))" and p: "hh_next s0 \<le> p" "p < n"
    using v v' by auto
  obtain g where "s_ble_hidh_cb_semaphore s0 = Some g" using sem by auto
  then show ?thesis
    using p u16_len [OF len]
    by (intro exI [of _ k] exI [of _ n] exI [of _ p])
       (simp add: run_cb_def nimble_on_read_def s v' B sseq_def sbind_def BLE_HS_EDONE_def buf_write_fresh SEND_CB_def)
qed

lemma reading_frame:
  assumes "reading s0 acc s"
  shows "s_ble_hidh_cb_semaphore s = s_ble_hidh_cb_semaphore s0" "nh_pending s = nh_pending s0"
  using assms unfolding reading_def by auto

lemma read_chunks:
  assumes "reading s0 acc s" and "bufs_fresh s0" and mem: "\<And>k. nb_malloc nb k"
    and "length acc + length (concat ds) < 2 ^ 16" and "s_ble_hidh_cb_semaphore s0 = Some False"
  shows "\<exists>s'. sfor (List.map (OnRead 0) ds) (run_cb nb) s = Inr ((), s') \<and> reading s0 (acc @ concat ds) s'
      \<and> quiet cb_given (run_cb nb) (List.map (OnRead 0) ds) s
      \<and> (ds \<noteq> [] \<longrightarrow> s_read_data_val s' \<noteq> None)"
  using assms(1,4)
proof (induction ds arbitrary: acc s)
  case Nil
  then show ?case by simp
next
  case (Cons d ds)
  obtain s1 where one: "run_cb nb (OnRead 0 d) s = Inr ((), s1)" "reading s0 (acc @ d) s1" "s_read_data_val s1 \<noteq> None"
    using on_read_chunk [OF Cons.prems(1) assms(2) mem, of d] Cons.prems(2) by auto
  obtain s2 where two: "sfor (List.map (OnRead 0) ds) (run_cb nb) s1 = Inr ((), s2)" "reading s0 ((acc @ d) @ concat ds) s2"
    "quiet cb_given (run_cb nb) (List.map (OnRead 0) ds) s1" "ds \<noteq> [] \<longrightarrow> s_read_data_val s2 \<noteq> None"
    using Cons.IH [OF one(2)] Cons.prems(2) by auto
  have "s_read_data_val s2 \<noteq> None" using one(3) two(1,4) by (cases ds) auto
  then show ?case
    using one two reading_frame(1) [OF Cons.prems(1)] assms(5) by (simp add: sseq_def sbind_def)
qed

end
