(* ===== verification/NimSample.thy ===== *)
theory NimSample
  imports NimHost
begin

text \<open>
  A keyboard and a stack to connect to it, for the concrete instances of the properties: the services
  GAP, device information, battery and HID; a HID service with one report; a report map of eight
  modifier bits, a reserved byte and six keys under the report id 1.
\<close>

definition kbd_map :: "u8 list" where
  "kbd_map = [0x05, 0x01, 0x09, 0x06, 0xA1, 0x01, 0x85, 0x01, 0x05, 0x07, 0x19, 0xE0, 0x29, 0xE7, 0x15, 0x00,
     0x25, 0x01, 0x75, 0x01, 0x95, 0x08, 0x81, 0x02, 0x95, 0x01, 0x75, 0x08, 0x81, 0x01, 0x95, 0x06, 0x75, 0x08,
     0x15, 0x00, 0x25, 0x65, 0x05, 0x07, 0x19, 0x00, 0x29, 0x65, 0x81, 0x00, 0xC0]"

definition kbd_svcs :: "ble_gatt_svc list" where
  "kbd_svcs = [\<lparr>gs_uuid = 0x1800, gs_start_handle = 1, gs_end_handle = 5\<rparr>,
     \<lparr>gs_uuid = 0x180A, gs_start_handle = 6, gs_end_handle = 12\<rparr>,
     \<lparr>gs_uuid = 0x180F, gs_start_handle = 13, gs_end_handle = 16\<rparr>,
     \<lparr>gs_uuid = 0x1812, gs_start_handle = 20, gs_end_handle = 40\<rparr>]"

definition kbd_chrs :: "u16 \<Rightarrow> ble_gatt_chr list" where
  "kbd_chrs start =
     (if start = 1 then [\<lparr>gc_uuid = 0x2A00, gc_def_handle = 2, gc_val_handle = 3, gc_properties = 2\<rparr>]
      else if start = 6 then [\<lparr>gc_uuid = 0x2A50, gc_def_handle = 7, gc_val_handle = 8, gc_properties = 2\<rparr>]
      else if start = 13 then [\<lparr>gc_uuid = 0x2A19, gc_def_handle = 14, gc_val_handle = 15, gc_properties = 0x12\<rparr>]
      else [\<lparr>gc_uuid = 0x2A4E, gc_def_handle = 21, gc_val_handle = 22, gc_properties = 2\<rparr>,
            \<lparr>gc_uuid = 0x2A4B, gc_def_handle = 23, gc_val_handle = 24, gc_properties = 2\<rparr>,
            \<lparr>gc_uuid = 0x2A4D, gc_def_handle = 25, gc_val_handle = 26, gc_properties = 0x12\<rparr>])"

definition kbd_dscs :: "u16 \<Rightarrow> ble_gatt_dsc list" where
  "kbd_dscs h = (if h = 15 then [\<lparr>gd_uuid = 0x2902, gd_handle = 16\<rparr>]
     else if h = 26 then [\<lparr>gd_uuid = 0x2902, gd_handle = 27\<rparr>, \<lparr>gd_uuid = 0x2908, gd_handle = 28\<rparr>]
     else [])"

definition kbd_value :: "u16 \<Rightarrow> u8 list" where
  "kbd_value h = (if h = 3 then [75, 98, 100] else if h = 8 then [2, 0x6D, 0x04, 0x1F, 0xB3, 0x01, 0x00]
     else if h = 22 then [1] else if h = 24 then kbd_map else if h = 28 then [1, 1] else [])"

text \<open>Answers that end as the stack documents it: with \<open>BLE_HS_EDONE\<close>.\<close>

definition answers :: "'a list \<Rightarrow> 'a \<Rightarrow> (int \<times> 'a) nim_reply list" where
  "answers xs x = List.map (\<lambda>y. Reply (0, y)) xs @ [Reply (BLE_HS_EDONE, x)]"

definition svc0 :: ble_gatt_svc where "svc0 = \<lparr>gs_uuid = 0, gs_start_handle = 0, gs_end_handle = 0\<rparr>"
definition chr0 :: ble_gatt_chr where
  "chr0 = \<lparr>gc_uuid = 0, gc_def_handle = 0, gc_val_handle = 0, gc_properties = 0\<rparr>"
definition dsc0 :: ble_gatt_dsc where "dsc0 = \<lparr>gd_uuid = 0, gd_handle = 0\<rparr>"

definition sample_stack :: "unit nimble" where
  "sample_stack = \<lparr>nb_malloc = (\<lambda>_. True), nb_garbage = (\<lambda>_ _. 0xA5), nb_early = (\<lambda>_. 0), nb_in_time = (\<lambda>_. 9),
     nb_read_long = (\<lambda>c h w. (0, answers [kbd_value h] [], w)),
     nb_disc_all_svcs = (\<lambda>c w. (0, answers kbd_svcs svc0, w)),
     nb_disc_all_chrs = (\<lambda>c x y w. (0, answers (kbd_chrs x) chr0, w)),
     nb_disc_all_dscs = (\<lambda>c x y w. (0, answers (kbd_dscs x) dsc0, w)),
     nb_write_flat = (\<lambda>c h v w. (0, [Reply c], w)),
     nb_gap_connect = (\<lambda>own t a d p w. (0, [Event (BLE_GAP_EVENT_CONNECT 0 7)], w)),
     nb_gap_security_initiate = (\<lambda>c w. (0, [Event (BLE_GAP_EVENT_PASSKEY_ACTION True 7),
                                           Event (BLE_GAP_EVENT_ENC_CHANGE 0)], w)),
     nb_gap_terminate = (\<lambda>c r w. (0, [], w)),
     nb_conn_find = (\<lambda>c w. Some ([1, 2, 3, 4, 5, 6], [1, 2, 3, 4, 5, 6])),
     nb_set_preferred_mtu = (\<lambda>w. (0, w)), nb_exchange_mtu = (\<lambda>c w. (0, w)), nb_sm_inject_io = (\<lambda>c p w. (0, w)),
     nb_store_delete_peer = (\<lambda>a w. (0, w)), nb_random = (\<lambda>w. (1234567890, w))\<rparr>"

definition nim_init :: "'w \<Rightarrow> 'w nimble_st" where
  "nim_init w = \<lparr>hh_devs = (\<lambda>_. None), hh_bufs = (\<lambda>_. None), hh_next = 1, hh_allocs = 0,
     s_esp_hidh_devices = [], s_esp_hidh_devices_semaphore = True, hh_locked = False,
     s_esp_hidh_event_loop_h = True, s_event_callback = True,
     nh_world = w, s_ble_hidh_cb_semaphore = Some False, s_ble_hidh_sec_semaphore = Some False,
     s_hidh_passkey_cb = True, services_discovered = 0, chrs_discovered = 0, dscs_discovered = 0,
     nh_status = 0, event_loop_handle = True, s_read_data_val = None, s_read_data_len = 0,
     s_read_status = 0, service_result = None, char_result = None, descr_result = None,
     rs_rdata = None, rs_rlen = 0, rs_hidindex = 0, nh_pending = [], nh_posted = [], nh_shown = [],
     nh_parser = parser_init\<rparr>"


text \<open>The library with that keyboard connected: its record at 1, its protocol modes at 2.\<close>

definition kbd_report :: esp_hidh_dev_report_t where
  "kbd_report = \<lparr>hr_map_index = 0, hr_report_id = 1, hr_report_type = ESP_HID_REPORT_TYPE_INPUT,
     hr_protocol_mode = ESP_HID_PROTOCOL_MODE_REPORT, hr_value_len = 8, hr_usage = ESP_HID_USAGE_KEYBOARD,
     hr_handle = 26, hr_ccc_handle = 27, hr_permissions = 0x12\<rparr>"

definition kbd_dev :: esp_hidh_dev_t where
  "kbd_dev = dev_zero\<lparr>dv_bda := [1, 2, 3, 4, 5, 6], dv_transport := ESP_HID_TRANSPORT_BLE, dv_protocol_mode := Some 2,
     dv_connected := True, dv_in_use := True, dv_reports_len := 1, dv_reports := [kbd_report], dv_semaphore := True,
     dv_mutex := True, dv_ops := True, dv_conn_id := 7, dv_battery_handle := 15\<rparr>"

definition kbd_connected :: "unit nimble_st" where
  "kbd_connected = (nim_init ())\<lparr>hh_devs := (\<lambda>_. None)(1 := Some kbd_dev), hh_bufs := (\<lambda>_. None)(2 := Some [1]),
     hh_next := 3, s_esp_hidh_devices := [1]\<rparr>"

end
