(* ===== verification/NimThms.thy ===== *)
theory NimThms
  imports NimWait NimSample HidhThms
begin

text \<open>
  The properties of reading: a value is put together from its pieces whatever the host task's timing,
  and the two ways the transport can hang: a read the server refuses, a write the stack refuses.
\<close>

section \<open>Reading a value\<close>

abbreviation pieces :: "u8 list list \<Rightarrow> (int \<times> u8 list) nim_reply list" where
  "pieces ds \<equiv> List.map (\<lambda>d. Reply (0, d)) ds"

text \<open>The state in which a blocking call starts: the semaphore is there, and nothing is under way.\<close>

definition idle :: "'w nimble_st \<Rightarrow> bool" where
  "idle s \<longleftrightarrow> s_ble_hidh_cb_semaphore s = Some False \<and> nh_pending s = []"

definition read_start :: "'w \<Rightarrow> 'w nimble_st \<Rightarrow> 'w nimble_st" where
  "read_start w s = s\<lparr>s_read_data_val := None, s_read_data_len := 0, nh_world := w\<rparr>"

lemma read_char_unfold:
  assumes "idle s" and "nb_read_long nb c h (nh_world s) = (0, rs, w)"
  shows "read_char nb c h s = sseq (WAIT_CB nb) read_out
           ((read_start w s)\<lparr>nh_pending := List.map (cb_of (\<lambda>(st, data). OnRead st data)) rs\<rparr>)"
  using assms by (simp add: read_char_def idle_def sseq_def sbind_def procedure_def read_start_def)

lemma reading_read_start: "reading (read_start w s) [] (read_start w s)"
  by (rule reading_start) (simp_all add: read_start_def)

lemma bufs_fresh_read_start: "bufs_fresh s \<Longrightarrow> bufs_fresh (read_start w s)"
  by (simp add: read_start_def bufs_fresh_def)

lemma pieces_run:
  assumes idle: "idle s" and fresh: "bufs_fresh s" and mem: "\<And>k. nb_malloc nb k" and len: "length (concat ds) < 2 ^ 16"
  shows "\<exists>s'. sfor (List.map (OnRead 0) ds) (run_cb nb) (read_start w s) = Inr ((), s')
      \<and> reading (read_start w s) (concat ds) s' \<and> (ds \<noteq> [] \<longrightarrow> s_read_data_val s' \<noteq> None)
      \<and> quiet cb_given (run_cb nb) (List.map (OnRead 0) ds) (read_start w s)"
proof -
  have "s_ble_hidh_cb_semaphore (read_start w s) = Some False" using idle by (simp add: idle_def read_start_def)
  from read_chunks [OF reading_read_start bufs_fresh_read_start [OF fresh] mem _ this, of ds] len
  show ?thesis by auto
qed

lemma map_cb_pieces: "List.map (cb_of (\<lambda>(st, data). OnRead st data)) (pieces ds) = List.map (OnRead 0) ds"
  by simp

lemma read_char_core:
  assumes idle: "idle s" and fresh: "bufs_fresh s" and mem: "\<And>k. nb_malloc nb k"
    and ans: "nb_read_long nb c h (nh_world s) = (0, pieces ds @ [Reply (BLE_HS_EDONE, x)], w)"
    and some: "ds \<noteq> []" and len: "length (concat ds) < 2 ^ 16"
  shows "\<exists>s' p. read_char nb c h s = Inr ((0, Some (Some p, of_nat (length (concat ds)))), s')
    \<and> hh_bufs s' = (hh_bufs s)(p := Some (concat ds @ [0]))
    \<and> hh_devs s' = hh_devs s \<and> s_esp_hidh_devices s' = s_esp_hidh_devices s \<and> hh_locked s' = hh_locked s
    \<and> hh_next s \<le> p \<and> p < hh_next s' \<and> idle s'"
proof -
  let ?s0 = "read_start w s"
  let ?cs = "List.map (OnRead 0) ds @ [OnRead BLE_HS_EDONE x]"
  have none: "nh_pending ?s0 = []" and sem: "s_ble_hidh_cb_semaphore ?s0 = Some False"
    using idle by (simp_all add: idle_def read_start_def)
  obtain s1 where run: "sfor (List.map (OnRead 0) ds) (run_cb nb) ?s0 = Inr ((), s1)"
    and r: "reading ?s0 (concat ds) s1" and val: "s_read_data_val s1 \<noteq> None"
    and q: "quiet cb_given (run_cb nb) (List.map (OnRead 0) ds) ?s0"
    using pieces_run [OF idle fresh mem len] some by blast
  obtain k n p where last: "run_cb nb (OnRead BLE_HS_EDONE x) s1 = Inr ((), ?s0\<lparr>hh_allocs := k, hh_next := n,
      hh_bufs := (hh_bufs ?s0)(p := Some (concat ds @ [0])), s_read_data_val := Some p,
      s_read_data_len := of_nat (length (concat ds)), s_read_status := 0, s_ble_hidh_cb_semaphore := Some True\<rparr>)"
    and p: "hh_next ?s0 \<le> p" "p < n"
    using on_read_done [OF r bufs_fresh_read_start [OF fresh] val, of nb x] sem by blast
  have quiet: "quiet cb_given (run_cb nb) ?cs ?s0"
    using q run reading_frame(1) [OF r] sem last by (simp add: quiet_append)
  have all: "sfor ?cs (run_cb nb) ?s0 = run_cb nb (OnRead BLE_HS_EDONE x) s1"
    using run last by (simp add: sfor_append sseq_def sbind_def)
  let ?t = "?s0\<lparr>hh_allocs := k, hh_next := n, hh_bufs := (hh_bufs ?s0)(p := Some (concat ds @ [0])), s_read_data_val := Some p,
      s_read_data_len := of_nat (length (concat ds)), s_read_status := 0, s_ble_hidh_cb_semaphore := Some False\<rparr>"
  have restore: "?s0\<lparr>nh_pending := []\<rparr> = ?s0" using none by (cases ?s0) simp
  have "WAIT_CB nb (?s0\<lparr>nh_pending := ?cs\<rparr>) = Inr ((), ?t\<lparr>nh_pending := []\<rparr>)"
    using quiet all last sem by (subst WAIT_CB_quiet) (simp_all add: restore)
  then have "read_char nb c h s = Inr ((0, Some (Some p, of_nat (length (concat ds)))), ?t\<lparr>nh_pending := []\<rparr>)"
    unfolding read_char_unfold [OF idle ans]
    by (simp add: sseq_def sbind_def read_out_def comp_def)
  then show ?thesis using p by (auto simp: idle_def read_start_def)
qed

text \<open>
  C6: A value that the server sends in any number of pieces, of at most 65535 bytes in all, comes back as
  one block: the bytes in order and a zero byte behind them. The block is new, no other block and no
  device changes, and it does not matter how much of the answer has come in when the task starts to
  wait.
\<close>
theorem read_char_value:
  assumes idle: "idle s" and inv: "hidh_inv s" and mem: "\<And>k. nb_malloc nb k"
    and ans: "nb_read_long nb c h (nh_world s) = (0, pieces ds @ [Reply (BLE_HS_EDONE, x)], w)"
    and some: "ds \<noteq> []" and len: "length (concat ds) < 2 ^ 16"
  shows "\<exists>s' p. read_char nb c h s = Inr ((0, Some (Some p, of_nat (length (concat ds)))), s')
    \<and> hh_bufs s p = None \<and> hh_bufs s' = (hh_bufs s)(p := Some (concat ds @ [0]))
    \<and> hh_devs s' = hh_devs s \<and> s_esp_hidh_devices s' = s_esp_hidh_devices s \<and> hidh_inv s' \<and> idle s'"
proof -
  obtain s' p where "read_char nb c h s = Inr ((0, Some (Some p, of_nat (length (concat ds)))), s')"
    "hh_bufs s' = (hh_bufs s)(p := Some (concat ds @ [0]))" "hh_devs s' = hh_devs s"
    "s_esp_hidh_devices s' = s_esp_hidh_devices s" "hh_locked s' = hh_locked s" "hh_next s \<le> p" "p < hh_next s'" "idle s'"
    using read_char_core [OF idle hidh_inv_fresh_bufs [OF inv] mem ans some len] by blast
  then show ?thesis using hidh_inv_new_buf [OF inv, of p "hh_next s'" s'] by blast
qed

text \<open>The sample keyboard's name is read with the sample stack.\<close>

lemma sample_simps:
  "nb_malloc sample_stack k" "nb_early sample_stack w = 0"
  "nb_read_long sample_stack c h w = (0, pieces [kbd_value h] @ [Reply (BLE_HS_EDONE, [])], w)"
  by (simp_all add: sample_stack_def answers_def)

lemma nim_init_ok: "hidh_inv (nim_init w)" "idle (nim_init w)" "hh_bufs (nim_init w) = (\<lambda>_. None)"
  "nh_world (nim_init w) = w" "s_esp_hidh_devices (nim_init w) = []" "hh_devs (nim_init w) = (\<lambda>_. None)"
  by (simp_all add: hidh_inv_def nim_init_def idle_def)

theorem read_char_value_witness:
  "\<exists>s' p. read_char sample_stack 7 3 (nim_init ()) = Inr ((0, Some (Some p, 3)), s')
     \<and> hh_bufs s' p = Some [75, 98, 100, 0]"
proof -
  have "length (concat [kbd_value 3]) < 2 ^ 16" by (simp add: kbd_value_def)
  from read_char_value [OF nim_init_ok(2,1) sample_simps(1) sample_simps(3) _ this, of 7 "()"]
  show ?thesis by (auto simp: kbd_value_def nim_init_ok)
qed

text \<open>
  A read that the server refuses, at once or after some pieces, never returns: only the end of a
  complete value gives the semaphore.
\<close>
theorem read_refused_hangs:
  assumes idle: "idle s" and inv: "hidh_inv s" and mem: "\<And>k. nb_malloc nb k"
    and ans: "nb_read_long nb c h (nh_world s) = (0, pieces ds @ [Reply (e, x)], w)"
    and err: "e \<noteq> 0" "e \<noteq> BLE_HS_EDONE" and len: "length (concat ds) < 2 ^ 16"
  shows "read_char nb c h s = Inl Deadlock"
proof -
  let ?s0 = "read_start w s"
  let ?cs = "List.map (OnRead 0) ds @ [OnRead e x]"
  have none: "nh_pending ?s0 = []" and sem: "s_ble_hidh_cb_semaphore ?s0 = Some False"
    using idle by (simp_all add: idle_def read_start_def)
  obtain s1 where run: "sfor (List.map (OnRead 0) ds) (run_cb nb) ?s0 = Inr ((), s1)"
    and r: "reading ?s0 (concat ds) s1" and q: "quiet cb_given (run_cb nb) (List.map (OnRead 0) ds) ?s0"
    using pieces_run [OF idle hidh_inv_fresh_bufs [OF inv] mem len] by blast
  have last: "run_cb nb (OnRead e x) s1 = Inr ((), s1\<lparr>s_read_status := e\<rparr>)"
    using err by (simp add: run_cb_def nimble_on_read_def sseq_def sbind_def)
  have restore: "?s0\<lparr>nh_pending := []\<rparr> = ?s0" using none by (cases ?s0) simp
  have "WAIT_CB nb (?s0\<lparr>nh_pending := ?cs\<rparr>) = Inl Deadlock"
    using q run last sem reading_frame(1) [OF r]
    by (subst WAIT_CB_quiet) (simp_all add: restore quiet_append sfor_append sseq_def sbind_def)
  then show ?thesis
    unfolding read_char_unfold [OF idle ans] by (simp add: sseq_def sbind_def comp_def)
qed

theorem read_refused_hangs_witness:
  "read_char (sample_stack\<lparr>nb_read_long := (\<lambda>c h w. (0, [Reply (0x105, [])], w))\<rparr>) 7 3 (nim_init ()) = Inl Deadlock"
  by (rule read_refused_hangs [OF nim_init_ok(2,1), where ds = "[]" and e = "0x105" and x = "[]" and w = "()"])
     (simp_all add: sample_simps BLE_HS_EDONE_def)

section \<open>Calls the stack refuses\<close>

lemma procedure_idle:
  assumes "idle s" and "call (nh_world s) = (rc, [], w)"
  shows "sseq (procedure call mk) (WAIT_CB nb) s = Inl Deadlock"
    and "sbind (procedure call mk) (\<lambda>r. sseq (WAIT_CB nb) k) s = Inl Deadlock"
  using assms WAIT_CB_nothing [of "s\<lparr>nh_world := w, nh_pending := []\<rparr>" nb]
  by (simp_all add: procedure_def idle_def sseq_def sbind_def)

text \<open>
  C24: A write or a discovery that the stack does not even start (the link has just broken, it is out of
  buffers) is waited for all the same, and its end never comes: subscribing, writing a descriptor,
  writing a report and discovering the services all hang.
\<close>
theorem refused_calls_hang:
  assumes idle: "idle s"
    and wr: "\<And>c h v. \<exists>rc w. nb_write_flat nb c h v (nh_world s) = (rc, [], w)"
    and disc: "\<And>c. \<exists>rc w. nb_disc_all_svcs nb c (nh_world s) = (rc, [], w)"
    and a: "hh_devs s a = Some d"
    and rep: "esp_hidh_dev_get_report_by_id_and_type d mi rid ty = Some report" "length v \<le> unat (hr_value_len report)"
  shows "register_for_notify nb c h s = Inl Deadlock \<and> write_char_descr nb c h v s = Inl Deadlock
    \<and> esp_ble_hidh_dev_report_write nb (Some a) mi rid ty v s = Inl Deadlock
    \<and> read_device_services nb a s = Inl Deadlock"
proof -
  have "register_for_notify nb c h s = Inl Deadlock"
    using wr [of c h "[1, 0]"] procedure_idle(1) [OF idle] by (auto simp: register_for_notify_def)
  moreover have "write_char_descr nb c h v s = Inl Deadlock"
    using wr [of c h v] procedure_idle(1) [OF idle] by (auto simp: write_char_descr_def)
  moreover have "esp_ble_hidh_dev_report_write nb (Some a) mi rid ty v s = Inl Deadlock"
  proof -
    obtain rc w where "nb_write_flat nb (conn16 (dv_conn_id d)) (hr_handle report) v (nh_world s) = (rc, [], w)"
      using wr by blast
    then show ?thesis
      using idle rep a WAIT_CB_nothing [of "s\<lparr>nh_world := w, nh_pending := []\<rparr>" nb]
      by (simp add: esp_ble_hidh_dev_report_write_def sbind_def sseq_def get_dev_def procedure_def idle_def)
  qed
  moreover have "read_device_services nb a s = Inl Deadlock"
  proof -
    let ?t = "s\<lparr>service_result := Some (replicate 10 None), rs_rdata := None, rs_rlen := 0, rs_hidindex := 0\<rparr>"
    obtain rc w where "nb_disc_all_svcs nb (conn16 (dv_conn_id d)) (nh_world s) = (rc, [], w)"
      using disc by blast
    then show ?thesis
      using idle a WAIT_CB_nothing [of "?t\<lparr>nh_world := w, nh_pending := []\<rparr>" nb]
      by (simp add: read_device_services_def discovered_def sbind_def sseq_def get_dev_def dev_conn_def procedure_def idle_def)
  qed
  ultimately show ?thesis by blast
qed


lemma kbd_connected_idle: "idle kbd_connected"
  by (simp add: idle_def kbd_connected_def nim_init_def)

lemma kbd_connected_dev: "hh_devs kbd_connected 1 = Some kbd_dev"
  by (simp add: kbd_connected_def)

lemma kbd_find_report:
  "esp_hidh_dev_get_report_by_id_and_type kbd_dev 0 1 1 = Some kbd_report" "hr_value_len kbd_report = 8"
  "hr_handle kbd_report = 26" "dv_conn_id kbd_dev = 7"
  by (simp_all add: esp_hidh_dev_get_report_by_id_and_type_def kbd_dev_def kbd_report_def hid_consts)

theorem refused_calls_hang_witness:
  "esp_ble_hidh_dev_report_write (sample_stack\<lparr>nb_write_flat := (\<lambda>c h v w. (6, [], w)),
      nb_disc_all_svcs := (\<lambda>c w. (6, [], w))\<rparr>) (Some 1) 0 1 1 [2] kbd_connected = Inl Deadlock"
  using refused_calls_hang [OF kbd_connected_idle _ _ kbd_connected_dev kbd_find_report(1),
      of "sample_stack\<lparr>nb_write_flat := (\<lambda>c h v w. (6, [], w)), nb_disc_all_svcs := (\<lambda>c w. (6, [], w))\<rparr>" "[2]"]
  by (simp add: kbd_find_report)

section \<open>Reports of a device\<close>

text \<open>
  Writing a report that is too long for it, or that the device does not have, is refused before the
  stack is asked.
\<close>
theorem report_write_checked:
  assumes "hh_devs s a = Some d"
    and "\<And>r. esp_hidh_dev_get_report_by_id_and_type d mi rid ty = Some r \<Longrightarrow> unat (hr_value_len r) < length v"
  shows "esp_ble_hidh_dev_report_write nb (Some a) mi rid ty v s = Inr (ESP_FAIL, s)"
  using assms
  by (auto simp: esp_ble_hidh_dev_report_write_def sbind_def get_dev_def split: option.split)

theorem report_write_checked_witness:
  "esp_ble_hidh_dev_report_write sample_stack (Some 1) 0 1 1 (replicate 9 0) kbd_connected = Inr (ESP_FAIL, kbd_connected)"
  by (rule report_write_checked [OF kbd_connected_dev]) (simp add: kbd_find_report del: One_nat_def)

text \<open>
  C38: Getting a report through the host library: the library passes no buffer for the value, and when the
  device answers, the transport writes through the NULL pointer.
\<close>
theorem get_report_null_deref:
  assumes inv: "hidh_inv s" and idle: "idle s" and mem: "\<And>k. nb_malloc nb k" and a: "hh_devs s a = Some d"
    and rep: "esp_hidh_dev_get_report_by_id_and_type d mi rid ty = Some report"
    and ans: "nb_read_long nb (conn16 (dv_conn_id d)) (hr_handle report) (nh_world s)
                = (0, pieces ds @ [Reply (BLE_HS_EDONE, x)], w)"
    and some: "ds \<noteq> []" and len: "length (concat ds) < 2 ^ 16"
  shows "esp_hidh_dev_get_report (nimble_vtable nb) (Some a) mi rid ty max_len s = Inl NullDeref"
proof -
  let ?d = "d\<lparr>dv_locked := dv_mutex d\<rparr>"
  have dev: "get_dev (Some a) (held a s) = Inr (?d, held a s)" by (simp add: get_dev_def held_def a)
  have rep': "esp_hidh_dev_get_report_by_id_and_type ?d mi rid ty = Some report"
    using rep by (simp add: esp_hidh_dev_get_report_by_id_and_type_def)
  have "idle (held a s)" using idle by (simp add: held_def a idle_def)
  moreover have "bufs_fresh (held a s)" using hidh_inv_fresh_bufs [OF inv] by (simp add: held_def a bufs_fresh_def)
  moreover have "nh_world (held a s) = nh_world s" by (simp add: held_def a)
  ultimately obtain s' p where
    "read_char nb (conn16 (dv_conn_id d)) (hr_handle report) (held a s) = Inr ((0, Some (Some p, of_nat (length (concat ds)))), s')"
    using read_char_core [OF _ _ mem _ some len, of "held a s"] ans by metis
  then show ?thesis
    by (simp add: esp_hidh_dev_get_report_def with_dev_known [OF inv a] nimble_vtable_def
        esp_ble_hidh_dev_report_read_def sbind_def dev rep')
qed

lemma kbd_connected_inv: "hidh_inv kbd_connected"
  by (auto simp: hidh_inv_def kbd_connected_def nim_init_def kbd_dev_def dev_ok_def maps_ok_def owned_bufs_def
      freed_bufs_def map_bufs_def opt_list_def config_zero_def dev_zero_def split: if_splits)

theorem get_report_null_deref_witness:
  "esp_hidh_dev_get_report (nimble_vtable sample_stack) (Some 1) 0 1 1 8 kbd_connected = Inl NullDeref"
proof -
  have "length (concat [kbd_value (hr_handle kbd_report)]) < 2 ^ 16" by (simp add: kbd_value_def kbd_find_report)
  from get_report_null_deref [OF kbd_connected_inv kbd_connected_idle sample_simps(1) kbd_connected_dev
      kbd_find_report(1) sample_simps(3) _ this]
  show ?thesis by simp
qed

section \<open>A block with two owners\<close>

text \<open>
  The pointer a read leaves in \<open>rdata\<close> is used again when the next read fails: after the device's name
  was read, a PnP id that cannot be read frees the name, and freeing the device is then a use of freed
  memory.
\<close>
theorem pnp_failure_frees_name:
  assumes a: "hh_devs s a = Some d" and name: "hc_device_name (dv_config d) = Some p" "rs_rdata s = Some p"
    and block: "hh_bufs s p = Some bs" and unlocked: "\<not> dv_locked d"
    and refused: "\<And>c. nb_read_long nb c h (nh_world s) = (rc, [], w)" and rc: "rc \<noteq> 0"
  shows "\<exists>t. read_pnp_id nb a h s = Inr ((), t) \<and> hh_devs t = hh_devs s \<and> hh_bufs t p = None
     \<and> esp_hidh_dev_resources_free a t = Inl UseAfterFree"
proof -
  let ?t = "s\<lparr>s_read_data_val := None, s_read_data_len := 0, nh_world := w, nh_pending := nh_pending s,
              hh_bufs := (hh_bufs s)(p := None)\<rparr>"
  have "read_pnp_id nb a h s = Inr ((), ?t)"
    using assms
    by (simp add: read_pnp_id_def dev_conn_def get_dev_def sbind_def sseq_def into_locals_def read_char_def
        procedure_def free_buf_def)
  moreover have "esp_hidh_dev_resources_free a ?t = Inl UseAfterFree"
    using a name unlocked
    by (simp add: esp_hidh_dev_resources_free_def sseq_def sbind_def dev_lock_spec get_dev_def free_buf_def)
  ultimately show ?thesis by simp
qed

theorem pnp_failure_frees_name_witness:
  "\<exists>(s :: unit nimble_st) t. hh_bufs s 2 \<noteq> None
     \<and> read_pnp_id (sample_stack\<lparr>nb_read_long := (\<lambda>c h w. (7, [], w))\<rparr>) 1 8 s = Inr ((), t)
     \<and> esp_hidh_dev_resources_free 1 t = Inl UseAfterFree"
proof -
  let ?d = "kbd_dev\<lparr>dv_config := config_zero\<lparr>hc_device_name := Some 2\<rparr>\<rparr>"
  let ?s = "kbd_connected\<lparr>hh_devs := (\<lambda>_. None)(1 := Some ?d), rs_rdata := Some 2\<rparr>"
  have "hh_devs ?s 1 = Some ?d" "hc_device_name (dv_config ?d) = Some 2" "rs_rdata ?s = Some 2" "hh_bufs ?s 2 = Some [1]"
    "\<not> dv_locked ?d"
    by (simp_all add: kbd_connected_def kbd_dev_def dev_zero_def)
  from pnp_failure_frees_name [OF this, of "sample_stack\<lparr>nb_read_long := (\<lambda>c h w. (7, [], w))\<rparr>" 8 7 "()"] \<open>hh_bufs ?s 2 = Some [1]\<close>
  show ?thesis by (rule_tac x = ?s in exI) auto
qed

end
