(* ===== verification/NimGap.thy ===== *)
theory NimGap
  imports NimThms HidhInv
begin

text \<open>
  The GAP event handler: no event adds, frees or unlinks a device, whatever its order; a notification
  becomes exactly one event with its bytes; a disconnection is told once and keeps the device; the
  passkey that is shown is the one the stack is given.
\<close>

section \<open>Looking up a device\<close>

lemma get_by_found:
  assumes "hidh_inv s"
  shows "\<exists>r. esp_hidh_dev_get_by_conn_id c s = Inr (r, s)
      \<and> (\<forall>a. r = Some a \<longrightarrow> (\<exists>d. hh_devs s a = Some d \<and> dv_conn_id d = uint c))"
    and "\<exists>r. esp_hidh_dev_get_by_bda b s = Inr (r, s)
      \<and> (\<forall>a. r = Some a \<longrightarrow> (\<exists>d. hh_devs s a = Some d \<and> dv_bda d = b))"
proof -
  have "\<exists>d. hh_devs s a = Some d \<and> Q d" if "find (\<lambda>a. Q (the (hh_devs s a))) (s_esp_hidh_devices s) = Some a" for Q a
    using find_SomeD [OF that] hidh_invD(7) [OF assms] by fastforce
  then show "\<exists>r. esp_hidh_dev_get_by_conn_id c s = Inr (r, s)
      \<and> (\<forall>a. r = Some a \<longrightarrow> (\<exists>d. hh_devs s a = Some d \<and> dv_conn_id d = uint c))"
    and "\<exists>r. esp_hidh_dev_get_by_bda b s = Inr (r, s)
      \<and> (\<forall>a. r = Some a \<longrightarrow> (\<exists>d. hh_devs s a = Some d \<and> dv_bda d = b))"
    by (simp_all add: get_by_spec [OF assms])
qed

text \<open>The only device with a connection handle is found.\<close>

lemma get_by_conn_unique:
  assumes inv: "hidh_inv s" and a: "hh_devs s a = Some d" "dv_conn_id d = uint c"
    and only: "\<And>b e. hh_devs s b = Some e \<Longrightarrow> dv_conn_id e = uint c \<Longrightarrow> b = a"
  shows "esp_hidh_dev_get_by_conn_id c s = Inr (Some a, s)"
proof -
  obtain r where r: "esp_hidh_dev_get_by_conn_id c s = Inr (r, s)"
    "\<forall>a. r = Some a \<longrightarrow> (\<exists>d. hh_devs s a = Some d \<and> dv_conn_id d = uint c)"
    using get_by_found(1) [OF inv] by blast
  have "a \<in> set (s_esp_hidh_devices s)" using hidh_invD(2) [OF inv] a by auto
  then have "find (\<lambda>a. dv_conn_id (the (hh_devs s a)) = uint c) (s_esp_hidh_devices s) \<noteq> None"
    using a by (auto simp: find_None_iff simp del: not_None_eq)
  then have "r \<noteq> None" using r(1) by (simp add: get_by_spec [OF inv])
  then show ?thesis using r only by auto
qed

section \<open>No event touches the registry\<close>

text \<open>A field of a device that is neither its lock nor something it owns may change.\<close>

lemma upd_dev_inv:
  assumes inv: "hidh_inv s" and a: "hh_devs s a = Some d"
    and f: "dv_config e = dv_config d" "dv_protocol_mode e = dv_protocol_mode d" "dv_locked e = dv_locked d"
  shows "hidh_inv (s\<lparr>hh_devs := (hh_devs s)(a := Some e)\<rparr>)"
proof -
  have own: "owned_bufs e = owned_bufs d" using f by (simp add: owned_bufs_def freed_bufs_def)
  have ok: "dev_ok (hh_bufs s) e" using hidh_invD(4) [OF inv a] f own by (simp add: dev_ok_def)
  show ?thesis
    using inv a own ok unfolding hidh_inv_def by (auto simp: domI insert_absorb)
qed

definition notify_ok :: "'w nimble_st \<Rightarrow> bool" where
  "notify_ok s \<longleftrightarrow> (\<forall>a d. hh_devs s a = Some d \<longrightarrow> dv_reports d = [] \<or>
     (\<exists>p bs. dv_protocol_mode d = Some p \<and> hh_bufs s p = Some bs
        \<and> (\<forall>r \<in> set (dv_reports d). unat (hr_map_index r) < length bs)))"

definition gap_keeps :: "'w nimble_st \<Rightarrow> 'w nimble_st \<Rightarrow> bool" where
  "gap_keeps s t \<longleftrightarrow> hidh_inv t \<and> notify_ok t \<and> s_esp_hidh_devices t = s_esp_hidh_devices s
     \<and> dom (hh_devs t) = dom (hh_devs s) \<and> hh_bufs t = hh_bufs s"

lemma gap_keeps_upd:
  assumes "hidh_inv s" "notify_ok s" "hh_devs s a = Some d"
    and "dv_config e = dv_config d" "dv_protocol_mode e = dv_protocol_mode d" "dv_locked e = dv_locked d"
      "dv_reports e = dv_reports d"
  shows "gap_keeps s (s\<lparr>hh_devs := (hh_devs s)(a := Some e)\<rparr>)"
  using assms upd_dev_inv [OF assms(1,3-6)]
  by (auto simp: gap_keeps_def notify_ok_def domI insert_absorb)

lemma gap_keeps_other:
  assumes "gap_keeps s t" and "hh_devs u = hh_devs t" "hh_bufs u = hh_bufs t" "hh_next u = hh_next t"
    "s_esp_hidh_devices u = s_esp_hidh_devices t" "hh_locked u = hh_locked t"
  shows "gap_keeps s u"
proof -
  have "hidh_inv u = hidh_inv t" by (rule hidh_inv_cong) (fact assms)+
  moreover have "notify_ok u = notify_ok t" unfolding notify_ok_def assms(2,3) ..
  ultimately show ?thesis using assms by (simp add: gap_keeps_def)
qed

lemma gap_keeps_refl: "hidh_inv s \<Longrightarrow> notify_ok s \<Longrightarrow> gap_keeps s s"
  by (simp add: gap_keeps_def)

text \<open>Each event on its own.\<close>

lemma give_cb_keeps:
  assumes "gap_keeps s t" and "s_ble_hidh_cb_semaphore t \<noteq> None"
  shows "\<exists>t'. sseq SEND_CB (sret r) t = Inr (r, t') \<and> gap_keeps s t'"
  using assms gap_keeps_other [OF assms(1), of "t\<lparr>s_ble_hidh_cb_semaphore := Some True\<rparr>"]
  by (auto simp: SEND_CB_def sseq_def sbind_def)

lemma gap_connect_keeps:
  fixes s :: "'w nimble_st"
  assumes inv: "hidh_inv s" and ok: "notify_ok s" and sem: "s_ble_hidh_cb_semaphore s \<noteq> None"
    and conn: "nb_conn_find nb c (nh_world s) \<noteq> None"
  shows "\<exists>r t. gap_connect nb st c s = Inr (r, t) \<and> gap_keeps s t"
proof (cases "st = 0")
  case False
  then show ?thesis using give_cb_keeps [OF gap_keeps_refl [OF inv ok] sem, of 0] by (auto simp: gap_connect_def)
next
  case True
  obtain ota ident where desc: "nb_conn_find nb c (nh_world s) = Some (ota, ident)" using conn by fastforce
  obtain p where p: "esp_hidh_dev_get_by_bda ota s = Inr (p, s)"
    "\<forall>a. p = Some a \<longrightarrow> (\<exists>d. hh_devs s a = Some d \<and> dv_bda d = ota)"
    using get_by_found(2) [OF inv, of ota] by blast
  obtain q where q: "esp_hidh_dev_get_by_bda ident s = Inr (q, s)"
    "\<forall>a. q = Some a \<longrightarrow> (\<exists>d. hh_devs s a = Some d \<and> dv_bda d = ident)"
    using get_by_found(2) [OF inv, of ident] by blast
  define r where "r = (if p = None then q else p)"
  have look: "sbind (esp_hidh_dev_get_by_bda ota) (\<lambda>dev.
      sbind (if dev = None then esp_hidh_dev_get_by_bda ident else sret dev) f) s = f r s"
    for f :: "dev_ptr \<Rightarrow> ('w nimble_st, int) prog"
    using p(1) q(1) by (simp add: sbind_def r_def)
  show ?thesis
  proof (cases r)
    case None
    then show ?thesis using give_cb_keeps [OF gap_keeps_refl [OF inv ok] sem, of 0] True
      by (auto simp: gap_connect_def desc look)
  next
    case (Some a)
    then obtain d where d: "hh_devs s a = Some d" using p(2) q(2) by (auto simp: r_def split: if_splits)
    let ?t = "s\<lparr>hh_devs := (hh_devs s)(a := Some (d\<lparr>dv_status := -1, dv_conn_id := uint c\<rparr>))\<rparr>"
    obtain x w where m: "nb_set_preferred_mtu nb (nh_world s) = (x, w)" by fastforce
    obtain y v where x: "nb_exchange_mtu nb c w = (y, v)" by fastforce
    have "gap_keeps s ?t" by (rule gap_keeps_upd [OF inv ok d]) simp_all
    then have "gap_keeps s (?t\<lparr>nh_world := v\<rparr>)" by (rule gap_keeps_other) simp_all
    from give_cb_keeps [OF this, of 0] sem d Some True show ?thesis
      by (simp add: gap_connect_def desc look) (auto simp: upd_dev_def sseq_def sbind_def call_world_def m x)
  qed
qed

lemma gap_disconnect_keeps:
  assumes inv: "hidh_inv s" and ok: "notify_ok s"
  shows "\<exists>r t. gap_disconnect reason c s = Inr (r, t) \<and> gap_keeps s t"
proof -
  obtain r where r: "esp_hidh_dev_get_by_conn_id c s = Inr (r, s)"
    "\<forall>a. r = Some a \<longrightarrow> (\<exists>d. hh_devs s a = Some d \<and> dv_conn_id d = uint c)"
    using get_by_found(1) [OF inv, of c] by blast
  show ?thesis
  proof (cases r)
    case None
    then show ?thesis using gap_keeps_refl [OF inv ok] r by (simp add: gap_disconnect_def sbind_def)
  next
    case (Some a)
    then obtain d where d: "hh_devs s a = Some d" using r(2) by auto
    let ?t = "\<lambda>con. s\<lparr>hh_devs := (hh_devs s)(a := Some (d\<lparr>dv_connected := con, dv_status := reason, dv_conn_id := -1\<rparr>))\<rparr>"
    have t: "gap_keeps s (?t con)" for con by (rule gap_keeps_upd [OF inv ok d]) simp_all
    moreover have "gap_keeps s ((?t con)\<lparr>nh_posted := ps\<rparr>)" for con ps using t [of con] by (rule gap_keeps_other) simp_all
    moreover have "gap_keeps s (s\<lparr>hh_devs := (hh_devs s)(a := Some (d\<lparr>dv_status := reason, dv_conn_id := -1\<rparr>))\<rparr>)"
      by (rule gap_keeps_upd [OF inv ok d]) simp_all
    ultimately show ?thesis using r Some d
      by (auto simp: gap_disconnect_def sbind_def sseq_def get_dev_def upd_dev_def post_event_def)
  qed
qed

lemma gap_notify_rx_keeps:
  assumes inv: "hidh_inv s" and ok: "notify_ok s"
  shows "\<exists>r t. gap_notify_rx nb c h om s = Inr (r, t) \<and> gap_keeps s t"
proof -
  note keep = gap_keeps_refl [OF inv ok]
  obtain r where r: "esp_hidh_dev_get_by_conn_id c s = Inr (r, s)"
    "\<forall>a. r = Some a \<longrightarrow> (\<exists>d. hh_devs s a = Some d \<and> dv_conn_id d = uint c)"
    using get_by_found(1) [OF inv, of c] by blast
  show ?thesis
  proof (cases r)
    case None
    then show ?thesis using keep r by (simp add: gap_notify_rx_def sbind_def)
  next
    case (Some a)
    then obtain d where d: "hh_devs s a = Some d" using r(2) by auto
    have posted: "gap_keeps s (s\<lparr>hh_allocs := k, nh_posted := ps\<rparr>)" "gap_keeps s (s\<lparr>hh_allocs := k\<rparr>)"
      "gap_keeps s (s\<lparr>nh_posted := ps\<rparr>)" for k ps
      by (rule gap_keeps_other [OF keep]; simp)+
    show ?thesis
    proof (cases "esp_hidh_dev_get_report_by_handle d h")
      case None
      then show ?thesis using r Some d keep posted
        by (auto simp: gap_notify_rx_def sbind_def sseq_def get_dev_def post_event_def)
    next
      case (Some report)
      then have "report \<in> set (dv_reports d)" by (auto simp: esp_hidh_dev_get_report_by_handle_def dest: find_SomeD)
      then obtain p bs where "dv_protocol_mode d = Some p" "hh_bufs s p = Some bs" "unat (hr_map_index report) < length bs"
        using ok d unfolding notify_ok_def by fastforce
      then show ?thesis using r \<open>r = Some a\<close> d Some keep posted
        by (auto simp: gap_notify_rx_def sbind_def sseq_def get_dev_def get_buf_def post_event_def request_def)
    qed
  qed
qed

lemma gap_passkey_keeps:
  assumes keep: "gap_keeps s s"
  shows "\<exists>r t. gap_passkey_action nb disp c s = Inr (r, t) \<and> gap_keeps s t"
proof -
  have "gap_keeps s (s\<lparr>nh_shown := ps, nh_world := w\<rparr>)" "gap_keeps s (s\<lparr>nh_world := w\<rparr>)" for w ps
    by (rule gap_keeps_other [OF keep]; simp)+
  moreover obtain x w where "nb_random nb (nh_world s) = (x, w)" by fastforce
  moreover obtain y v where "nb_sm_inject_io nb c (x mod 1000000) w = (y, v)" by fastforce
  ultimately show ?thesis using keep by (auto simp: gap_passkey_action_def call_world_def sbind_def sseq_def)
qed

lemma gap_repeat_keeps:
  assumes keep: "gap_keeps s s" and conn: "nb_conn_find nb c (nh_world s) \<noteq> None"
  shows "\<exists>r t. gap_repeat_pairing nb c s = Inr (r, t) \<and> gap_keeps s t"
proof -
  obtain ota ident where "nb_conn_find nb c (nh_world s) = Some (ota, ident)" using conn by fastforce
  moreover obtain x w where "nb_store_delete_peer nb ident (nh_world s) = (x, w)" by fastforce
  moreover have "gap_keeps s (s\<lparr>nh_world := w\<rparr>)" for w by (rule gap_keeps_other [OF keep]) simp_all
  ultimately show ?thesis by (simp add: gap_repeat_pairing_def call_world_def sbind_def sseq_def)
qed

text \<open>
  C7: Every GAP event ends without a fault and leaves the registry, the set of devices and the blocks as
  they are; the invariant of the library holds after it. What it relies on: a connection the stack
  reports can be looked up, and the reports of a device have a protocol mode.
\<close>
theorem gap_events_keep_registry:
  assumes inv: "hidh_inv s" and ok: "notify_ok s" and sem: "s_ble_hidh_cb_semaphore s \<noteq> None"
    and conn: "\<And>c. nb_conn_find nb c (nh_world s) \<noteq> None"
  shows "\<exists>r t. esp_hidh_gattc_event_handler nb e s = Inr (r, t) \<and> gap_keeps s t"
proof -
  note keep = gap_keeps_refl [OF inv ok]
  have sec: "gap_keeps s (s\<lparr>s_ble_hidh_sec_semaphore := g\<rparr>)" for g by (rule gap_keeps_other [OF keep]) simp_all
  show ?thesis
    unfolding esp_hidh_gattc_event_handler_def
    using keep sec gap_connect_keeps [OF inv ok sem conn] gap_disconnect_keeps [OF inv ok] gap_notify_rx_keeps [OF inv ok]
      gap_passkey_keeps [OF keep] gap_repeat_keeps [OF keep conn]
    by (cases e) (simp_all add: give_sec_def)
qed

theorem gap_events_keep_registry_witness:
  "\<exists>r t. esp_hidh_gattc_event_handler sample_stack (BLE_GAP_EVENT_DISCONNECT 8 7) (nim_init ()) = Inr (r, t)
     \<and> gap_keeps (nim_init ()) t"
  by (rule gap_events_keep_registry)
     (simp_all add: hidh_inv_def nim_init_def notify_ok_def sample_stack_def)

section \<open>The sample keyboard\<close>

lemma kbd_connected_simps:
  "hh_devs kbd_connected 1 = Some kbd_dev" "hh_bufs kbd_connected 2 = Some [1]" "event_loop_handle kbd_connected"
  "hh_devs kbd_connected b = Some e \<Longrightarrow> b = 1" "dv_conn_id kbd_dev = uint (7 :: u16)" "dv_battery_handle kbd_dev = 15"
  "esp_hidh_dev_get_report_by_handle kbd_dev 26 = Some kbd_report" "dv_protocol_mode kbd_dev = Some 2"
  "dv_connected kbd_dev" "dv_reports kbd_dev = [kbd_report]"
  by (auto simp: kbd_connected_def kbd_dev_def kbd_report_def nim_init_def esp_hidh_dev_get_report_by_handle_def
      dev_zero_def split: if_splits)

section \<open>Notifications\<close>

lemma notify_rx_spec:
  assumes inv: "hidh_inv s" and a: "hh_devs s a = Some d" "dv_conn_id d = uint c"
    and only: "\<And>b e. hh_devs s b = Some e \<Longrightarrow> dv_conn_id e = uint c \<Longrightarrow> b = a"
    and loop: "event_loop_handle s" and mem: "nb_malloc nb (hh_allocs s)"
    and report: "h \<noteq> dv_battery_handle d" "esp_hidh_dev_get_report_by_handle d h = Some report"
    and mode: "dv_protocol_mode d = Some p" "hh_bufs s p = Some bs" "unat (hr_map_index report) < length bs"
      "bs ! unat (hr_map_index report) = hr_protocol_mode report"
  shows "esp_hidh_gattc_event_handler nb (BLE_GAP_EVENT_NOTIFY_RX c h om) s =
    Inr (0, s\<lparr>hh_allocs := hh_allocs s + 1, nh_posted := nh_posted s
      @ [(if hr_report_type report = ESP_HID_REPORT_TYPE_FEATURE then FeatureEvent else InputEvent)
          (report_event (Some a) report om)]\<rparr>)"
  using get_by_conn_unique [OF inv a only] a loop mem report mode
  by (simp add: esp_hidh_gattc_event_handler_def gap_notify_rx_def sbind_def sseq_def get_dev_def get_buf_def
      post_event_def request_def)



section \<open>Disconnecting\<close>

text \<open>
  C30: The end of a connection is told once: the device stays on the registry with its reports, marked as
  not connected and without a handle, one close event is posted with the reason, and the same event
  again finds no device.
\<close>
theorem disconnect_told_once:
  assumes inv: "hidh_inv s" and a: "hh_devs s a = Some d" "dv_conn_id d = uint c" "dv_connected d"
    and only: "\<And>b e. hh_devs s b = Some e \<Longrightarrow> dv_conn_id e = uint c \<Longrightarrow> b = a"
    and loop: "event_loop_handle s"
  shows "\<exists>t. esp_hidh_gattc_event_handler nb (BLE_GAP_EVENT_DISCONNECT reason c) s = Inr (0, t)
    \<and> t = s\<lparr>hh_devs := (hh_devs s)(a := Some (d\<lparr>dv_connected := False, dv_status := reason, dv_conn_id := -1\<rparr>)),
            nh_posted := nh_posted s @ [CloseEvent (Some a) reason HIDH_OK]\<rparr>
    \<and> esp_hidh_gattc_event_handler nb (BLE_GAP_EVENT_DISCONNECT again c) t = Inr (0, t)"
proof -
  let ?e = "d\<lparr>dv_connected := False, dv_status := reason, dv_conn_id := -1\<rparr>"
  let ?t = "s\<lparr>hh_devs := (hh_devs s)(a := Some ?e), nh_posted := nh_posted s @ [CloseEvent (Some a) reason HIDH_OK]\<rparr>"
  have "hidh_inv (s\<lparr>hh_devs := (hh_devs s)(a := Some ?e)\<rparr>)" by (rule upd_dev_inv [OF inv a(1)]) simp_all
  then have inv': "hidh_inv ?t" by (rule hidh_inv_cong [THEN iffD1, rotated -1]) simp_all
  have neg: "-1 \<noteq> uint c" using uint_nonnegative [of c] by linarith
  have "dv_conn_id e \<noteq> uint c" if "hh_devs ?t b = Some e" for b e
    using that only [of b e] a(2) neg by (cases "b = a") auto
  then have "esp_hidh_dev_get_by_conn_id c ?t = Inr (None, ?t)"
    using get_by_found(1) [OF inv', of c] by (metis not_None_eq)
  then show ?thesis
    using get_by_conn_unique [OF inv a(1,2) only] a loop
    by (simp add: esp_hidh_gattc_event_handler_def gap_disconnect_def sbind_def sseq_def get_dev_def upd_dev_def
        post_event_def)
qed

theorem disconnect_told_once_witness:
  "\<exists>t. esp_hidh_gattc_event_handler sample_stack (BLE_GAP_EVENT_DISCONNECT 8 7) kbd_connected = Inr (0, t)
     \<and> nh_posted t = nh_posted kbd_connected @ [CloseEvent (Some 1) 8 HIDH_OK]"
  using disconnect_told_once [OF kbd_connected_inv kbd_connected_simps(1,5,9) kbd_connected_simps(4),
      where nb = sample_stack and reason = 8]
  by (auto simp: kbd_connected_simps)

section \<open>The passkey\<close>

text \<open>
  The passkey shown to the user is the one given to the security manager, and has at most six digits.
\<close>
theorem passkey_shown_is_used:
  assumes "nb_random nb (nh_world s) = (x, w)" and "s_hidh_passkey_cb s"
  shows "\<exists>key. unat key < 1000000
    \<and> esp_hidh_gattc_event_handler nb (BLE_GAP_EVENT_PASSKEY_ACTION True c) s =
        Inr (0, s\<lparr>nh_shown := nh_shown s @ [key], nh_world := snd (nb_sm_inject_io nb c key w)\<rparr>)"
  using assms
  by (intro exI [of _ "x mod 1000000"])
     (simp add: esp_hidh_gattc_event_handler_def gap_passkey_action_def call_world_def sbind_def sseq_def unat_mod
       case_prod_beta)

theorem passkey_shown_is_used_witness:
  "\<exists>key. unat key < 1000000
    \<and> esp_hidh_gattc_event_handler sample_stack (BLE_GAP_EVENT_PASSKEY_ACTION True 7) (nim_init ()) =
        Inr (0, (nim_init ())\<lparr>nh_shown := nh_shown (nim_init ()) @ [key],
                  nh_world := snd (nb_sm_inject_io sample_stack 7 key ())\<rparr>)"
  by (rule passkey_shown_is_used [where x = 1234567890]) (simp_all add: sample_stack_def nim_init_def)

end
