(* ===== verification/NimOpen.thy ===== *)
theory NimOpen
  imports NimThms NimGap
begin

text \<open>
  Opening a device: the discovery of its services into an array of ten that is never started anew, and
  the two ways an open can fail before it, which leave the library as it was.
\<close>

section \<open>Discovering services\<close>

text \<open>
  What a look-up needs; the counter of the report maps runs ahead of their array during a discovery,
  so the full invariant does not hold there.
\<close>

definition reg_ok :: "'z hidh_st_scheme \<Rightarrow> bool" where
  "reg_ok s \<longleftrightarrow> \<not> hh_locked s \<and> set (s_esp_hidh_devices s) \<subseteq> dom (hh_devs s)"

lemma hidh_inv_reg_ok: "hidh_inv s \<Longrightarrow> reg_ok s"
  by (simp add: reg_ok_def hidh_inv_def)

lemma get_by_conn_reg:
  assumes "reg_ok s"
  shows "\<exists>r. esp_hidh_dev_get_by_conn_id c s = Inr (r, s) \<and> (\<forall>a. r = Some a \<longrightarrow> (\<exists>d. hh_devs s a = Some d))"
proof -
  have "\<exists>d. hh_devs s a = Some d"
    if "find (\<lambda>a. dv_conn_id (the (hh_devs s a)) = uint c) (s_esp_hidh_devices s) = Some a" for a
    using find_SomeD [OF that] assms by (auto simp: reg_ok_def)
  then show ?thesis
    using assms by (simp add: reg_ok_def esp_hidh_dev_get_by_conn_id_def sseq_def sbind_def
        lock_devices_def unlock_devices_def find_dev_spec)
qed

text \<open>The array after some services, and everything a later step relies on.\<close>

definition discovering :: "'w nimble_st \<Rightarrow> ble_gatt_svc option list \<Rightarrow> nat \<Rightarrow> 'w nimble_st \<Rightarrow> bool" where
  "discovering s0 arr n s \<longleftrightarrow> reg_ok s \<and> service_result s = Some arr \<and> services_discovered s = n
     \<and> s_ble_hidh_cb_semaphore s = s_ble_hidh_cb_semaphore s0 \<and> nh_pending s = nh_pending s0
     \<and> dom (hh_devs s) = dom (hh_devs s0) \<and> bufs_fresh s = bufs_fresh s0"

lemma svc_disced_step:
  assumes "discovering s0 arr n s" and "n < length arr"
  shows "\<exists>t. run_cb nb (SvcDisced c 0 v) s = Inr ((), t) \<and> discovering s0 (arr[n := Some v]) (n + 1) t"
proof -
  let ?s = "s\<lparr>nh_status := 0, service_result := Some (arr[n := Some v]), services_discovered := n + 1\<rparr>"
  have "reg_ok s" using assms(1) by (simp add: discovering_def)
  then have reg: "reg_ok ?s" by (simp add: reg_ok_def)
  obtain r where r: "esp_hidh_dev_get_by_conn_id c ?s = Inr (r, ?s)" "\<forall>a. r = Some a \<longrightarrow> (\<exists>d. hh_devs ?s a = Some d)"
    using get_by_conn_reg [OF reg] by blast
  have base: "discovering s0 (arr[n := Some v]) (n + 1) ?s"
    using assms reg by (simp add: discovering_def bufs_fresh_def)
  have slot: "put_slot (services_discovered s) v (service_result s) = Inr (Some (arr[n := Some v]))"
    "services_discovered s = n"
    using assms by (simp_all add: put_slot_def discovering_def)
  let ?f = "\<lambda>d. d\<lparr>dv_status := 0, dv_config := (dv_config d)\<lparr>hc_report_maps_len := hc_report_maps_len (dv_config d) + 1\<rparr>\<rparr>"
  show ?thesis
  proof (cases "r = None \<or> gs_uuid v \<noteq> BLE_SVC_HID_UUID16")
    case True
    then have "run_cb nb (SvcDisced c 0 v) s = Inr ((), ?s)"
      using slot r(1) by (auto simp: run_cb_def svc_disced_def sseq_def sbind_def)
    then show ?thesis using base by blast
  next
    case False
    then obtain a d where a: "r = Some a" "hh_devs ?s a = Some d" using r(2) by (cases r) auto
    let ?t = "?s\<lparr>hh_devs := (hh_devs ?s)(a := Some (?f d))\<rparr>"
    have "run_cb nb (SvcDisced c 0 v) s = Inr ((), ?t)"
      using False slot r(1) a by (simp add: run_cb_def svc_disced_def sseq_def sbind_def upd_dev_def)
    moreover have "discovering s0 (arr[n := Some v]) (n + 1) ?t"
      using base a by (auto simp: discovering_def reg_ok_def bufs_fresh_def domI insert_absorb)
    ultimately show ?thesis by blast
  qed
qed

lemma svc_disced_full:
  "discovering s0 arr n s \<Longrightarrow> length arr \<le> n \<Longrightarrow> run_cb nb (SvcDisced c 0 v) s = Inl OutOfBounds"
  by (simp add: run_cb_def svc_disced_def sseq_def sbind_def put_slot_def discovering_def)


lemma svc_disced_run:
  assumes "discovering s0 arr n s" and "n \<le> length arr" and "s_ble_hidh_cb_semaphore s0 = Some False"
  shows "quiet cb_given (run_cb nb) (List.map (SvcDisced c 0) vs) s
    \<and> (if n + length vs \<le> length arr
       then \<exists>t arr'. sfor (List.map (SvcDisced c 0) vs) (run_cb nb) s = Inr ((), t)
              \<and> discovering s0 arr' (n + length vs) t \<and> length arr' = length arr \<and> take n arr' = take n arr
       else sfor (List.map (SvcDisced c 0) vs) (run_cb nb) s = Inl OutOfBounds)"
  using assms(1,2)
proof (induction vs arbitrary: arr n s)
  case Nil
  then show ?case by auto
next
  case (Cons v vs)
  have sem: "s_ble_hidh_cb_semaphore s = Some False" using Cons.prems assms(3) by (simp add: discovering_def)
  show ?case
  proof (cases "n < length arr")
    case True
    obtain s1 where one: "run_cb nb (SvcDisced c 0 v) s = Inr ((), s1)" "discovering s0 (arr[n := Some v]) (n + 1) s1"
      using svc_disced_step [OF Cons.prems(1) True] by blast
    have keep: "take n arr' = take n arr" if "take (n + 1) arr' = take (n + 1) (arr[n := Some v])" for arr'
    proof -
      have "take n (take (n + 1) arr') = take n (take (n + 1) (arr[n := Some v]))" using that by simp
      then show ?thesis by (simp add: min_def)
    qed
    show ?thesis
      using Cons.IH [OF one(2)] one(1) sem True keep
      by (fastforce simp: sseq_def sbind_def split: if_splits)
  next
    case False
    then show ?thesis
      using svc_disced_full [OF Cons.prems(1), of nb c v] sem by (simp add: sseq_def sbind_def)
  qed
qed


lemma alloc_maps_ok:
  assumes "hh_devs u a = Some d" and "\<And>k. nb_malloc nb k"
  shows "\<exists>u'. alloc_maps nb a u = Inr (True, u') \<and> service_result u' = service_result u"
  using assms
  by (simp add: alloc_maps_def sbind_def sseq_def get_dev_def request_def set_config_def upd_dev_def nim_malloc_ok Let_def)

text \<open>Waiting for the answers: too many services overrun the array, otherwise what was in it stays.\<close>

lemma discovered_run:
  fixes s1 :: "'w nimble_st"
  assumes disc: "discovering s1 arr n s1" and n: "n \<le> length arr" and sem: "s_ble_hidh_cb_semaphore s1 = Some False"
    and idle: "nh_pending s1 = []"
    and start: "start = s1\<lparr>nh_pending := List.map (SvcDisced c 0) svcs @ [SvcDisced c BLE_HS_EDONE x]\<rparr>"
  shows "if length arr < n + length svcs then discovered nb start = Inl OutOfBounds
    else \<exists>u arr'. discovered nb start = Inr ((), u) \<and> service_result u = Some arr' \<and> services_discovered u = n + length svcs
      \<and> dom (hh_devs u) = dom (hh_devs s1) \<and> length arr' = length arr \<and> take n arr' = take n arr"
proof -
  let ?cs = "List.map (SvcDisced c 0) svcs @ [SvcDisced c BLE_HS_EDONE x]"
  note run = svc_disced_run [OF disc n sem, of nb c svcs]
  have same: "s1\<lparr>nh_pending := []\<rparr> = s1" using idle by (cases s1) simp
  show ?thesis
  proof (cases "length arr < n + length svcs")
    case True
    then have "sfor ?cs (run_cb nb) s1 = Inl OutOfBounds" and "quiet cb_given (run_cb nb) ?cs s1"
      using run by (simp_all add: sfor_append sseq_def sbind_def quiet_append)
    then have "WAIT_CB nb start = Inl OutOfBounds"
      using sem same by (subst WAIT_CB_quiet) (simp_all add: start)
    then show ?thesis using True by (simp add: discovered_def sseq_def sbind_def)
  next
    case False
    then obtain t arr' where t: "sfor (List.map (SvcDisced c 0) svcs) (run_cb nb) s1 = Inr ((), t)"
      "discovering s1 arr' (n + length svcs) t" "length arr' = length arr" "take n arr' = take n arr"
      and q: "quiet cb_given (run_cb nb) (List.map (SvcDisced c 0) svcs) s1"
      using run by auto
    let ?u = "t\<lparr>nh_status := 0, s_ble_hidh_cb_semaphore := Some False, nh_pending := []\<rparr>"
    have ts: "s_ble_hidh_cb_semaphore t = Some False" using t(2) sem by (simp add: discovering_def)
    have last: "run_cb nb (SvcDisced c BLE_HS_EDONE x) t = Inr ((), t\<lparr>nh_status := 0, s_ble_hidh_cb_semaphore := Some True\<rparr>)"
      using ts by (simp add: run_cb_def svc_disced_def sseq_def sbind_def SEND_CB_def BLE_HS_EDONE_def)
    have "WAIT_CB nb start = Inr ((), ?u)"
      using sem q t(1) ts last same
      by (subst WAIT_CB_quiet) (simp_all add: start quiet_append sfor_append sseq_def sbind_def)
    then have "discovered nb start = Inr ((), ?u)" by (simp add: discovered_def sseq_def sbind_def)
    then show ?thesis using False t(2-4) by (auto simp: discovering_def)
  qed
qed

text \<open>
  C31: The number of services found is a static variable that no discovery resets. With services left from
  an earlier one, the next discovery, on whatever device, either runs past the end of its array of ten
  or starts by reading an element that was never written: a second device cannot be opened.
\<close>
theorem second_discovery_fails:
  assumes idle: "idle s" and reg: "reg_ok s" and a: "hh_devs s a = Some d" and mem: "\<And>k. nb_malloc nb k"
    and ans: "nb_disc_all_svcs nb (conn16 (dv_conn_id d)) (nh_world s) = (0, answers svcs x, w)"
    and used: "services_discovered s = n" "0 < n" "n \<le> 10"
  shows "read_device_services nb a s = Inl (if 10 < n + length svcs then OutOfBounds else UninitRead)"
proof -
  let ?c = "conn16 (dv_conn_id d)"
  let ?arr = "replicate 10 (None :: ble_gatt_svc option)"
  let ?cs = "List.map (SvcDisced ?c 0) svcs @ [SvcDisced ?c BLE_HS_EDONE x]"
  let ?s0 = "s\<lparr>service_result := Some ?arr, rs_rdata := None, rs_rlen := 0, rs_hidindex := 0\<rparr>"
  let ?s1 = "?s0\<lparr>nh_world := w, nh_pending := []\<rparr>"
  have start: "sbind (procedure (nb_disc_all_svcs nb ?c) (\<lambda>(st, svc). SvcDisced ?c st svc)) f ?s0 = f 0 (?s1\<lparr>nh_pending := ?cs\<rparr>)"
    for f :: "int \<Rightarrow> ('a nimble_st, unit) prog"
    using idle ans by (simp add: sbind_def procedure_def idle_def answers_def comp_def)
  have sem: "s_ble_hidh_cb_semaphore ?s1 = Some False" using idle by (simp add: idle_def)
  have disc: "discovering ?s1 ?arr n ?s1" using reg used by (simp add: discovering_def reg_ok_def)
  have run: "if length ?arr < n + length svcs then discovered nb (?s1\<lparr>nh_pending := ?cs\<rparr>) = Inl OutOfBounds
    else \<exists>u arr'. discovered nb (?s1\<lparr>nh_pending := ?cs\<rparr>) = Inr ((), u) \<and> service_result u = Some arr'
      \<and> services_discovered u = n + length svcs \<and> dom (hh_devs u) = dom (hh_devs ?s1)
      \<and> length arr' = length ?arr \<and> take n arr' = take n ?arr"
    by (rule discovered_run [OF disc _ sem _ refl]) (use used(3) in simp_all)
  have conn: "dev_conn a ?s0 = Inr (?c, ?s0)" using a by (simp add: dev_conn_def sbind_def get_dev_def)
  have unfold: "read_device_services nb a s = sseq (discovered nb)
      (sbind (sget services_discovered) (\<lambda>dcount. sseq
         (sbind (alloc_maps nb a) (\<lambda>ok. if \<not> ok then sret ()
            else sbind (svc_loop nb a [0..<dcount]) (\<lambda>more_to_do. if \<not> more_to_do then sret ()
              else sbind (get_dev (Some a)) (\<lambda>d. sfor [0..<unat (hc_report_maps_len (dv_config d))] (read_map nb a)))))
         leave_frame)) (?s1\<lparr>nh_pending := ?cs\<rparr>)"
    unfolding read_device_services_def sseq_simps sbind_Inr [where m = "dev_conn a", OF conn] start by simp
  show ?thesis
  proof (cases "10 < n + length svcs")
    case True
    then show ?thesis using run unfolding unfold by (simp add: sseq_def sbind_def)
  next
    case False
    then obtain u arr' where u: "discovered nb (?s1\<lparr>nh_pending := ?cs\<rparr>) = Inr ((), u)" "service_result u = Some arr'"
      "services_discovered u = n + length svcs" "dom (hh_devs u) = dom (hh_devs s)" "length arr' = 10" "take n arr' = take n ?arr"
      using run by auto
    obtain d' where "hh_devs u a = Some d'" using u(4) a by auto
    from alloc_maps_ok [OF this mem] obtain u' where
      u': "alloc_maps nb a u = Inr (True, u')" "service_result u' = Some arr'" using u(2) by auto
    have "arr' ! 0 = take n arr' ! 0" using used by simp
    then have "arr' ! 0 = None" unfolding u(6) using used by simp
    moreover have "[0..<n + length svcs] = 0 # [1..<n + length svcs]" using used by (simp add: upt_conv_Cons)
    ultimately have "svc_loop nb a [0..<n + length svcs] u' = Inl UninitRead"
      using u'(2) u(5) by (simp add: sbind_def get_slot_def)
    then show ?thesis using False u'(1) u(1,3) unfolding unfold by (simp add: sseq_def sbind_def)
  qed
qed

theorem second_discovery_fails_witness:
  "read_device_services sample_stack 1 (kbd_connected\<lparr>services_discovered := 4\<rparr>) = Inl UninitRead"
proof -
  have "idle (kbd_connected\<lparr>services_discovered := 4\<rparr>)" using kbd_connected_idle by (simp add: idle_def)
  moreover have "reg_ok (kbd_connected\<lparr>services_discovered := 4\<rparr>)"
    using hidh_inv_reg_ok [OF kbd_connected_inv] by (simp add: reg_ok_def)
  moreover have "nb_disc_all_svcs sample_stack c w = (0, answers kbd_svcs svc0, ())" for c w
    by (simp add: sample_stack_def)
  moreover have "length kbd_svcs = 4" by (simp add: kbd_svcs_def)
  moreover have "hh_devs (kbd_connected\<lparr>services_discovered := 4\<rparr>) 1 = Some kbd_dev"
    using kbd_connected_dev by simp
  ultimately show ?thesis
    using second_discovery_fails [of "kbd_connected\<lparr>services_discovered := 4\<rparr>" 1 kbd_dev sample_stack kbd_svcs svc0 "()" 4]
      sample_simps(1) by simp
qed

section \<open>An open that fails\<close>

definition as_before :: "'z hidh_st_scheme \<Rightarrow> 'z hidh_st_scheme \<Rightarrow> bool" where
  "as_before s t \<longleftrightarrow> hidh_inv t \<and> hh_devs t = hh_devs s \<and> hh_bufs t = hh_bufs s
     \<and> s_esp_hidh_devices t = s_esp_hidh_devices s"

lemma free_new_device:
  assumes inv: "hidh_inv s" and t: "hidh_inv t" "hh_devs t = (hh_devs s)(hh_next s := Some e)"
      "hh_bufs t = hh_bufs s" "s_esp_hidh_devices t = s_esp_hidh_devices s @ [hh_next s]"
    and e: "dv_config e = config_zero"
  shows "\<exists>u. esp_hidh_dev_free_inner (Some (hh_next s)) t = Inr (HIDH_OK, u) \<and> as_before s u"
proof -
  have fresh: "hh_devs s (hh_next s) = None" "hh_next s \<notin> set (s_esp_hidh_devices s)"
    using hidh_invD [OF inv] by auto
  have none: "freed_bufs e = []"
    by (simp add: freed_bufs_def e config_zero_def opt_list_def map_bufs_def)
  have d: "hh_devs t (hh_next s) = Some e" using t by simp
  have "esp_hidh_dev_free_inner (Some (hh_next s)) t = Inr (HIDH_OK, del_device (hh_next s) t)"
    by (simp add: free_inner_spec [OF t(1)] d none)
  moreover have "hidh_inv (del_device (hh_next s) t)" using del_device_inv [OF t(1) d] none by simp
  moreover have "(hh_devs s)(hh_next s := None) = hh_devs s" using fresh(1) by (rule fun_upd_idem)
  ultimately show ?thesis
    using t fresh by (simp add: as_before_def del_device_def remove1_append)
qed

text \<open>The state after the record of the device was made and filled in, however the rest looks.\<close>

definition with_new ::
  "bool option \<Rightarrow> bool option \<Rightarrow> 'w \<Rightarrow> nim_cb list \<Rightarrow> u8 list \<Rightarrow> u8 \<Rightarrow> 'w nimble_st \<Rightarrow> 'w nimble_st" where
  "with_new g g' w cs bda ty s = s\<lparr>hh_allocs := hh_allocs s + 3, hh_next := hh_next s + 1,
     s_esp_hidh_devices := s_esp_hidh_devices s @ [hh_next s],
     hh_devs := (hh_devs s)(hh_next s := Some (new_device\<lparr>dv_in_use := True, dv_transport := ESP_HID_TRANSPORT_BLE, dv_bda := bda,
              dv_address_type := ty, dv_appearance := ESP_HID_APPEARANCE_GENERIC, dv_conn_id := -1\<rparr>)),
     s_ble_hidh_cb_semaphore := g, s_ble_hidh_sec_semaphore := g', nh_world := w, nh_pending := cs\<rparr>"

lemma free_with_new:
  assumes inv: "hidh_inv s"
  shows "\<exists>u. esp_hidh_dev_free_inner (Some (hh_next s)) (with_new g g' w cs bda ty s) = Inr (HIDH_OK, u) \<and> as_before s u"
proof -
  let ?a = "hh_next s" and ?s3 = "s\<lparr>hh_allocs := hh_allocs s + 3, hh_next := hh_next s + 1\<rparr>"
  let ?e = "new_device\<lparr>dv_in_use := True, dv_transport := ESP_HID_TRANSPORT_BLE, dv_bda := bda,
              dv_address_type := ty, dv_appearance := ESP_HID_APPEARANCE_GENERIC, dv_conn_id := -1\<rparr>"
  have "hidh_inv (add_device ?a new_device ?s3)" by (rule add_device_inv [OF inv]) simp
  then have "hidh_inv ((add_device ?a new_device ?s3)\<lparr>hh_devs := (hh_devs (add_device ?a new_device ?s3))(?a := Some ?e)\<rparr>)"
    by (rule upd_dev_inv [where d = new_device]) (simp_all add: add_device_def)
  then have t_inv: "hidh_inv (with_new g g' w cs bda ty s)"
    by (rule hidh_inv_cong [THEN iffD1, rotated -1]) (simp_all add: add_device_def with_new_def)
  have conf: "dv_config ?e = config_zero" by (simp add: new_device_def dev_zero_def)
  show ?thesis by (rule free_new_device [OF inv t_inv _ _ _ conf]) (simp_all add: with_new_def)
qed

text \<open>
  C12: An open whose connection is refused at once, or that fails later, gives NULL and leaves the library
  as it was: the record made for the device is off the registry and freed, with nothing else touched.
\<close>
theorem failed_open_releases:
  assumes inv: "hidh_inv s" and sem: "s_ble_hidh_cb_semaphore s \<noteq> None" and none: "nh_pending s = []"
    and conn: "nb_gap_connect nb 0 ty bda 10000 conn_params (nh_world s) = (rc, rs, w)"
    and fails: "rc \<noteq> 0 \<or> (rs = [Event (BLE_GAP_EVENT_CONNECT st c)] \<and> st \<noteq> 0)"
  shows "\<exists>t. esp_ble_hidh_dev_open nb bda ty s = Inr (None, t) \<and> as_before s t"
proof -
  let ?n = "hh_allocs s" and ?a = "hh_next s"
  let ?s3 = "s\<lparr>hh_allocs := ?n + 3, hh_next := ?a + 1\<rparr>"
  have given_up: ?thesis if "esp_hidh_dev_malloc (nb_malloc nb) s = Inr (None, t)" "as_before s t" for t
    using that by (simp add: esp_ble_hidh_dev_open_def sbind_def)
  have kept: "as_before s (s\<lparr>hh_allocs := k\<rparr>)" "n \<ge> ?a \<Longrightarrow> as_before s (s\<lparr>hh_allocs := k, hh_next := n\<rparr>)" for k n
    using hidh_inv_fresh [OF inv] by (simp_all add: as_before_def)
  show ?thesis
  proof (cases "nb_malloc nb ?n \<and> nb_malloc nb (?n + 1) \<and> nb_malloc nb (?n + 2)")
    case False
    then show ?thesis
      using given_up malloc_spec [OF inv, of "nb_malloc nb"] kept by (auto simp: Let_def split: if_splits)
  next
    case True
    then have malloc: "esp_hidh_dev_malloc (nb_malloc nb) s = Inr (Some ?a, add_device ?a new_device ?s3)"
      by (simp add: malloc_spec [OF inv] Let_def)
    note freed = free_with_new [OF inv, unfolded with_new_def]
    obtain g where g: "s_ble_hidh_cb_semaphore s = Some g" using sem by blast
    show ?thesis
    proof (cases "rc = 0")
      case False
      then show ?thesis
        using freed [where g = "Some False" and g' = "map_option (\<lambda>_. False) (s_ble_hidh_sec_semaphore s)" and w = w
              and cs = "List.map (cb_of (\<lambda>_. OnGap BLE_GAP_EVENT_OTHER)) rs" and bda = bda and ty = ty] conn none g
        by (auto simp: esp_ble_hidh_dev_open_def sbind_def sseq_def malloc upd_dev_def add_device_def drain_def procedure_def)
    next
      case True
      then have rs: "rs = [Event (BLE_GAP_EVENT_CONNECT st c)]" "st \<noteq> 0" using fails by simp_all
      let ?w = "with_new (Some False) (map_option (\<lambda>_. False) (s_ble_hidh_sec_semaphore s)) w
          [OnGap (BLE_GAP_EVENT_CONNECT st c)] bda ty s"
      let ?fin = "with_new (Some False) (map_option (\<lambda>_. False) (s_ble_hidh_sec_semaphore s)) w [] bda ty s"
      have "WAIT_CB nb ?w = Inr ((), ?fin)"
        using rs(2) by (cases s) (subst WAIT_CB_quiet,
          simp_all add: with_new_def run_cb_def esp_hidh_gattc_event_handler_def gap_connect_def SEND_CB_def sseq_def sbind_def)
      then show ?thesis
        using freed [where g = "Some False" and g' = "map_option (\<lambda>_. False) (s_ble_hidh_sec_semaphore s)" and w = w
              and cs = "[]" and bda = bda and ty = ty] True conn none g rs(1)
        by (auto simp: with_new_def esp_ble_hidh_dev_open_def sbind_def sseq_def malloc upd_dev_def add_device_def drain_def
            procedure_def get_dev_def)
    qed
  qed
qed

theorem failed_open_releases_witness:
  "\<exists>t. esp_ble_hidh_dev_open (sample_stack\<lparr>nb_gap_connect := (\<lambda>own t a d p w. (0, [Event (BLE_GAP_EVENT_CONNECT 13 0)], w))\<rparr>)
       [6, 5, 4, 3, 2, 1] 0 kbd_connected = Inr (None, t) \<and> as_before kbd_connected t"
proof (rule failed_open_releases [OF kbd_connected_inv, where st = 13 and c = 0])
  show "nh_pending kbd_connected = []" "s_ble_hidh_cb_semaphore kbd_connected \<noteq> None"
    using kbd_connected_idle by (simp_all add: idle_def)
  show "nb_gap_connect (sample_stack\<lparr>nb_gap_connect := (\<lambda>own t a d p w. (0, [Event (BLE_GAP_EVENT_CONNECT 13 0)], w))\<rparr>)
      0 0 [6, 5, 4, 3, 2, 1] 10000 conn_params (nh_world kbd_connected) = (0, [Event (BLE_GAP_EVENT_CONNECT 13 0)], nh_world kbd_connected)"
    by simp
qed simp

end
