(* ===== verification/NimKbd.thy ===== *)
theory NimKbd
  imports NimGap NimThms KbdTask KbdKeysThms
begin

text \<open>
  From the radio to the console: notifications of a connected keyboard pass the transport's GAP handler
  (\<open>nimble_hidh.c\<close>), the event loop and the wrapper of the host library (\<open>esp_hidh.c\<close>) and the callback
  of the keyboard host (\<open>bt_kbd.c\<close>), and come out as the characters that were typed.
\<close>

section \<open>The way of an event\<close>

text \<open>
  What the callback of the keyboard host reads of an event: the data of an input event through its
  pointer, which must lead to the copy behind the event.
\<close>

definition app_event :: "(nat \<Rightarrow> u16) \<Rightarrow> hidh_event_data \<Rightarrow> hidh_event option" where
  "app_event conn_of e =
     (case e of
        OpenEvent dev st \<Rightarrow> map_option (\<lambda>a. ESP_HIDH_OPEN_EVENT st a (conn_of a)) dev
      | InputEvent p \<Rightarrow>
          (if he_length p = 0 then Some (ESP_HIDH_INPUT_EVENT (he_usage p) [])
           else if he_data p = TailData \<and> unat (he_length p) \<le> length (he_tail p)
           then Some (ESP_HIDH_INPUT_EVENT (he_usage p) (take (unat (he_length p)) (he_tail p)))
           else None)
      | CloseEvent dev reason st \<Rightarrow> Some ESP_HIDH_CLOSE_EVENT
      | _ \<Rightarrow> Some ESP_HIDH_OTHER_EVENT)"

definition deliver :: "'v kbd_os \<Rightarrow> (nat \<Rightarrow> u16) \<Rightarrow> hidh_event_data \<Rightarrow> 'v kbd_sys \<Rightarrow> 'v kbd_sys" where
  "deliver os conn_of e sys =
     (case app_event conn_of (esp_hidh_preprocess_event_handler e) of
        None \<Rightarrow> sys | Some ev \<Rightarrow> hidh_cb os ev sys)"

lemma deliver_input:
  assumes "length om < 2 ^ 16" and "hr_usage report = ESP_HID_USAGE_KEYBOARD"
  shows "deliver os conn_of (InputEvent (report_event dev report om)) sys = on_vars (translate_report om) sys"
proof -
  have "unat (of_nat (length om) :: u16) = length om" using assms(1) by (simp add: unat_of_nat)
  moreover have "(of_nat (length om) :: u16) = 0 \<longleftrightarrow> om = []"
    using calculation by (metis length_0_conv of_nat_0 unat_eq_zero)
  ultimately show ?thesis
    using assms(2)
    by (auto simp: deliver_def app_event_def esp_hidh_preprocess_event_handler_def relocate_def report_event_def
        hidh_cb_def)
qed

text \<open>What holds of the keyboard while it sends reports.\<close>

definition kbd_sends :: "'w nimble_st \<Rightarrow> nat \<Rightarrow> u16 \<Rightarrow> u16 \<Rightarrow> esp_hidh_dev_report_t \<Rightarrow> bool" where
  "kbd_sends s a c h report \<longleftrightarrow> hidh_inv s \<and> event_loop_handle s \<and>
     (\<exists>d p bs. hh_devs s a = Some d \<and> dv_conn_id d = uint c \<and> h \<noteq> dv_battery_handle d
        \<and> esp_hidh_dev_get_report_by_handle d h = Some report \<and> dv_protocol_mode d = Some p \<and> hh_bufs s p = Some bs
        \<and> unat (hr_map_index report) < length bs \<and> bs ! unat (hr_map_index report) = hr_protocol_mode report)
     \<and> (\<forall>b e. hh_devs s b = Some e \<longrightarrow> dv_conn_id e = uint c \<longrightarrow> b = a)
     \<and> hr_usage report = ESP_HID_USAGE_KEYBOARD \<and> hr_report_type report \<noteq> ESP_HID_REPORT_TYPE_FEATURE"

lemma kbd_sends_step:
  assumes k: "kbd_sends s a c h report" and mem: "\<And>k. nb_malloc nb k"
  shows "\<exists>t. run_cb nb (OnGap (BLE_GAP_EVENT_NOTIFY_RX c h om)) s = Inr ((), t) \<and> kbd_sends t a c h report
     \<and> nh_posted t = nh_posted s @ [InputEvent (report_event (Some a) report om)]"
proof -
  obtain d p bs where d: "hh_devs s a = Some d" "dv_conn_id d = uint c" "h \<noteq> dv_battery_handle d"
      "esp_hidh_dev_get_report_by_handle d h = Some report" "dv_protocol_mode d = Some p" "hh_bufs s p = Some bs"
      "unat (hr_map_index report) < length bs" "bs ! unat (hr_map_index report) = hr_protocol_mode report"
    and s: "hidh_inv s" "event_loop_handle s" "hr_report_type report \<noteq> ESP_HID_REPORT_TYPE_FEATURE"
    and only: "\<And>b e. hh_devs s b = Some e \<Longrightarrow> dv_conn_id e = uint c \<Longrightarrow> b = a"
    using k unfolding kbd_sends_def by blast
  let ?t = "s\<lparr>hh_allocs := hh_allocs s + 1, nh_posted := nh_posted s @ [InputEvent (report_event (Some a) report om)]\<rparr>"
  have "run_cb nb (OnGap (BLE_GAP_EVENT_NOTIFY_RX c h om)) s = Inr ((), ?t)"
    using notify_rx_spec [OF s(1) d(1,2) only s(2) mem d(3-8), where om = om] s(3)
    by (simp add: run_cb_def sseq_def sbind_def)
  moreover have "hidh_inv ?t" by (rule hidh_inv_cong [THEN iffD2, OF _ _ _ _ _ s(1)]) simp_all
  then have "kbd_sends ?t a c h report" using k unfolding kbd_sends_def by simp
  ultimately show ?thesis by simp
qed

text \<open>
  C3: Whatever reports a connected keyboard notifies, in their order, the application receives one event
  for each, and after them it has typed exactly the characters the reports mean, given the keys that
  were down before.
\<close>
theorem notifications_type_text:
  assumes "kbd_sends s a c h report" and mem: "\<And>k. nb_malloc nb k" and len: "\<forall>om \<in> set oms. length om < 2 ^ 16"
  shows "\<exists>t. sfor (List.map (\<lambda>om. OnGap (BLE_GAP_EVENT_NOTIFY_RX c h om)) oms) (run_cb nb) s = Inr ((), t)
    \<and> nh_posted t = nh_posted s @ List.map (\<lambda>om. InputEvent (report_event (Some a) report om)) oms
    \<and> out (sys_vars (fold (deliver os conn_of) (drop (length (nh_posted s)) (nh_posted t)) sys))
        = out (sys_vars sys) @ (if cb_on_key (cfg_callbacks (s_cfg (sys_vars sys)))
                                then List.map OnKey (typed (s_prev_keys (sys_vars sys)) oms) else [])"
proof -
  have "\<exists>t. sfor (List.map (\<lambda>om. OnGap (BLE_GAP_EVENT_NOTIFY_RX c h om)) oms) (run_cb nb) s = Inr ((), t)
      \<and> nh_posted t = nh_posted s @ List.map (\<lambda>om. InputEvent (report_event (Some a) report om)) oms"
    using assms(1)
  proof (induction oms arbitrary: s)
    case Nil
    then show ?case by simp
  next
    case (Cons om oms)
    obtain s1 where "run_cb nb (OnGap (BLE_GAP_EVENT_NOTIFY_RX c h om)) s = Inr ((), s1)"
      "kbd_sends s1 a c h report" "nh_posted s1 = nh_posted s @ [InputEvent (report_event (Some a) report om)]"
      using kbd_sends_step [OF Cons.prems mem] by blast
    then show ?case using Cons.IH [of s1] by (auto simp: sseq_def sbind_def)
  qed
  moreover have "fold (deliver os conn_of) (List.map (\<lambda>om. InputEvent (report_event (Some a) report om)) oms) sys
      = on_vars (fold translate_report oms) sys"
    using len
  proof (induction oms arbitrary: sys)
    case Nil
    then show ?case by (simp add: on_vars_def)
  next
    case (Cons om oms)
    have "deliver os conn_of (InputEvent (report_event (Some a) report om)) sys = on_vars (translate_report om) sys"
      using Cons.prems assms(1) by (intro deliver_input) (auto simp: kbd_sends_def)
    then show ?case using Cons by (simp add: on_vars_def)
  qed
  ultimately show ?thesis by (fastforce simp: on_vars_def translate_reports_out)
qed

lemma kbd_connected_sends: "kbd_sends kbd_connected 1 7 26 kbd_report"
proof -
  have "\<exists>d p bs. hh_devs kbd_connected 1 = Some d \<and> dv_conn_id d = uint (7 :: u16) \<and> 26 \<noteq> dv_battery_handle d
      \<and> esp_hidh_dev_get_report_by_handle d 26 = Some kbd_report \<and> dv_protocol_mode d = Some p
      \<and> hh_bufs kbd_connected p = Some bs \<and> unat (hr_map_index kbd_report) < length bs
      \<and> bs ! unat (hr_map_index kbd_report) = hr_protocol_mode kbd_report"
    by (intro exI [of _ kbd_dev] exI [of _ 2] exI [of _ "[1]"])
       (simp add: kbd_connected_simps del: One_nat_def, simp add: kbd_report_def hid_consts)
  then show ?thesis
    using kbd_connected_inv kbd_connected_simps(3,4)
    by (auto simp: kbd_sends_def kbd_report_def hid_consts)
qed

theorem notifications_type_text_witness:
  "\<forall>os conn_of w. \<exists>t. sfor (List.map (\<lambda>om. OnGap (BLE_GAP_EVENT_NOTIFY_RX 7 26 om)) [[0, 0, 4], [0, 0, 0], [2, 0, 5]])
        (run_cb sample_stack) kbd_connected = Inr ((), t)
    \<and> out (sys_vars (fold (deliver os conn_of) (drop (length (nh_posted kbd_connected)) (nh_posted t)) (kbd_start sample_cfg w)))
        = [OnKey 97, OnKey 66]"
proof (intro allI)
  fix os :: "'a kbd_os" and conn_of :: "nat \<Rightarrow> u16" and w :: 'a
  have "out (sys_vars (kbd_start sample_cfg w)) = []" "s_prev_keys (sys_vars (kbd_start sample_cfg w)) = replicate 6 0"
    "cb_on_key (cfg_callbacks (s_cfg (sys_vars (kbd_start sample_cfg w))))"
    by (simp_all add: kbd_start_def kbd_vars_init_def sample_cfg_def)
  moreover have "typed (replicate 6 0) [[0, 0, 4], [0, 0, 0], [2, 0, 5]] = [97, 66]" by code_simp
  ultimately show "\<exists>t. sfor (List.map (\<lambda>om. OnGap (BLE_GAP_EVENT_NOTIFY_RX 7 26 om)) [[0, 0, 4], [0, 0, 0], [2, 0, 5]])
        (run_cb sample_stack) kbd_connected = Inr ((), t)
    \<and> out (sys_vars (fold (deliver os conn_of) (drop (length (nh_posted kbd_connected)) (nh_posted t)) (kbd_start sample_cfg w)))
        = [OnKey 97, OnKey 66]"
    using notifications_type_text [OF kbd_connected_sends, of sample_stack "[[0, 0, 4], [0, 0, 0], [2, 0, 5]]" os conn_of
        "kbd_start sample_cfg w"]
    by (auto simp: sample_stack_def)
qed

end
