(* ===== verification/HiddDev.thy ===== *)
theory HiddDev
  imports HidhCore HidParser
begin

text \<open>
  The HID device role: the data of \<open>esp_private/esp_hidd_private.h\<close> and \<open>esp_hidd.h\<close>, a heap of typed
  blocks, and the functions of \<open>src/esp_hidd.c\<close>, which check the pointer and call the transport
  through the function pointers of the device. The functions behind the pointers are an argument,
  \<open>hidd_vtable\<close>.
\<close>

section \<open>Data\<close>

text \<open>
  A report of the device. \<open>hi_handle\<close> is \<open>None\<close> until it is written: the arrays of reports come from
  \<open>malloc\<close>. The fields \<open>index\<close>, \<open>ccc_handle\<close> and \<open>ccc\<close> are used by the Bluedroid transports only.
\<close>

record hidd_report_item_t =
  hi_map_index :: u8
  hi_report_id :: u8
  hi_report_type :: u8
  hi_protocol_mode :: u8
  hi_usage :: esp_hid_usage_t
  hi_value_len :: u16
  hi_handle :: "u16 option"

record hidd_dev_map_t =
  dm_map_data :: "nat option"
  dm_map_len :: u16
  dm_reports_len :: u8
  dm_reports :: "nat option"
  dm_hid_svc :: u16
  dm_hid_control_handle :: u16
  dm_hid_protocol_handle :: u16

text \<open>The configuration inside a device, its strings by address.\<close>

record hidd_config =
  hd_vendor_id :: u16
  hd_product_id :: u16
  hd_version :: u16
  hd_device_name :: "nat option"
  hd_manufacturer_name :: "nat option"
  hd_serial_number :: "nat option"

record esp_ble_hidd_dev_t =
  bd_dev :: "nat option"
  bd_event_loop :: bool
  bd_config :: hidd_config
  bd_appearance :: u16
  bd_connected :: bool
  bd_conn_id :: u16
  bd_control :: u8
  bd_protocol :: u8
  bd_pnp :: "u8 list"
  bd_devices :: "nat option"
  bd_devices_len :: u8

text \<open>\<open>od_ops\<close>: the function pointers are set.\<close>

record esp_hidd_dev_t =
  od_dev :: "nat option"
  od_transport :: esp_hid_transport_t
  od_ops :: bool

text \<open>What \<open>calloc\<close> and \<open>memset\<close> leave.\<close>

definition hidd_config_zero :: hidd_config where
  "hidd_config_zero = \<lparr>hd_vendor_id = 0, hd_product_id = 0, hd_version = 0, hd_device_name = None,
     hd_manufacturer_name = None, hd_serial_number = None\<rparr>"

definition ble_hidd_zero :: esp_ble_hidd_dev_t where
  "ble_hidd_zero = \<lparr>bd_dev = None, bd_event_loop = False, bd_config = hidd_config_zero, bd_appearance = 0,
     bd_connected = False, bd_conn_id = 0, bd_control = 0, bd_protocol = 0, bd_pnp = replicate 7 0,
     bd_devices = None, bd_devices_len = 0\<rparr>"

definition hidd_dev_zero :: esp_hidd_dev_t where
  "hidd_dev_zero = \<lparr>od_dev = None, od_transport = ESP_HID_TRANSPORT_BT, od_ops = False\<rparr>"

definition dev_map_zero :: hidd_dev_map_t where
  "dev_map_zero = \<lparr>dm_map_data = None, dm_map_len = 0, dm_reports_len = 0, dm_reports = None, dm_hid_svc = 0,
     dm_hid_control_handle = 0, dm_hid_protocol_handle = 0\<rparr>"

section \<open>Events\<close>

datatype hidd_data_ptr = SenderData | EventTail | NoDataPtr

record hidd_report_data =
  hx_dev :: "nat option"
  hx_usage :: esp_hid_usage_t
  hx_report_id :: u16
  hx_length :: u16
  hx_data :: hidd_data_ptr
  hx_map_index :: u8
  hx_tail :: "u8 list"

datatype hidd_event =
    ESP_HIDD_START_EVENT
  | ESP_HIDD_CONNECT_EVENT "nat option" int
  | ESP_HIDD_PROTOCOL_MODE_EVENT "nat option" u8 u8
  | ESP_HIDD_CONTROL_EVENT "nat option" u8 u8
  | ESP_HIDD_OUTPUT_EVENT hidd_report_data
  | ESP_HIDD_FEATURE_EVENT hidd_report_data
  | ESP_HIDD_DISCONNECT_EVENT "nat option" int
  | ESP_HIDD_STOP_EVENT

section \<open>The heap\<close>

datatype hidd_block =
    Bytes "u8 list"
  | MapArray "hidd_dev_map_t list"
  | ReportArray "hidd_report_item_t list"
  | BleBlock esp_ble_hidd_dev_t
  | DevBlock esp_hidd_dev_t

text \<open>
  The state: the blocks, the static variables of the transport (\<open>s_dev\<close>, \<open>service_index\<close>, the GAP
  listener), the number of live event loops and message buffers, the events posted (oldest first),
  the parser's variables, and the world of the stack.
\<close>

record 'w hidd_st =
  hd_blocks :: "nat \<Rightarrow> hidd_block option"
  hd_next :: nat
  hd_allocs :: nat
  s_dev :: "nat option"
  service_index :: int
  hd_listening :: bool
  hd_loops :: int
  hd_mbufs :: int
  hd_posted :: "hidd_event list"
  hd_parser :: hid_parser
  hd_world :: 'w

type_synonym ('w, 'a) hidd = "('w hidd_st, 'a) prog"

text \<open>\<open>malloc\<close>, \<open>calloc\<close> and \<open>strdup\<close>: the n-th request succeeds when \<open>mok n\<close> says so.\<close>

definition hidd_malloc :: "(nat \<Rightarrow> bool) \<Rightarrow> hidd_block \<Rightarrow> ('w, nat option) hidd" where
  "hidd_malloc mok b s =
     (if mok (hd_allocs s)
      then Inr (Some (hd_next s), s\<lparr>hd_allocs := hd_allocs s + 1, hd_blocks := (hd_blocks s)(hd_next s := Some b),
                                   hd_next := hd_next s + 1\<rparr>)
      else Inr (None, s\<lparr>hd_allocs := hd_allocs s + 1\<rparr>))"

definition hidd_free :: "nat option \<Rightarrow> ('w, unit) hidd" where
  "hidd_free p s =
     (case p of
        None \<Rightarrow> Inr ((), s)
      | Some a \<Rightarrow> (case hd_blocks s a of
                     None \<Rightarrow> Inl UseAfterFree
                   | Some b \<Rightarrow> Inr ((), s\<lparr>hd_blocks := (hd_blocks s)(a := None)\<rparr>)))"

text \<open>Reading through a pointer, and changing what is behind it.\<close>

definition hidd_block_at :: "nat option \<Rightarrow> ('w, hidd_block) hidd" where
  "hidd_block_at p s =
     (case p of
        None \<Rightarrow> Inl NullDeref
      | Some a \<Rightarrow> (case hd_blocks s a of None \<Rightarrow> Inl UseAfterFree | Some b \<Rightarrow> Inr (b, s)))"

definition hidd_store :: "nat option \<Rightarrow> hidd_block \<Rightarrow> ('w, unit) hidd" where
  "hidd_store p b = sseq (hidd_block_at p) (smod (\<lambda>s. s\<lparr>hd_blocks := (hd_blocks s)(the p := Some b)\<rparr>))"

fun as_ble :: "hidd_block \<Rightarrow> ('w, esp_ble_hidd_dev_t) hidd" where
  "as_ble (BleBlock d) = sret d" | "as_ble _ = sfail UseAfterFree"

fun as_dev :: "hidd_block \<Rightarrow> ('w, esp_hidd_dev_t) hidd" where
  "as_dev (DevBlock d) = sret d" | "as_dev _ = sfail UseAfterFree"

fun as_maps :: "hidd_block \<Rightarrow> ('w, hidd_dev_map_t list) hidd" where
  "as_maps (MapArray ms) = sret ms" | "as_maps _ = sfail UseAfterFree"

fun as_reports :: "hidd_block \<Rightarrow> ('w, hidd_report_item_t list) hidd" where
  "as_reports (ReportArray rs) = sret rs" | "as_reports _ = sfail UseAfterFree"

fun as_bytes :: "hidd_block \<Rightarrow> ('w, u8 list) hidd" where
  "as_bytes (Bytes bs) = sret bs" | "as_bytes _ = sfail UseAfterFree"

definition get_ble :: "nat option \<Rightarrow> ('w, esp_ble_hidd_dev_t) hidd" where
  "get_ble p = sbind (hidd_block_at p) as_ble"

definition get_hidd :: "nat option \<Rightarrow> ('w, esp_hidd_dev_t) hidd" where
  "get_hidd p = sbind (hidd_block_at p) as_dev"

definition upd_ble :: "nat option \<Rightarrow> (esp_ble_hidd_dev_t \<Rightarrow> esp_ble_hidd_dev_t) \<Rightarrow> ('w, unit) hidd" where
  "upd_ble p f = sbind (get_ble p) (\<lambda>d. hidd_store p (BleBlock (f d)))"

definition upd_hidd :: "nat option \<Rightarrow> (esp_hidd_dev_t \<Rightarrow> esp_hidd_dev_t) \<Rightarrow> ('w, unit) hidd" where
  "upd_hidd p f = sbind (get_hidd p) (\<lambda>d. hidd_store p (DevBlock (f d)))"

text \<open>An element of an array behind a pointer, within its bounds.\<close>

definition get_map :: "nat option \<Rightarrow> nat \<Rightarrow> ('w, hidd_dev_map_t) hidd" where
  "get_map p i = sbind (sbind (hidd_block_at p) as_maps)
     (\<lambda>ms. if i < length ms then sret (ms ! i) else sfail OutOfBounds)"

definition upd_map :: "nat option \<Rightarrow> nat \<Rightarrow> (hidd_dev_map_t \<Rightarrow> hidd_dev_map_t) \<Rightarrow> ('w, unit) hidd" where
  "upd_map p i f = sbind (sbind (hidd_block_at p) as_maps)
     (\<lambda>ms. if i < length ms then hidd_store p (MapArray (ms[i := f (ms ! i)])) else sfail OutOfBounds)"

definition get_reports :: "nat option \<Rightarrow> nat \<Rightarrow> ('w, hidd_report_item_t list) hidd" where
  "get_reports p n = (if n = 0 then sret [] else sbind (sbind (hidd_block_at p) as_reports)
     (\<lambda>rs. if n \<le> length rs then sret (take n rs) else sfail OutOfBounds))"

definition post_hidd :: "hidd_event \<Rightarrow> ('w, unit) hidd" where
  "post_hidd e = smod (\<lambda>s. s\<lparr>hd_posted := hd_posted s @ [e]\<rparr>)"

section \<open>The functions of \<open>esp_hidd.c\<close>\<close>

text \<open>
  \<open>hv_register\<close> and \<open>hv_unregister\<close> get the number of the event; the callbacks are not looked at.
\<close>

record 'w hidd_vtable =
  hv_init :: "nat \<Rightarrow> esp_hid_device_config_t \<Rightarrow> bool \<Rightarrow> ('w, int) hidd"
  hv_connected :: "nat option \<Rightarrow> ('w, bool) hidd"
  hv_deinit :: "nat option \<Rightarrow> ('w, int) hidd"
  hv_battery_set :: "nat option \<Rightarrow> u8 \<Rightarrow> ('w, int) hidd"
  hv_input_set :: "nat option \<Rightarrow> nat \<Rightarrow> nat \<Rightarrow> u8 list \<Rightarrow> ('w, int) hidd"
  hv_feature_set :: "nat option \<Rightarrow> nat \<Rightarrow> nat \<Rightarrow> u8 list \<Rightarrow> ('w, int) hidd"
  hv_register :: "nat option \<Rightarrow> int \<Rightarrow> ('w, int) hidd"
  hv_unregister :: "nat option \<Rightarrow> int \<Rightarrow> ('w, int) hidd"

text \<open>
  \<open>esp_hidd_dev_init\<close> gives the code and what \<open>*dev_out\<close> is set to, \<open>None\<close> when it is not touched. The
  BLE transport is the only one that is compiled in.
\<close>

definition esp_hidd_dev_init ::
  "(nat \<Rightarrow> bool) \<Rightarrow> 'w hidd_vtable \<Rightarrow> esp_hid_device_config_t \<Rightarrow> esp_hid_transport_t \<Rightarrow> bool \<Rightarrow>
     ('w, int \<times> nat option) hidd" where
  "esp_hidd_dev_init mok vt config transport callback =
     sbind (hidd_malloc mok (DevBlock hidd_dev_zero)) (\<lambda>dev.
       case dev of
         None \<Rightarrow> sret (ESP_FAIL, None)
       | Some a \<Rightarrow>
           sbind (case transport of ESP_HID_TRANSPORT_BLE \<Rightarrow> hv_init vt a config callback | _ \<Rightarrow> sret ESP_FAIL) (\<lambda>ret.
             if ret \<noteq> 0 then sseq (hidd_free dev) (sret (ret, None))
             else sseq (upd_hidd dev (\<lambda>d. d\<lparr>od_transport := transport\<rparr>)) (sret (ret, dev))))"

text \<open>A call through a function pointer of the device.\<close>

definition via_ops :: "nat option \<Rightarrow> 'a \<Rightarrow> (nat option \<Rightarrow> ('w, 'a) hidd) \<Rightarrow> ('w, 'a) hidd" where
  "via_ops dev fallback f =
     (if dev = None then sret fallback
      else sbind (get_hidd dev) (\<lambda>d. if od_ops d then f (od_dev d) else sfail NullDeref))"

definition esp_hidd_dev_deinit :: "'w hidd_vtable \<Rightarrow> nat option \<Rightarrow> ('w, int) hidd" where
  "esp_hidd_dev_deinit vt dev =
     (if dev = None then sret ESP_FAIL
      else sbind (via_ops dev ESP_FAIL (hv_deinit vt)) (\<lambda>ret.
             if ret \<noteq> 0 then sret ret else sseq (hidd_free dev) (sret ret)))"

definition esp_hidd_dev_transport_get :: "nat option \<Rightarrow> ('w, esp_hid_transport_t) hidd" where
  "esp_hidd_dev_transport_get dev =
     (if dev = None then sret ESP_HID_TRANSPORT_MAX else sbind (get_hidd dev) (\<lambda>d. sret (od_transport d)))"

definition esp_hidd_dev_connected :: "'w hidd_vtable \<Rightarrow> nat option \<Rightarrow> ('w, bool) hidd" where
  "esp_hidd_dev_connected vt dev = via_ops dev False (hv_connected vt)"

definition esp_hidd_dev_battery_set :: "'w hidd_vtable \<Rightarrow> nat option \<Rightarrow> u8 \<Rightarrow> ('w, int) hidd" where
  "esp_hidd_dev_battery_set vt dev level = via_ops dev ESP_FAIL (\<lambda>p. hv_battery_set vt p level)"

definition esp_hidd_dev_input_set ::
  "'w hidd_vtable \<Rightarrow> nat option \<Rightarrow> nat \<Rightarrow> nat \<Rightarrow> u8 list \<Rightarrow> ('w, int) hidd" where
  "esp_hidd_dev_input_set vt dev mi rid data = via_ops dev ESP_FAIL (\<lambda>p. hv_input_set vt p mi rid data)"

definition esp_hidd_dev_feature_set ::
  "'w hidd_vtable \<Rightarrow> nat option \<Rightarrow> nat \<Rightarrow> nat \<Rightarrow> u8 list \<Rightarrow> ('w, int) hidd" where
  "esp_hidd_dev_feature_set vt dev mi rid data = via_ops dev ESP_FAIL (\<lambda>p. hv_feature_set vt p mi rid data)"

definition esp_hidd_dev_event_handler_register :: "'w hidd_vtable \<Rightarrow> nat option \<Rightarrow> int \<Rightarrow> ('w, int) hidd" where
  "esp_hidd_dev_event_handler_register vt dev event = via_ops dev ESP_FAIL (\<lambda>p. hv_register vt p event)"

definition esp_hidd_dev_event_handler_unregister :: "'w hidd_vtable \<Rightarrow> nat option \<Rightarrow> int \<Rightarrow> ('w, int) hidd" where
  "esp_hidd_dev_event_handler_unregister vt dev event = via_ops dev ESP_FAIL (\<lambda>p. hv_unregister vt p event)"

text \<open>The data of an output or feature event travel behind it; the pointer is moved to them.\<close>

definition esp_hidd_process_event_data_handler :: "hidd_event \<Rightarrow> hidd_event" where
  "esp_hidd_process_event_data_handler e =
     (let relocate = (\<lambda>p. if nz (hx_length p) \<and> hx_data p \<noteq> NoDataPtr then p\<lparr>hx_data := EventTail\<rparr> else p)
      in case e of
           ESP_HIDD_OUTPUT_EVENT p \<Rightarrow> ESP_HIDD_OUTPUT_EVENT (relocate p)
         | ESP_HIDD_FEATURE_EVENT p \<Rightarrow> ESP_HIDD_FEATURE_EVENT (relocate p)
         | _ \<Rightarrow> e)"

end
