(* ===== verification/NimHidd.thy ===== *)
theory NimHidd
  imports HiddDev NimState
begin

text \<open>
  The NimBLE transport of the HID device role, \<open>esp_hid/src/nimble_hidd.c\<close>: the GATT server's data base
  from the report maps, the registration callback that learns the attribute handles, the GAP
  listener, the functions behind the device's pointers, and the start and end of the profile. The
  stack is the record \<open>gatts\<close>.

  A message buffer is passed on with its bytes; \<open>hd_mbufs\<close> counts those that are live. The stack frees
  a buffer it is given to write or to send.
\<close>

section \<open>The stack\<close>

definition BLE_SVC_HID_CHR_UUID16_HID_CTRL_PT :: u16 where [hid_consts]: "BLE_SVC_HID_CHR_UUID16_HID_CTRL_PT = 0x2A4C"
definition ESP_HID_CONTROL_EXIT_SUSPEND :: u8 where [hid_consts]: "ESP_HID_CONTROL_EXIT_SUSPEND = 1"

datatype svc_init = SvcGap | SvcGatt | SvcSps | SvcBas | SvcDis | SvcHid

text \<open>The parameters of a HID service; the reports are a type and an id each.\<close>

record ble_svc_hid_params =
  hp_hid_info :: "u8 list"
  hp_report_map :: "u8 list"
  hp_report_map_len :: u16
  hp_external_rpt_ref :: u16
  hp_proto_mode_present :: bool
  hp_proto_mode :: u8
  hp_kbd_inp_present :: bool
  hp_kbd_out_present :: bool
  hp_mouse_inp_present :: bool
  hp_rpts :: "(u8 \<times> u8) list"
  hp_rpts_len :: nat

definition hid_params_zero :: ble_svc_hid_params where
  "hid_params_zero = \<lparr>hp_hid_info = replicate 4 0, hp_report_map = [], hp_report_map_len = 0, hp_external_rpt_ref = 0,
     hp_proto_mode_present = False, hp_proto_mode = 0, hp_kbd_inp_present = False, hp_kbd_out_present = False,
     hp_mouse_inp_present = False, hp_rpts = [], hp_rpts_len = 0\<rparr>"

text \<open>
  \<open>ga_max_rpts\<close> and \<open>ga_map_max\<close> are the sizes of the arrays \<open>rpts\<close> and \<open>report_map\<close> of
  \<open>struct ble_svc_hid_params\<close>, which the configuration of the stack fixes. \<open>ga_to_flat bs n\<close> is the code
  of \<open>ble_hs_mbuf_to_flat\<close> and the bytes it writes.
\<close>

record 'w gatts =
  ga_malloc :: "nat \<Rightarrow> bool"
  ga_max_rpts :: nat
  ga_map_max :: nat
  ga_svc_init :: "svc_init \<Rightarrow> 'w \<Rightarrow> 'w"
  ga_hid_add :: "ble_svc_hid_params \<Rightarrow> 'w \<Rightarrow> int \<times> 'w"
  ga_dis_pnp_id_set :: "u8 list \<Rightarrow> 'w \<Rightarrow> 'w"
  ga_dis_manufacturer_name_set :: "u8 list \<Rightarrow> 'w \<Rightarrow> int \<times> 'w"
  ga_dis_serial_number_set :: "u8 list \<Rightarrow> 'w \<Rightarrow> int \<times> 'w"
  ga_stop :: "'w \<Rightarrow> 'w"
  ga_battery_level_set :: "u8 \<Rightarrow> 'w \<Rightarrow> int \<times> 'w"
  ga_read_local :: "u16 \<Rightarrow> 'w \<Rightarrow> (int \<times> u8 list) \<times> 'w"
  ga_write_local :: "u16 \<Rightarrow> u8 list option \<Rightarrow> 'w \<Rightarrow> int \<times> 'w"
  ga_notify :: "u16 \<Rightarrow> u16 \<Rightarrow> u8 list \<Rightarrow> 'w \<Rightarrow> int \<times> 'w"
  ga_to_flat :: "u8 list \<Rightarrow> nat \<Rightarrow> int \<times> u8 list"
  ga_mbuf :: "'w \<Rightarrow> bool \<times> 'w"
  ga_conn_find :: "u16 \<Rightarrow> 'w \<Rightarrow> bool"
  ga_loop_create :: "'w \<Rightarrow> int \<times> 'w"
  ga_handler_register :: "bool \<Rightarrow> int \<Rightarrow> 'w \<Rightarrow> int \<times> 'w"
  ga_handler_unregister :: "bool \<Rightarrow> int \<Rightarrow> 'w \<Rightarrow> int \<times> 'w"

definition hidd_call :: "('w \<Rightarrow> 'a \<times> 'w) \<Rightarrow> ('w, 'a) hidd" where
  "hidd_call f s = (let (x, w) = f (hd_world s) in Inr (x, s\<lparr>hd_world := w\<rparr>))"

definition hidd_world :: "('w \<Rightarrow> 'w) \<Rightarrow> ('w, unit) hidd" where
  "hidd_world f = smod (\<lambda>s. s\<lparr>hd_world := f (hd_world s)\<rparr>)"

definition mbufs :: "int \<Rightarrow> ('w, unit) hidd" where
  "mbufs n = smod (\<lambda>s. s\<lparr>hd_mbufs := hd_mbufs s + n\<rparr>)"

text \<open>\<open>ble_hs_mbuf_from_flat\<close>: a buffer with these bytes, or NULL.\<close>

definition mbuf_from_flat :: "'w gatts \<Rightarrow> u8 list \<Rightarrow> ('w, u8 list option) hidd" where
  "mbuf_from_flat ga bs = sbind (hidd_call (ga_mbuf ga)) (\<lambda>ok.
     if ok then sseq (mbufs 1) (sret (Some bs)) else sret None)"

section \<open>The data base\<close>

definition hidInfo :: "u8 list" where
  "hidInfo = [0x11, 0x01, 0x00, 0x03]"

text \<open>One report in the parameters of the service: report mode by its reference, boot mode by a flag.\<close>

definition add_rpt :: "nat \<Rightarrow> hidd_report_item_t \<Rightarrow> ble_svc_hid_params \<Rightarrow> fault + ble_svc_hid_params" where
  "add_rpt max_rpts report hp =
     (if hi_protocol_mode report = ESP_HID_PROTOCOL_MODE_REPORT
      then if length (hp_rpts hp) < max_rpts
           then Inr (hp\<lparr>hp_rpts := hp_rpts hp @
                  [(if hi_report_type report = ESP_HID_REPORT_TYPE_INPUT then ESP_HID_REPORT_TYPE_INPUT
                    else if hi_report_type report = ESP_HID_REPORT_TYPE_OUTPUT then ESP_HID_REPORT_TYPE_OUTPUT
                    else ESP_HID_REPORT_TYPE_FEATURE, hi_report_id report)]\<rparr>)
           else Inl OutOfBounds
      else if hi_report_type report = ESP_HID_REPORT_TYPE_INPUT
           then if hi_usage report = ESP_HID_USAGE_KEYBOARD then Inr (hp\<lparr>hp_kbd_inp_present := True\<rparr>)
                else Inr (hp\<lparr>hp_mouse_inp_present := True\<rparr>)
           else Inr (hp\<lparr>hp_kbd_out_present := True\<rparr>))"

fun add_rpts :: "nat \<Rightarrow> hidd_report_item_t list \<Rightarrow> ble_svc_hid_params \<Rightarrow> fault + ble_svc_hid_params" where
  "add_rpts max_rpts [] hp = Inr hp"
| "add_rpts max_rpts (r # rs) hp = bindE (add_rpt max_rpts r hp) (add_rpts max_rpts rs)"

definition create_hid_db :: "'w gatts \<Rightarrow> nat \<Rightarrow> ('w, int) hidd" where
  "create_hid_db ga device_index =
     sbind (sget s_dev) (\<lambda>p. sbind (get_ble p) (\<lambda>dev.
     sbind (get_map (bd_devices dev) device_index) (\<lambda>m.
     sbind (sbind (hidd_block_at (dm_map_data m)) as_bytes) (\<lambda>bs.
       if length bs < unat (dm_map_len m) \<or> ga_map_max ga < unat (dm_map_len m) then sfail OutOfBounds
       else
         sbind (get_reports (dm_reports m) (unat (dm_reports_len m))) (\<lambda>rs.
           case add_rpts (ga_max_rpts ga) rs (hid_params_zero\<lparr>hp_hid_info := hidInfo,
                  hp_report_map := take (unat (dm_map_len m)) bs, hp_report_map_len := dm_map_len m,
                  hp_external_rpt_ref := BLE_SVC_BAS_UUID16, hp_proto_mode_present := True,
                  hp_proto_mode := bd_protocol dev\<rparr>) of
             Inl e \<Rightarrow> sfail e
           | Inr hp \<Rightarrow> hidd_call (ga_hid_add ga (hp\<lparr>hp_rpts_len := length (hp_rpts hp)\<rparr>)))))))"

definition pnp_bytes :: "hidd_config \<Rightarrow> u8 list" where
  "pnp_bytes c = [0x02, ucast (hd_vendor_id c AND 0xFF), ucast (drop_bit 8 (hd_vendor_id c) AND 0xFF),
     ucast (hd_product_id c AND 0xFF), ucast (drop_bit 8 (hd_product_id c) AND 0xFF),
     ucast (hd_version c AND 0xFF), ucast (drop_bit 8 (hd_version c) AND 0xFF)]"

text \<open>A name is set when it is there and not empty.\<close>

definition set_name :: "nat option \<Rightarrow> (u8 list \<Rightarrow> 'w \<Rightarrow> int \<times> 'w) \<Rightarrow> int \<Rightarrow> ('w, int) hidd" where
  "set_name p set_it rc =
     (if p = None then sret rc
      else sbind (sbind (hidd_block_at p) as_bytes) (\<lambda>bs.
             if bs = [] then sfail OutOfBounds
             else if nz (bs ! 0) then hidd_call (set_it bs) else sret rc))"

definition ble_hid_create_info_db :: "'w gatts \<Rightarrow> ('w, int) hidd" where
  "ble_hid_create_info_db ga =
     sseq (hidd_world (ga_svc_init ga SvcDis))
       (sbind (sget s_dev) (\<lambda>p. sbind (get_ble p) (\<lambda>dev.
        sseq (upd_ble p (\<lambda>d. d\<lparr>bd_pnp := pnp_bytes (bd_config dev)\<rparr>))
        (sseq (hidd_world (ga_dis_pnp_id_set ga (pnp_bytes (bd_config dev))))
        (sbind (set_name (hd_manufacturer_name (bd_config dev)) (ga_dis_manufacturer_name_set ga) 0)
               (set_name (hd_serial_number (bd_config dev)) (ga_dis_serial_number_set ga)))))))"

text \<open>The loop over the maps, left at the first code that is not 0.\<close>

fun create_hid_dbs :: "'w gatts \<Rightarrow> nat list \<Rightarrow> int \<Rightarrow> ('w, int) hidd" where
  "create_hid_dbs ga [] rc = sseq (hidd_world (ga_svc_init ga SvcHid)) (sret rc)"
| "create_hid_dbs ga (d # ds) rc =
     sbind (create_hid_db ga d) (\<lambda>rc. if rc \<noteq> 0 then sret rc else create_hid_dbs ga ds rc)"

definition nimble_hid_start_gatts :: "'w gatts \<Rightarrow> ('w, int) hidd" where
  "nimble_hid_start_gatts ga =
     sseq (hidd_world (ga_svc_init ga SvcGap)) (sseq (hidd_world (ga_svc_init ga SvcGatt))
     (sseq (hidd_world (ga_svc_init ga SvcSps)) (sseq (hidd_world (ga_svc_init ga SvcBas))
     (sseq (ble_hid_create_info_db ga)
     (sbind (sget s_dev) (\<lambda>p. sbind (get_ble p) (\<lambda>dev.
        create_hid_dbs ga [0..<unat (bd_devices_len dev)] 0)))))))"

definition nimble_hid_stop_gatts :: "'w gatts \<Rightarrow> ('w, int) hidd" where
  "nimble_hid_stop_gatts ga = sseq (hidd_world (ga_stop ga)) (sret 0)"

section \<open>The configuration\<close>

text \<open>\<open>strdup\<close> of a string that may be NULL; the copy has the terminating zero.\<close>

definition strdup_opt :: "'w gatts \<Rightarrow> u8 list option \<Rightarrow> ('w, nat option) hidd" where
  "strdup_opt ga str = (case str of None \<Rightarrow> sret None | Some bs \<Rightarrow> hidd_malloc (ga_malloc ga) (Bytes (bs @ [0])))"

definition upd_config :: "nat option \<Rightarrow> (hidd_config \<Rightarrow> hidd_config) \<Rightarrow> ('w, unit) hidd" where
  "upd_config p f = upd_ble p (\<lambda>d. d\<lparr>bd_config := f (bd_config d)\<rparr>)"

definition hidd_report_of :: "nat \<Rightarrow> esp_hid_report_item_t \<Rightarrow> hidd_report_item_t" where
  "hidd_report_of d r = \<lparr>hi_map_index = of_nat d, hi_report_id = ri_report_id r, hi_report_type = ri_report_type r,
     hi_protocol_mode = ri_protocol_mode r, hi_usage = ri_usage r, hi_value_len = ri_value_len r, hi_handle = None\<rparr>"

definition hidd_parse :: "'w gatts \<Rightarrow> u8 list \<Rightarrow> ('w, esp_hid_report_map_t option) hidd" where
  "hidd_parse ga data s =
     (case esp_hid_parse_report_map (ga_malloc ga) data (hd_parser s) of
        (Inl e, p) \<Rightarrow> Inl e
      | (Inr m, p) \<Rightarrow> Inr (m, s\<lparr>hd_parser := p\<rparr>))"

definition parser_free :: "('w, unit) hidd" where
  "parser_free = smod (\<lambda>s. s\<lparr>hd_parser := heap_free (hd_parser s)\<rparr>)"

text \<open>The bytes of the raw map, as many as its length says.\<close>

definition raw_bytes :: "esp_hid_device_config_t \<Rightarrow> nat \<Rightarrow> ('w, u8 list) hidd" where
  "raw_bytes config d =
     (if length (cf_report_maps config) \<le> d then sfail OutOfBounds
      else let raw = cf_report_maps config ! d
           in if raw_len raw = 0 then sret []
              else case raw_data raw of
                     None \<Rightarrow> sfail NullDeref
                   | Some bs \<Rightarrow> if length bs < unat (raw_len raw) then sfail OutOfBounds
                                else sret (take (unat (raw_len raw)) bs))"

text \<open>One map of the configuration.\<close>

definition init_map :: "'w gatts \<Rightarrow> nat option \<Rightarrow> esp_hid_device_config_t \<Rightarrow> nat \<Rightarrow> ('w, int) hidd" where
  "init_map ga dev config d =
     sbind (raw_bytes config d) (\<lambda>data.
     sbind (hidd_malloc (ga_malloc ga) (Bytes data)) (\<lambda>mp.
       if mp = None then sret ESP_FAIL
       else sbind (get_ble dev) (\<lambda>b.
         sseq (upd_map (bd_devices b) d (\<lambda>m. m\<lparr>dm_map_data := mp, dm_map_len := of_nat (length data)\<rparr>))
         (sbind (hidd_parse ga data) (\<lambda>rmap.
            case rmap of
              None \<Rightarrow> sret ESP_FAIL
            | Some rm \<Rightarrow>
                sseq (upd_ble dev (\<lambda>b. b\<lparr>bd_appearance := rm_appearance rm\<rparr>))
                (sseq (upd_map (bd_devices b) d (\<lambda>m. m\<lparr>dm_reports_len := rm_reports_len rm\<rparr>))
                (sbind (hidd_malloc (ga_malloc ga) (ReportArray (List.map (hidd_report_of d)
                          (take (unat (rm_reports_len rm)) (rm_reports rm))))) (\<lambda>rp.
                 sseq (upd_map (bd_devices b) d (\<lambda>m. m\<lparr>dm_reports := rp\<rparr>))
                   (if rp = None then sseq parser_free (sret ESP_FAIL)
                    else sseq parser_free (sseq parser_free (sret 0))))))))))) "

fun init_maps :: "'w gatts \<Rightarrow> nat option \<Rightarrow> esp_hid_device_config_t \<Rightarrow> nat list \<Rightarrow> ('w, int) hidd" where
  "init_maps ga dev config [] = sret 0"
| "init_maps ga dev config (d # ds) =
     sbind (init_map ga dev config d) (\<lambda>rc. if rc \<noteq> 0 then sret rc else init_maps ga dev config ds)"

definition ble_hid_init_config :: "'w gatts \<Rightarrow> nat option \<Rightarrow> esp_hid_device_config_t \<Rightarrow> ('w, int) hidd" where
  "ble_hid_init_config ga dev config =
     sseq (upd_config dev (\<lambda>_. hidd_config_zero\<lparr>hd_vendor_id := cf_vendor_id config,
             hd_product_id := cf_product_id config, hd_version := cf_version config\<rparr>))
     (sbind (strdup_opt ga (cf_device_name config)) (\<lambda>p1.
      sseq (upd_config dev (\<lambda>c. c\<lparr>hd_device_name := p1\<rparr>))
     (sbind (strdup_opt ga (cf_manufacturer_name config)) (\<lambda>p2.
      sseq (upd_config dev (\<lambda>c. c\<lparr>hd_manufacturer_name := p2\<rparr>))
     (sbind (strdup_opt ga (cf_serial_number config)) (\<lambda>p3.
      sseq (upd_config dev (\<lambda>c. c\<lparr>hd_serial_number := p3\<rparr>))
     (sseq (upd_ble dev (\<lambda>b. b\<lparr>bd_appearance := ESP_HID_APPEARANCE_GENERIC\<rparr>))
       (if cf_report_maps_len config = 0 then sret 0
        else sbind (hidd_malloc (ga_malloc ga) (MapArray (replicate (unat (cf_report_maps_len config)) dev_map_zero))) (\<lambda>ms.
               sseq (upd_ble dev (\<lambda>b. b\<lparr>bd_devices := ms\<rparr>))
                 (if ms = None then sret ESP_FAIL
                  else sseq (upd_ble dev (\<lambda>b. b\<lparr>bd_devices_len := cf_report_maps_len config\<rparr>))
                         (init_maps ga dev config [0..<unat (cf_report_maps_len config)]))))))))))) "

definition free_map :: "nat option \<Rightarrow> nat \<Rightarrow> ('w, unit) hidd" where
  "free_map devices d = sbind (get_map devices d) (\<lambda>m. sseq (hidd_free (dm_reports m)) (hidd_free (dm_map_data m)))"

definition ble_hid_free_config :: "nat option \<Rightarrow> ('w, int) hidd" where
  "ble_hid_free_config dev =
     sbind (get_ble dev) (\<lambda>b.
       sseq (sfor [0..<unat (bd_devices_len b)] (free_map (bd_devices b)))
       (sseq (hidd_free (bd_devices b))
       (sseq (hidd_free (hd_device_name (bd_config b)))
       (sseq (hidd_free (hd_manufacturer_name (bd_config b)))
       (sseq (hidd_free (hd_serial_number (bd_config b)))
       (sseq (if bd_event_loop b then smod (\<lambda>s. s\<lparr>hd_loops := hd_loops s - 1\<rparr>) else sret ())
             (sret 0)))))))"

end
