(* ===== verification/NimHiddOps.thy ===== *)
theory NimHiddOps
  imports NimHidd
begin

text \<open>
  The second half of \<open>esp_hid/src/nimble_hidd.c\<close>: looking up reports, the functions behind the device's
  pointers, the GAP listener, the registration callback, and the start and end of the profile.
\<close>

section \<open>Looking up reports\<close>

text \<open>A pointer to a report is the index of its map and its index in the map.\<close>

fun find_index :: "('a \<Rightarrow> bool) \<Rightarrow> 'a list \<Rightarrow> nat option" where
  "find_index P [] = None"
| "find_index P (x # xs) = (if P x then Some 0 else map_option Suc (find_index P xs))"

fun find_in_maps ::
  "(hidd_report_item_t \<Rightarrow> bool) \<Rightarrow> nat option \<Rightarrow> nat list \<Rightarrow> ('w, (nat \<times> nat) option) hidd" where
  "find_in_maps P devices [] = sret None"
| "find_in_maps P devices (d # ds) =
     sbind (get_map devices d) (\<lambda>m.
     sbind (get_reports (dm_reports m) (unat (dm_reports_len m))) (\<lambda>rs.
       case find_index P rs of
         Some i \<Rightarrow> sret (Some (d, i))
       | None \<Rightarrow> find_in_maps P devices ds))"

definition find_by :: "(hidd_report_item_t \<Rightarrow> bool) \<Rightarrow> ('w, (nat \<times> nat) option) hidd" where
  "find_by P = sbind (sget s_dev) (\<lambda>p. sbind (get_ble p) (\<lambda>dev.
     find_in_maps P (bd_devices dev) [0..<unat (bd_devices_len dev)]))"

definition find_report :: "u8 \<Rightarrow> u8 \<Rightarrow> u8 option \<Rightarrow> ('w, (nat \<times> nat) option) hidd" where
  "find_report rid ty md =
     find_by (\<lambda>r. hi_report_id r = rid \<and> hi_report_type r = ty \<and> (md = None \<or> md = Some (hi_protocol_mode r)))"

definition find_report_by_usage_and_type ::
  "esp_hid_usage_t \<Rightarrow> u8 \<Rightarrow> u8 option \<Rightarrow> ('w, (nat \<times> nat) option) hidd" where
  "find_report_by_usage_and_type us ty md =
     find_by (\<lambda>r. hi_usage r = us \<and> hi_report_type r = ty \<and> (md = None \<or> md = Some (hi_protocol_mode r)))"

text \<open>Reading the handle behind such a pointer, and setting it.\<close>

definition rpt_handle :: "nat \<times> nat \<Rightarrow> ('w, u16) hidd" where
  "rpt_handle r = sbind (sget s_dev) (\<lambda>p. sbind (get_ble p) (\<lambda>dev. sbind (get_map (bd_devices dev) (fst r)) (\<lambda>m.
     sbind (get_reports (dm_reports m) (unat (dm_reports_len m))) (\<lambda>rs.
       case hi_handle (rs ! snd r) of None \<Rightarrow> sfail UninitRead | Some h \<Rightarrow> sret h))))"

definition set_rpt_handle :: "nat \<times> nat \<Rightarrow> u16 \<Rightarrow> ('w, unit) hidd" where
  "set_rpt_handle r h = sbind (sget s_dev) (\<lambda>p. sbind (get_ble p) (\<lambda>dev. sbind (get_map (bd_devices dev) (fst r)) (\<lambda>m.
     sbind (sbind (hidd_block_at (dm_reports m)) as_reports) (\<lambda>rs.
       hidd_store (dm_reports m) (ReportArray (rs[snd r := (rs ! snd r)\<lparr>hi_handle := Some h\<rparr>]))))))"

section \<open>The functions behind the pointers\<close>

definition nimble_hidd_dev_deinit :: "'w gatts \<Rightarrow> nat option \<Rightarrow> ('w, int) hidd" where
  "nimble_hidd_dev_deinit ga dev =
     sbind (sget s_dev) (\<lambda>sd.
       if sd = None then sret 0
       else if sd \<noteq> dev then sret ESP_FAIL
       else sseq (smod (\<lambda>s. s\<lparr>s_dev := None\<rparr>))
            (sseq (nimble_hid_stop_gatts ga)
            (sseq (get_ble dev)
            (sseq (post_hidd ESP_HIDD_STOP_EVENT)
            (sseq (ble_hid_free_config dev)
            (sseq (hidd_free dev) (sret 0)))))))"

definition nimble_hidd_dev_connected :: "nat option \<Rightarrow> ('w, bool) hidd" where
  "nimble_hidd_dev_connected dev =
     sbind (sget s_dev) (\<lambda>sd.
       if dev \<noteq> None \<and> sd = dev then sbind (get_ble dev) (\<lambda>d. sret (bd_connected d)) else sret False)"

definition nimble_hidd_dev_battery_set :: "'w gatts \<Rightarrow> nat option \<Rightarrow> u8 \<Rightarrow> ('w, int) hidd" where
  "nimble_hidd_dev_battery_set ga dev level =
     sbind (sget s_dev) (\<lambda>sd.
       if dev = None \<or> sd \<noteq> dev then sret ESP_FAIL
       else sbind (get_ble dev) (\<lambda>d.
              if \<not> bd_connected d then sret 0
              else sbind (hidd_call (ga_battery_level_set ga level)) (\<lambda>rc. if rc \<noteq> 0 then sret ESP_FAIL else sret 0)))"

text \<open>
  What \<open>input_set\<close> and \<open>feature_set\<close> have in common: the checks, the protocol mode of the map, the
  report, a buffer with the data. The id loses its upper bits on the way into \<open>find_report\<close>.
\<close>

definition with_report ::
  "'w gatts \<Rightarrow> u8 \<Rightarrow> nat option \<Rightarrow> nat \<Rightarrow> nat \<Rightarrow> u8 list \<Rightarrow> (nat \<times> nat \<Rightarrow> ('w, int) hidd) \<Rightarrow> ('w, int) hidd" where
  "with_report ga ty dev index rid data send =
     sbind (sget s_dev) (\<lambda>sd.
       if dev = None \<or> sd \<noteq> dev then sret ESP_FAIL
       else sbind (get_ble dev) (\<lambda>d.
         if \<not> bd_connected d then sret ESP_FAIL
         else sbind (get_map (bd_devices d) index) (\<lambda>m.
              sbind (hidd_call (ga_read_local ga (dm_hid_protocol_handle m))) (\<lambda>(rc, om).
                if rc \<noteq> 0 then sret ESP_FAIL
                else sseq (mbufs 1)
                  (case ga_to_flat ga om 1 of (rc, bs) \<Rightarrow>
                   sseq (upd_ble dev (\<lambda>d. d\<lparr>bd_protocol := (case bs of [] \<Rightarrow> bd_protocol d | b # _ \<Rightarrow> b)\<rparr>))
                    (if rc \<noteq> 0 then sret ESP_FAIL
                     else sseq (mbufs (-1))
                      (sbind (get_ble dev) (\<lambda>d.
                       sbind (find_report (of_nat rid) ty (Some (bd_protocol d))) (\<lambda>p_rpt.
                         case p_rpt of
                           None \<Rightarrow> sfail AssertFailed
                         | Some r \<Rightarrow>
                             sbind (mbuf_from_flat ga data) (\<lambda>om.
                               if om = None then sfail AssertFailed else send r))))))))))"

definition nimble_hidd_dev_input_set ::
  "'w gatts \<Rightarrow> nat option \<Rightarrow> nat \<Rightarrow> nat \<Rightarrow> u8 list \<Rightarrow> ('w, int) hidd" where
  "nimble_hidd_dev_input_set ga dev index rid data =
     with_report ga ESP_HID_REPORT_TYPE_INPUT dev index rid data (\<lambda>r.
       sbind (sget s_dev) (\<lambda>sd. sbind (get_ble sd) (\<lambda>d. sbind (rpt_handle r) (\<lambda>h.
       sseq (mbufs (-1))
         (sbind (hidd_call (ga_notify ga (bd_conn_id d) h data)) (\<lambda>rc. if rc \<noteq> 0 then sret ESP_FAIL else sret 0))))))"

definition nimble_hidd_dev_feature_set ::
  "'w gatts \<Rightarrow> nat option \<Rightarrow> nat \<Rightarrow> nat \<Rightarrow> u8 list \<Rightarrow> ('w, int) hidd" where
  "nimble_hidd_dev_feature_set ga dev index rid data =
     with_report ga ESP_HID_REPORT_TYPE_FEATURE dev index rid data (\<lambda>r. sbind (rpt_handle r) (\<lambda>h.
       sseq (mbufs (-1))
         (sbind (hidd_call (ga_write_local ga h (Some data))) (\<lambda>rc. if rc \<noteq> 0 then sret ESP_FAIL else sret 0))))"

definition nimble_hidd_dev_event_handler_register :: "'w gatts \<Rightarrow> nat option \<Rightarrow> int \<Rightarrow> ('w, int) hidd" where
  "nimble_hidd_dev_event_handler_register ga dev event =
     sbind (sget s_dev) (\<lambda>sd.
       if dev = None \<or> sd \<noteq> dev then sret ESP_FAIL
       else sbind (get_ble dev) (\<lambda>d. hidd_call (ga_handler_register ga (bd_event_loop d) event)))"

definition esp_ble_hidd_dev_event_handler_unregister :: "'w gatts \<Rightarrow> nat option \<Rightarrow> int \<Rightarrow> ('w, int) hidd" where
  "esp_ble_hidd_dev_event_handler_unregister ga dev event =
     sbind (sget s_dev) (\<lambda>sd.
       if dev = None \<or> sd \<noteq> dev then sret ESP_FAIL
       else sbind (get_ble dev) (\<lambda>d. hidd_call (ga_handler_unregister ga (bd_event_loop d) event)))"

section \<open>The GAP listener\<close>

text \<open>
  Setting every protocol mode to report mode, with the one buffer made for it: the stack frees it with
  the first write.
\<close>

fun reset_modes :: "'w gatts \<Rightarrow> nat option \<Rightarrow> u8 list option \<Rightarrow> bool \<Rightarrow> nat list \<Rightarrow> ('w, unit) hidd" where
  "reset_modes ga devices om used [] = sret ()"
| "reset_modes ga devices om used (i # is) =
     sbind (get_map devices i) (\<lambda>m.
       if used \<and> om \<noteq> None then sfail UseAfterFree
       else sseq (mbufs (if om = None then 0 else -1))
            (sseq (hidd_call (ga_write_local ga (dm_hid_protocol_handle m) om))
                  (reset_modes ga devices om True is)))"

definition nimble_hid_gap_event :: "'w gatts \<Rightarrow> ble_gap_event \<Rightarrow> ('w, int) hidd" where
  "nimble_hid_gap_event ga e =
     (case e of
        BLE_GAP_EVENT_CONNECT st c \<Rightarrow>
          sbind (sget (\<lambda>s. ga_conn_find ga c (hd_world s))) (\<lambda>found.
            if \<not> found then sfail AssertFailed
            else sbind (sget s_dev) (\<lambda>p.
              sseq (upd_ble p (\<lambda>d. d\<lparr>bd_connected := True, bd_conn_id := c\<rparr>))
              (sbind (get_ble p) (\<lambda>d.
               sbind (mbuf_from_flat ga [ESP_HID_PROTOCOL_MODE_REPORT]) (\<lambda>om.
               sseq (reset_modes ga (bd_devices d) om False [0..<unat (bd_devices_len d)])
               (sseq (post_hidd (ESP_HIDD_CONNECT_EVENT (bd_dev d) st)) (sret 0)))))))
      | BLE_GAP_EVENT_DISCONNECT reason c \<Rightarrow>
          sbind (sget s_dev) (\<lambda>p. sbind (get_ble p) (\<lambda>d.
            if bd_connected d
            then sseq (upd_ble p (\<lambda>d. d\<lparr>bd_connected := False\<rparr>))
                   (sseq (post_hidd (ESP_HIDD_DISCONNECT_EVENT (bd_dev d) reason)) (sret 0))
            else sret 0))
      | _ \<Rightarrow> sret 0)"

section \<open>The registration callback\<close>

text \<open>
  What the stack registers: a service, a characteristic, a descriptor with the handle its argument
  points to.
\<close>

datatype gatt_register =
    RegSvc u16 u16
  | RegChr u16 u16
  | RegDsc u16 u16 u16
  | RegOther

text \<open>A field of the map of the service that was registered last.\<close>

definition upd_service :: "(hidd_dev_map_t \<Rightarrow> hidd_dev_map_t) \<Rightarrow> ('w, unit) hidd" where
  "upd_service f =
     sbind (sget s_dev) (\<lambda>p. sbind (get_ble p) (\<lambda>dev. sbind (sget service_index) (\<lambda>i.
       if i < 0 then sfail OutOfBounds else upd_map (bd_devices dev) (nat i) f)))"

definition boot_chr :: "esp_hid_usage_t \<Rightarrow> u8 \<Rightarrow> u16 \<Rightarrow> ('w, unit) hidd" where
  "boot_chr us ty h =
     sbind (find_report_by_usage_and_type us ty (Some ESP_HID_PROTOCOL_MODE_BOOT)) (\<lambda>r.
       case r of None \<Rightarrow> sret () | Some r \<Rightarrow> set_rpt_handle r h)"

text \<open>\<open>report_info\<close> is a 16-bit value in the order of the machine, low byte first.\<close>

definition nimble_gatt_svr_register_cb :: "'w gatts \<Rightarrow> gatt_register \<Rightarrow> ('w, unit) hidd" where
  "nimble_gatt_svr_register_cb ga ctxt =
     (case ctxt of
        RegSvc uuid h \<Rightarrow>
          if uuid = BLE_SVC_HID_UUID16
          then sseq (smod (\<lambda>s. s\<lparr>service_index := service_index s + 1\<rparr>)) (upd_service (\<lambda>m. m\<lparr>dm_hid_svc := h\<rparr>))
          else sret ()
      | RegChr uuid h \<Rightarrow>
          if uuid = BLE_SVC_HID_CHR_UUID16_HID_CTRL_PT then upd_service (\<lambda>m. m\<lparr>dm_hid_control_handle := h\<rparr>)
          else if uuid = BLE_SVC_HID_CHR_UUID16_PROTOCOL_MODE then upd_service (\<lambda>m. m\<lparr>dm_hid_protocol_handle := h\<rparr>)
          else if uuid = BLE_SVC_HID_CHR_UUID16_BOOT_KBD_INP
            then boot_chr ESP_HID_USAGE_KEYBOARD ESP_HID_REPORT_TYPE_INPUT h
          else if uuid = BLE_SVC_HID_CHR_UUID16_BOOT_KBD_OUT
            then boot_chr ESP_HID_USAGE_KEYBOARD ESP_HID_REPORT_TYPE_OUTPUT h
          else if uuid = BLE_SVC_HID_CHR_UUID16_BOOT_MOUSE_INP
            then boot_chr ESP_HID_USAGE_MOUSE ESP_HID_REPORT_TYPE_INPUT h
          else sret ()
      | RegDsc uuid h report_handle \<Rightarrow>
          if uuid = BLE_SVC_HID_DSC_UUID16_RPT_REF
          then sbind (hidd_call (ga_read_local ga h)) (\<lambda>(rc, om).
                 if rc \<noteq> 0 then sfail AssertFailed
                 else sseq (mbufs 1)
                   (case snd (ga_to_flat ga om 2) of
                      lo # hi # _ \<Rightarrow>
                        sbind (find_report lo hi (Some ESP_HID_PROTOCOL_MODE_REPORT)) (\<lambda>r.
                          case r of
                            None \<Rightarrow> sfail AssertFailed
                          | Some r \<Rightarrow> sseq (set_rpt_handle r report_handle) (mbufs (-1)))
                    | _ \<Rightarrow> sfail UninitRead))
          else sret ()
      | RegOther \<Rightarrow> sfail AssertFailed)"

definition nimble_host_synced :: "('w, unit) hidd" where
  "nimble_host_synced = sbind (sget s_dev) (\<lambda>p. sseq (get_ble p) (post_hidd ESP_HIDD_START_EVENT))"

section \<open>Start and end of the profile\<close>

definition ble_hidd_dev_free :: "('w, unit) hidd" where
  "ble_hidd_dev_free =
     sbind (sget s_dev) (\<lambda>p.
       if p = None then sret ()
       else sseq (ble_hid_free_config p) (sseq (hidd_free p) (smod (\<lambda>s. s\<lparr>s_dev := None\<rparr>))))"

text \<open>\<open>ESP_EVENT_ANY_ID\<close> is -1.\<close>

definition esp_ble_hidd_dev_init :: "'w gatts \<Rightarrow> nat \<Rightarrow> esp_hid_device_config_t \<Rightarrow> bool \<Rightarrow> ('w, int) hidd" where
  "esp_ble_hidd_dev_init ga dev_p config callback =
     sbind (sget s_dev) (\<lambda>sd.
       if sd \<noteq> None then sret ESP_FAIL
       else sbind (hidd_malloc (ga_malloc ga) (BleBlock ble_hidd_zero)) (\<lambda>p.
         sseq (smod (\<lambda>s. s\<lparr>s_dev := p\<rparr>))
         (if p = None then sret ESP_FAIL
          else
            sseq (upd_ble p (\<lambda>d. d\<lparr>bd_control := ESP_HID_CONTROL_EXIT_SUSPEND, bd_protocol := ESP_HID_PROTOCOL_MODE_REPORT,
                    bd_event_loop := False, bd_dev := Some dev_p\<rparr>))
            (sbind (hidd_call (ga_loop_create ga)) (\<lambda>rc.
               if rc \<noteq> 0 then sseq ble_hidd_dev_free (sret rc)
               else
                 sseq (smod (\<lambda>s. s\<lparr>hd_loops := hd_loops s + 1\<rparr>))
                 (sseq (upd_ble p (\<lambda>d. d\<lparr>bd_event_loop := True\<rparr>))
                 (sbind (ble_hid_init_config ga p config) (\<lambda>rc.
                    if rc \<noteq> 0 then sseq ble_hidd_dev_free (sret rc)
                    else
                      sseq (upd_hidd (Some dev_p) (\<lambda>d. d\<lparr>od_dev := p, od_ops := True\<rparr>))
                      (sbind (nimble_hidd_dev_event_handler_register ga p (-1)) (\<lambda>rc.
                         if rc \<noteq> 0 then sseq ble_hidd_dev_free (sret rc)
                         else
                           sbind (if callback then nimble_hidd_dev_event_handler_register ga p (-1) else sret 0) (\<lambda>rc.
                             if rc \<noteq> 0 then sseq ble_hidd_dev_free (sret rc)
                             else
                               sbind (nimble_hid_start_gatts ga) (\<lambda>rc.
                                 if rc \<noteq> 0 then sret rc
                                 else sseq (smod (\<lambda>s. s\<lparr>hd_listening := True\<rparr>)) (sret rc))))))))))))) "

definition nimble_hidd_vtable :: "'w gatts \<Rightarrow> 'w hidd_vtable" where
  "nimble_hidd_vtable ga =
     \<lparr>hv_init = esp_ble_hidd_dev_init ga, hv_connected = nimble_hidd_dev_connected,
      hv_deinit = nimble_hidd_dev_deinit ga, hv_battery_set = nimble_hidd_dev_battery_set ga,
      hv_input_set = nimble_hidd_dev_input_set ga, hv_feature_set = nimble_hidd_dev_feature_set ga,
      hv_register = nimble_hidd_dev_event_handler_register ga,
      hv_unregister = esp_ble_hidd_dev_event_handler_unregister ga\<rparr>"

end
