(* ===== verification/HiddInv.thy ===== *)
theory HiddInv
  imports NimHiddOps "HOL-Library.Multiset"
begin

text \<open>
  The invariant of the device profile: what the device block owns is allocated, once, and nothing else
  on the heap has changed since the profile was started. \<open>prof base p d ms s\<close>: the device block \<open>p\<close>
  holds \<open>d\<close>, its maps are \<open>ms\<close>, and \<open>base\<close> is the heap without the profile. One lemma for each way an
  operation changes the heap; freeing the configuration gives \<open>base\<close> back.
\<close>

section \<open>Owned blocks\<close>

definition ptr_list :: "nat option \<Rightarrow> nat list" where
  "ptr_list p = (case p of None \<Rightarrow> [] | Some a \<Rightarrow> [a])"

lemma ptr_list_simps [simp]: "ptr_list None = []" "ptr_list (Some a) = [a]"
  by (simp_all add: ptr_list_def)

definition map_owned :: "hidd_dev_map_t \<Rightarrow> nat list" where
  "map_owned m = ptr_list (dm_reports m) @ ptr_list (dm_map_data m)"

definition names_owned :: "hidd_config \<Rightarrow> nat list" where
  "names_owned c = ptr_list (hd_device_name c) @ ptr_list (hd_manufacturer_name c) @ ptr_list (hd_serial_number c)"

definition owned :: "esp_ble_hidd_dev_t \<Rightarrow> hidd_dev_map_t list \<Rightarrow> nat list" where
  "owned d ms = concat (List.map map_owned ms) @ ptr_list (bd_devices d) @ names_owned (bd_config d)"

definition maps_at :: "'w hidd_st \<Rightarrow> esp_ble_hidd_dev_t \<Rightarrow> hidd_dev_map_t list \<Rightarrow> bool" where
  "maps_at s d ms \<longleftrightarrow> (case bd_devices d of
      None \<Rightarrow> ms = [] \<and> bd_devices_len d = 0
    | Some a \<Rightarrow> hd_blocks s a = Some (MapArray ms) \<and> length ms = unat (bd_devices_len d))"

definition prof ::
  "(nat \<Rightarrow> hidd_block option) \<Rightarrow> nat \<Rightarrow> esp_ble_hidd_dev_t \<Rightarrow> hidd_dev_map_t list \<Rightarrow> 'w hidd_st \<Rightarrow> bool" where
  "prof base p d ms s \<longleftrightarrow>
     hd_blocks s p = Some (BleBlock d) \<and> maps_at s d ms \<and> distinct (p # owned d ms)
     \<and> (\<forall>x \<in> set (owned d ms). hd_blocks s x \<noteq> None)
     \<and> (\<forall>x. x \<notin> set (p # owned d ms) \<longrightarrow> hd_blocks s x = base x)
     \<and> (\<forall>x \<in> set (p # owned d ms). base x = None)
     \<and> (\<forall>x \<ge> hd_next s. hd_blocks s x = None)"

lemma profD:
  assumes "prof base p d ms s"
  shows "hd_blocks s p = Some (BleBlock d)" "maps_at s d ms" "distinct (p # owned d ms)"
    "x \<in> set (owned d ms) \<Longrightarrow> hd_blocks s x \<noteq> None" "x \<notin> set (p # owned d ms) \<Longrightarrow> hd_blocks s x = base x"
    "x \<in> set (p # owned d ms) \<Longrightarrow> base x = None" "x \<ge> hd_next s \<Longrightarrow> hd_blocks s x = None"
  using assms unfolding prof_def by blast+

lemma prof_cong:
  "hd_blocks s = hd_blocks t \<Longrightarrow> hd_next s = hd_next t \<Longrightarrow> prof base p d ms s = prof base p d ms t"
  unfolding prof_def maps_at_def by (simp cong: option.case_cong)

lemma prof_get_ble: "prof base p d ms s \<Longrightarrow> get_ble (Some p) s = Inr (d, s)"
  by (drule profD(1)) (simp add: get_ble_def hidd_block_at_def sbind_def)

lemma prof_get_map:
  "prof base p d ms s \<Longrightarrow> i < length ms \<Longrightarrow> get_map (bd_devices d) i s = Inr (ms ! i, s)"
  by (drule profD(2)) (auto simp: maps_at_def get_map_def hidd_block_at_def sbind_def split: option.splits)

lemma prof_fresh:
  assumes "prof base p d ms s"
  shows "hd_next s \<notin> set (p # owned d ms)"
proof
  assume "hd_next s \<in> set (p # owned d ms)"
  then have "hd_blocks s (hd_next s) \<noteq> None" using profD(1,4) [OF assms] by auto
  then show False using profD(7) [OF assms, of "hd_next s"] by simp
qed

section \<open>Changing the device\<close>

lemma prof_upd_ble:
  assumes s: "prof base p d ms s"
    and f: "bd_devices e = bd_devices d" "bd_devices_len e = bd_devices_len d"
      "names_owned (bd_config e) = names_owned (bd_config d)"
  shows "prof base p e ms (s\<lparr>hd_blocks := (hd_blocks s)(p := Some (BleBlock e))\<rparr>)"
proof -
  have own: "owned e ms = owned d ms" using f by (simp add: owned_def)
  have ne: "a \<noteq> p" if "bd_devices d = Some a" for a
    using profD(3) [OF s] that by (auto simp: owned_def)
  show ?thesis
    using s f ne profD(7) [OF s, of p] profD(1) [OF s] unfolding prof_def own
    by (auto simp: maps_at_def split: option.splits)
qed

lemma upd_ble_run:
  "hd_blocks s p = Some (BleBlock d) \<Longrightarrow>
   upd_ble (Some p) f s = Inr ((), s\<lparr>hd_blocks := (hd_blocks s)(p := Some (BleBlock (f d)))\<rparr>)"
  by (simp add: upd_ble_def get_ble_def hidd_store_def hidd_block_at_def sbind_def sseq_def)

text \<open>A block that was just allocated is adopted: by the device, or by one of its maps.\<close>

lemma prof_adopt:
  assumes s: "prof base p d ms s"
    and own: "mset (owned e ms) = add_mset (hd_next s) (mset (owned d ms))"
    and f: "bd_devices e = bd_devices d" "bd_devices_len e = bd_devices_len d"
  shows "prof base p e ms (s\<lparr>hd_allocs := k, hd_blocks := (hd_blocks s)(hd_next s := Some b, p := Some (BleBlock e)),
           hd_next := hd_next s + 1\<rparr>)"
proof -
  have set: "set (owned e ms) = insert (hd_next s) (set (owned d ms))"
    using own by (metis set_mset_add_mset_insert set_mset_mset)
  have dist: "distinct (owned e ms)"
    using own prof_fresh [OF s] profD(3) [OF s] mset_eq_imp_distinct_iff [of "owned e ms" "hd_next s # owned d ms"]
    by simp
  have base: "base (hd_next s) = None"
    using profD(5) [OF s prof_fresh [OF s]] profD(7) [OF s, of "hd_next s"] by simp
  have "a \<noteq> p \<and> a \<noteq> hd_next s" if "bd_devices d = Some a" for a
    using profD(3) [OF s] prof_fresh [OF s] that by (auto simp: owned_def)
  then show ?thesis
    using s f dist prof_fresh [OF s] base profD(7) [OF s, of p] profD(1) [OF s] set unfolding prof_def
    by (auto simp: maps_at_def split: option.splits)
qed

text \<open>The array of the maps.\<close>

lemma prof_new_maps:
  assumes s: "prof base p d [] s" and d: "bd_devices d = None"
    and e: "bd_devices e = Some (hd_next s)" "bd_config e = bd_config d" "unat (bd_devices_len e) = length ms"
    and ms: "concat (List.map map_owned ms) = []"
  shows "prof base p e ms (s\<lparr>hd_allocs := k, hd_blocks := (hd_blocks s)(hd_next s := Some (MapArray ms), p := Some (BleBlock e)),
           hd_next := hd_next s + 1\<rparr>)"
proof -
  have own: "owned e ms = hd_next s # owned d []" using d e ms by (simp add: owned_def)
  have base: "base (hd_next s) = None"
    using profD(5) [OF s prof_fresh [OF s]] profD(7) [OF s, of "hd_next s"] by simp
  show ?thesis
    using s e prof_fresh [OF s] base profD(7) [OF s, of p] profD(1) [OF s] own unfolding prof_def
    by (auto simp: maps_at_def)
qed

section \<open>Changing a map\<close>

lemma owned_upd:
  assumes "i < length ms" and "mset (map_owned m) = add_mset a (mset (map_owned (ms ! i)))"
  shows "mset (owned d (ms[i := m])) = add_mset a (mset (owned d ms))"
proof -
  have "ms = take i ms @ ms ! i # drop (Suc i) ms" using assms(1) by (rule id_take_nth_drop)
  then have "mset (concat (List.map map_owned ms))
      = mset (concat (List.map map_owned (take i ms))) + mset (map_owned (ms ! i))
        + mset (concat (List.map map_owned (drop (Suc i) ms)))"
    by (metis append.assoc concat.simps(2) concat_append list.simps(9) map_append mset_append)
  moreover have "ms[i := m] = take i ms @ m # drop (Suc i) ms" using assms(1) by (rule upd_conv_take_nth_drop)
  ultimately show ?thesis using assms(2) by (simp add: owned_def)
qed

lemma owned_upd_same:
  assumes "i < length ms" and "map_owned m = map_owned (ms ! i)"
  shows "owned d (ms[i := m]) = owned d ms"
  using assms by (simp add: owned_def map_update list_update_id)
    (metis length_map list_update_id nth_map)

lemma upd_map_run:
  assumes s: "maps_at s d ms" and i: "i < length ms"
  shows "upd_map (bd_devices d) i f s =
     Inr ((), s\<lparr>hd_blocks := (hd_blocks s)(the (bd_devices d) := Some (MapArray (ms[i := f (ms ! i)])))\<rparr>)"
  using s i
  by (auto simp: maps_at_def upd_map_def hidd_block_at_def hidd_store_def sbind_def sseq_def split: option.splits)

lemma prof_upd_map:
  assumes s: "prof base p d ms s" and i: "i < length ms" and m: "map_owned m = map_owned (ms ! i)"
  shows "prof base p d (ms[i := m]) (s\<lparr>hd_blocks := (hd_blocks s)(the (bd_devices d) := Some (MapArray (ms[i := m])))\<rparr>)"
proof -
  obtain a where a: "bd_devices d = Some a" "hd_blocks s a = Some (MapArray ms)" "length ms = unat (bd_devices_len d)"
    using profD(2) [OF s] i by (auto simp: maps_at_def split: option.splits)
  have "a \<in> set (owned d ms)" "a \<noteq> p" using a(1) profD(3) [OF s] by (auto simp: owned_def)
  then show ?thesis
    using s a profD(7) [OF s, of a] unfolding prof_def owned_upd_same [OF i m] by (auto simp: maps_at_def)
qed

lemma prof_map_adopt:
  assumes s: "prof base p d ms s" and i: "i < length ms"
    and m: "mset (map_owned m) = add_mset (hd_next s) (mset (map_owned (ms ! i)))"
  shows "prof base p d (ms[i := m]) (s\<lparr>hd_allocs := k, hd_blocks := (hd_blocks s)(hd_next s := Some b,
           the (bd_devices d) := Some (MapArray (ms[i := m]))), hd_next := hd_next s + 1\<rparr>)"
proof -
  obtain a where a: "bd_devices d = Some a" "hd_blocks s a = Some (MapArray ms)" "length ms = unat (bd_devices_len d)"
    using profD(2) [OF s] i by (auto simp: maps_at_def split: option.splits)
  note own = owned_upd [OF i m, of d]
  have set: "set (owned d (ms[i := m])) = insert (hd_next s) (set (owned d ms))"
    using own by (metis set_mset_add_mset_insert set_mset_mset)
  have dist: "distinct (owned d (ms[i := m]))"
    using own prof_fresh [OF s] profD(3) [OF s] mset_eq_imp_distinct_iff [of "owned d (ms[i := m])" "hd_next s # owned d ms"]
    by simp
  have base: "base (hd_next s) = None"
    using profD(5) [OF s prof_fresh [OF s]] profD(7) [OF s, of "hd_next s"] by simp
  have "a \<in> set (owned d ms)" "a \<noteq> p" using a(1) profD(3) [OF s] by (auto simp: owned_def)
  then show ?thesis
    using s a dist prof_fresh [OF s] base profD(7) [OF s, of a] set unfolding prof_def by (auto simp: maps_at_def)
qed

section \<open>Freeing\<close>

abbreviation without :: "'w hidd_st \<Rightarrow> nat set \<Rightarrow> 'w hidd_st" where
  "without s X \<equiv> s\<lparr>hd_blocks := hd_blocks s |` (- X)\<rparr>"

lemma restrict_UNIV [simp]: "m |` UNIV = m"
  by (rule ext) simp

lemma without_without: "without (without s X) Y = without s (X \<union> Y)"
  by (simp add: restrict_restrict Int_commute)

lemma free_ptr:
  "set (ptr_list q) \<subseteq> dom (hd_blocks s) \<Longrightarrow> hidd_free q s = Inr ((), without s (set (ptr_list q)))"
  by (cases q) (auto simp: hidd_free_def restrict_map_def fun_eq_iff split: option.split)

lemma free_map_run:
  assumes "get_map q i s = Inr (m, s)" and "distinct (map_owned m)" and "set (map_owned m) \<subseteq> dom (hd_blocks s)"
  shows "free_map q i s = Inr ((), without s (set (map_owned m)))"
proof -
  have 1: "hidd_free (dm_reports m) s = Inr ((), without s (set (ptr_list (dm_reports m))))"
    by (rule free_ptr) (use assms(3) in \<open>simp add: map_owned_def\<close>)
  have "hidd_free (dm_map_data m) (without s (set (ptr_list (dm_reports m))))
      = Inr ((), without (without s (set (ptr_list (dm_reports m)))) (set (ptr_list (dm_map_data m))))"
    by (rule free_ptr) (use assms(2,3) in \<open>auto simp: map_owned_def\<close>)
  then show ?thesis
    by (simp only: free_map_def sbind_Inr [where m = "get_map q i", OF assms(1)] sseq_Inr [where m = "hidd_free (dm_reports m)", OF 1]
        without_without map_owned_def set_append)
qed

lemma dom_without:
  "Y \<subseteq> dom (hd_blocks s) - A \<Longrightarrow> Y \<inter> X = {} \<Longrightarrow> Y \<subseteq> dom (hd_blocks (without s X)) - A"
  by auto

lemma free_maps_run:
  assumes "hd_blocks s a = Some (MapArray ms)" and "\<forall>i \<in> set is. i < length ms"
    and "distinct (concat (List.map (\<lambda>i. map_owned (ms ! i)) is))"
    and "set (concat (List.map (\<lambda>i. map_owned (ms ! i)) is)) \<subseteq> dom (hd_blocks s) - {a}"
  shows "sfor is (free_map (Some a)) s = Inr ((), without s (set (concat (List.map (\<lambda>i. map_owned (ms ! i)) is))))"
  using assms
proof (induction "is" arbitrary: s)
  case Nil
  then show ?case by simp
next
  case (Cons i js)
  let ?X = "set (map_owned (ms ! i))"
  have "get_map (Some a) i s = Inr (ms ! i, s)"
    using Cons.prems(1,2) by (simp add: get_map_def hidd_block_at_def sbind_def)
  from free_map_run [OF this] Cons.prems(3,4) have 1: "free_map (Some a) i s = Inr ((), without s ?X)" by auto
  have "sfor js (free_map (Some a)) (without s ?X)
      = Inr ((), without (without s ?X) (set (concat (List.map (\<lambda>i. map_owned (ms ! i)) js))))"
  proof (rule Cons.IH)
    have "a \<notin> ?X" using Cons.prems(4) by auto
    then show "hd_blocks (without s ?X) a = Some (MapArray ms)" using Cons.prems(1) by simp
    have "set (concat (List.map (\<lambda>i. map_owned (ms ! i)) js)) \<inter> ?X = {}" using Cons.prems(3) by auto
    moreover have "set (concat (List.map (\<lambda>i. map_owned (ms ! i)) js)) \<subseteq> dom (hd_blocks s) - {a}"
      using Cons.prems(4) by simp
    ultimately show "set (concat (List.map (\<lambda>i. map_owned (ms ! i)) js)) \<subseteq> dom (hd_blocks (without s ?X)) - {a}"
      by (intro dom_without)
    show "\<forall>i \<in> set js. i < length ms" using Cons.prems(2) by simp
    show "distinct (concat (List.map (\<lambda>i. map_owned (ms ! i)) js))" using Cons.prems(3) by simp
  qed
  then show ?case
    by (simp only: sfor.simps sseq_Inr [where m = "free_map (Some a) i", OF 1] without_without) simp
qed

text \<open>Freeing the configuration: what is left is the device block.\<close>

lemma free_names_run:
  assumes "distinct (names_owned c)" and "set (names_owned c) \<subseteq> dom (hd_blocks s)"
  shows "sseq (hidd_free (hd_device_name c)) (sseq (hidd_free (hd_manufacturer_name c))
           (sseq (hidd_free (hd_serial_number c)) k)) s = k (without s (set (names_owned c)))"
proof -
  let ?a = "set (ptr_list (hd_device_name c))" and ?b = "set (ptr_list (hd_manufacturer_name c))"
    and ?c = "set (ptr_list (hd_serial_number c))"
  have 1: "hidd_free (hd_device_name c) s = Inr ((), without s ?a)"
    by (rule free_ptr) (use assms(2) in \<open>simp add: names_owned_def\<close>)
  have 2: "hidd_free (hd_manufacturer_name c) (without s ?a) = Inr ((), without s (?a \<union> ?b))"
    unfolding without_without [symmetric] by (rule free_ptr) (use assms in \<open>auto simp: names_owned_def\<close>)
  have 3: "hidd_free (hd_serial_number c) (without s (?a \<union> ?b)) = Inr ((), without s (?a \<union> ?b \<union> ?c))"
    unfolding without_without [symmetric, of s "?a \<union> ?b"] by (rule free_ptr) (use assms in \<open>auto simp: names_owned_def\<close>)
  show ?thesis
    by (simp only: sseq_Inr [where m = "hidd_free (hd_device_name c)", OF 1]
        sseq_Inr [where m = "hidd_free (hd_manufacturer_name c)", OF 2]
        sseq_Inr [where m = "hidd_free (hd_serial_number c)", OF 3] names_owned_def set_append Un_assoc)
qed

lemma prof_free_config:
  fixes s :: "'a hidd_st"
  assumes s: "prof base p d ms s"
  shows "ble_hid_free_config (Some p) s = Inr (0, s\<lparr>hd_blocks := base(p := Some (BleBlock d)),
      hd_loops := hd_loops s - (if bd_event_loop d then 1 else 0)\<rparr>)"
proof -
  let ?M = "set (concat (List.map map_owned ms))" and ?D = "set (ptr_list (bd_devices d))"
    and ?N = "set (names_owned (bd_config d))"
  have dist: "distinct (owned d ms)" and dom: "set (owned d ms) \<subseteq> dom (hd_blocks s)"
    using profD(3,4) [OF s] by auto
  have idx: "List.map (\<lambda>i. map_owned (ms ! i)) [0..<length ms] = List.map map_owned ms"
    by (rule nth_equalityI) simp_all
  have maps: "sfor [0..<unat (bd_devices_len d)] (free_map (bd_devices d)) s = Inr ((), without s ?M)"
  proof (cases "bd_devices d")
    case None
    then show ?thesis using profD(2) [OF s] by (simp add: maps_at_def)
  next
    case (Some a)
    then have a: "hd_blocks s a = Some (MapArray ms)" "unat (bd_devices_len d) = length ms"
      using profD(2) [OF s] by (auto simp: maps_at_def)
    have "sfor [0..<length ms] (free_map (Some a)) s = Inr ((), without s ?M)"
      unfolding idx [symmetric]
    proof (rule free_maps_run [OF a(1)])
      show "distinct (concat (List.map (\<lambda>i. map_owned (ms ! i)) [0..<length ms]))"
        using dist unfolding idx by (simp add: owned_def)
      have "a \<notin> ?M" using dist Some by (simp add: owned_def)
      moreover have "?M \<subseteq> dom (hd_blocks s)" using dom by (simp add: owned_def)
      ultimately show "set (concat (List.map (\<lambda>i. map_owned (ms ! i)) [0..<length ms])) \<subseteq> dom (hd_blocks s) - {a}"
        unfolding idx by blast
    qed simp
    then show ?thesis using Some a(2) by simp
  qed
  have dev: "hidd_free (bd_devices d) (without s ?M) = Inr ((), without s (?M \<union> ?D))"
    unfolding without_without [symmetric] by (rule free_ptr) (use dist dom in \<open>auto simp: owned_def\<close>)
  have names: "sseq (hidd_free (hd_device_name (bd_config d))) (sseq (hidd_free (hd_manufacturer_name (bd_config d)))
      (sseq (hidd_free (hd_serial_number (bd_config d))) k)) (without s (?M \<union> ?D)) = k (without s (?M \<union> ?D \<union> ?N))"
    for k :: "('a, int) hidd"
    unfolding without_without [symmetric, of s "?M \<union> ?D"] by (rule free_names_run) (use dist dom in \<open>auto simp: owned_def\<close>)
  have all: "?M \<union> ?D \<union> ?N = set (owned d ms)" by (simp add: owned_def Un_assoc)
  have left: "hd_blocks s |` (- set (owned d ms)) = base(p := Some (BleBlock d))"
  proof (rule ext)
    fix x show "(hd_blocks s |` (- set (owned d ms))) x = (base(p := Some (BleBlock d))) x"
      using profD(1,3) [OF s] profD(5,6) [OF s, of x] by (auto simp: restrict_map_def)
  qed
  show ?thesis
    unfolding ble_hid_free_config_def sbind_Inr [where m = "get_ble (Some p)", OF prof_get_ble [OF s]]
      sseq_Inr [where m = "sfor [0..<unat (bd_devices_len d)] (free_map (bd_devices d))", OF maps]
      sseq_Inr [where m = "hidd_free (bd_devices d)", OF dev] names all left
    by simp
qed

end
