(* ===== verification/HiddInit.thy ===== *)
theory HiddInit
  imports HiddInv HidParserInv
begin

text \<open>
  Reading the configuration of the HID device (\<open>ble_hid_init_config\<close>) keeps the invariant of the
  profile at every point where it can fail, and fills every map when it succeeds; building the data
  base (\<open>nimble_hid_start_gatts\<close>) then reads within the bounds of every block.
\<close>

section \<open>What stays\<close>

definition frame :: "'w hidd_st \<Rightarrow> 'w hidd_st \<Rightarrow> bool" where
  "frame s t \<longleftrightarrow> s_dev t = s_dev s \<and> service_index t = service_index s \<and> hd_listening t = hd_listening s
     \<and> hd_loops t = hd_loops s \<and> hd_mbufs t = hd_mbufs s \<and> hd_posted t = hd_posted s"

lemma frame_refl [simp]: "frame s s"
  by (simp add: frame_def)

lemma frame_trans [trans]: "frame s t \<Longrightarrow> frame t u \<Longrightarrow> frame s u"
  by (simp add: frame_def)

section \<open>The names\<close>

lemma prof_config:
  assumes s: "prof base p d ms s" and c: "names_owned c = names_owned (bd_config d)"
  shows "prof base p (d\<lparr>bd_config := c\<rparr>) ms (s\<lparr>hd_blocks := (hd_blocks s)(p := Some (BleBlock (d\<lparr>bd_config := c\<rparr>)))\<rparr>)"
  by (rule prof_upd_ble [OF s]) (simp_all add: c)

text \<open>The names that are there are strings with a terminating zero.\<close>

definition names_full :: "(nat \<Rightarrow> hidd_block option) \<Rightarrow> hidd_config \<Rightarrow> bool" where
  "names_full h c \<longleftrightarrow> (\<forall>a \<in> set (names_owned c). \<exists>bs. h a = Some (Bytes bs) \<and> bs \<noteq> [])"

lemma name_step:
  fixes s :: "'a hidd_st"
  assumes s: "prof base p d ms s"
    and some: "\<And>a. mset (names_owned (f (Some a) (bd_config d))) = add_mset a (mset (names_owned (bd_config d)))"
    and none: "names_owned (f None (bd_config d)) = names_owned (bd_config d)"
    and names: "names_full (hd_blocks s) (bd_config d)"
  shows "\<exists>q t. (\<forall>k :: nat option \<Rightarrow> ('a, 'b) hidd. sbind (strdup_opt ga str) (\<lambda>q. sseq (upd_config (Some p) (f q)) (k q)) s = k q t)
     \<and> prof base p (d\<lparr>bd_config := f q (bd_config d)\<rparr>) ms t \<and> frame s t \<and> hd_parser t = hd_parser s
     \<and> names_full (hd_blocks t) (f q (bd_config d))"
proof -
  have not_p: "x \<noteq> p \<and> x \<noteq> hd_next s" if "x \<in> set (names_owned (bd_config d))" for x
    using profD(3) [OF s] prof_fresh [OF s] that by (auto simp: owned_def)
  let ?e = "\<lambda>q. d\<lparr>bd_config := f q (bd_config d)\<rparr>"
  have null: ?thesis
    if "strdup_opt ga str s = Inr (None, s\<lparr>hd_allocs := n\<rparr>)" for n
  proof -
    have "prof base p d ms (s\<lparr>hd_allocs := n\<rparr>)"
      using s by (rule prof_cong [THEN iffD1, rotated -1]) simp_all
    from prof_config [OF this none]
    have "prof base p (?e None) ms (s\<lparr>hd_allocs := n, hd_blocks := (hd_blocks s)(p := Some (BleBlock (?e None)))\<rparr>)"
      by simp
    then show ?thesis
      using profD(1) [OF s]
      by (intro exI [of _ None] exI [of _ "s\<lparr>hd_allocs := n, hd_blocks := (hd_blocks s)(p := Some (BleBlock (?e None)))\<rparr>"])
         (simp add: sbind_Inr [where m = "strdup_opt ga str", OF that] upd_config_def sseq_def
           sbind_Inr [where m = "upd_ble (Some p) g" for g, OF upd_ble_run [where d = d]] frame_def,
          use names none not_p in \<open>simp add: names_full_def\<close>)
  qed
  show ?thesis
  proof (cases str)
    case None
    then have "strdup_opt ga str s = Inr (None, s\<lparr>hd_allocs := hd_allocs s\<rparr>)" by (simp add: strdup_opt_def)
    then show ?thesis by (rule null)
  next
    case (Some bs)
    let ?a = "hd_next s"
    show ?thesis
    proof (cases "ga_malloc ga (hd_allocs s)")
      case False
      then have "strdup_opt ga str s = Inr (None, s\<lparr>hd_allocs := hd_allocs s + 1\<rparr>)"
        using Some by (simp add: strdup_opt_def hidd_malloc_def)
      then show ?thesis by (rule null)
    next
      case True
      let ?t = "s\<lparr>hd_allocs := hd_allocs s + 1, hd_blocks := (hd_blocks s)(?a := Some (Bytes (bs @ [0]))), hd_next := ?a + 1\<rparr>"
      let ?u = "s\<lparr>hd_allocs := hd_allocs s + 1, hd_blocks := (hd_blocks s)(?a := Some (Bytes (bs @ [0])),
          p := Some (BleBlock (?e (Some ?a)))), hd_next := ?a + 1\<rparr>"
      have run: "strdup_opt ga str s = Inr (Some ?a, ?t)"
        using True Some by (simp add: strdup_opt_def hidd_malloc_def)
      have "hd_blocks ?t p = Some (BleBlock d)" using profD(1) [OF s] prof_fresh [OF s] by simp
      from upd_ble_run [OF this]
      have upd: "upd_config (Some p) (f (Some ?a)) ?t = Inr ((), ?u)" by (simp add: upd_config_def)
      have "prof base p (?e (Some ?a)) ms ?u"
        by (rule prof_adopt [OF s]) (use some [of ?a] in \<open>simp_all add: owned_def\<close>)
      moreover have "sbind (strdup_opt ga str) (\<lambda>q. sseq (upd_config (Some p) (f q)) (k q)) s = k (Some ?a) ?u"
        for k :: "nat option \<Rightarrow> ('a, 'b) hidd"
        unfolding sbind_Inr [where m = "strdup_opt ga str", OF run]
          sseq_Inr [where m = "upd_config (Some p) (f (Some ?a))", OF upd] ..
      moreover have "frame s ?u" "hd_parser ?u = hd_parser s" by (simp_all add: frame_def)
      moreover have "set (names_owned (f (Some ?a) (bd_config d))) = insert ?a (set (names_owned (bd_config d)))"
        using some [of ?a] by (metis set_mset_add_mset_insert set_mset_mset)
      then have "names_full (hd_blocks ?u) (f (Some ?a) (bd_config d))"
        using names not_p prof_fresh [OF s] by (auto simp: names_full_def)
      ultimately show ?thesis by blast
    qed
  qed
qed

section \<open>The report maps\<close>

text \<open>A configuration whose arrays hold what their lengths say, and the bytes of its maps.\<close>

definition config_ok :: "esp_hid_device_config_t \<Rightarrow> bool" where
  "config_ok config \<longleftrightarrow> length (cf_report_maps config) = unat (cf_report_maps_len config)
     \<and> (\<forall>raw \<in> set (cf_report_maps config). raw_len raw = 0
          \<or> (\<exists>bs. raw_data raw = Some bs \<and> unat (raw_len raw) \<le> length bs))"

definition raw_of :: "esp_hid_raw_report_map_t \<Rightarrow> u8 list" where
  "raw_of raw = take (unat (raw_len raw)) (case raw_data raw of None \<Rightarrow> [] | Some bs \<Rightarrow> bs)"

lemma raw_bytes_ok:
  assumes "config_ok config" and "i < length (cf_report_maps config)"
  shows "raw_bytes config i s = Inr (raw_of (cf_report_maps config ! i), s)"
    and "length (raw_of (cf_report_maps config ! i)) = unat (raw_len (cf_report_maps config ! i))"
proof -
  have "cf_report_maps config ! i \<in> set (cf_report_maps config)" using assms(2) by simp
  then have "raw_len (cf_report_maps config ! i) = 0
      \<or> (\<exists>bs. raw_data (cf_report_maps config ! i) = Some bs \<and> unat (raw_len (cf_report_maps config ! i)) \<le> length bs)"
    using assms(1) by (auto simp: config_ok_def)
  then show "raw_bytes config i s = Inr (raw_of (cf_report_maps config ! i), s)"
    and "length (raw_of (cf_report_maps config ! i)) = unat (raw_len (cf_report_maps config ! i))"
    using assms(2) by (auto simp: raw_bytes_def raw_of_def Let_def)
qed

text \<open>The parser returns on every map up to the first it refuses, from the state it is in.\<close>

fun parses :: "(nat \<Rightarrow> bool) \<Rightarrow> u8 list list \<Rightarrow> hid_parser \<Rightarrow> bool" where
  "parses mok [] p = True"
| "parses mok (d # ds) p =
     (case esp_hid_parse_report_map mok d p of
        (Inl e, q) \<Rightarrow> False
      | (Inr None, q) \<Rightarrow> True
      | (Inr (Some m), q) \<Rightarrow> parses mok ds (heap_free (heap_free q)))"

text \<open>A map whose two blocks hold what its lengths say.\<close>

definition full :: "(nat \<Rightarrow> hidd_block option) \<Rightarrow> hidd_dev_map_t \<Rightarrow> bool" where
  "full h m \<longleftrightarrow> (\<exists>a rs b bs. dm_reports m = Some a \<and> h a = Some (ReportArray rs) \<and> length rs = unat (dm_reports_len m)
     \<and> length rs \<le> 64 \<and> dm_map_data m = Some b \<and> h b = Some (Bytes bs) \<and> length bs = unat (dm_map_len m))"

lemma full_keep: "full h m \<Longrightarrow> (\<And>x. x \<in> set (map_owned m) \<Longrightarrow> h' x = h x) \<Longrightarrow> full h' m"
  unfolding full_def map_owned_def by fastforce

text \<open>The blocks an operation on the profile may not touch.\<close>

definition others_keep :: "nat \<Rightarrow> esp_ble_hidd_dev_t \<Rightarrow> 'w hidd_st \<Rightarrow> 'w hidd_st \<Rightarrow> bool" where
  "others_keep p d s t \<longleftrightarrow> hd_next s \<le> hd_next t
     \<and> (\<forall>x < hd_next s. x \<noteq> p \<longrightarrow> bd_devices d \<noteq> Some x \<longrightarrow> hd_blocks t x = hd_blocks s x)"

lemma others_keep_refl: "others_keep p d s s"
  by (simp add: others_keep_def)

lemma others_keep_trans:
  "others_keep p d s t \<Longrightarrow> others_keep p e t u \<Longrightarrow> bd_devices e = bd_devices d \<Longrightarrow> others_keep p d s u"
  by (simp add: others_keep_def)

lemma full_others:
  assumes "prof base p d ms s" and "m \<in> set ms" and "full (hd_blocks s) m" and "others_keep p d s t"
  shows "full (hd_blocks t) m"
proof (rule full_keep [OF assms(3)])
  fix x assume "x \<in> set (map_owned m)"
  then have x: "x \<in> set (concat (List.map map_owned ms))" using assms(2) by auto
  then have own: "x \<in> set (owned d ms)" by (simp add: owned_def)
  have "x < hd_next s" using profD(4) [OF assms(1) own] profD(7) [OF assms(1), of x] by (meson not_le)
  moreover have "x \<noteq> p" using profD(3) [OF assms(1)] own by auto
  moreover have "bd_devices d \<noteq> Some x" using profD(3) [OF assms(1)] x by (auto simp: owned_def)
  ultimately show "hd_blocks t x = hd_blocks s x" using assms(4) by (simp add: others_keep_def)
qed

section \<open>One map\<close>

definition after_alloc :: "hidd_block \<Rightarrow> 'w hidd_st \<Rightarrow> 'w hidd_st" where
  "after_alloc b s = s\<lparr>hd_allocs := hd_allocs s + 1, hd_blocks := (hd_blocks s)(hd_next s := Some b),
     hd_next := hd_next s + 1\<rparr>"

lemma malloc_cases:
  "hidd_malloc mok b s =
     (if mok (hd_allocs s) then Inr (Some (hd_next s), after_alloc b s) else Inr (None, s\<lparr>hd_allocs := hd_allocs s + 1\<rparr>))"
  by (simp add: hidd_malloc_def after_alloc_def)

definition step_ok ::
  "(nat \<Rightarrow> hidd_block option) \<Rightarrow> nat \<Rightarrow> esp_ble_hidd_dev_t \<Rightarrow> 'w hidd_st \<Rightarrow>
     esp_ble_hidd_dev_t \<Rightarrow> hidd_dev_map_t list \<Rightarrow> 'w hidd_st \<Rightarrow> bool" where
  "step_ok base p d s e ms t \<longleftrightarrow> prof base p e ms t \<and> frame s t \<and> others_keep p d s t \<and> hd_parser t = hd_parser s"

lemma step_other:
  assumes "prof base p d ms s" and "hd_blocks t = hd_blocks s" "hd_next t = hd_next s" "frame s t"
  shows "prof base p d ms t \<and> frame s t \<and> others_keep p d s t"
  using assms prof_cong [of s t] by (simp add: others_keep_def)

text \<open>A new block that a map adopts.\<close>

lemma map_new_block:
  assumes s: "prof base p d ms s" and i: "i < length ms"
    and m: "mset (map_owned (f (ms ! i))) = add_mset (hd_next s) (mset (map_owned (ms ! i)))"
  shows "\<exists>t. upd_map (bd_devices d) i f (after_alloc b s) = Inr ((), t)
     \<and> step_ok base p d s d (ms[i := f (ms ! i)]) t \<and> hd_blocks t (hd_next s) = Some b"
proof -
  obtain a where a: "bd_devices d = Some a" "hd_blocks s a = Some (MapArray ms)" "length ms = unat (bd_devices_len d)"
    using profD(2) [OF s] i by (auto simp: maps_at_def split: option.splits)
  have ne: "a \<noteq> hd_next s" using a(1) prof_fresh [OF s] by (auto simp: owned_def)
  let ?t = "(after_alloc b s)\<lparr>hd_blocks := (hd_blocks (after_alloc b s))(a := Some (MapArray (ms[i := f (ms ! i)])))\<rparr>"
  have "maps_at (after_alloc b s) d ms" using a ne by (simp add: maps_at_def after_alloc_def)
  from upd_map_run [OF this i] have "upd_map (bd_devices d) i f (after_alloc b s) = Inr ((), ?t)" by (simp add: a(1))
  moreover have "prof base p d (ms[i := f (ms ! i)]) ?t"
    by (rule prof_map_adopt [OF s i m, THEN prof_cong [THEN iffD1, rotated -1]]) (simp_all add: after_alloc_def a(1))
  ultimately show ?thesis
    using a(1) ne by (auto simp: step_ok_def frame_def others_keep_def after_alloc_def)
qed

text \<open>A field of a map, or of the device, that owns nothing.\<close>

lemma map_set_field:
  assumes s: "prof base p d ms s" and i: "i < length ms" and m: "map_owned (f (ms ! i)) = map_owned (ms ! i)"
  shows "\<exists>t. upd_map (bd_devices d) i f s = Inr ((), t) \<and> step_ok base p d s d (ms[i := f (ms ! i)]) t"
  using upd_map_run [OF profD(2) [OF s] i] prof_upd_map [OF s i m] profD(2) [OF s] i
  by (auto simp: step_ok_def frame_def others_keep_def maps_at_def split: option.splits)

lemma dev_set_field:
  assumes s: "prof base p d ms s" and f: "bd_devices (f d) = bd_devices d" "bd_devices_len (f d) = bd_devices_len d"
    "bd_config (f d) = bd_config d"
  shows "\<exists>t. upd_ble (Some p) f s = Inr ((), t) \<and> step_ok base p d s (f d) ms t"
  using upd_ble_run [OF profD(1) [OF s]] prof_upd_ble [OF s f(1,2)] f(3)
  by (simp add: step_ok_def frame_def others_keep_def)

text \<open>The second half of a map: the array of its reports.\<close>

lemma init_reports_run:
  assumes s: "prof base p d ms s" and i: "i < length ms" and m: "dm_reports (ms ! i) = None"
  shows "\<exists>rp t rc. sbind (hidd_malloc (ga_malloc ga) (ReportArray rs)) (\<lambda>rp.
        sseq (upd_map (bd_devices d) i (\<lambda>m. m\<lparr>dm_reports := rp\<rparr>))
          (if rp = None then sseq parser_free (sret ESP_FAIL) else sseq parser_free (sseq parser_free (sret 0)))) s = Inr (rc, t)
      \<and> prof base p d (ms[i := (ms ! i)\<lparr>dm_reports := rp\<rparr>]) t \<and> frame s t \<and> others_keep p d s t
      \<and> (rc = 0 \<longrightarrow> (\<exists>a. rp = Some a \<and> hd_blocks t a = Some (ReportArray rs))
           \<and> hd_parser t = heap_free (heap_free (hd_parser s)))"
proof (cases "ga_malloc ga (hd_allocs s)")
  case False
  let ?s = "s\<lparr>hd_allocs := hd_allocs s + 1\<rparr>"
  have "prof base p d ms ?s" using step_other [OF s, of ?s] by (simp add: frame_def)
  then obtain t where t: "upd_map (bd_devices d) i (\<lambda>m. m\<lparr>dm_reports := None\<rparr>) ?s = Inr ((), t)"
    "step_ok base p d ?s d (ms[i := (ms ! i)\<lparr>dm_reports := None\<rparr>]) t"
    using map_set_field [where f = "\<lambda>m. m\<lparr>dm_reports := None\<rparr>", OF _ i] m by (fastforce simp: map_owned_def)
  let ?u = "t\<lparr>hd_parser := heap_free (hd_parser t)\<rparr>"
  have "prof base p d (ms[i := (ms ! i)\<lparr>dm_reports := None\<rparr>]) ?u" "frame s ?u" "others_keep p d s ?u"
    using t(2) step_other [of base p d "ms[i := (ms ! i)\<lparr>dm_reports := None\<rparr>]" t ?u]
    by (simp_all add: step_ok_def frame_def others_keep_def)
  then show ?thesis
    using False t(1) by (intro exI [of _ None] exI [of _ ?u] exI [of _ ESP_FAIL])
      (simp add: sbind_def sseq_def malloc_cases parser_free_def ESP_FAIL_def)
next
  case True
  let ?a = "hd_next s"
  obtain t where t: "upd_map (bd_devices d) i (\<lambda>m. m\<lparr>dm_reports := Some ?a\<rparr>) (after_alloc (ReportArray rs) s) = Inr ((), t)"
    "step_ok base p d s d (ms[i := (ms ! i)\<lparr>dm_reports := Some ?a\<rparr>]) t" "hd_blocks t ?a = Some (ReportArray rs)"
    using map_new_block [where f = "\<lambda>m. m\<lparr>dm_reports := Some ?a\<rparr>" and b = "ReportArray rs", OF s i] m
    by (auto simp: map_owned_def)
  let ?u = "t\<lparr>hd_parser := heap_free (heap_free (hd_parser t))\<rparr>"
  have "prof base p d (ms[i := (ms ! i)\<lparr>dm_reports := Some ?a\<rparr>]) ?u" "frame s ?u" "others_keep p d s ?u"
    using t(2) step_other [of base p d "ms[i := (ms ! i)\<lparr>dm_reports := Some ?a\<rparr>]" t ?u]
    by (simp_all add: step_ok_def frame_def others_keep_def)
  then show ?thesis
    using True t by (intro exI [of _ "Some ?a"] exI [of _ ?u] exI [of _ 0])
      (simp add: sbind_def sseq_def malloc_cases parser_free_def step_ok_def)
qed

text \<open>One map of the configuration, whatever fails.\<close>

lemma init_map_run:
  fixes s :: "'a hidd_st"
  assumes s: "prof base p d ms s" and cfg: "config_ok config" and i: "i < length (cf_report_maps config)" "i < length ms"
    and zero: "ms ! i = dev_map_zero" and wf: "parser_wf (hd_parser s)"
    and parse: "esp_hid_parse_report_map (ga_malloc ga) (raw_of (cf_report_maps config ! i)) (hd_parser s) = (Inr rmap, q)"
  shows "\<exists>rc t m e. init_map ga (Some p) config i s = Inr (rc, t) \<and> (\<exists>x. e = d\<lparr>bd_appearance := x\<rparr>)
     \<and> prof base p e (ms[i := m]) t \<and> frame s t \<and> others_keep p d s t
     \<and> (rc = 0 \<longrightarrow> full (hd_blocks t) m \<and> dm_map_len m = raw_len (cf_report_maps config ! i)
           \<and> rmap \<noteq> None \<and> hd_parser t = heap_free (heap_free q))"
proof -
  let ?raw = "cf_report_maps config ! i" and ?a = "hd_next s"
  let ?data = "raw_of ?raw" and ?fail = "\<lambda>t e m. init_map ga (Some p) config i s = Inr (ESP_FAIL, t)
     \<and> (\<exists>x. e = d\<lparr>bd_appearance := x\<rparr>) \<and> prof base p e (ms[i := m]) t \<and> frame s t \<and> others_keep p d s t"
  have same: "\<exists>x. d = d\<lparr>bd_appearance := x\<rparr>" by (rule exI [of _ "bd_appearance d"]) simp
  have failed: ?thesis if "?fail t e m" for t e m
    using that by (intro exI [of _ ESP_FAIL] exI [of _ t] exI [of _ m] exI [of _ e]) (simp add: ESP_FAIL_def)
  have raw: "raw_bytes config i s = Inr (?data, s)" "length ?data = unat (raw_len ?raw)"
    using raw_bytes_ok [OF cfg i(1)] by simp_all
  show ?thesis
  proof (cases "ga_malloc ga (hd_allocs s)")
    case False
    let ?t = "s\<lparr>hd_allocs := hd_allocs s + 1\<rparr>"
    have "init_map ga (Some p) config i s = Inr (ESP_FAIL, ?t)"
      using False by (simp add: init_map_def raw(1) sbind_def malloc_cases)
    then have "?fail ?t d (ms ! i)" using step_other [OF s, of ?t] same by (simp add: frame_def)
    then show ?thesis by (rule failed)
  next
    case True
    let ?f1 = "\<lambda>m. m\<lparr>dm_map_data := Some ?a, dm_map_len := of_nat (length ?data)\<rparr>"
    let ?ms1 = "ms[i := ?f1 (ms ! i)]"
    obtain t1 where t1: "upd_map (bd_devices d) i ?f1 (after_alloc (Bytes ?data) s) = Inr ((), t1)"
      "step_ok base p d s d ?ms1 t1" "hd_blocks t1 ?a = Some (Bytes ?data)"
      using map_new_block [where f = ?f1 and b = "Bytes ?data", OF s i(2)] zero by (auto simp: map_owned_def dev_map_zero_def)
    have get: "get_ble (Some p) (after_alloc (Bytes ?data) s) = Inr (d, after_alloc (Bytes ?data) s)"
      using profD(1) [OF s] prof_fresh [OF s] by (simp add: get_ble_def hidd_block_at_def sbind_def after_alloc_def)
    let ?t2 = "t1\<lparr>hd_parser := q\<rparr>"
    have t2: "prof base p d ?ms1 ?t2" "frame s ?t2" "others_keep p d s ?t2"
      using t1(2) step_other [of base p d ?ms1 t1 ?t2] by (simp_all add: step_ok_def frame_def others_keep_def)
    have mal: "hidd_malloc (ga_malloc ga) (Bytes ?data) s = Inr (Some ?a, after_alloc (Bytes ?data) s)"
      using True by (simp add: malloc_cases)
    have parsed: "hidd_parse ga ?data t1 = Inr (rmap, ?t2)"
      using parse t1(2) by (simp add: hidd_parse_def step_ok_def)
    define rest :: "esp_hid_report_map_t \<Rightarrow> ('a, int) hidd" where "rest = (\<lambda>rm. sseq (upd_ble (Some p) (\<lambda>b. b\<lparr>bd_appearance := rm_appearance rm\<rparr>))
        (sseq (upd_map (bd_devices d) i (\<lambda>m. m\<lparr>dm_reports_len := rm_reports_len rm\<rparr>))
        (sbind (hidd_malloc (ga_malloc ga) (ReportArray (List.map (hidd_report_of i)
                          (take (unat (rm_reports_len rm)) (rm_reports rm))))) (\<lambda>rp.
           sseq (upd_map (bd_devices d) i (\<lambda>m. m\<lparr>dm_reports := rp\<rparr>))
             (if rp = None then sseq parser_free (sret ESP_FAIL)
              else sseq parser_free (sseq parser_free (sret 0)))))))"
    have run: "init_map ga (Some p) config i s = (case rmap of None \<Rightarrow> Inr (ESP_FAIL, ?t2) | Some rm \<Rightarrow> rest rm ?t2)"
      by (simp add: init_map_def rest_def sbind_Inr [where m = "raw_bytes config i", OF raw(1)]
            sbind_Inr [where m = "hidd_malloc (ga_malloc ga) (Bytes ?data)", OF mal]
            sbind_Inr [where m = "get_ble (Some p)", OF get]
            sseq_Inr [where m = "upd_map (bd_devices d) i ?f1", OF t1(1)]
            sbind_Inr [where m = "hidd_parse ga ?data", OF parsed] split: option.split)
    show ?thesis
    proof (cases rmap)
      case None
      then have "?fail ?t2 d (?f1 (ms ! i))" using t2 run same by simp
      then show ?thesis by (rule failed)
    next
      case (Some rm)
      let ?e = "d\<lparr>bd_appearance := rm_appearance rm\<rparr>"
      obtain t3 where t3: "upd_ble (Some p) (\<lambda>b. b\<lparr>bd_appearance := rm_appearance rm\<rparr>) ?t2 = Inr ((), t3)"
        "step_ok base p d ?t2 ?e ?ms1 t3"
        using dev_set_field [where f = "\<lambda>b. b\<lparr>bd_appearance := rm_appearance rm\<rparr>", OF t2(1)] by auto
      let ?f4 = "\<lambda>m. m\<lparr>dm_reports_len := rm_reports_len rm\<rparr>"
      let ?ms4 = "?ms1[i := ?f4 (?ms1 ! i)]"
      obtain t4 where t4: "upd_map (bd_devices ?e) i ?f4 t3 = Inr ((), t4)" "step_ok base p ?e t3 ?e ?ms4 t4"
        using map_set_field [where f = ?f4 and d = ?e and ms = ?ms1 and i = i and s = t3] t3(2) i(2)
        by (auto simp: step_ok_def map_owned_def)
      have p4: "prof base p ?e ?ms4 t4" "i < length ?ms4" "dm_reports (?ms4 ! i) = None"
        using t4(2) i(2) zero by (simp_all add: step_ok_def dev_map_zero_def)
      obtain rp t5 rc where t5: "rest rm ?t2 = Inr (rc, t5)"
        "prof base p ?e (?ms4[i := (?ms4 ! i)\<lparr>dm_reports := rp\<rparr>]) t5" "frame t4 t5" "others_keep p ?e t4 t5"
        "rc = 0 \<longrightarrow> (\<exists>a. rp = Some a \<and> hd_blocks t5 a = Some (ReportArray (List.map (hidd_report_of i)
             (take (unat (rm_reports_len rm)) (rm_reports rm))))) \<and> hd_parser t5 = heap_free (heap_free (hd_parser t4))"
        using init_reports_run [OF p4, of ga "List.map (hidd_report_of i) (take (unat (rm_reports_len rm)) (rm_reports rm))"]
        t4(1) by (auto simp: rest_def sseq_Inr [where m = "upd_ble (Some p) g" for g, OF t3(1)]
             sseq_Inr [where m = "upd_map (bd_devices d) i ?f4" and s = t3])
      define m where "m = (?ms4 ! i)\<lparr>dm_reports := rp\<rparr>"
      have ms: "?ms4[i := m] = ms[i := m]" by simp
      have fr: "frame s t5" using t2(2) t3(2) t4(2) t5(3) by (simp add: step_ok_def frame_def)
      have ot: "others_keep p d s t5"
        using t2(3) t3(2) t4(2) t5(4) by (auto simp: step_ok_def others_keep_def)
      have par: "hd_parser t4 = q" using t3(2) t4(2) by (simp add: step_ok_def)
      have len: "length (rm_reports rm) \<le> 64" "unat (rm_reports_len rm) = length (rm_reports rm)"
        using parse_map_wf [OF wf, of "ga_malloc ga" ?data rm q] parse Some by simp_all
      have a: "?a < hd_next t1" "?a \<noteq> p" "bd_devices d \<noteq> Some ?a"
      proof -
        have "hd_blocks t1 ?a \<noteq> None" using t1(3) by simp
        then show "?a < hd_next t1" using t1(2) profD(7) [of base p d ?ms1 t1 ?a] by (meson not_le step_ok_def)
        show "?a \<noteq> p" "bd_devices d \<noteq> Some ?a" using prof_fresh [OF s] by (auto simp: owned_def)
      qed
      have "hd_blocks t5 ?a = Some (Bytes ?data)"
        using a t1(3) t3(2) t4(2) t5(4) by (simp add: step_ok_def others_keep_def)
      then have "full (hd_blocks t5) m \<and> dm_map_len m = raw_len ?raw" if "rc = 0"
        using t5(5) that i(2) len raw(2) by (auto simp: full_def m_def unat_of_nat)
      then show ?thesis
        using t5(1,2,5) fr ot run Some par ms
        by (intro exI [of _ rc] exI [of _ t5] exI [of _ m] exI [of _ ?e]) (auto simp: m_def)
    qed
  qed
qed

section \<open>All maps, and the configuration\<close>

definition filled :: "esp_hid_device_config_t \<Rightarrow> 'w hidd_st \<Rightarrow> hidd_dev_map_t list \<Rightarrow> nat \<Rightarrow> bool" where
  "filled config s ms n \<longleftrightarrow>
     (\<forall>i < n. full (hd_blocks s) (ms ! i) \<and> dm_map_len (ms ! i) = raw_len (cf_report_maps config ! i))"

lemma init_maps_run:
  assumes "prof base p d ms s" and cfg: "config_ok config" and len: "length ms = length (cf_report_maps config)"
    and "filled config s ms k" and "\<forall>i. k \<le> i \<longrightarrow> i < length ms \<longrightarrow> ms ! i = dev_map_zero"
    and "parser_wf (hd_parser s)"
    and "parses (ga_malloc ga) (List.map raw_of (drop k (cf_report_maps config))) (hd_parser s)"
  shows "\<exists>rc t ns e. init_maps ga (Some p) config [k..<length ms] s = Inr (rc, t) \<and> (\<exists>x. e = d\<lparr>bd_appearance := x\<rparr>)
     \<and> prof base p e ns t \<and> frame s t \<and> others_keep p d s t
     \<and> (rc = 0 \<longrightarrow> filled config t ns (length ms) \<and> length ns = length ms)"
  using assms(1,3-)
proof (induction "length ms - k" arbitrary: k s d ms)
  case 0
  have "\<exists>x. d = d\<lparr>bd_appearance := x\<rparr>" by (rule exI [of _ "bd_appearance d"]) simp
  moreover have "filled config s ms (length ms)" using 0(1,4) by (simp add: filled_def)
  ultimately show ?case using 0(1,2)
    by (intro exI [of _ 0] exI [of _ s] exI [of _ ms] exI [of _ d]) (simp add: others_keep_refl)
next
  case (Suc n)
  then have k: "k < length ms" "k < length (cf_report_maps config)" and up: "[k..<length ms] = k # [Suc k..<length ms]"
    by (simp_all add: upt_conv_Cons)
  let ?raw = "raw_of (cf_report_maps config ! k)"
  have drop: "drop k (cf_report_maps config) = cf_report_maps config ! k # drop (Suc k) (cf_report_maps config)"
    using k(2) by (simp add: Cons_nth_drop_Suc)
  obtain rmap q where pq: "esp_hid_parse_report_map (ga_malloc ga) ?raw (hd_parser s) = (Inr rmap, q)"
    and more: "\<And>m. rmap = Some m \<Longrightarrow>
      parses (ga_malloc ga) (List.map raw_of (drop (Suc k) (cf_report_maps config))) (heap_free (heap_free q))"
    using Suc.prems(6) by (auto simp: drop split: prod.splits sum.splits option.splits)
  obtain rc t m e where one: "init_map ga (Some p) config k s = Inr (rc, t)" "\<exists>x. e = d\<lparr>bd_appearance := x\<rparr>"
    "prof base p e (ms[k := m]) t" "frame s t" "others_keep p d s t"
    "rc = 0 \<longrightarrow> full (hd_blocks t) m \<and> dm_map_len m = raw_len (cf_report_maps config ! k)
           \<and> rmap \<noteq> None \<and> hd_parser t = heap_free (heap_free q)"
  proof -
    have "ms ! k = dev_map_zero" using Suc.prems(4) k(1) by simp
    from init_map_run [OF Suc.prems(1) cfg k(2,1) this Suc.prems(5) pq] that show thesis by blast
  qed
  show ?case
  proof (cases "rc = 0")
    case False
    then have "init_maps ga (Some p) config [k..<length ms] s = Inr (rc, t)" using one(1) by (simp add: up sbind_def)
    with one False show ?thesis by blast
  next
    case True
    have wf: "parser_wf (hd_parser t)"
    proof -
      obtain rm where "rmap = Some rm" using one(6) True by blast
      then have "parser_wf q" using parse_map_wf [OF Suc.prems(5)] pq by blast
      then show ?thesis using one(6) True by simp
    qed
    have fill: "filled config t (ms[k := m]) (Suc k)"
    proof -
      have "full (hd_blocks t) (ms ! i)" if "i < k" for i
        using Suc.prems(3) that k(1)
        by (intro full_others [OF Suc.prems(1) _ _ one(5)]) (auto simp: filled_def)
      then show ?thesis using one(6) True Suc.prems(3) k(1)
        by (auto simp: filled_def less_Suc_eq nth_list_update)
    qed
    have "\<exists>rc u ns f. init_maps ga (Some p) config [Suc k..<length (ms[k := m])] t = Inr (rc, u)
        \<and> (\<exists>x. f = e\<lparr>bd_appearance := x\<rparr>) \<and> prof base p f ns u \<and> frame t u \<and> others_keep p e t u
        \<and> (rc = 0 \<longrightarrow> filled config u ns (length (ms[k := m])) \<and> length ns = length (ms[k := m]))"
    proof (rule Suc.hyps(1) [OF _ one(3) _ fill _ wf])
      show "n = length (ms[k := m]) - Suc k" using Suc.hyps(2) by simp
      show "length (ms[k := m]) = length (cf_report_maps config)" using Suc.prems(2) by simp
      show "\<forall>i \<ge> Suc k. i < length (ms[k := m]) \<longrightarrow> (ms[k := m]) ! i = dev_map_zero" using Suc.prems(4) by simp
      show "parses (ga_malloc ga) (List.map raw_of (drop (Suc k) (cf_report_maps config))) (hd_parser t)"
        using more one(6) True by fastforce
    qed
    then obtain rc' u ns f where tl: "init_maps ga (Some p) config [Suc k..<length ms] t = Inr (rc', u)"
      "\<exists>x. f = e\<lparr>bd_appearance := x\<rparr>" "prof base p f ns u" "frame t u" "others_keep p e t u"
      "rc' = 0 \<longrightarrow> filled config u ns (length ms) \<and> length ns = length ms"
      by (simp only: length_list_update) blast
    have "init_maps ga (Some p) config [k..<length ms] s = Inr (rc', u)" using one(1) True tl(1) by (simp add: up sbind_def)
    moreover have "\<exists>x. f = d\<lparr>bd_appearance := x\<rparr>" using one(2) tl(2) by auto
    moreover have "others_keep p d s u" using others_keep_trans [OF one(5) tl(5)] one(2) by auto
    ultimately show ?thesis using tl(3,6) frame_trans [OF one(4) tl(4)] by blast
  qed
qed

text \<open>What of the device the configuration does not touch.\<close>

definition same_link :: "esp_ble_hidd_dev_t \<Rightarrow> esp_ble_hidd_dev_t \<Rightarrow> bool" where
  "same_link d e \<longleftrightarrow> bd_dev e = bd_dev d \<and> bd_event_loop e = bd_event_loop d \<and> bd_connected e = bd_connected d
     \<and> bd_conn_id e = bd_conn_id d \<and> bd_control e = bd_control d \<and> bd_protocol e = bd_protocol d"

text \<open>The array of the maps and the maps.\<close>

lemma init_devices_run:
  fixes s :: "'a hidd_st"
  assumes s: "prof base p d [] s" and d: "bd_devices d = None" and cfg: "config_ok config"
    and n: "cf_report_maps_len config \<noteq> 0" and wf: "parser_wf (hd_parser s)"
    and ps: "parses (ga_malloc ga) (List.map raw_of (cf_report_maps config)) (hd_parser s)"
  shows "\<exists>rc t ns e. sbind (hidd_malloc (ga_malloc ga) (MapArray (replicate (unat (cf_report_maps_len config)) dev_map_zero))) (\<lambda>ms.
               sseq (upd_ble (Some p) (\<lambda>b. b\<lparr>bd_devices := ms\<rparr>))
                 (if ms = None then sret ESP_FAIL
                  else sseq (upd_ble (Some p) (\<lambda>b. b\<lparr>bd_devices_len := cf_report_maps_len config\<rparr>))
                         (init_maps ga (Some p) config [0..<unat (cf_report_maps_len config)]))) s = Inr (rc, t)
     \<and> prof base p e ns t \<and> frame s t \<and> others_keep p d s t \<and> same_link d e \<and> bd_config e = bd_config d
     \<and> (rc = 0 \<longrightarrow> filled config t ns (length ns) \<and> length ns = length (cf_report_maps config))"
proof (cases "ga_malloc ga (hd_allocs s)")
  case False
  let ?s = "s\<lparr>hd_allocs := hd_allocs s + 1\<rparr>"
  have "prof base p d [] ?s" using step_other [OF s, of ?s] by (simp add: frame_def)
  from dev_set_field [where f = "\<lambda>b. b\<lparr>bd_devices := None\<rparr>", OF this]
  obtain t where "upd_ble (Some p) (\<lambda>b. b\<lparr>bd_devices := None\<rparr>) ?s = Inr ((), t)"
    "step_ok base p d ?s (d\<lparr>bd_devices := None\<rparr>) [] t" using d by auto
  then show ?thesis using False
    by (intro exI [of _ ESP_FAIL] exI [of _ t] exI [of _ "[]"] exI [of _ "d\<lparr>bd_devices := None\<rparr>"])
      (simp add: sbind_def sseq_def malloc_cases step_ok_def frame_def same_link_def others_keep_def ESP_FAIL_def)
next
  case True
  let ?ms = "replicate (unat (cf_report_maps_len config)) dev_map_zero" and ?a = "hd_next s"
  let ?e = "d\<lparr>bd_devices := Some ?a, bd_devices_len := cf_report_maps_len config\<rparr>"
  let ?t = "s\<lparr>hd_allocs := hd_allocs s + 1, hd_next := ?a + 1,
      hd_blocks := (hd_blocks s)(?a := Some (MapArray ?ms), p := Some (BleBlock ?e))\<rparr>"
  have empty: "concat (List.map map_owned ?ms) = []" by (simp add: map_owned_def dev_map_zero_def)
  have t: "prof base p ?e ?ms ?t"
    by (rule prof_new_maps [OF s d _ _ _ empty, THEN prof_cong [THEN iffD1, rotated -1]]) simp_all
  have ne: "p \<noteq> ?a" using prof_fresh [OF s] by simp
  have run: "sbind (hidd_malloc (ga_malloc ga) (MapArray ?ms)) (\<lambda>ms. sseq (upd_ble (Some p) (\<lambda>b. b\<lparr>bd_devices := ms\<rparr>))
      (if ms = None then sret ESP_FAIL
       else sseq (upd_ble (Some p) (\<lambda>b. b\<lparr>bd_devices_len := cf_report_maps_len config\<rparr>)) k)) s = k ?t" for k :: "('a, int) hidd"
    using True profD(1) [OF s] ne
    by (simp add: sbind_def [of "hidd_malloc mk b" for mk b] malloc_cases after_alloc_def sseq_def)
       (simp add: sbind_Inr [where m = "upd_ble (Some p) g" for g, OF upd_ble_run])
  have len: "length (cf_report_maps config) = unat (cf_report_maps_len config)" using cfg by (simp add: config_ok_def)
  obtain rc u ns f where u: "init_maps ga (Some p) config [0..<length ?ms] ?t = Inr (rc, u)"
    "\<exists>x. f = ?e\<lparr>bd_appearance := x\<rparr>" "prof base p f ns u" "frame ?t u" "others_keep p ?e ?t u"
    "rc = 0 \<longrightarrow> filled config u ns (length ?ms) \<and> length ns = length ?ms"
  proof -
    have 1: "length ?ms = length (cf_report_maps config)" "filled config ?t ?ms 0"
      "\<forall>i \<ge> 0. i < length ?ms \<longrightarrow> ?ms ! i = dev_map_zero" "parser_wf (hd_parser ?t)"
      "parses (ga_malloc ga) (List.map raw_of (drop 0 (cf_report_maps config))) (hd_parser ?t)"
      using wf ps len by (simp_all add: filled_def)
    from init_maps_run [OF t cfg 1] that show thesis by blast
  qed
  have "frame s u" by (rule frame_trans [OF _ u(4)]) (simp add: frame_def)
  moreover have "others_keep p d s u" using u(5) d by (auto simp: others_keep_def)
  ultimately show ?thesis
    unfolding run using u len by (intro exI [of _ rc] exI [of _ u] exI [of _ ns] exI [of _ f]) (auto simp: same_link_def)
qed

text \<open>
  The whole configuration: it ends without a fault, at every failure the device owns what it has been
  given so far, and on success every map is filled.
\<close>

lemma init_config_run:
  fixes s :: "'a hidd_st"
  assumes s: "prof base p d [] s" and d: "bd_devices d = None" "names_owned (bd_config d) = []" and cfg: "config_ok config"
    and wf: "parser_wf (hd_parser s)"
    and ps: "parses (ga_malloc ga) (List.map raw_of (cf_report_maps config)) (hd_parser s)"
  shows "\<exists>rc t ns e. ble_hid_init_config ga (Some p) config s = Inr (rc, t) \<and> prof base p e ns t \<and> frame s t \<and> same_link d e
     \<and> (rc = 0 \<longrightarrow> filled config t ns (length ns) \<and> length ns = length (cf_report_maps config)
           \<and> names_full (hd_blocks t) (bd_config e))"
proof -
  let ?c = "hidd_config_zero\<lparr>hd_vendor_id := cf_vendor_id config, hd_product_id := cf_product_id config, hd_version := cf_version config\<rparr>"
  let ?d1 = "d\<lparr>bd_config := ?c\<rparr>"
  have c: "names_owned ?c = []" by (simp add: names_owned_def hidd_config_zero_def)
  obtain s1 where s1: "upd_config (Some p) (\<lambda>_. ?c) s = Inr ((), s1)" "prof base p ?d1 [] s1" "frame s s1" "hd_parser s1 = hd_parser s"
    using upd_ble_run [OF profD(1) [OF s], of "\<lambda>d. d\<lparr>bd_config := ?c\<rparr>"] prof_config [OF s, of ?c] d(2) c
    by (auto simp: upd_config_def frame_def)
  let ?f1 = "\<lambda>q c. c\<lparr>hd_device_name := q\<rparr>" and ?f2 = "\<lambda>q c. c\<lparr>hd_manufacturer_name := q\<rparr>"
    and ?f3 = "\<lambda>q c. c\<lparr>hd_serial_number := q\<rparr>"
  obtain q1 s2 where s2: "\<forall>k :: nat option \<Rightarrow> ('a, int) hidd. sbind (strdup_opt ga (cf_device_name config))
        (\<lambda>q. sseq (upd_config (Some p) (?f1 q)) (k q)) s1 = k q1 s2"
      "prof base p (?d1\<lparr>bd_config := ?f1 q1 ?c\<rparr>) [] s2" "frame s1 s2" "hd_parser s2 = hd_parser s1"
      "names_full (hd_blocks s2) (?f1 q1 ?c)"
    using name_step [OF s1(2), where f = ?f1 and str = "cf_device_name config" and ga = ga]
    by (auto simp: names_owned_def hidd_config_zero_def names_full_def)
  let ?d2 = "?d1\<lparr>bd_config := ?f1 q1 ?c\<rparr>"
  obtain q2 s3 where s3: "\<forall>k :: nat option \<Rightarrow> ('a, int) hidd. sbind (strdup_opt ga (cf_manufacturer_name config))
        (\<lambda>q. sseq (upd_config (Some p) (?f2 q)) (k q)) s2 = k q2 s3"
      "prof base p (?d2\<lparr>bd_config := ?f2 q2 (?f1 q1 ?c)\<rparr>) [] s3" "frame s2 s3" "hd_parser s3 = hd_parser s2"
      "names_full (hd_blocks s3) (?f2 q2 (?f1 q1 ?c))"
    using name_step [OF s2(2), where f = ?f2 and str = "cf_manufacturer_name config" and ga = ga] s2(5)
    by (auto simp: names_owned_def hidd_config_zero_def)
  let ?d3 = "?d2\<lparr>bd_config := ?f2 q2 (?f1 q1 ?c)\<rparr>"
  obtain q3 s4 where s4: "\<forall>k :: nat option \<Rightarrow> ('a, int) hidd. sbind (strdup_opt ga (cf_serial_number config))
        (\<lambda>q. sseq (upd_config (Some p) (?f3 q)) (k q)) s3 = k q3 s4"
      "prof base p (?d3\<lparr>bd_config := ?f3 q3 (?f2 q2 (?f1 q1 ?c))\<rparr>) [] s4" "frame s3 s4" "hd_parser s4 = hd_parser s3"
      "names_full (hd_blocks s4) (?f3 q3 (?f2 q2 (?f1 q1 ?c)))"
    using name_step [OF s3(2), where f = ?f3 and str = "cf_serial_number config" and ga = ga] s3(5)
    by (auto simp: names_owned_def hidd_config_zero_def)
  let ?d4 = "?d3\<lparr>bd_config := ?f3 q3 (?f2 q2 (?f1 q1 ?c)), bd_appearance := ESP_HID_APPEARANCE_GENERIC\<rparr>"
  obtain s5 where s5: "upd_ble (Some p) (\<lambda>b. b\<lparr>bd_appearance := ESP_HID_APPEARANCE_GENERIC\<rparr>) s4 = Inr ((), s5)"
      "prof base p ?d4 [] s5" "frame s4 s5" "hd_parser s5 = hd_parser s4" "others_keep p ?d4 s4 s5"
    using d(1) dev_set_field [OF s4(2), where f = "\<lambda>b. b\<lparr>bd_appearance := ESP_HID_APPEARANCE_GENERIC\<rparr>"]
    by (auto simp: step_ok_def others_keep_def)
  have fr: "frame s s5" using s1(3) s2(3) s3(3) s4(3) s5(3) by (simp add: frame_def)
  have keep: "names_full (hd_blocks t) (bd_config ?d4)" if "others_keep p ?d4 s5 t" for t :: "'a hidd_st"
  proof -
    have "hd_blocks t x = hd_blocks s4 x" if x: "x \<in> set (names_owned (bd_config ?d4))" for x
    proof -
      have own: "x \<in> set (owned ?d4 [])" using x by (simp add: owned_def)
      have "x \<noteq> p" using profD(3) [OF s5(2)] own by auto
      have "x < hd_next s4" if "hd_blocks s4 x \<noteq> None" using that profD(7) [OF s4(2), of x] by (meson not_le)
      moreover have "hd_blocks s4 x \<noteq> None" using s4(5) x by (fastforce simp: names_full_def)
      ultimately show ?thesis
        using \<open>x \<noteq> p\<close> s5(5) \<open>others_keep p ?d4 s5 t\<close> d(1) by (simp add: others_keep_def)
    qed
    then show ?thesis using s4(5) by (simp add: names_full_def)
  qed
  have par: "hd_parser s5 = hd_parser s" using s1(4) s2(4) s3(4) s4(4) s5(4) by simp
  note run = ble_hid_init_config_def sseq_Inr [where m = "upd_config (Some p) (\<lambda>_. ?c)", OF s1(1)]
    s2(1) [rule_format] s3(1) [rule_format] s4(1) [rule_format]
    sseq_Inr [where m = "upd_ble (Some p) (\<lambda>b. b\<lparr>bd_appearance := ESP_HID_APPEARANCE_GENERIC\<rparr>)", OF s5(1)]
  show ?thesis
  proof (cases "cf_report_maps_len config = 0")
    case True
    have "length (cf_report_maps config) = 0" using True cfg by (simp add: config_ok_def)
    then show ?thesis unfolding run using True s5(2) fr
      by (intro exI [of _ 0] exI [of _ s5] exI [of _ "[]"] exI [of _ ?d4])
        (simp add: same_link_def filled_def, use keep [OF others_keep_refl] in simp)
  next
    case False
    have d4: "bd_devices ?d4 = None" using d(1) by simp
    have ps': "parser_wf (hd_parser s5)" "parses (ga_malloc ga) (List.map raw_of (cf_report_maps config)) (hd_parser s5)"
      using wf ps par by simp_all
    obtain rc t ns e where t: "sbind (hidd_malloc (ga_malloc ga) (MapArray (replicate (unat (cf_report_maps_len config)) dev_map_zero))) (\<lambda>ms.
               sseq (upd_ble (Some p) (\<lambda>b. b\<lparr>bd_devices := ms\<rparr>))
                 (if ms = None then sret ESP_FAIL
                  else sseq (upd_ble (Some p) (\<lambda>b. b\<lparr>bd_devices_len := cf_report_maps_len config\<rparr>))
                         (init_maps ga (Some p) config [0..<unat (cf_report_maps_len config)]))) s5 = Inr (rc, t)"
      "prof base p e ns t" "frame s5 t" "same_link ?d4 e" "others_keep p ?d4 s5 t" "bd_config e = bd_config ?d4"
      "rc = 0 \<longrightarrow> filled config t ns (length ns) \<and> length ns = length (cf_report_maps config)"
      using init_devices_run [OF s5(2) d4 cfg False ps'] by blast
    have "same_link d e" using t(4) by (simp add: same_link_def)
    moreover have "names_full (hd_blocks t) (bd_config e)" using keep [OF t(5)] by (simp add: t(6))
    ultimately show ?thesis unfolding run using False t(1,2,7) frame_trans [OF fr t(3)]
      by (intro exI [of _ rc] exI [of _ t] exI [of _ ns] exI [of _ e]) auto
  qed
qed

section \<open>The data base\<close>

text \<open>
  What the parameters of a service get from the reports of a map: the report-mode reports, in their
  order, with a reference each, as many as the array of the stack takes; the boot-mode ones as flags.
\<close>

definition in_report_mode :: "hidd_report_item_t \<Rightarrow> bool" where
  "in_report_mode r \<longleftrightarrow> hi_protocol_mode r = ESP_HID_PROTOCOL_MODE_REPORT"

definition report_ref :: "hidd_report_item_t \<Rightarrow> u8 \<times> u8" where
  "report_ref r = (if hi_report_type r \<in> {ESP_HID_REPORT_TYPE_INPUT, ESP_HID_REPORT_TYPE_OUTPUT} then hi_report_type r
                   else ESP_HID_REPORT_TYPE_FEATURE, hi_report_id r)"

definition boot_input :: "bool \<Rightarrow> hidd_report_item_t \<Rightarrow> bool" where
  "boot_input kbd r \<longleftrightarrow> \<not> in_report_mode r \<and> hi_report_type r = ESP_HID_REPORT_TYPE_INPUT
     \<and> (hi_usage r = ESP_HID_USAGE_KEYBOARD) = kbd"

definition boot_output :: "hidd_report_item_t \<Rightarrow> bool" where
  "boot_output r \<longleftrightarrow> \<not> in_report_mode r \<and> hi_report_type r \<noteq> ESP_HID_REPORT_TYPE_INPUT"

lemma hid_params_eqI:
  fixes a b :: ble_svc_hid_params
  assumes "hp_hid_info a = hp_hid_info b" "hp_report_map a = hp_report_map b" "hp_report_map_len a = hp_report_map_len b"
    "hp_external_rpt_ref a = hp_external_rpt_ref b" "hp_proto_mode_present a = hp_proto_mode_present b"
    "hp_proto_mode a = hp_proto_mode b" "hp_kbd_inp_present a = hp_kbd_inp_present b"
    "hp_kbd_out_present a = hp_kbd_out_present b" "hp_mouse_inp_present a = hp_mouse_inp_present b"
    "hp_rpts a = hp_rpts b" "hp_rpts_len a = hp_rpts_len b"
  shows "a = b"
  using assms by (cases a; cases b) simp

lemma add_rpts_spec:
  "length (hp_rpts hp) \<le> n \<Longrightarrow>
   add_rpts n rs hp =
     (if length (hp_rpts hp) + length (filter in_report_mode rs) \<le> n
      then Inr (hp\<lparr>hp_kbd_inp_present := hp_kbd_inp_present hp \<or> list_ex (boot_input True) rs,
                   hp_kbd_out_present := hp_kbd_out_present hp \<or> list_ex boot_output rs,
                   hp_mouse_inp_present := hp_mouse_inp_present hp \<or> list_ex (boot_input False) rs,
                   hp_rpts := hp_rpts hp @ List.map report_ref (filter in_report_mode rs)\<rparr>)
      else Inl OutOfBounds)"
proof (induction rs arbitrary: hp)
  case Nil
  then show ?case by (simp add: hid_params_eqI)
next
  case (Cons r rs)
  show ?case
  proof (cases "in_report_mode r")
    case True
    let ?hp = "hp\<lparr>hp_rpts := hp_rpts hp @ [report_ref r]\<rparr>"
    have "add_rpt n r hp = (if length (hp_rpts hp) < n then Inr ?hp else Inl OutOfBounds)"
      using True by (simp add: add_rpt_def in_report_mode_def report_ref_def)
    moreover have "\<not> boot_input b r" "\<not> boot_output r" for b using True by (simp_all add: boot_input_def boot_output_def)
    ultimately show ?thesis using Cons.IH [of ?hp] Cons.prems True by simp
  next
    case False
    let ?hp = "hp\<lparr>hp_kbd_inp_present := hp_kbd_inp_present hp \<or> boot_input True r,
        hp_kbd_out_present := hp_kbd_out_present hp \<or> boot_output r,
        hp_mouse_inp_present := hp_mouse_inp_present hp \<or> boot_input False r\<rparr>"
    have "add_rpt n r hp = Inr ?hp"
      using False by (auto intro!: hid_params_eqI simp: add_rpt_def in_report_mode_def boot_input_def boot_output_def)
    then show ?thesis using Cons.IH [of ?hp] Cons.prems False by (simp add: disj_ac)
  qed
qed

text \<open>The arrays of the stack are large enough for every map of the configuration.\<close>

definition room_for :: "'w gatts \<Rightarrow> esp_hid_device_config_t \<Rightarrow> bool" where
  "room_for ga config \<longleftrightarrow> 64 \<le> ga_max_rpts ga
     \<and> (\<forall>raw \<in> set (cf_report_maps config). unat (raw_len raw) \<le> ga_map_max ga)"

lemma create_hid_db_run:
  assumes s: "prof base p d ms s" "s_dev s = Some p" and i: "i < length ms" and m: "full (hd_blocks s) (ms ! i)"
    and room: "64 \<le> ga_max_rpts ga" "unat (dm_map_len (ms ! i)) \<le> ga_map_max ga"
  shows "\<exists>rc w. create_hid_db ga i s = Inr (rc, s\<lparr>hd_world := w\<rparr>)"
proof -
  obtain a rs b bs where f: "dm_reports (ms ! i) = Some a" "hd_blocks s a = Some (ReportArray rs)"
      "length rs = unat (dm_reports_len (ms ! i))" "length rs \<le> 64" "dm_map_data (ms ! i) = Some b"
      "hd_blocks s b = Some (Bytes bs)" "length bs = unat (dm_map_len (ms ! i))"
    using m by (auto simp: full_def)
  have reports: "get_reports (Some a) (unat (dm_reports_len (ms ! i))) s = Inr (rs, s)"
    using f(2,3) by (auto simp: get_reports_def hidd_block_at_def sbind_def)
  have bytes: "sbind (hidd_block_at (Some b)) as_bytes s = Inr (bs, s)"
    using f(6) by (simp add: hidd_block_at_def sbind_def)
  have fits: "length (filter in_report_mode rs) \<le> ga_max_rpts ga"
    using f(4) room(1) length_filter_le [of in_report_mode rs] by linarith
  show ?thesis
    using s(2) f(5,7) f(1) room(2) fits
    by (simp add: create_hid_db_def sbind_Inr [where m = "get_ble (Some p)", OF prof_get_ble [OF s(1)]]
        sbind_Inr [where m = "get_map (bd_devices d) i", OF prof_get_map [OF s(1) i]]
        sbind_Inr [where m = "sbind (hidd_block_at (Some b)) as_bytes", OF bytes]
        sbind_Inr [where m = "get_reports (Some a) (unat (dm_reports_len (ms ! i)))", OF reports]
        add_rpts_spec hid_params_zero_def hidd_call_def split: prod.split) blast
qed

lemma create_hid_dbs_run:
  assumes "prof base p d ms s" "s_dev s = Some p" and "\<forall>i \<in> set is. i < length ms \<and> full (hd_blocks s) (ms ! i)
      \<and> unat (dm_map_len (ms ! i)) \<le> ga_map_max ga" and room: "64 \<le> ga_max_rpts ga"
  shows "\<exists>rc w. create_hid_dbs ga is r s = Inr (rc, s\<lparr>hd_world := w\<rparr>)"
  using assms(1-3)
proof (induction "is" arbitrary: s r)
  case Nil
  then show ?case by (simp add: hidd_world_def) blast
next
  case (Cons i js)
  then obtain rc w where 1: "create_hid_db ga i s = Inr (rc, s\<lparr>hd_world := w\<rparr>)"
    using create_hid_db_run [OF Cons.prems(1,2) _ _ room, of i] Cons.prems(3) by (metis list.set_intros(1))
  have "prof base p d ms (s\<lparr>hd_world := w\<rparr>)" using Cons.prems(1) prof_cong [of s "s\<lparr>hd_world := w\<rparr>"] by simp
  then obtain rc' w' where "create_hid_dbs ga js rc (s\<lparr>hd_world := w\<rparr>) = Inr (rc', s\<lparr>hd_world := w'\<rparr>)"
    using Cons.IH [of "s\<lparr>hd_world := w\<rparr>" rc] Cons.prems(2,3) by auto
  then show ?case using 1 by (cases "rc = 0") (auto simp: sbind_def)
qed

lemma set_name_run:
  assumes "\<forall>a. q = Some a \<longrightarrow> (\<exists>bs. hd_blocks s a = Some (Bytes bs) \<and> bs \<noteq> [])"
  shows "\<exists>rc w. set_name q f r s = Inr (rc, s\<lparr>hd_world := w\<rparr>)"
proof (cases q)
  case None
  then show ?thesis by (auto simp: set_name_def intro: exI [of _ "hd_world s"])
next
  case (Some a)
  then obtain bs where "hd_blocks s a = Some (Bytes bs)" "bs \<noteq> []" using assms by blast
  then show ?thesis using Some
    by (auto simp: set_name_def hidd_block_at_def sbind_def hidd_call_def split: prod.split intro: exI [of _ "hd_world s"])
qed

lemma info_db_run:
  assumes s: "prof base p d ms s" "s_dev s = Some p" and names: "names_full (hd_blocks s) (bd_config d)"
  shows "\<exists>rc w. ble_hid_create_info_db ga s = Inr (rc, s\<lparr>hd_blocks := (hd_blocks s)(p := Some (BleBlock (d\<lparr>bd_pnp := pnp_bytes (bd_config d)\<rparr>))),
     hd_world := w\<rparr>)"
proof -
  let ?c = "bd_config d"
  let ?h = "(hd_blocks s)(p := Some (BleBlock (d\<lparr>bd_pnp := pnp_bytes ?c\<rparr>)))"
  have not_p: "x \<noteq> p" if "x \<in> set (names_owned ?c)" for x
    using profD(3) [OF s(1)] that by (auto simp: owned_def)
  have name: "\<exists>bs. ?h a = Some (Bytes bs) \<and> bs \<noteq> []" if "Some a \<in> {hd_manufacturer_name ?c, hd_serial_number ?c}" for a
  proof -
    have "a \<in> set (names_owned ?c)" using that by (auto simp: names_owned_def ptr_list_def split: option.splits)
    then show ?thesis using names not_p by (auto simp: names_full_def)
  qed
  let ?s1 = "s\<lparr>hd_world := ga_svc_init ga SvcDis (hd_world s)\<rparr>"
  let ?s2 = "?s1\<lparr>hd_blocks := ?h, hd_world := ga_dis_pnp_id_set ga (pnp_bytes ?c) (hd_world ?s1)\<rparr>"
  have p1: "hd_blocks ?s1 p = Some (BleBlock d)" using profD(1) [OF s(1)] by simp
  have full1: "\<forall>a. hd_manufacturer_name ?c = Some a \<longrightarrow> (\<exists>bs. hd_blocks ?s2 a = Some (Bytes bs) \<and> bs \<noteq> [])"
    and full2: "\<forall>a. hd_serial_number ?c = Some a \<longrightarrow> (\<exists>bs. hd_blocks (?s2\<lparr>hd_world := w\<rparr>) a = Some (Bytes bs) \<and> bs \<noteq> [])" for w
    using name by simp_all
  obtain r1 w1 where n1: "set_name (hd_manufacturer_name ?c) (ga_dis_manufacturer_name_set ga) 0 ?s2 = Inr (r1, ?s2\<lparr>hd_world := w1\<rparr>)"
    using set_name_run [OF full1] by blast
  obtain r2 w2 where n2: "set_name (hd_serial_number ?c) (ga_dis_serial_number_set ga) r1 (?s2\<lparr>hd_world := w1\<rparr>)
      = Inr (r2, (?s2\<lparr>hd_world := w1\<rparr>)\<lparr>hd_world := w2\<rparr>)"
    using set_name_run [OF full2] by blast
  have g1: "get_ble (Some p) ?s1 = Inr (d, ?s1)" using p1 by (simp add: get_ble_def hidd_block_at_def sbind_def)
  have both: "sbind (set_name (hd_manufacturer_name ?c) (ga_dis_manufacturer_name_set ga) 0)
      (set_name (hd_serial_number ?c) (ga_dis_serial_number_set ga)) ?s2 = Inr (r2, ?s2\<lparr>hd_world := w2\<rparr>)"
    unfolding sbind_def [of "set_name q f r" for q f r] n1 using n2 by simp
  have "ble_hid_create_info_db ga s = Inr (r2, ?s2\<lparr>hd_world := w2\<rparr>)"
    using s(2) both
    by (simp add: ble_hid_create_info_db_def hidd_world_def sbind_Inr [where m = "get_ble (Some p)", OF g1]
        sseq_Inr [where m = "upd_ble (Some p) f" for f, OF upd_ble_run [OF p1]])
  then show ?thesis by auto
qed

lemma start_gatts_run:
  assumes s: "prof base p d ms s" "s_dev s = Some p" and names: "names_full (hd_blocks s) (bd_config d)"
    and fill: "filled config s ms (length ms)" "length ms = length (cf_report_maps config)" and room: "room_for ga config"
  shows "\<exists>rc t. nimble_hid_start_gatts ga s = Inr (rc, t) \<and> prof base p (d\<lparr>bd_pnp := pnp_bytes (bd_config d)\<rparr>) ms t
     \<and> frame s t \<and> others_keep p d s t"
proof -
  let ?e = "d\<lparr>bd_pnp := pnp_bytes (bd_config d)\<rparr>"
  let ?w = "ga_svc_init ga SvcBas (ga_svc_init ga SvcSps (ga_svc_init ga SvcGatt (ga_svc_init ga SvcGap (hd_world s))))"
  let ?s1 = "s\<lparr>hd_world := ?w\<rparr>"
  have p1: "prof base p d ms ?s1" using s(1) prof_cong [of s ?s1] by simp
  obtain rc w where info: "ble_hid_create_info_db ga ?s1 = Inr (rc, s\<lparr>hd_blocks := (hd_blocks s)(p := Some (BleBlock ?e)), hd_world := w\<rparr>)"
    using info_db_run [OF p1] s(2) names by fastforce
  let ?s2 = "s\<lparr>hd_blocks := (hd_blocks s)(p := Some (BleBlock ?e)), hd_world := w\<rparr>"
  have p2: "prof base p ?e ms ?s2"
    using prof_upd_ble [OF s(1), of ?e] prof_cong [of "s\<lparr>hd_blocks := (hd_blocks s)(p := Some (BleBlock ?e))\<rparr>" ?s2] by simp
  have ok: "others_keep p d s ?s2" by (simp add: others_keep_def)
  have maps: "unat (bd_devices_len d) = length ms" using profD(2) [OF s(1)] by (auto simp: maps_at_def split: option.splits)
  have "unat (dm_map_len (ms ! i)) \<le> ga_map_max ga" if "i < length ms" for i
  proof -
    have "cf_report_maps config ! i \<in> set (cf_report_maps config)" using that fill(2) by simp
    then show ?thesis using fill(1) that room by (auto simp: filled_def room_for_def)
  qed
  moreover have "full (hd_blocks ?s2) (ms ! i)" if "i < length ms" for i
    using fill(1) that by (intro full_others [OF s(1) _ _ ok]) (simp_all add: filled_def)
  ultimately obtain rc' w' where dbs: "create_hid_dbs ga [0..<length ms] 0 ?s2 = Inr (rc', ?s2\<lparr>hd_world := w'\<rparr>)"
    using create_hid_dbs_run [OF p2, of "[0..<length ms]" ga 0] s(2) room by (auto simp: room_for_def)
  let ?t = "?s2\<lparr>hd_world := w'\<rparr>"
  have "nimble_hid_start_gatts ga s = Inr (rc', ?t)"
    using s(2) dbs maps
    by (simp add: nimble_hid_start_gatts_def hidd_world_def sseq_Inr [where m = "ble_hid_create_info_db ga", OF info]
        sbind_Inr [where m = "get_ble (Some p)", OF prof_get_ble [OF p2]])
  moreover have "prof base p ?e ms ?t" using p2 prof_cong [of ?s2 ?t] by simp
  ultimately show ?thesis using ok by (auto simp: frame_def others_keep_def)
qed

end
