(* ===== verification/HiddLife.thy ===== *)
theory HiddLife
  imports HiddInit
begin

text \<open>
  Starting and ending the HID device: what the device core (\<open>esp_hidd.c\<close>) needs of a transport is the
  locale \<open>hidd_transport\<close>; the NimBLE transport is an interpretation of it.
\<close>

section \<open>Starting the NimBLE profile\<close>

text \<open>A block outside the profile changes.\<close>

lemma prof_outside:
  assumes s: "prof base p d ms s" and x: "x \<notin> set (p # owned d ms)" "x < hd_next s"
  shows "prof (base(x := b)) p d ms (s\<lparr>hd_blocks := (hd_blocks s)(x := b)\<rparr>)"
proof -
  have "a \<noteq> x" if "bd_devices d = Some a" for a using that x(1) by (auto simp: owned_def)
  then show ?thesis
    using s x unfolding prof_def by (auto simp: maps_at_def split: option.splits)
qed

lemma hidd_dev_free_run:
  assumes s: "prof base p d ms s" "s_dev s = Some p"
  shows "ble_hidd_dev_free s = Inr ((), s\<lparr>hd_blocks := base, hd_loops := hd_loops s - (if bd_event_loop d then 1 else 0),
     s_dev := None\<rparr>)"
proof -
  have "base(p := None) = base" using profD(6) [OF s(1), of p] by (simp add: fun_upd_idem)
  then show ?thesis
    using s(2) by (simp add: ble_hidd_dev_free_def sseq_Inr [where m = "ble_hid_free_config (Some p)", OF prof_free_config [OF s(1)]])
      (simp add: hidd_free_def sseq_def sbind_def)
qed

text \<open>What a start needs, and what is live after it, above the heap \<open>base\<close> with the device block at \<open>a\<close>.\<close>

definition hidd_startable :: "'w gatts \<Rightarrow> esp_hid_device_config_t \<Rightarrow> 'w hidd_st \<Rightarrow> bool" where
  "hidd_startable ga config s \<longleftrightarrow> s_dev s = None \<and> (\<forall>x \<ge> hd_next s. hd_blocks s x = None)
     \<and> config_ok config \<and> parser_wf (hd_parser s) \<and> room_for ga config
     \<and> parses (ga_malloc ga) (List.map raw_of (cf_report_maps config)) (hd_parser s)"

definition hidd_live :: "(nat \<Rightarrow> hidd_block option) \<Rightarrow> int \<Rightarrow> nat \<Rightarrow> nat \<Rightarrow> 'w hidd_st \<Rightarrow> bool" where
  "hidd_live base loops n a s \<longleftrightarrow> (\<exists>p d ms x. s_dev s = Some p \<and> prof (base(a := Some (DevBlock x))) p d ms s
     \<and> od_dev x = Some p \<and> od_ops x \<and> bd_event_loop d \<and> bd_dev d = Some a \<and> \<not> bd_connected d
     \<and> length ms = n \<and> hd_loops s = loops + 1)"

lemma hidd_liveI:
  assumes "prof (base(a := Some (DevBlock x))) p d ms s" and "s_dev s = Some p" "od_dev x = Some p" "od_ops x"
    "bd_event_loop d" "bd_dev d = Some a" "\<not> bd_connected d" "length ms = n" "hd_loops s = loops + 1"
  shows "hidd_live base loops n a s"
  using assms unfolding hidd_live_def by blast

text \<open>The state after a start that failed before the data base: nothing is left of it.\<close>

definition hidd_undone :: "nat \<Rightarrow> 'w hidd_st \<Rightarrow> 'w hidd_st \<Rightarrow> bool" where
  "hidd_undone a s t \<longleftrightarrow> s_dev t = None \<and> hd_loops t = hd_loops s \<and> service_index t = service_index s
     \<and> (\<exists>x. hd_blocks t = (hd_blocks s)(a := Some (DevBlock x)))"

lemma hidd_undoneI:
  assumes "prof base p d ms t" and "s_dev t = Some p" and "bd_event_loop d"
    and "hd_loops t = hd_loops s + 1" "service_index t = service_index s"
    and "base = (hd_blocks s)(a := Some (DevBlock x))"
  shows "\<exists>u. sseq ble_hidd_dev_free (sret rc) t = Inr (rc, u) \<and> hidd_undone a s u"
  using hidd_dev_free_run [OF assms(1,2)] assms(3-)
  by (auto simp: sseq_def sbind_def hidd_undone_def)

lemma register_run:
  assumes "prof base p d ms s" and "s_dev s = Some p"
  shows "\<exists>rc w. nimble_hidd_dev_event_handler_register ga (Some p) e s = Inr (rc, s\<lparr>hd_world := w\<rparr>)"
  using assms(2)
  by (simp add: nimble_hidd_dev_event_handler_register_def sbind_Inr [where m = "get_ble (Some p)", OF prof_get_ble [OF assms(1)]]
      hidd_call_def split: prod.split) blast

text \<open>What follows once the event loop exists.\<close>

definition init_rest :: "'w gatts \<Rightarrow> nat \<Rightarrow> nat \<Rightarrow> esp_hid_device_config_t \<Rightarrow> bool \<Rightarrow> ('w, int) hidd" where
  "init_rest ga a p config cb = sseq (smod (\<lambda>s. s\<lparr>hd_loops := hd_loops s + 1\<rparr>))
                 (sseq (upd_ble (Some p) (\<lambda>d. d\<lparr>bd_event_loop := True\<rparr>))
                 (sbind (ble_hid_init_config ga (Some p) config) (\<lambda>rc.
                    if rc \<noteq> 0 then sseq ble_hidd_dev_free (sret rc)
                    else
                      sseq (upd_hidd (Some a) (\<lambda>d. d\<lparr>od_dev := Some p, od_ops := True\<rparr>))
                      (sbind (nimble_hidd_dev_event_handler_register ga (Some p) (-1)) (\<lambda>rc.
                         if rc \<noteq> 0 then sseq ble_hidd_dev_free (sret rc)
                         else
                           sbind (if cb then nimble_hidd_dev_event_handler_register ga (Some p) (-1) else sret 0) (\<lambda>rc.
                             if rc \<noteq> 0 then sseq ble_hidd_dev_free (sret rc)
                             else
                               sbind (nimble_hid_start_gatts ga) (\<lambda>rc.
                                 if rc \<noteq> 0 then sret rc
                                 else sseq (smod (\<lambda>s. s\<lparr>hd_listening := True\<rparr>)) (sret rc))))))))"

lemma init_rest_run:
  fixes s u :: "'a hidd_st"
  assumes ready: "hidd_startable ga config s" and a: "hd_blocks s a = Some (DevBlock x)"
    and u: "prof (hd_blocks s) p d [] u" "s_dev u = Some p" "hd_loops u = hd_loops s" "service_index u = service_index s"
      "hd_parser u = hd_parser s"
    and d: "bd_devices d = None" "names_owned (bd_config d) = []" "bd_dev d = Some a" "\<not> bd_connected d"
  shows "\<exists>rc t. init_rest ga a p config cb u = Inr (rc, t)
     \<and> (rc \<noteq> 0 \<and> hidd_undone a s t
        \<or> service_index t = service_index s \<and> hidd_live (hd_blocks s) (hd_loops s) (length (cf_report_maps config)) a t)"
proof -
  let ?base = "hd_blocks s" and ?u1 = "u\<lparr>hd_loops := hd_loops u + 1\<rparr>" and ?d2 = "d\<lparr>bd_event_loop := True\<rparr>"
  have cfg: "config_ok config" and wf: "parser_wf (hd_parser s)" and room: "room_for ga config"
    and ps: "parses (ga_malloc ga) (List.map raw_of (cf_report_maps config)) (hd_parser s)"
    using ready unfolding hidd_startable_def by blast+
  have undone: "\<exists>v. sseq ble_hidd_dev_free (sret rc) t = Inr (rc, v) \<and> hidd_undone a s v"
    if "prof (?base(a := Some (DevBlock y))) p e ms t" "s_dev t = Some p" "bd_event_loop e"
      "hd_loops t = hd_loops s + 1" "service_index t = service_index s" for y e ms t rc
    using hidd_undoneI [OF that refl] .
  have base: "?base(a := Some (DevBlock x)) = ?base" using a by (simp add: fun_upd_idem)
  have "prof ?base p d [] ?u1" using u(1) prof_cong [of u ?u1] by simp
  then obtain u2 where u2: "upd_ble (Some p) (\<lambda>d. d\<lparr>bd_event_loop := True\<rparr>) ?u1 = Inr ((), u2)" "step_ok ?base p d ?u1 ?d2 [] u2"
    using dev_set_field [where f = "\<lambda>d. d\<lparr>bd_event_loop := True\<rparr>"] by fastforce
  then have p2: "prof ?base p ?d2 [] u2" and par: "parser_wf (hd_parser u2)"
      "parses (ga_malloc ga) (List.map raw_of (cf_report_maps config)) (hd_parser u2)"
    using u(5) wf ps by (simp_all add: step_ok_def)
  have d2: "bd_devices ?d2 = None" "names_owned (bd_config ?d2) = []" using d by simp_all
  obtain rc u3 ms e where u3: "ble_hid_init_config ga (Some p) config u2 = Inr (rc, u3)" "prof ?base p e ms u3" "frame u2 u3"
    "same_link ?d2 e" "rc = 0 \<longrightarrow> filled config u3 ms (length ms) \<and> length ms = length (cf_report_maps config)
       \<and> names_full (hd_blocks u3) (bd_config e)"
    using init_config_run [OF p2 d2 cfg par] by blast
  have fr: "s_dev u3 = Some p" "hd_loops u3 = hd_loops s + 1" "service_index u3 = service_index s"
    using u(2-4) u2(2) u3(3) by (simp_all add: step_ok_def frame_def)
  have link: "bd_event_loop e" "bd_dev e = Some a" "\<not> bd_connected e" using u3(4) d by (simp_all add: same_link_def)
  note run = init_rest_def sseq_simps(4) sseq_Inr [where m = "upd_ble (Some p) (\<lambda>d. d\<lparr>bd_event_loop := True\<rparr>)", OF u2(1)]
    sbind_Inr [where m = "ble_hid_init_config ga (Some p) config", OF u3(1)]
  show ?thesis
  proof (cases "rc = 0")
    case False
    then show ?thesis unfolding run using undone [of x, unfolded base, OF u3(2) fr(1) link(1) fr(2,3)] by fastforce
  next
    case True
    have out: "a \<notin> set (p # owned e ms)" using profD(6) [OF u3(2), of a] a by auto
    then have a3: "hd_blocks u3 a = Some (DevBlock x)" using profD(5) [OF u3(2)] a by simp
    then have lt: "a < hd_next u3" using profD(7) [OF u3(2), of a] by (cases "a < hd_next u3") simp_all
    let ?x = "x\<lparr>od_dev := Some p, od_ops := True\<rparr>"
    let ?b = "?base(a := Some (DevBlock ?x))" and ?u4 = "u3\<lparr>hd_blocks := (hd_blocks u3)(a := Some (DevBlock ?x))\<rparr>"
    have u4: "upd_hidd (Some a) (\<lambda>d. d\<lparr>od_dev := Some p, od_ops := True\<rparr>) u3 = Inr ((), ?u4)"
      using a3 by (simp add: upd_hidd_def get_hidd_def hidd_store_def hidd_block_at_def sbind_def sseq_def)
    have p4: "prof ?b p e ms ?u4" by (rule prof_outside [OF u3(2) out lt])
    have own: "y \<noteq> a" if "y \<in> set (map_owned m) \<and> m \<in> set ms \<or> y \<in> set (names_owned (bd_config e))" for y m
      using out that by (auto simp: owned_def)
    have fill: "filled config ?u4 ms (length ms)"
    proof -
      have "full (hd_blocks ?u4) (ms ! i)" if "i < length ms" for i
      proof (rule full_keep)
        show "full (hd_blocks u3) (ms ! i)" using u3(5) True that by (simp add: filled_def)
        show "hd_blocks ?u4 y = hd_blocks u3 y" if "y \<in> set (map_owned (ms ! i))" for y
          using own [of y "ms ! i"] that \<open>i < length ms\<close> by simp
      qed
      then show ?thesis using u3(5) True by (simp add: filled_def)
    qed
    have names: "names_full (hd_blocks ?u4) (bd_config e)"
      using u3(5) True own by (fastforce simp: names_full_def)
    obtain r1 w1 where r1: "nimble_hidd_dev_event_handler_register ga (Some p) (-1) ?u4 = Inr (r1, ?u4\<lparr>hd_world := w1\<rparr>)"
      using register_run [OF p4] fr(1) by fastforce
    let ?u5 = "\<lambda>w. ?u4\<lparr>hd_world := w\<rparr>"
    have p5: "prof ?b p e ms (?u5 w)" "s_dev (?u5 w) = Some p" "hd_loops (?u5 w) = hd_loops s + 1"
        "service_index (?u5 w) = service_index s" "filled config (?u5 w) ms (length ms)" for w
      using p4 fr fill prof_cong [of ?u4 "?u5 w"] by (simp_all add: filled_def)
    obtain r2 w2 where r2: "(if cb then nimble_hidd_dev_event_handler_register ga (Some p) (-1) else sret 0) (?u5 w1) = Inr (r2, ?u5 w2)"
    proof (cases cb)
      case True
      then show thesis using register_run [OF p5(1,2), of ga "-1" w1] that by fastforce
    next
      case False
      then show thesis using that [of 0 w1] by simp
    qed
    obtain r3 t where t: "nimble_hid_start_gatts ga (?u5 w2) = Inr (r3, t)"
      "prof ?b p (e\<lparr>bd_pnp := pnp_bytes (bd_config e)\<rparr>) ms t" "frame (?u5 w2) t"
      using start_gatts_run [OF p5(1,2) _ p5(5) _ room] names u3(5) True by fastforce
    let ?t = "if r3 = 0 then t\<lparr>hd_listening := True\<rparr> else t"
    have "prof ?b p (e\<lparr>bd_pnp := pnp_bytes (bd_config e)\<rparr>) ms ?t" using t(2) prof_cong [of t ?t] by simp
    from this have live: "hidd_live ?base (hd_loops s) (length (cf_report_maps config)) a ?t"
      by (rule hidd_liveI) (use t(3) fr link u3(5) True in \<open>simp_all add: frame_def\<close>)
    have idx: "service_index ?t = service_index s" using t(3) fr by (simp add: frame_def)
    have go: "init_rest ga a p config cb u = (if r1 \<noteq> 0 then sseq ble_hidd_dev_free (sret r1) (?u5 w1)
        else if r2 \<noteq> 0 then sseq ble_hidd_dev_free (sret r2) (?u5 w2) else Inr (r3, ?t))"
      using True unfolding run
      by (simp add: sseq_Inr [where m = "upd_hidd (Some a) f" for f, OF u4]
          sbind_Inr [where m = "nimble_hidd_dev_event_handler_register ga (Some p) (-1)", OF r1]
          sbind_Inr [where m = "if cb then nimble_hidd_dev_event_handler_register ga (Some p) (-1) else sret 0", OF r2]
          sbind_Inr [where m = "nimble_hid_start_gatts ga", OF t(1)])
    show ?thesis
    proof (cases "r1 = 0 \<and> r2 = 0")
      case True
      then show ?thesis unfolding go using live idx by auto
    next
      case False
      obtain v1 where v1: "sseq ble_hidd_dev_free (sret r1) (?u5 w1) = Inr (r1, v1)" "hidd_undone a s v1"
        using undone [OF p5(1,2) link(1) p5(3,4), of r1 w1] by (elim exE conjE)
      obtain v2 where v2: "sseq ble_hidd_dev_free (sret r2) (?u5 w2) = Inr (r2, v2)" "hidd_undone a s v2"
        using undone [OF p5(1,2) link(1) p5(3,4), of r2 w2] by (elim exE conjE)
      show ?thesis unfolding go v1(1) v2(1) using False v1(2) v2(2) by (cases "r1 = 0") auto
    qed
  qed
qed

lemma ble_hidd_init_run:
  fixes s :: "'a hidd_st"
  assumes ready: "hidd_startable ga config s" and a: "hd_blocks s a = Some (DevBlock x)"
  shows "\<exists>rc t. esp_ble_hidd_dev_init ga a config cb s = Inr (rc, t)
     \<and> (rc \<noteq> 0 \<and> hidd_undone a s t \<or> service_index t = service_index s \<and> hidd_live (hd_blocks s) (hd_loops s) (length (cf_report_maps config)) a t)"
proof -
  let ?n = "length (cf_report_maps config)"
  have off: "s_dev s = None" and cfg: "config_ok config" and wf: "parser_wf (hd_parser s)" and room: "room_for ga config"
    and ps: "parses (ga_malloc ga) (List.map raw_of (cf_report_maps config)) (hd_parser s)"
    and fresh: "\<And>x. x \<ge> hd_next s \<Longrightarrow> hd_blocks s x = None"
    using ready unfolding hidd_startable_def by blast+
  have base: "(hd_blocks s)(a := Some (DevBlock x)) = hd_blocks s" using a by (simp add: fun_upd_idem)
  have same: "hidd_undone a s s'" if "hd_blocks s' = hd_blocks s" "s_dev s' = None" "hd_loops s' = hd_loops s"
    "service_index s' = service_index s" for s' :: "'a hidd_st"
    using that base by (auto simp: hidd_undone_def intro: exI [of _ x])
  show ?thesis
  proof (cases "ga_malloc ga (hd_allocs s)")
    case False
    then have "esp_ble_hidd_dev_init ga a config cb s = Inr (ESP_FAIL, s\<lparr>hd_allocs := hd_allocs s + 1, s_dev := None\<rparr>)"
      using off by (simp add: esp_ble_hidd_dev_init_def sbind_def sseq_def malloc_cases)
    then show ?thesis using same [of "s\<lparr>hd_allocs := hd_allocs s + 1, s_dev := None\<rparr>"] by (simp add: ESP_FAIL_def)
  next
    case True
    let ?p = "hd_next s"
    let ?d = "ble_hidd_zero\<lparr>bd_control := ESP_HID_CONTROL_EXIT_SUSPEND, bd_protocol := ESP_HID_PROTOCOL_MODE_REPORT,
        bd_event_loop := False, bd_dev := Some a\<rparr>"
    let ?s1 = "(after_alloc (BleBlock ble_hidd_zero) s)\<lparr>s_dev := Some ?p\<rparr>"
    let ?s2 = "?s1\<lparr>hd_blocks := (hd_blocks s)(?p := Some (BleBlock ?d))\<rparr>"
    have s2: "upd_ble (Some ?p) (\<lambda>d. d\<lparr>bd_control := ESP_HID_CONTROL_EXIT_SUSPEND, bd_protocol := ESP_HID_PROTOCOL_MODE_REPORT,
        bd_event_loop := False, bd_dev := Some a\<rparr>) ?s1 = Inr ((), ?s2)"
      by (subst upd_ble_run [where d = ble_hidd_zero]) (simp_all add: after_alloc_def)
    have p2: "prof (hd_blocks s) ?p ?d [] ?s2"
      using fresh by (simp add: prof_def maps_at_def owned_def names_owned_def ble_hidd_zero_def hidd_config_zero_def after_alloc_def)
    obtain rc w where w: "ga_loop_create ga (hd_world ?s2) = (rc, w)" by fastforce
    have mal: "hidd_malloc (ga_malloc ga) (BleBlock ble_hidd_zero) s = Inr (Some ?p, after_alloc (BleBlock ble_hidd_zero) s)"
      using True by (simp add: malloc_cases)
    have run: "esp_ble_hidd_dev_init ga a config cb s
        = (if rc \<noteq> 0 then sseq ble_hidd_dev_free (sret rc) else init_rest ga a ?p config cb) (?s2\<lparr>hd_world := w\<rparr>)"
    proof -
      have "hidd_call (ga_loop_create ga) ?s2 = Inr (rc, ?s2\<lparr>hd_world := w\<rparr>)" using w by (simp add: hidd_call_def)
      then show ?thesis using off s2
        unfolding esp_ble_hidd_dev_init_def init_rest_def
        by (simp add: sbind_Inr [where m = "hidd_malloc (ga_malloc ga) (BleBlock ble_hidd_zero)", OF mal]
            sseq_Inr [where m = "upd_ble (Some ?p) f" for f] sbind_Inr [where m = "hidd_call (ga_loop_create ga)"])
    qed
    let ?s3 = "?s2\<lparr>hd_world := w\<rparr>"
    have p3: "prof (hd_blocks s) ?p ?d [] ?s3" using p2 prof_cong [of ?s2 ?s3] by simp
    have sd: "s_dev ?s3 = Some ?p" by simp
    show ?thesis
    proof (cases "rc = 0")
      case True
      have "\<exists>rc t. init_rest ga a ?p config cb ?s3 = Inr (rc, t)
         \<and> (rc \<noteq> 0 \<and> hidd_undone a s t \<or> service_index t = service_index s \<and> hidd_live (hd_blocks s) (hd_loops s) ?n a t)"
        by (rule init_rest_run [OF ready a p3]) (simp_all add: after_alloc_def ble_hidd_zero_def names_owned_def hidd_config_zero_def)
      then show ?thesis unfolding run using True by simp
    next
      case False
      have "sseq ble_hidd_dev_free (sret rc) ?s3 = Inr (rc, ?s3\<lparr>hd_blocks := hd_blocks s, hd_loops := hd_loops ?s3, s_dev := None\<rparr>)"
        by (subst sseq_Inr [where m = ble_hidd_dev_free, OF hidd_dev_free_run [OF p3 sd]]) (simp add: ble_hidd_zero_def)
      then show ?thesis unfolding run
        using False same [of "?s3\<lparr>hd_blocks := hd_blocks s, hd_loops := hd_loops ?s3, s_dev := None\<rparr>"]
        by (auto simp: after_alloc_def)
    qed
  qed
qed

section \<open>What the device core needs of a transport\<close>

text \<open>
  \<open>startable\<close>: a start may be tried; \<open>live base a\<close>: the transport is running for the device block \<open>a\<close> on
  top of the heap \<open>base\<close>; \<open>undone\<close>: a start has failed and left nothing. Once running, the block of the
  device leads to the transport's functions, and ending it gives the heap back.
\<close>

locale hidd_transport =
  fixes vt :: "'w hidd_vtable"
    and startable :: "esp_hid_device_config_t \<Rightarrow> 'w hidd_st \<Rightarrow> bool"
    and live :: "(nat \<Rightarrow> hidd_block option) \<Rightarrow> int \<Rightarrow> nat \<Rightarrow> 'w hidd_st \<Rightarrow> bool"
  assumes start: "startable config s \<Longrightarrow> hd_blocks s a = Some (DevBlock x) \<Longrightarrow>
      \<exists>rc t. hv_init vt a config cb s = Inr (rc, t) \<and> (live (hd_blocks s) (hd_loops s) a t
         \<or> rc \<noteq> 0 \<and> s_dev t = None \<and> hd_loops t = hd_loops s \<and> (\<exists>y. hd_blocks t = (hd_blocks s)(a := Some (DevBlock y))))"
    and alloc: "startable config s \<Longrightarrow> startable config (after_alloc b s) \<and> hd_blocks s (hd_next s) = None"
    and running: "live base n a s \<Longrightarrow> s_dev s \<noteq> None"
    and ops: "live base n a s \<Longrightarrow> \<exists>x. hd_blocks s a = Some (DevBlock x) \<and> od_ops x"
    and retype: "live base n a s \<Longrightarrow> hd_blocks s a = Some (DevBlock x) \<Longrightarrow>
      live base n a (s\<lparr>hd_blocks := (hd_blocks s)(a := Some (DevBlock (x\<lparr>od_transport := ty\<rparr>)))\<rparr>)"
    and stop: "live base n a s \<Longrightarrow> hd_blocks s a = Some (DevBlock x) \<Longrightarrow>
      \<exists>t. hv_deinit vt (od_dev x) s = Inr (0, t) \<and> s_dev t = None \<and> hd_loops t = n
         \<and> hd_blocks t = base(a := Some (DevBlock x))"
begin

lemma deinit_restores:
  assumes "live base n a s"
  shows "\<exists>t. esp_hidd_dev_deinit vt (Some a) s = Inr (0, t) \<and> s_dev t = None \<and> hd_loops t = n
    \<and> hd_blocks t = base(a := None)"
proof -
  obtain x where x: "hd_blocks s a = Some (DevBlock x)" "od_ops x" using ops [OF assms] by blast
  obtain t where t: "hv_deinit vt (od_dev x) s = Inr (0, t)" "s_dev t = None" "hd_loops t = n"
    "hd_blocks t = base(a := Some (DevBlock x))" using stop [OF assms x(1)] by blast
  have "get_hidd (Some a) s = Inr (x, s)" using x(1) by (simp add: get_hidd_def hidd_block_at_def sbind_def)
  then show ?thesis
    using x(2) t by (simp add: esp_hidd_dev_deinit_def via_ops_def sbind_def sseq_def hidd_free_def)
qed

lemma init_deinit_balanced:
  assumes s: "startable config s"
  shows "\<exists>rc dev t. esp_hidd_dev_init mok vt config ESP_HID_TRANSPORT_BLE cb s = Inr ((rc, dev), t)
     \<and> (dev = None \<longrightarrow> rc \<noteq> 0 \<and> (s_dev t = None \<longrightarrow> hd_blocks t = hd_blocks s \<and> hd_loops t = hd_loops s))
     \<and> (dev \<noteq> None \<longrightarrow> rc = 0 \<and> (\<exists>u. esp_hidd_dev_deinit vt dev t = Inr (0, u) \<and> s_dev u = None
           \<and> hd_blocks u = hd_blocks s \<and> hd_loops u = hd_loops s))"
proof (cases "mok (hd_allocs s)")
  case False
  then show ?thesis by (simp add: esp_hidd_dev_init_def sbind_def malloc_cases ESP_FAIL_def)
next
  case True
  let ?a = "hd_next s" and ?s1 = "after_alloc (DevBlock hidd_dev_zero) s"
  have s1: "startable config ?s1" "hd_blocks s ?a = None" using alloc [OF s] by simp_all
  have a1: "hd_blocks ?s1 ?a = Some (DevBlock hidd_dev_zero)" "(hd_blocks ?s1)(?a := None) = hd_blocks s" "hd_loops ?s1 = hd_loops s"
    using s1(2) by (simp_all add: after_alloc_def fun_upd_idem)
  obtain rc t where t: "hv_init vt ?a config cb ?s1 = Inr (rc, t)" "live (hd_blocks ?s1) (hd_loops ?s1) ?a t
         \<or> rc \<noteq> 0 \<and> s_dev t = None \<and> hd_loops t = hd_loops ?s1 \<and> (\<exists>y. hd_blocks t = (hd_blocks ?s1)(?a := Some (DevBlock y)))"
    using start [OF s1(1) a1(1)] by blast
  obtain y where y: "hd_blocks t ?a = Some (DevBlock y)" using t(2) ops [of "hd_blocks ?s1" "hd_loops ?s1" ?a t] by auto
  show ?thesis
  proof (cases "rc = 0")
    case False
    have "hidd_free (Some ?a) t = Inr ((), t\<lparr>hd_blocks := (hd_blocks t)(?a := None)\<rparr>)" using y by (simp add: hidd_free_def)
    then have "esp_hidd_dev_init mok vt config ESP_HID_TRANSPORT_BLE cb s = Inr ((rc, None), t\<lparr>hd_blocks := (hd_blocks t)(?a := None)\<rparr>)"
      using True t(1) False by (simp add: esp_hidd_dev_init_def sbind_def sseq_def malloc_cases)
    moreover have "(hd_blocks t)(?a := None) = hd_blocks s \<and> hd_loops t = hd_loops s" if off: "s_dev t = None"
    proof -
      obtain z where "hd_blocks t = (hd_blocks ?s1)(?a := Some (DevBlock z))" "hd_loops t = hd_loops ?s1"
        using t(2) running off by blast
      then show ?thesis using a1(2,3) by simp
    qed
    ultimately show ?thesis using False by simp
  next
    case True
    then have live: "live (hd_blocks ?s1) (hd_loops ?s1) ?a t" using t(2) by blast
    let ?u = "t\<lparr>hd_blocks := (hd_blocks t)(?a := Some (DevBlock (y\<lparr>od_transport := ESP_HID_TRANSPORT_BLE\<rparr>)))\<rparr>"
    have "upd_hidd (Some ?a) (\<lambda>d. d\<lparr>od_transport := ESP_HID_TRANSPORT_BLE\<rparr>) t = Inr ((), ?u)"
      using y by (simp add: upd_hidd_def get_hidd_def hidd_store_def hidd_block_at_def sbind_def sseq_def)
    then have "esp_hidd_dev_init mok vt config ESP_HID_TRANSPORT_BLE cb s = Inr ((0, Some ?a), ?u)"
      using \<open>mok (hd_allocs s)\<close> t(1) True by (simp add: esp_hidd_dev_init_def sbind_def sseq_def malloc_cases)
    moreover obtain v where "esp_hidd_dev_deinit vt (Some ?a) ?u = Inr (0, v)" "s_dev v = None" "hd_loops v = hd_loops ?s1"
      "hd_blocks v = (hd_blocks ?s1)(?a := None)"
      using deinit_restores [OF retype [OF live y]] by blast
    ultimately show ?thesis using a1(2,3) by auto
  qed
qed

end

section \<open>The NimBLE transport\<close>

lemma startable_alloc:
  assumes "hidd_startable ga config s"
  shows "hidd_startable ga config (after_alloc b s) \<and> hd_blocks s (hd_next s) = None"
  using assms unfolding hidd_startable_def by (simp add: after_alloc_def)

lemma live_deviceD:
  assumes "hidd_live base n k a s"
  obtains p d ms x where "s_dev s = Some p" "prof (base(a := Some (DevBlock x))) p d ms s" "hd_blocks s a = Some (DevBlock x)"
    "od_dev x = Some p" "od_ops x" "bd_event_loop d" "bd_dev d = Some a" "\<not> bd_connected d" "length ms = k" "hd_loops s = n + 1"
    "a \<notin> set (p # owned d ms)" "a < hd_next s"
proof -
  obtain p d ms x where l: "s_dev s = Some p" "prof (base(a := Some (DevBlock x))) p d ms s"
    "od_dev x = Some p" "od_ops x" "bd_event_loop d" "bd_dev d = Some a" "\<not> bd_connected d" "length ms = k" "hd_loops s = n + 1"
    using assms unfolding hidd_live_def by blast
  have out: "a \<notin> set (p # owned d ms)" using profD(6) [OF l(2), of a] by auto
  then have at: "hd_blocks s a = Some (DevBlock x)" using profD(5) [OF l(2)] by simp
  moreover have "a < hd_next s" using profD(7) [OF l(2), of a] at by (cases "a < hd_next s") simp_all
  ultimately show thesis using that l out by blast
qed

lemma nimble_stop:
  assumes "hidd_live base n k a s" and x: "hd_blocks s a = Some (DevBlock x)"
  shows "\<exists>t. nimble_hidd_dev_deinit ga (od_dev x) s = Inr (0, t) \<and> s_dev t = None \<and> hd_loops t = n
         \<and> hd_blocks t = base(a := Some (DevBlock x)) \<and> service_index t = service_index s \<and> hd_listening t = hd_listening s
         \<and> hd_posted t = hd_posted s @ [ESP_HIDD_STOP_EVENT]"
proof -
  obtain p d ms y where l: "s_dev s = Some p" "prof (base(a := Some (DevBlock y))) p d ms s" "hd_blocks s a = Some (DevBlock y)"
    "od_dev y = Some p" "bd_event_loop d" "hd_loops s = n + 1"
    using live_deviceD [OF assms(1)] by metis
  let ?s1 = "s\<lparr>s_dev := None, hd_world := ga_stop ga (hd_world s), hd_posted := hd_posted s @ [ESP_HIDD_STOP_EVENT]\<rparr>"
  have p1: "prof (base(a := Some (DevBlock y))) p d ms ?s1" using l(2) prof_cong [of s ?s1] by simp
  have g: "get_ble (Some p) (s\<lparr>s_dev := None, hd_world := ga_stop ga (hd_world s)\<rparr>)
      = Inr (d, s\<lparr>s_dev := None, hd_world := ga_stop ga (hd_world s)\<rparr>)"
    using profD(1) [OF l(2)] by (simp add: get_ble_def hidd_block_at_def sbind_def)
  have none: "(base(a := Some (DevBlock y)))(p := None) = base(a := Some (DevBlock y))"
    using profD(6) [OF l(2), of p] by (simp add: fun_upd_idem)
  show ?thesis
    using l x none
    by (simp add: nimble_hidd_dev_deinit_def nimble_hid_stop_gatts_def hidd_world_def post_hidd_def sseq_def sbind_def g
        prof_free_config [OF p1] hidd_free_def)
qed

interpretation nimble_hidd: hidd_transport "nimble_hidd_vtable ga" "hidd_startable ga"
    "\<lambda>base n a s. \<exists>k. hidd_live base n k a s" for ga :: "'w gatts"
proof (unfold_locales, goal_cases)
  case (1 config s a x cb)
  then show ?case
    using ble_hidd_init_run [OF 1, of cb] by (simp add: nimble_hidd_vtable_def hidd_undone_def) blast
next
  case (2 config s b)
  then show ?case by (rule startable_alloc)
next
  case (3 base n a s)
  then show ?case by (auto simp: hidd_live_def)
next
  case (4 base n a s)
  then show ?case by (metis live_deviceD)
next
  case (5 base n a s x ty)
  then obtain k where "hidd_live base n k a s" by blast
  then obtain p d ms y where l: "s_dev s = Some p" "prof (base(a := Some (DevBlock y))) p d ms s" "hd_blocks s a = Some (DevBlock y)"
    "od_dev y = Some p" "od_ops y" "bd_event_loop d" "bd_dev d = Some a" "\<not> bd_connected d" "length ms = k" "hd_loops s = n + 1"
    "a \<notin> set (p # owned d ms)" "a < hd_next s"
    by (rule live_deviceD)
  have "y = x" using l(3) 5(2) by simp
  have "hidd_live base n k a (s\<lparr>hd_blocks := (hd_blocks s)(a := Some (DevBlock (x\<lparr>od_transport := ty\<rparr>)))\<rparr>)"
    using prof_outside [OF l(2,11,12), of "Some (DevBlock (x\<lparr>od_transport := ty\<rparr>))"] l \<open>y = x\<close>
    by (intro hidd_liveI [where x = "x\<lparr>od_transport := ty\<rparr>" and p = p and d = d and ms = ms]) simp_all
  then show ?case by blast
next
  case (6 base n a s x)
  then show ?case using nimble_stop [where ga = ga] by (fastforce simp: nimble_hidd_vtable_def)
qed

end
