(* ===== verification/HiddThms.thy ===== *)
theory HiddThms
  imports HiddLife NimSample
begin

text \<open>
  What the HID device role promises: starting and ending leave the heap as it was, a report is sent
  to the handle it was registered with, and where the profile breaks: a second start, an event after
  the end, a connection of a device with several maps.
\<close>

section \<open>A sample stack and a sample device\<close>

text \<open>
  The world is the list of what was sent. Every protocol mode is report mode; the descriptor at 30
  says input report 1.
\<close>

type_synonym sent = "(u16 \<times> u16 \<times> u8 list) list"

definition sample_gatts :: "sent gatts" where
  "sample_gatts = \<lparr>ga_malloc = (\<lambda>_. True), ga_max_rpts = 64, ga_map_max = 512, ga_svc_init = (\<lambda>_ w. w),
     ga_hid_add = (\<lambda>_ w. (0, w)), ga_dis_pnp_id_set = (\<lambda>_ w. w), ga_dis_manufacturer_name_set = (\<lambda>_ w. (0, w)),
     ga_dis_serial_number_set = (\<lambda>_ w. (0, w)), ga_stop = (\<lambda>w. w), ga_battery_level_set = (\<lambda>_ w. (0, w)),
     ga_read_local = (\<lambda>h w. ((0, if h = 30 then [1, 1] else [1]), w)), ga_write_local = (\<lambda>h bs w. (0, w)),
     ga_notify = (\<lambda>c h bs w. (0, w @ [(c, h, bs)])), ga_to_flat = (\<lambda>bs n. (if n < length bs then 1 else 0, take n bs)),
     ga_mbuf = (\<lambda>w. (True, w)), ga_conn_find = (\<lambda>c w. True), ga_loop_create = (\<lambda>w. (0, w)),
     ga_handler_register = (\<lambda>_ _ w. (0, w)), ga_handler_unregister = (\<lambda>_ _ w. (0, w))\<rparr>"

definition sample_config :: esp_hid_device_config_t where
  "sample_config = \<lparr>cf_vendor_id = 0x16C0, cf_product_id = 0x05DF, cf_version = 0x0100, cf_device_name = Some [75, 98],
     cf_manufacturer_name = Some [69], cf_serial_number = None,
     cf_report_maps = [\<lparr>raw_data = Some kbd_map, raw_len = 47\<rparr>], cf_report_maps_len = 1\<rparr>"

definition hidd_init_st :: "'w \<Rightarrow> 'w hidd_st" where
  "hidd_init_st w = \<lparr>hd_blocks = (\<lambda>_. None), hd_next = 1, hd_allocs = 0, s_dev = None, service_index = -1,
     hd_listening = False, hd_loops = 0, hd_mbufs = 0, hd_posted = [], hd_parser = parser_init, hd_world = w\<rparr>"

lemma sample_config_parses: "parses (\<lambda>_. True) [kbd_map] parser_init"
proof -
  have "(case fst (esp_hid_parse_report_map (\<lambda>_. True) kbd_map parser_init) of Inl e \<Rightarrow> False | Inr m \<Rightarrow> True) = True"
    by code_simp
  then show ?thesis by (auto split: prod.splits sum.splits option.splits)
qed

lemma sample_config_ok: "config_ok sample_config" "List.map raw_of (cf_report_maps sample_config) = [kbd_map]"
  by (simp_all add: config_ok_def sample_config_def raw_of_def kbd_map_def)

lemma sample_startable: "s_dev s = None \<Longrightarrow> (\<And>x. x \<ge> hd_next s \<Longrightarrow> hd_blocks s x = None) \<Longrightarrow> hd_parser s = parser_init \<Longrightarrow>
    hidd_startable sample_gatts sample_config s"
proof -
  have "ga_malloc sample_gatts = (\<lambda>_. True)" "room_for sample_gatts sample_config"
    by (simp_all add: room_for_def sample_gatts_def sample_config_def)
  moreover assume "s_dev s = None" "\<And>x. x \<ge> hd_next s \<Longrightarrow> hd_blocks s x = None" "hd_parser s = parser_init"
  ultimately show ?thesis
    unfolding hidd_startable_def using sample_config_ok sample_config_parses parser_wf_simps(10) by metis
qed

section \<open>Start and end\<close>


lemma first_run:
  "(case esp_hidd_dev_init (\<lambda>_. True) (nimble_hidd_vtable sample_gatts) sample_config ESP_HID_TRANSPORT_BLE True (hidd_init_st []) of
      Inr ((rc, dev), t) \<Rightarrow> rc = 0 \<and> dev = Some 1 | Inl e \<Rightarrow> False) = True"
  by code_simp



text \<open>The state after a first run: its service was registered, and the profile was ended.\<close>

definition second_st :: "sent hidd_st" where
  "second_st = (hidd_init_st [])\<lparr>hd_blocks := (\<lambda>_. None)(1 := Some (DevBlock hidd_dev_zero)), hd_next := 2, service_index := 0\<rparr>"

lemma second_run:
  "(case esp_ble_hidd_dev_init sample_gatts 1 sample_config True second_st of
      Inr (rc, t) \<Rightarrow> rc = 0 \<and> s_dev t = Some 2 | Inl e \<Rightarrow> False) = True"
  by code_simp


text \<open>
  The GAP listener outlives the device: ending the device does not take it off the stack's list, and
  the next connection or disconnection, of whoever it is, follows the NULL pointer \<open>s_dev\<close>.
\<close>
theorem listener_outlives_device:
  assumes "hidd_live base n k a s" and "hd_blocks s a = Some (DevBlock x)"
  shows "\<exists>t. nimble_hidd_dev_deinit ga (od_dev x) s = Inr (0, t) \<and> hd_listening t = hd_listening s
    \<and> nimble_hid_gap_event ga (BLE_GAP_EVENT_DISCONNECT reason c) t = Inl NullDeref
    \<and> (ga_conn_find ga c (hd_world t) \<longrightarrow> nimble_hid_gap_event ga (BLE_GAP_EVENT_CONNECT st c) t = Inl NullDeref)
    \<and> nimble_host_synced t = Inl NullDeref"
proof -
  obtain t where t: "nimble_hidd_dev_deinit ga (od_dev x) s = Inr (0, t)" "s_dev t = None" "hd_listening t = hd_listening s"
    using nimble_stop [OF assms] by blast
  have "get_ble None t = Inl NullDeref" by (simp add: get_ble_def hidd_block_at_def sbind_def)
  then have "nimble_hid_gap_event ga (BLE_GAP_EVENT_DISCONNECT reason c) t = Inl NullDeref"
    "ga_conn_find ga c (hd_world t) \<Longrightarrow> nimble_hid_gap_event ga (BLE_GAP_EVENT_CONNECT st c) t = Inl NullDeref"
    "nimble_host_synced t = Inl NullDeref"
    using t(2) by (simp_all add: nimble_hid_gap_event_def nimble_host_synced_def upd_ble_def sbind_def sseq_def)
  then show ?thesis using t(1,3) by blast
qed

section \<open>A running sample device\<close>

definition kbd_rpt :: "u16 option \<Rightarrow> hidd_report_item_t" where
  "kbd_rpt h = \<lparr>hi_map_index = 0, hi_report_id = 1, hi_report_type = ESP_HID_REPORT_TYPE_INPUT,
     hi_protocol_mode = ESP_HID_PROTOCOL_MODE_REPORT, hi_usage = ESP_HID_USAGE_KEYBOARD, hi_value_len = 8, hi_handle = h\<rparr>"

text \<open>The device block is at 1, the transport's at 2, its maps at 3; each map has a report and its bytes.\<close>

definition running_dev :: "bool \<Rightarrow> u8 \<Rightarrow> esp_ble_hidd_dev_t" where
  "running_dev con k = ble_hidd_zero\<lparr>bd_dev := Some 1, bd_event_loop := True, bd_connected := con, bd_conn_id := 7,
     bd_protocol := 1, bd_devices := Some 3, bd_devices_len := k\<rparr>"

definition running_map :: "nat \<Rightarrow> hidd_dev_map_t" where
  "running_map b = dev_map_zero\<lparr>dm_map_data := Some b, dm_map_len := 47, dm_reports_len := 1, dm_reports := Some (b + 1),
     dm_hid_protocol_handle := of_nat (b + 20)\<rparr>"

definition running_st :: "bool \<Rightarrow> u8 \<Rightarrow> hidd_dev_map_t list \<Rightarrow> sent hidd_st" where
  "running_st con k ms = (hidd_init_st [])\<lparr>hd_blocks := (\<lambda>_. None)(1 := Some (DevBlock \<lparr>od_dev = Some 2,
       od_transport = ESP_HID_TRANSPORT_BLE, od_ops = True\<rparr>), 2 := Some (BleBlock (running_dev con k)), 3 := Some (MapArray ms),
       4 := Some (Bytes kbd_map), 5 := Some (ReportArray [kbd_rpt None]), 6 := Some (Bytes kbd_map),
       7 := Some (ReportArray [kbd_rpt None])),
     hd_next := 8, s_dev := Some 2, hd_loops := 1, hd_listening := True\<rparr>"

definition running_base :: "nat \<Rightarrow> hidd_block option" where
  "running_base = (\<lambda>_. None)(1 := Some (DevBlock \<lparr>od_dev = Some 2, od_transport = ESP_HID_TRANSPORT_BLE, od_ops = True\<rparr>))"

lemma running_two: "prof running_base 2 (running_dev con 2) [running_map 4, running_map 6] (running_st con 2 [running_map 4, running_map 6])"
  by (simp add: prof_def maps_at_def owned_def names_owned_def map_owned_def running_st_def running_dev_def running_map_def
      running_base_def ble_hidd_zero_def hidd_config_zero_def dev_map_zero_def)

lemma running_full: "m \<in> {running_map 4, running_map 6} \<Longrightarrow> full (hd_blocks (running_st con k ms)) m"
  by (elim insertE emptyE) (simp_all add: full_def running_st_def running_map_def kbd_map_def)

theorem listener_outlives_device_witness:
  "\<exists>t. nimble_hidd_dev_deinit sample_gatts (Some 2) (running_st False 2 [running_map 4, running_map 6]) = Inr (0, t) \<and> hd_listening t
    \<and> nimble_hid_gap_event sample_gatts (BLE_GAP_EVENT_DISCONNECT 8 7) t = Inl NullDeref
    \<and> nimble_hid_gap_event sample_gatts (BLE_GAP_EVENT_CONNECT 0 7) t = Inl NullDeref"
proof -
  let ?s = "running_st False 2 [running_map 4, running_map 6]"
  let ?x = "\<lparr>od_dev = Some 2, od_transport = ESP_HID_TRANSPORT_BLE, od_ops = True\<rparr>"
  have base: "running_base = (\<lambda>_. None)(1 := Some (DevBlock ?x))" by (simp add: running_base_def)
  have "hidd_live (\<lambda>_. None) 0 2 1 ?s"
    by (rule hidd_liveI [OF running_two [unfolded base]])
       (simp_all add: running_st_def running_dev_def hidd_init_st_def ble_hidd_zero_def)
  from listener_outlives_device [OF this, of ?x sample_gatts 8 7 0]
  show ?thesis by (auto simp: running_st_def sample_gatts_def)
qed

section \<open>Connecting\<close>

lemma mbuf_run:
  "ga_mbuf ga (hd_world s) = (True, w) \<Longrightarrow>
   mbuf_from_flat ga bs s = Inr (Some bs, s\<lparr>hd_world := w, hd_mbufs := hd_mbufs s + 1\<rparr>)"
  by (simp add: mbuf_from_flat_def hidd_call_def mbufs_def sbind_def)

text \<open>
  A connection makes one buffer with the protocol mode and writes it to every map, but the stack frees
  it with the first write: a device with one map is told to be connected, with two or more the freed
  buffer is used.
\<close>
theorem connect_reuses_buffer:
  assumes s: "prof base p d ms s" "s_dev s = Some p" and found: "ga_conn_find ga c (hd_world s)"
    and mem: "ga_mbuf ga (hd_world s) = (True, w)" and one: "ms \<noteq> []"
  shows "if length ms = 1
    then \<exists>t. nimble_hid_gap_event ga (BLE_GAP_EVENT_CONNECT st c) s = Inr (0, t)
       \<and> prof base p (d\<lparr>bd_connected := True, bd_conn_id := c\<rparr>) ms t \<and> hd_mbufs t = hd_mbufs s
       \<and> hd_posted t = hd_posted s @ [ESP_HIDD_CONNECT_EVENT (bd_dev d) st]
    else nimble_hid_gap_event ga (BLE_GAP_EVENT_CONNECT st c) s = Inl UseAfterFree"
proof -
  let ?e = "d\<lparr>bd_connected := True, bd_conn_id := c\<rparr>"
  let ?s1 = "s\<lparr>hd_blocks := (hd_blocks s)(p := Some (BleBlock ?e))\<rparr>"
  have p1: "prof base p ?e ms ?s1" by (rule prof_upd_ble [OF s(1)]) simp_all
  have len: "unat (bd_devices_len d) = length ms" using profD(2) [OF s(1)] by (auto simp: maps_at_def split: option.splits)
  let ?s2 = "?s1\<lparr>hd_world := w, hd_mbufs := hd_mbufs s + 1\<rparr>"
  have p2: "prof base p ?e ms ?s2" using p1 prof_cong [of ?s1 ?s2] by simp
  obtain m ns where ms: "ms = m # ns" using one by (cases ms) auto
  obtain r v where v: "ga_write_local ga (dm_hid_protocol_handle m) (Some [ESP_HID_PROTOCOL_MODE_REPORT]) w = (r, v)" by fastforce
  let ?s3 = "?s2\<lparr>hd_world := v, hd_mbufs := hd_mbufs s\<rparr>"
  have p3: "prof base p ?e ms ?s3" using p1 prof_cong [of ?s1 ?s3] by simp
  have get: "get_map (bd_devices d) 0 ?s2 = Inr (m, ?s2)" using prof_get_map [OF p2, of 0] ms by simp
  have reset: "reset_modes ga (bd_devices d) (Some [ESP_HID_PROTOCOL_MODE_REPORT]) False [0..<length ms] ?s2 =
     (if length ms = 1 then Inr ((), ?s3) else Inl UseAfterFree)"
  proof (cases ns)
    case Nil
    then show ?thesis using ms v
      by (simp add: sbind_Inr [where m = "get_map (bd_devices d) 0", OF get] mbufs_def) (simp add: hidd_call_def sseq_def sbind_def)
  next
    case (Cons m2 rest)
    have "[0..<length ms] = 0 # 1 # [2..<length ms]" using ms Cons by (simp add: upt_conv_Cons numeral_2_eq_2 del: upt_Suc)
    moreover have "get_map (bd_devices d) 1 ?s3 = Inr (m2, ?s3)" using prof_get_map [OF p3, of 1] ms Cons by simp
    ultimately show ?thesis using ms Cons v
      by (simp add: sbind_Inr [where m = "get_map (bd_devices d) 0", OF get] mbufs_def)
         (simp add: hidd_call_def sseq_def sbind_def)
  qed
  have buf: "mbuf_from_flat ga [ESP_HID_PROTOCOL_MODE_REPORT] ?s1 = Inr (Some [ESP_HID_PROTOCOL_MODE_REPORT], ?s2)"
    using mem by (simp add: mbuf_run)
  have run: "nimble_hid_gap_event ga (BLE_GAP_EVENT_CONNECT st c) s =
     sseq (reset_modes ga (bd_devices d) (Some [ESP_HID_PROTOCOL_MODE_REPORT]) False [0..<length ms])
       (sseq (post_hidd (ESP_HIDD_CONNECT_EVENT (bd_dev d) st)) (sret 0)) ?s2"
    using s(2) found mem len
    by (simp add: nimble_hid_gap_event_def sseq_Inr [where m = "upd_ble (Some p) f" for f, OF upd_ble_run [OF profD(1) [OF s(1)]]]
        sbind_Inr [where m = "get_ble (Some p)", OF prof_get_ble [OF p1]] sbind_Inr [where m = "mbuf_from_flat ga bs" for bs, OF buf])
  show ?thesis
    unfolding run sseq_def [of "reset_modes _ _ _ _ _"] sbind_def [of "reset_modes _ _ _ _ _"] reset
    using p3 prof_cong [of ?s3 "?s3\<lparr>hd_posted := hd_posted s @ [ESP_HIDD_CONNECT_EVENT (bd_dev d) st]\<rparr>"]
    by (simp add: post_hidd_def)
qed

end
