(* ===== verification/HiddReports.thy ===== *)
theory HiddReports
  imports HiddThms
begin

text \<open>
  Reports and their handles: a lookup is the first match over the reports of all maps; the
  registration of a report's descriptor sets the handle of that match and no other; what the
  application sends under the report's id goes to this handle.
\<close>

section \<open>Looking up\<close>

text \<open>The reports behind a map.\<close>

definition rpts :: "(nat \<Rightarrow> hidd_block option) \<Rightarrow> hidd_dev_map_t \<Rightarrow> hidd_report_item_t list" where
  "rpts h m = (case Option.bind (dm_reports m) h of Some (ReportArray rs) \<Rightarrow> rs | _ \<Rightarrow> [])"

definition all_rpts :: "(nat \<Rightarrow> hidd_block option) \<Rightarrow> hidd_dev_map_t list \<Rightarrow> hidd_report_item_t list" where
  "all_rpts h ms = concat (List.map (rpts h) ms)"

lemma get_reports_full:
  "full (hd_blocks s) m \<Longrightarrow> get_reports (dm_reports m) (unat (dm_reports_len m)) s = Inr (rpts (hd_blocks s) m, s)"
  by (auto simp: full_def get_reports_def rpts_def hidd_block_at_def sbind_def)

lemma find_index_None: "find_index P xs = None \<longleftrightarrow> find P xs = None"
  by (induction xs) auto

lemma find_index_Some: "find_index P xs = Some i \<Longrightarrow> i < length xs \<and> P (xs ! i) \<and> find P xs = Some (xs ! i)
    \<and> (\<forall>j < i. \<not> P (xs ! j))"
  by (induction xs arbitrary: i) (auto simp: less_Suc_eq_0_disj split: if_splits)

lemma find_append: "find P (xs @ ys) = (case find P xs of None \<Rightarrow> find P ys | Some x \<Rightarrow> Some x)"
  by (induction xs) auto

text \<open>The place of the first match, and the match.\<close>

definition at_place :: "(nat \<Rightarrow> hidd_block option) \<Rightarrow> hidd_dev_map_t list \<Rightarrow> (hidd_report_item_t \<Rightarrow> bool) \<Rightarrow>
    (nat \<times> nat) option \<Rightarrow> bool" where
  "at_place h ms P loc \<longleftrightarrow> (case loc of
      None \<Rightarrow> find P (all_rpts h ms) = None
    | Some (j, i) \<Rightarrow> j < length ms \<and> i < length (rpts h (ms ! j)) \<and> find P (all_rpts h ms) = Some (rpts h (ms ! j) ! i)
         \<and> P (rpts h (ms ! j) ! i) \<and> find P (all_rpts h (take j ms)) = None
         \<and> find P (take i (rpts h (ms ! j))) = None)"

lemma find_in_maps_run:
  assumes s: "prof base p d ms s" and f: "\<forall>m \<in> set ms. full (hd_blocks s) m"
    and k: "k \<le> length ms" and none: "find P (all_rpts (hd_blocks s) (take k ms)) = None"
  shows "\<exists>loc. find_in_maps P (bd_devices d) [k..<length ms] s = Inr (loc, s) \<and> at_place (hd_blocks s) ms P loc"
  using k none
proof (induction "length ms - k" arbitrary: k)
  case 0
  then show ?case by (intro exI [of _ None]) (simp add: at_place_def)
next
  case (Suc n)
  let ?h = "hd_blocks s"
  have k: "k < length ms" using Suc(2) by simp
  let ?rs = "rpts ?h (ms ! k)"
  have up: "[k..<length ms] = k # [Suc k..<length ms]" using k by (simp add: upt_conv_Cons)
  have split: "all_rpts ?h ms = all_rpts ?h (take k ms) @ ?rs @ all_rpts ?h (drop (Suc k) ms)"
    using id_take_nth_drop [OF k] by (metis (no_types, lifting) all_rpts_def concat.simps(2) concat_append list.simps(9) map_append)
  have take: "all_rpts ?h (take (Suc k) ms) = all_rpts ?h (take k ms) @ ?rs"
    using k by (simp add: all_rpts_def take_Suc_conv_app_nth)
  have rs: "get_reports (dm_reports (ms ! k)) (unat (dm_reports_len (ms ! k))) s = Inr (?rs, s)"
    using f k by (intro get_reports_full) simp
  have step: "find_in_maps P (bd_devices d) [k..<length ms] s =
     (case find_index P ?rs of Some i \<Rightarrow> Inr (Some (k, i), s) | None \<Rightarrow> find_in_maps P (bd_devices d) [Suc k..<length ms] s)"
    by (simp add: up sbind_Inr [where m = "get_map (bd_devices d) k", OF prof_get_map [OF s k]]
        sbind_Inr [where m = "get_reports (dm_reports (ms ! k)) (unat (dm_reports_len (ms ! k)))", OF rs] split: option.split)
  show ?case
  proof (cases "find_index P ?rs")
    case None
    then have "find P (all_rpts ?h (take (Suc k) ms)) = None" using Suc(4) by (simp add: take find_append find_index_None)
    then show ?thesis using Suc(1) [of "Suc k"] Suc(2) k None step by simp
  next
    case (Some i)
    note i = find_index_Some [OF Some]
    then have "find P (take i ?rs) = None" by (auto simp: find_None_iff in_set_conv_nth)
    then show ?thesis
      using Some step i k Suc(4) by (intro exI [of _ "Some (k, i)"]) (simp add: at_place_def split find_append)
  qed
qed

lemma find_by_run:
  assumes s: "prof base p d ms s" "s_dev s = Some p" and f: "\<forall>m \<in> set ms. full (hd_blocks s) m"
  shows "\<exists>loc. find_by P s = Inr (loc, s) \<and> at_place (hd_blocks s) ms P loc"
proof -
  have len: "unat (bd_devices_len d) = length ms" using profD(2) [OF s(1)] by (auto simp: maps_at_def split: option.splits)
  then show ?thesis
    using find_in_maps_run [OF s(1) f, of 0 P] s(2)
    by (simp add: find_by_def sbind_Inr [where m = "get_ble (Some p)", OF prof_get_ble [OF s(1)]] all_rpts_def)
qed

section \<open>Sending\<close>

text \<open>The reports of a type, under an id, in a mode.\<close>

definition report_is :: "u8 \<Rightarrow> u8 \<Rightarrow> u8 \<Rightarrow> hidd_report_item_t \<Rightarrow> bool" where
  "report_is rid ty md r \<longleftrightarrow> hi_report_id r = rid \<and> hi_report_type r = ty \<and> hi_protocol_mode r = md"

lemma find_report_by: "find_report rid ty (Some md) = find_by (report_is rid ty md)"
  by (simp add: find_report_def report_is_def [abs_def] eq_commute [of md])

lemma rpt_handle_run:
  assumes s: "prof base p d ms s" "s_dev s = Some p" and f: "\<forall>m \<in> set ms. full (hd_blocks s) m" and j: "j < length ms"
  shows "rpt_handle (j, i) s = (case hi_handle (rpts (hd_blocks s) (ms ! j) ! i) of None \<Rightarrow> Inl UninitRead | Some h \<Rightarrow> Inr (h, s))"
proof -
  have rs: "get_reports (dm_reports (ms ! j)) (unat (dm_reports_len (ms ! j))) s = Inr (rpts (hd_blocks s) (ms ! j), s)"
    using f j by (intro get_reports_full) simp
  show ?thesis using s(2) j
    by (simp add: rpt_handle_def sbind_Inr [where m = "get_reports (dm_reports (ms ! j)) (unat (dm_reports_len (ms ! j)))", OF rs] sbind_Inr [where m = "get_ble (Some p)", OF prof_get_ble [OF s(1)]]
        sbind_Inr [where m = "get_map (bd_devices d) j", OF prof_get_map [OF s(1) j]] split: option.split)
qed

text \<open>
  The common part of \<open>input_set\<close> and \<open>feature_set\<close>, with the device connected: the protocol mode of the
  map is read and remembered, and the first report of all maps with this id (its low byte), type and
  mode is found, whatever map it belongs to; a buffer is made for the data.
\<close>

definition sending :: "nat \<Rightarrow> esp_ble_hidd_dev_t \<Rightarrow> u8 \<Rightarrow> 'w \<Rightarrow> 'w hidd_st \<Rightarrow> 'w hidd_st" where
  "sending p d md v s = s\<lparr>hd_blocks := (hd_blocks s)(p := Some (BleBlock (d\<lparr>bd_protocol := md\<rparr>))),
     hd_mbufs := hd_mbufs s + 1, hd_world := v\<rparr>"

lemma with_report_run:
  fixes s :: "'w hidd_st" and send :: "nat \<times> nat \<Rightarrow> ('w, int) hidd"
  assumes s: "prof base p d ms s" "s_dev s = Some p" "bd_connected d" and f: "\<forall>m \<in> set ms. full (hd_blocks s) m"
    and i: "index < length ms"
    and md: "ga_read_local ga (dm_hid_protocol_handle (ms ! index)) (hd_world s) = ((0, [md]), w)" "ga_to_flat ga [md] 1 = (0, [md])"
    and mem: "ga_mbuf ga w = (True, v)"
  obtains loc where "at_place (hd_blocks s) ms (report_is (of_nat rid) ty md) loc"
    "with_report ga ty (Some p) index rid data send s =
       (case loc of None \<Rightarrow> Inl AssertFailed | Some r \<Rightarrow> send r (sending p d md v s))"
    "prof base p (d\<lparr>bd_protocol := md\<rparr>) ms (sending p d md v s)"
    "\<forall>m \<in> set ms. full (hd_blocks (sending p d md v s)) m"
    "\<And>m. m \<in> set ms \<Longrightarrow> rpts (hd_blocks (sending p d md v s)) m = rpts (hd_blocks s) m"
proof -
  let ?P = "report_is (of_nat rid) ty md" and ?e = "d\<lparr>bd_protocol := md\<rparr>"
  let ?h = "(hd_blocks s)(p := Some (BleBlock ?e))"
  let ?s1 = "s\<lparr>hd_world := w, hd_mbufs := hd_mbufs s + 1\<rparr>"
  let ?t1 = "?s1\<lparr>hd_blocks := ?h\<rparr>"
  let ?s2 = "s\<lparr>hd_blocks := ?h, hd_world := w\<rparr>"
  let ?s3 = "sending p d md v s"
  have p2: "prof base p ?e ms (s\<lparr>hd_blocks := ?h\<rparr>)" by (rule prof_upd_ble [OF s(1)]) simp_all
  then have p2: "prof base p ?e ms ?s2" and p3: "prof base p ?e ms ?s3"
    using prof_cong [of "s\<lparr>hd_blocks := ?h\<rparr>" ?s2] prof_cong [of "s\<lparr>hd_blocks := ?h\<rparr>" ?s3] by (simp_all add: sending_def)
  have keep: "others_keep p d s ?s2" "others_keep p d s ?s3" by (simp_all add: others_keep_def sending_def)
  have f2: "\<forall>m \<in> set ms. full (hd_blocks ?s2) m" and f3: "\<forall>m \<in> set ms. full (hd_blocks ?s3) m"
    using full_others [OF s(1) _ _ keep(1)] f by (simp_all add: sending_def)
  have "x \<noteq> p" if "dm_reports m = Some x" "m \<in> set ms" for x m
  proof -
    have "x \<in> set (owned d ms)" using that by (force simp: owned_def map_owned_def)
    then show ?thesis using profD(3) [OF s(1)] by auto
  qed
  then have same: "rpts ?h m = rpts (hd_blocks s) m" if "m \<in> set ms" for m
    using that by (cases "dm_reports m") (auto simp: rpts_def)
  then have all: "all_rpts ?h (take k ms) = all_rpts (hd_blocks s) (take k ms)" for k
  proof -
    have "List.map (rpts ?h) (take k ms) = List.map (rpts (hd_blocks s)) (take k ms)"
      by (rule map_cong) (auto simp: same dest: in_set_takeD)
    then show ?thesis by (simp only: all_rpts_def)
  qed
  obtain loc where loc: "find_by ?P ?s2 = Inr (loc, ?s2)" "at_place ?h ms ?P loc"
    using find_by_run [OF p2 _ f2, of ?P] s(2) by auto
  have at: "at_place (hd_blocks s) ms ?P loc"
    using loc(2) all all [of "length ms"] same by (auto simp: at_place_def split: option.splits prod.splits)
  have g: "get_ble (Some p) s = Inr (d, s)" "get_ble (Some p) ?s2 = Inr (?e, ?s2)"
    using prof_get_ble [OF s(1)] prof_get_ble [OF p2] by simp_all
  have u: "upd_ble (Some p) (\<lambda>d. d\<lparr>bd_protocol := md\<rparr>) ?s1 = Inr ((), ?t1)"
    using profD(1) [OF s(1)] by (subst upd_ble_run [where d = d]) simp_all
  have m: "mbufs (-1) ?t1 = Inr ((), ?s2)" by (cases s) (simp add: mbufs_def)
  have b: "mbuf_from_flat ga data ?s2 = Inr (Some data, ?s3)"
    using mem mbuf_run [of ga ?s2 v data] by (cases s) (simp add: sending_def)
  have r: "hidd_call (ga_read_local ga (dm_hid_protocol_handle (ms ! index))) s = Inr ((0, [md]), s\<lparr>hd_world := w\<rparr>)"
    using md(1) by (simp add: hidd_call_def)
  have m1: "mbufs 1 (s\<lparr>hd_world := w\<rparr>) = Inr ((), ?s1)" by (simp add: mbufs_def)
  have "with_report ga ty (Some p) index rid data send s = (case loc of None \<Rightarrow> Inl AssertFailed | Some r \<Rightarrow> send r ?s3)"
    using s(2,3) md(2)
    by (simp add: with_report_def find_report_by sbind_Inr [where m = "get_ble (Some p)", OF g(1)]
        sbind_Inr [where m = "get_map (bd_devices d) index", OF prof_get_map [OF s(1) i]]
        sbind_Inr [where m = "hidd_call (ga_read_local ga (dm_hid_protocol_handle (ms ! index)))", OF r]
        sseq_Inr [where m = "mbufs 1", OF m1]
        sseq_Inr [where m = "upd_ble (Some p) (\<lambda>d. d\<lparr>bd_protocol := md\<rparr>)", OF u]
        sseq_Inr [where m = "mbufs (-1)", OF m]
        sbind_Inr [where m = "get_ble (Some p)", OF g(2)]
        sbind_Inr [where m = "find_by ?P", OF loc(1)]
        sbind_Inr [where m = "mbuf_from_flat ga data", OF b] split: option.split)
  moreover have "rpts (hd_blocks ?s3) m = rpts (hd_blocks s) m" if "m \<in> set ms" for m
    using same [OF that] by (simp add: sending_def)
  ultimately show thesis using that [OF at _ p3 f3] by blast
qed

text \<open>A report that is found has its handle read.\<close>

lemma handle_at:
  assumes "prof base p d ms s" "s_dev s = Some p" and "\<forall>m \<in> set ms. full (hd_blocks s) m"
    and "at_place h ms P (Some ji)" and "\<And>m. m \<in> set ms \<Longrightarrow> rpts (hd_blocks s) m = rpts h m"
    and "find P (all_rpts h ms) = Some r"
  shows "rpt_handle ji s = (case hi_handle r of None \<Rightarrow> Inl UninitRead | Some h \<Rightarrow> Inr (h, s))"
  using assms rpt_handle_run [OF assms(1-3), of "fst ji" "snd ji"] by (cases ji) (simp add: at_place_def)

lemma input_set_spec:
  fixes s :: "'w hidd_st"
  assumes s: "prof base p d ms s" "s_dev s = Some p" "bd_connected d" and f: "\<forall>m \<in> set ms. full (hd_blocks s) m"
    and i: "index < length ms"
    and md: "ga_read_local ga (dm_hid_protocol_handle (ms ! index)) (hd_world s) = ((0, [md]), w)" "ga_to_flat ga [md] 1 = (0, [md])"
    and mem: "ga_mbuf ga w = (True, v)"
  shows "nimble_hidd_dev_input_set ga (Some p) index rid data s =
    (case find (report_is (of_nat rid) ESP_HID_REPORT_TYPE_INPUT md) (all_rpts (hd_blocks s) ms) of
       None \<Rightarrow> Inl AssertFailed
     | Some r \<Rightarrow> (case hi_handle r of
           None \<Rightarrow> Inl UninitRead
         | Some h \<Rightarrow> (case ga_notify ga (bd_conn_id d) h data v of (rc, w') \<Rightarrow>
             Inr (if rc = 0 then 0 else ESP_FAIL,
               s\<lparr>hd_blocks := (hd_blocks s)(p := Some (BleBlock (d\<lparr>bd_protocol := md\<rparr>))), hd_world := w'\<rparr>))))"
proof -
  let ?P = "report_is (of_nat rid) ESP_HID_REPORT_TYPE_INPUT md" and ?t = "sending p d md v s"
  define send_it :: "nat \<times> nat \<Rightarrow> ('w, int) hidd" where "send_it = (\<lambda>r. sbind (sget s_dev) (\<lambda>sd. sbind (get_ble sd) (\<lambda>d.
     sbind (rpt_handle r) (\<lambda>h. sseq (mbufs (-1))
       (sbind (hidd_call (ga_notify ga (bd_conn_id d) h data)) (\<lambda>rc. if rc \<noteq> 0 then sret ESP_FAIL else sret 0))))))"
  obtain loc where loc: "at_place (hd_blocks s) ms ?P loc"
      "with_report ga ESP_HID_REPORT_TYPE_INPUT (Some p) index rid data send_it s =
         (case loc of None \<Rightarrow> Inl AssertFailed | Some r \<Rightarrow> send_it r ?t)"
      "prof base p (d\<lparr>bd_protocol := md\<rparr>) ms ?t" "\<forall>m \<in> set ms. full (hd_blocks ?t) m"
      "\<And>m. m \<in> set ms \<Longrightarrow> rpts (hd_blocks ?t) m = rpts (hd_blocks s) m"
    using with_report_run [OF s f i md mem, where send = send_it and ty = ESP_HID_REPORT_TYPE_INPUT and rid = rid and data = data,
      of thesis] by blast
  have run: "nimble_hidd_dev_input_set ga (Some p) index rid data s = (case loc of None \<Rightarrow> Inl AssertFailed | Some r \<Rightarrow> send_it r ?t)"
    using loc(2) by (simp add: nimble_hidd_dev_input_set_def send_it_def)
  show ?thesis
  proof (cases loc)
    case None
    then show ?thesis using loc(1) by (simp add: run at_place_def)
  next
    case (Some ji)
    then obtain r where r: "find ?P (all_rpts (hd_blocks s) ms) = Some r" using loc(1) by (auto simp: at_place_def)
    have dev: "s_dev ?t = Some p" using s(2) by (simp add: sending_def)
    have h: "rpt_handle ji ?t = (case hi_handle r of None \<Rightarrow> Inl UninitRead | Some h \<Rightarrow> Inr (h, ?t))"
      by (rule handle_at [OF loc(3) dev loc(4) _ loc(5) r]) (use loc(1) Some in simp_all)
    have g: "get_ble (Some p) ?t = Inr (d\<lparr>bd_protocol := md\<rparr>, ?t)" by (rule prof_get_ble [OF loc(3)])
    have m: "mbufs (-1) ?t = Inr ((), s\<lparr>hd_blocks := (hd_blocks s)(p := Some (BleBlock (d\<lparr>bd_protocol := md\<rparr>))), hd_world := v\<rparr>)"
      by (cases s) (simp add: mbufs_def sending_def)
    show ?thesis
    proof (cases "hi_handle r")
      case None
      then show ?thesis
        using dev by (simp add: run Some r send_it_def sbind_Inr [where m = "get_ble (Some p)", OF g] sbind_Inl [where m = "rpt_handle ji"] h)
    next
      case (Some x)
      obtain rc w' where n: "ga_notify ga (bd_conn_id d) x data v = (rc, w')" by fastforce
      then have c: "hidd_call (ga_notify ga (bd_conn_id d) x data) (s\<lparr>hd_blocks := hb, hd_world := v\<rparr>)
          = Inr (rc, s\<lparr>hd_blocks := hb, hd_world := w'\<rparr>)" for hb by (simp add: hidd_call_def)
      from Some show ?thesis
        using dev by (simp add: n run \<open>loc = Some ji\<close> r send_it_def sbind_Inr [where m = "get_ble (Some p)", OF g]
            sbind_Inr [where m = "rpt_handle ji" and x = x and s' = ?t] h sseq_Inr [where m = "mbufs (-1)", OF m] sbind_Inr [where m = "hidd_call f" for f, OF c])
    qed
  qed
qed

section \<open>Registering\<close>

lemma find_around:
  "find P (ys @ r # zs) = (case find P ys of Some x \<Rightarrow> Some x | None \<Rightarrow> if P r then Some r else find P zs)"
  by (simp add: find_append split: option.split)

text \<open>The block with the reports of a map is its own: nothing else of the profile points to it.\<close>

lemma report_block_apart:
  assumes s: "prof base p d ms s" and j: "j < length ms" and a: "dm_reports (ms ! j) = Some a"
  shows "a \<in> set (owned d ms)" "a \<noteq> p" "bd_devices d \<noteq> Some a" "dm_map_data (ms ! j) \<noteq> Some a"
    "m \<in> set (take j ms) \<union> set (drop (Suc j) ms) \<Longrightarrow> dm_reports m \<noteq> Some a \<and> dm_map_data m \<noteq> Some a"
proof -
  let ?m = "ms ! j"
  have split: "ms = take j ms @ ?m # drop (Suc j) ms" using j by (rule id_take_nth_drop)
  have dist: "distinct (concat (List.map map_owned (take j ms @ ?m # drop (Suc j) ms)) @ ptr_list (bd_devices d) @ names_owned (bd_config d))"
    using profD(3) [OF s] by (subst split [symmetric]) (simp add: owned_def)
  have am: "a \<in> set (map_owned ?m)" using a by (simp add: map_owned_def)
  then show own: "a \<in> set (owned d ms)" using j by (auto simp: owned_def)
  show "a \<noteq> p" using profD(3) [OF s] own by auto
  show "bd_devices d \<noteq> Some a" using dist am by auto
  show "dm_map_data ?m \<noteq> Some a" using dist a by (auto simp: map_owned_def)
  assume "m \<in> set (take j ms) \<union> set (drop (Suc j) ms)"
  then have "set (map_owned ?m) \<inter> set (map_owned m) = {}" using dist by auto
  then have "a \<notin> set (map_owned m)" using am by auto
  then show "dm_reports m \<noteq> Some a \<and> dm_map_data m \<noteq> Some a" by (auto simp: map_owned_def)
qed

lemma full_reports: "full h m \<Longrightarrow> \<exists>a. dm_reports m = Some a \<and> h a = Some (ReportArray (rpts h m))"
  by (auto simp: full_def rpts_def)

text \<open>A new array of reports behind a map: the other maps keep theirs.\<close>

lemma new_reports:
  assumes s: "prof base p d ms s" and f: "\<forall>m \<in> set ms. full (hd_blocks s) m" and j: "j < length ms"
    and a: "dm_reports (ms ! j) = Some a" and len: "length rs = length (rpts (hd_blocks s) (ms ! j))"
  defines "h \<equiv> (hd_blocks s)(a := Some (ReportArray rs))"
  shows "prof base p d ms (s\<lparr>hd_blocks := h\<rparr>)" "\<forall>m \<in> set ms. full h m"
    "all_rpts h ms = all_rpts (hd_blocks s) (take j ms) @ rs @ all_rpts (hd_blocks s) (drop (Suc j) ms)"
proof -
  note apart = report_block_apart [OF s j a]
  obtain rs0 where rs0: "hd_blocks s a = Some (ReportArray rs0)" "rpts (hd_blocks s) (ms ! j) = rs0"
    using full_reports [of "hd_blocks s" "ms ! j"] f j a by auto
  show "prof base p d ms (s\<lparr>hd_blocks := h\<rparr>)"
    using s apart(1-3) profD(7) [OF s, of a] rs0(1) unfolding prof_def h_def by (auto simp: maps_at_def split: option.splits)
  show "\<forall>m \<in> set ms. full h m"
  proof
    fix m assume "m \<in> set ms"
    then consider "m = ms ! j" | "m \<in> set (take j ms) \<union> set (drop (Suc j) ms)" "full (hd_blocks s) m"
      using f id_take_nth_drop [OF j] by (metis Un_iff set_ConsD set_append)
    then show "full h m"
    proof cases
      case 1
      moreover have "full (hd_blocks s) (ms ! j)" using f j by simp
      ultimately show ?thesis using a rs0 len apart(4) by (auto simp: full_def h_def)
    next
      case 2
      show ?thesis
        by (rule full_keep [OF 2(2)])
           (use apart(5) [OF 2(1)] in \<open>auto simp: h_def map_owned_def ptr_list_def split: option.splits\<close>)
    qed
  qed
  have keep: "rpts h m = rpts (hd_blocks s) m" if "m \<in> set (take j ms) \<union> set (drop (Suc j) ms)" for m
    using apart(5) [OF that] by (cases "dm_reports m") (auto simp: rpts_def h_def)
  have "List.map (rpts h) (take j ms) = List.map (rpts (hd_blocks s)) (take j ms)"
    "List.map (rpts h) (drop (Suc j) ms) = List.map (rpts (hd_blocks s)) (drop (Suc j) ms)"
    by (rule map_cong; simp add: keep)+
  moreover have "rpts h (ms ! j) = rs" using a by (simp add: rpts_def h_def)
  ultimately show "all_rpts h ms = all_rpts (hd_blocks s) (take j ms) @ rs @ all_rpts (hd_blocks s) (drop (Suc j) ms)"
    by (subst id_take_nth_drop [OF j]) (simp only: all_rpts_def map_append list.map concat_append concat.simps)
qed

text \<open>Setting the handle of the report at a place: the reports around it stay.\<close>

lemma set_rpt_handle_run:
  fixes s :: "'w hidd_st"
  assumes s: "prof base p d ms s" "s_dev s = Some p" and f: "\<forall>m \<in> set ms. full (hd_blocks s) m"
    and at: "at_place (hd_blocks s) ms P (Some (j, i))" and r: "find P (all_rpts (hd_blocks s) ms) = Some r"
  obtains b ys zs where "set_rpt_handle (j, i) h s = Inr ((), s\<lparr>hd_blocks := b\<rparr>)"
    "prof base p d ms (s\<lparr>hd_blocks := b\<rparr>)" "\<forall>m \<in> set ms. full b m"
    "all_rpts (hd_blocks s) ms = ys @ r # zs" "find P ys = None" "all_rpts b ms = ys @ r\<lparr>hi_handle := Some h\<rparr> # zs"
proof -
  let ?h = "hd_blocks s" and ?m = "ms ! j"
  have j: "j < length ms" and i: "i < length (rpts ?h ?m)" and ri: "r = rpts ?h ?m ! i"
    and none: "find P (all_rpts ?h (take j ms)) = None" "find P (take i (rpts ?h ?m)) = None"
    using at r by (auto simp: at_place_def)
  obtain a rs0 where a: "dm_reports ?m = Some a" "?h a = Some (ReportArray rs0)" "rpts ?h ?m = rs0"
    using full_reports [of ?h ?m] f j by auto
  let ?rs = "rs0[i := r\<lparr>hi_handle := Some h\<rparr>]"
  let ?ys = "all_rpts ?h (take j ms) @ take i rs0" and ?zs = "drop (Suc i) rs0 @ all_rpts ?h (drop (Suc j) ms)"
  note new = new_reports [OF s(1) f j a(1), of ?rs]
  have run: "set_rpt_handle (j, i) h s = Inr ((), s\<lparr>hd_blocks := ?h(a := Some (ReportArray ?rs))\<rparr>)"
    using s(2) a ri
    by (simp add: set_rpt_handle_def sbind_Inr [where m = "get_ble (Some p)", OF prof_get_ble [OF s(1)]]
        sbind_Inr [where m = "get_map (bd_devices d) j", OF prof_get_map [OF s(1) j]])
       (simp add: hidd_block_at_def hidd_store_def sbind_def sseq_def)
  have "all_rpts ?h ms = all_rpts ?h (take j ms) @ rs0 @ all_rpts ?h (drop (Suc j) ms)"
    by (subst id_take_nth_drop [OF j]) (simp add: all_rpts_def a(3))
  then have old: "all_rpts ?h ms = ?ys @ r # ?zs" using id_take_nth_drop [OF i] ri a(3) by simp
  have upd: "all_rpts (?h(a := Some (ReportArray ?rs))) ms = ?ys @ r\<lparr>hi_handle := Some h\<rparr> # ?zs"
    using new(3) i a(3) by (simp add: upd_conv_take_nth_drop)
  have "find P ?ys = None" using none a(3) by (simp add: find_append)
  then show thesis using that [OF run _ _ old _ upd] new(1,2) a(3) by simp
qed

text \<open>
  The reports as a table: under an id, a type and a mode stands the handle of the first report with
  them, once it is registered.
\<close>

definition handles :: "(nat \<Rightarrow> hidd_block option) \<Rightarrow> hidd_dev_map_t list \<Rightarrow> u8 \<times> u8 \<times> u8 \<Rightarrow> u16 option" where
  "handles b ms = (\<lambda>(rid, ty, md). Option.bind (find (report_is rid ty md) (all_rpts b ms)) hi_handle)"

lemma handles_update:
  assumes "all_rpts b ms = ys @ r # zs" "all_rpts b' ms = ys @ r\<lparr>hi_handle := Some h\<rparr> # zs"
    and "find (report_is rid ty md) ys = None" "report_is rid ty md r"
  shows "handles b' ms = (handles b ms)((rid, ty, md) \<mapsto> h)"
    "(find (report_is x y z) (all_rpts b' ms) = None) = (find (report_is x y z) (all_rpts b ms) = None)"
proof -
  have "report_is x y z (r\<lparr>hi_handle := Some h\<rparr>) = report_is x y z r" for x y z by (simp add: report_is_def)
  then show "(find (report_is x y z) (all_rpts b' ms) = None) = (find (report_is x y z) (all_rpts b ms) = None)"
    and "handles b' ms = (handles b ms)((rid, ty, md) \<mapsto> h)"
    using assms(3,4)
    by (auto simp: assms(1,2) handles_def find_around fun_eq_iff report_is_def split: option.split)
qed

text \<open>The registration of one descriptor with a report reference.\<close>

lemma register_dsc_run:
  fixes s :: "'w hidd_st"
  assumes s: "prof base p d ms s" "s_dev s = Some p" and f: "\<forall>m \<in> set ms. full (hd_blocks s) m"
    and ref: "ga_read_local ga dsc (hd_world s) = ((0, [rid, ty]), w)" "ga_to_flat ga [rid, ty] 2 = (0, [rid, ty])"
    and found: "find (report_is rid ty ESP_HID_PROTOCOL_MODE_REPORT) (all_rpts (hd_blocks s) ms) \<noteq> None"
  obtains b where "nimble_gatt_svr_register_cb ga (RegDsc BLE_SVC_HID_DSC_UUID16_RPT_REF dsc h) s
      = Inr ((), s\<lparr>hd_blocks := b, hd_world := w\<rparr>)"
    "prof base p d ms (s\<lparr>hd_blocks := b, hd_world := w\<rparr>)" "\<forall>m \<in> set ms. full b m"
    "handles b ms = (handles (hd_blocks s) ms)((rid, ty, ESP_HID_PROTOCOL_MODE_REPORT) \<mapsto> h)"
    "\<And>x y z. (find (report_is x y z) (all_rpts b ms) = None) = (find (report_is x y z) (all_rpts (hd_blocks s) ms) = None)"
proof -
  let ?P = "report_is rid ty ESP_HID_PROTOCOL_MODE_REPORT"
  let ?u = "s\<lparr>hd_world := w, hd_mbufs := hd_mbufs s + 1\<rparr>"
  have pu: "prof base p d ms ?u" using s(1) prof_cong [of s ?u] by simp
  have su: "s_dev ?u = Some p" "\<forall>m \<in> set ms. full (hd_blocks ?u) m" using s(2) f by simp_all
  obtain r where r: "find ?P (all_rpts (hd_blocks s) ms) = Some r" using found by auto
  obtain loc where loc: "find_by ?P ?u = Inr (loc, ?u)" "at_place (hd_blocks ?u) ms ?P loc"
    using find_by_run [OF pu su, of ?P] by auto
  then obtain j i where ji: "loc = Some (j, i)" using r by (auto simp: at_place_def split: option.splits)
  have ru: "find ?P (all_rpts (hd_blocks ?u) ms) = Some r" using r by simp
  obtain b ys zs where b: "set_rpt_handle (j, i) h ?u = Inr ((), ?u\<lparr>hd_blocks := b\<rparr>)"
      "prof base p d ms (?u\<lparr>hd_blocks := b\<rparr>)" "\<forall>m \<in> set ms. full b m"
      "all_rpts (hd_blocks ?u) ms = ys @ r # zs" "find ?P ys = None" "all_rpts b ms = ys @ r\<lparr>hi_handle := Some h\<rparr> # zs"
    by (rule set_rpt_handle_run [OF pu su loc(2) [unfolded ji] ru, where h = h]) blast
  let ?t = "s\<lparr>hd_blocks := b, hd_world := w\<rparr>"
  have back1: "mbufs (-1) (?u\<lparr>hd_blocks := b\<rparr>) = Inr ((), ?t)" by (cases s) (simp add: mbufs_def)
  have read: "hidd_call (ga_read_local ga dsc) s = Inr ((0, [rid, ty]), s\<lparr>hd_world := w\<rparr>)" using ref(1) by (simp add: hidd_call_def)
  have m1: "mbufs 1 (s\<lparr>hd_world := w\<rparr>) = Inr ((), ?u)" by (simp add: mbufs_def)
  have "nimble_gatt_svr_register_cb ga (RegDsc BLE_SVC_HID_DSC_UUID16_RPT_REF dsc h) s = Inr ((), ?t)"
    using ref(2)
    by (simp add: nimble_gatt_svr_register_cb_def find_report_by sbind_Inr [where m = "hidd_call (ga_read_local ga dsc)", OF read]
        sseq_Inr [where m = "mbufs 1", OF m1] sbind_Inr [where m = "find_by ?P", OF loc(1) [unfolded ji]]
        sseq_Inr [where m = "set_rpt_handle (j, i) h", OF b(1)] back1)
  moreover have "prof base p d ms ?t" using b(2) prof_cong [of "?u\<lparr>hd_blocks := b\<rparr>" ?t] by simp
  moreover have "report_is rid ty ESP_HID_PROTOCOL_MODE_REPORT r" using find_SomeD [OF r] by simp
  ultimately show thesis
    using that b(3) handles_update [OF b(4) [simplified] b(6) b(5)] by blast
qed

section \<open>The properties\<close>

text \<open>The stack registers the descriptors of the reports one after the other.\<close>

definition register_reports :: "'w gatts \<Rightarrow> (u16 \<times> u16) list \<Rightarrow> ('w, unit) hidd" where
  "register_reports ga ds = sfor ds (\<lambda>(dsc, h). nimble_gatt_svr_register_cb ga (RegDsc BLE_SVC_HID_DSC_UUID16_RPT_REF dsc h))"

text \<open>
  C14: Registering the report descriptors, each of which refers to a report the device has, refines the
  update of a table: the profile stays whole, no message buffer is lost, and under the id, type and
  mode of each reference stands the handle that was registered with it last.
\<close>
theorem registrations_update_table:
  fixes s :: "'w hidd_st"
  assumes "prof base p d ms s" and "s_dev s = Some p" and "\<forall>m \<in> set ms. full (hd_blocks s) m"
    and "\<And>dsc w. dsc \<in> fst ` set ds \<Longrightarrow> ga_read_local ga dsc w = ((0, [fst (ref dsc), snd (ref dsc)]), w)"
    and "\<And>x y. ga_to_flat ga [x, y] 2 = (0, [x, y])"
    and "\<And>dsc. dsc \<in> fst ` set ds \<Longrightarrow>
      find (report_is (fst (ref dsc)) (snd (ref dsc)) ESP_HID_PROTOCOL_MODE_REPORT) (all_rpts (hd_blocks s) ms) \<noteq> None"
  shows "\<exists>b. register_reports ga ds s = Inr ((), s\<lparr>hd_blocks := b\<rparr>) \<and> prof base p d ms (s\<lparr>hd_blocks := b\<rparr>)
    \<and> (\<forall>m \<in> set ms. full b m)
    \<and> handles b ms = foldl (\<lambda>t (dsc, h). t((fst (ref dsc), snd (ref dsc), ESP_HID_PROTOCOL_MODE_REPORT) \<mapsto> h)) (handles (hd_blocks s) ms) ds"
  using assms
proof (induction ds arbitrary: s)
  case Nil
  then show ?case by (intro exI [of _ "hd_blocks s"]) (simp add: register_reports_def)
next
  case (Cons dh ds)
  obtain dsc h where dh: "dh = (dsc, h)" by fastforce
  have ref: "ga_read_local ga dsc (hd_world s) = ((0, [fst (ref dsc), snd (ref dsc)]), hd_world s)"
    "find (report_is (fst (ref dsc)) (snd (ref dsc)) ESP_HID_PROTOCOL_MODE_REPORT) (all_rpts (hd_blocks s) ms) \<noteq> None"
    using Cons.prems(4,6) [of dsc] dh by simp_all
  obtain b where b: "nimble_gatt_svr_register_cb ga (RegDsc BLE_SVC_HID_DSC_UUID16_RPT_REF dsc h) s
        = Inr ((), s\<lparr>hd_blocks := b, hd_world := hd_world s\<rparr>)"
      "prof base p d ms (s\<lparr>hd_blocks := b, hd_world := hd_world s\<rparr>)" "\<forall>m \<in> set ms. full b m"
      "handles b ms = (handles (hd_blocks s) ms)((fst (ref dsc), snd (ref dsc), ESP_HID_PROTOCOL_MODE_REPORT) \<mapsto> h)"
      "\<And>x y z. (find (report_is x y z) (all_rpts b ms) = None) = (find (report_is x y z) (all_rpts (hd_blocks s) ms) = None)"
    by (rule register_dsc_run [OF Cons.prems(1-3) ref(1) Cons.prems(5) ref(2), where h = h]) blast
  let ?t = "s\<lparr>hd_blocks := b\<rparr>"
  have run: "nimble_gatt_svr_register_cb ga (RegDsc BLE_SVC_HID_DSC_UUID16_RPT_REF dsc h) s = Inr ((), ?t)"
    and t: "prof base p d ms ?t" using b(1,2) by simp_all
  have "\<exists>b'. register_reports ga ds ?t = Inr ((), ?t\<lparr>hd_blocks := b'\<rparr>) \<and> prof base p d ms (?t\<lparr>hd_blocks := b'\<rparr>)
    \<and> (\<forall>m \<in> set ms. full b' m)
    \<and> handles b' ms = foldl (\<lambda>t (dsc, h). t((fst (ref dsc), snd (ref dsc), ESP_HID_PROTOCOL_MODE_REPORT) \<mapsto> h)) (handles (hd_blocks ?t) ms) ds"
  proof (rule Cons.IH [OF t])
    fix dsc w assume "dsc \<in> fst ` set ds"
    then have "dsc \<in> fst ` set (dh # ds)" by simp
    then show "ga_read_local ga dsc w = ((0, [fst (ref dsc), snd (ref dsc)]), w)"
      "find (report_is (fst (ref dsc)) (snd (ref dsc)) ESP_HID_PROTOCOL_MODE_REPORT) (all_rpts (hd_blocks ?t) ms) \<noteq> None"
      using Cons.prems(4,6) b(5) by simp_all
  qed (use Cons.prems(2,5) b(3) in simp_all)
  then show ?case
    using b(4) by (simp add: dh register_reports_def sseq_Inr [where m = "nimble_gatt_svr_register_cb ga c" for c, OF run] del: fun_upd_apply)
qed

text \<open>
  C21: What the application sends as an input report of a connected device goes out under the handle of
  the first report of all maps with this id (its low byte) in the mode the map is in, whichever map
  it belongs to: the map index only selects the mode. A report that is not there ends the firmware, a
  handle that was never registered is read uninitialised, a full transmit queue is told.
\<close>
theorem input_set_first_match:
  assumes "prof base p d ms s" "s_dev s = Some p" "bd_connected d" and "\<forall>m \<in> set ms. full (hd_blocks s) m"
    and "hd_blocks s a = Some (DevBlock x)" "od_ops x" "od_dev x = Some p" and "index < length ms"
    and "ga_read_local ga (dm_hid_protocol_handle (ms ! index)) (hd_world s) = ((0, [md]), w)" "ga_to_flat ga [md] 1 = (0, [md])"
    and "ga_mbuf ga w = (True, v)"
  shows "esp_hidd_dev_input_set (nimble_hidd_vtable ga) (Some a) index rid data s =
    (case find (report_is (of_nat rid) ESP_HID_REPORT_TYPE_INPUT md) (all_rpts (hd_blocks s) ms) of
       None \<Rightarrow> Inl AssertFailed
     | Some r \<Rightarrow> (case hi_handle r of
           None \<Rightarrow> Inl UninitRead
         | Some h \<Rightarrow> (case ga_notify ga (bd_conn_id d) h data v of (rc, w') \<Rightarrow>
             Inr (if rc = 0 then 0 else ESP_FAIL,
               s\<lparr>hd_blocks := (hd_blocks s)(p := Some (BleBlock (d\<lparr>bd_protocol := md\<rparr>))), hd_world := w'\<rparr>))))"
proof -
  have "get_hidd (Some a) s = Inr (x, s)" using assms(5) by (simp add: get_hidd_def hidd_block_at_def sbind_def)
  then have "esp_hidd_dev_input_set (nimble_hidd_vtable ga) (Some a) index rid data s = nimble_hidd_dev_input_set ga (Some p) index rid data s"
    using assms(6,7) by (simp add: esp_hidd_dev_input_set_def via_ops_def nimble_hidd_vtable_def sbind_Inr [where m = "get_hidd (Some a)"])
  then show ?thesis using input_set_spec [OF assms(1-4,8-11)] by simp
qed

section \<open>On the sample device\<close>

text \<open>Its two maps have a keyboard report under the same id; only the first is registered and found.\<close>

lemma running_reports:
  "all_rpts (hd_blocks (running_st con 2 [running_map 4, running_map 6])) [running_map 4, running_map 6] = [kbd_rpt None, kbd_rpt None]"
  by (simp add: all_rpts_def rpts_def running_st_def running_map_def)

theorem registrations_update_table_witness:
  "\<exists>b. register_reports sample_gatts [(30, 40)] (running_st False 2 [running_map 4, running_map 6])
      = Inr ((), (running_st False 2 [running_map 4, running_map 6])\<lparr>hd_blocks := b\<rparr>)
    \<and> handles b [running_map 4, running_map 6] (1, ESP_HID_REPORT_TYPE_INPUT, ESP_HID_PROTOCOL_MODE_REPORT) = Some 40"
proof -
  let ?s = "running_st False 2 [running_map 4, running_map 6]" and ?ms = "[running_map 4, running_map 6]"
  define ref :: "u16 \<Rightarrow> u8 \<times> u8" where "ref = (\<lambda>_. (1, 1))"
  have "\<exists>b. register_reports sample_gatts [(30, 40)] ?s = Inr ((), ?s\<lparr>hd_blocks := b\<rparr>)
      \<and> prof running_base 2 (running_dev False 2) ?ms (?s\<lparr>hd_blocks := b\<rparr>) \<and> (\<forall>m \<in> set ?ms. full b m)
      \<and> handles b ?ms = foldl (\<lambda>t (dsc, h). t((fst (ref dsc), snd (ref dsc), ESP_HID_PROTOCOL_MODE_REPORT) \<mapsto> h))
          (handles (hd_blocks ?s) ?ms) [(30, 40)]"
  proof (rule registrations_update_table [OF running_two])
    show "\<forall>m \<in> set ?ms. full (hd_blocks ?s) m" using running_full by auto
    show "s_dev ?s = Some 2" by (simp add: running_st_def)
  qed (auto simp: running_reports sample_gatts_def report_is_def kbd_rpt_def ref_def ESP_HID_REPORT_TYPE_INPUT_def)
  then show ?thesis by (auto simp: ref_def ESP_HID_REPORT_TYPE_INPUT_def)
qed

text \<open>The running device with the first report registered.\<close>

definition told_st :: "sent hidd_st" where
  "told_st = (running_st True 2 [running_map 4, running_map 6])
     \<lparr>hd_blocks := (hd_blocks (running_st True 2 [running_map 4, running_map 6]))(5 := Some (ReportArray [kbd_rpt (Some 40)]))\<rparr>"

theorem input_set_first_match_witness:
  "\<exists>t. esp_hidd_dev_input_set (nimble_hidd_vtable sample_gatts) (Some 1) 1 257 [0, 0, 4] told_st = Inr (0, t)
    \<and> hd_world t = [(7, 40, [0, 0, 4])]"
proof -
  let ?s = "running_st True 2 [running_map 4, running_map 6]" and ?ms = "[running_map 4, running_map 6]"
  have f: "\<forall>m \<in> set ?ms. full (hd_blocks ?s) m" using running_full by auto
  have a: "dm_reports (?ms ! 0) = Some 5" by (simp add: running_map_def)
  have len: "length [kbd_rpt (Some 40)] = length (rpts (hd_blocks ?s) (?ms ! 0))"
    by (simp add: rpts_def running_map_def running_st_def)
  note new = new_reports [OF running_two f _ a len]
  have p: "prof running_base 2 (running_dev True 2) ?ms told_st" and full: "\<forall>m \<in> set ?ms. full (hd_blocks told_st) m"
    using new(1,2) by (simp_all add: told_st_def)
  have rp: "all_rpts (hd_blocks told_st) ?ms = [kbd_rpt (Some 40), kbd_rpt None]"
    by (simp add: all_rpts_def rpts_def told_st_def running_map_def running_st_def)
  have md: "dm_hid_protocol_handle (running_map 6) = 26" by (simp add: running_map_def)
  have "esp_hidd_dev_input_set (nimble_hidd_vtable sample_gatts) (Some 1) 1 257 [0, 0, 4] told_st =
    (case find (report_is (of_nat 257) ESP_HID_REPORT_TYPE_INPUT 1) (all_rpts (hd_blocks told_st) ?ms) of
       None \<Rightarrow> Inl AssertFailed
     | Some r \<Rightarrow> (case hi_handle r of
           None \<Rightarrow> Inl UninitRead
         | Some h \<Rightarrow> (case ga_notify sample_gatts (bd_conn_id (running_dev True 2)) h [0, 0, 4] [] of (rc, w') \<Rightarrow>
             Inr (if rc = 0 then 0 else ESP_FAIL,
               told_st\<lparr>hd_blocks := (hd_blocks told_st)(2 := Some (BleBlock ((running_dev True 2)\<lparr>bd_protocol := 1\<rparr>))), hd_world := w'\<rparr>))))"
    by (rule input_set_first_match [OF p _ _ full, where x = "\<lparr>od_dev = Some 2, od_transport = ESP_HID_TRANSPORT_BLE, od_ops = True\<rparr>"])
       (simp_all add: md, simp_all add: told_st_def running_st_def running_dev_def sample_gatts_def hidd_init_st_def)
  then show ?thesis
    by (simp add: rp report_is_def kbd_rpt_def ESP_HID_PROTOCOL_MODE_REPORT_def) (simp add: sample_gatts_def running_dev_def)
qed

end
