(* ===== verification/BtHidd.thy ===== *)
theory BtHidd
  imports NimHidd KbdInit
begin

text \<open>
  The classic Bluetooth transport of the HID device role, \<open>esp_hid/src/bt_hidd.c\<close>: one device in a static
  variable, behind a mutex; its start and end, the functions behind the device's pointers, and the
  callback of the stack. The transport owns all it points to, so the device is a value; its blocks are
  counted (\<open>bs_live\<close>), as are event loops and mutexes. Bluedroid is a record of functions on a world.
  Where the source keeps pointers to strings of the device for the stack (\<open>app_param\<close>), the model keeps
  their bytes.
\<close>

section \<open>Data\<close>

record bt_map =
  bm_data :: "u8 list option"
  bm_len :: u16
  bm_reports_len :: u8
  bm_reports :: "hidd_report_item_t list option"

record bt_config =
  bc_vendor_id :: u16
  bc_product_id :: u16
  bc_version :: u16
  bc_device_name :: "u8 list option"
  bc_manufacturer_name :: "u8 list option"
  bc_serial_number :: "u8 list option"

record esp_bt_hidd_dev_t =
  bt_dev :: "nat option"
  bt_event_loop :: bool
  bt_config :: bt_config
  bt_appearance :: u16
  bt_registered :: bool
  bt_connected :: bool
  bt_remote_bda :: "u8 list"
  bt_bat_level :: u8
  bt_control :: u8
  bt_protocol_mode :: u8
  bt_devices :: "bt_map list option"
  bt_devices_len :: u8

definition bt_map_zero :: bt_map where
  "bt_map_zero = \<lparr>bm_data = None, bm_len = 0, bm_reports_len = 0, bm_reports = None\<rparr>"

definition bt_config_zero :: bt_config where
  "bt_config_zero = \<lparr>bc_vendor_id = 0, bc_product_id = 0, bc_version = 0, bc_device_name = None,
     bc_manufacturer_name = None, bc_serial_number = None\<rparr>"

definition bt_dev_zero :: esp_bt_hidd_dev_t where
  "bt_dev_zero = \<lparr>bt_dev = None, bt_event_loop = False, bt_config = bt_config_zero, bt_appearance = 0,
     bt_registered = False, bt_connected = False, bt_remote_bda = replicate 6 0, bt_bat_level = 0, bt_control = 0,
     bt_protocol_mode = 0, bt_devices = None, bt_devices_len = 0\<rparr>"

datatype esp_hid_class = ESP_HID_CLASS_UNKNOWN | ESP_HID_CLASS_KBD | ESP_HID_CLASS_MIC | ESP_HID_CLASS_JOS | ESP_HID_CLASS_GPD

record esp_hidd_app_param_t =
  ap_name :: "u8 list option"
  ap_description :: "u8 list option"
  ap_provider :: "u8 list option"
  ap_subclass :: esp_hid_class
  ap_desc_list :: "u8 list option"
  ap_desc_list_len :: u16

text \<open>\<open>service_type\<close>: 2 is \<open>GUARANTEED\<close>.\<close>

record esp_hidd_qos_param_t =
  qs_service_type :: u8
  qs_token_rate :: u32
  qs_token_bucket_size :: u32
  qs_peak_bandwidth :: u32
  qs_access_latency :: u32
  qs_delay_variation :: u32

definition app_param_zero :: esp_hidd_app_param_t where
  "app_param_zero = \<lparr>ap_name = None, ap_description = None, ap_provider = None, ap_subclass = ESP_HID_CLASS_UNKNOWN,
     ap_desc_list = None, ap_desc_list_len = 0\<rparr>"

definition qos_zero :: esp_hidd_qos_param_t where
  "qos_zero = \<lparr>qs_service_type = 0, qs_token_rate = 0, qs_token_bucket_size = 0, qs_peak_bandwidth = 0,
     qs_access_latency = 0, qs_delay_variation = 0\<rparr>"

section \<open>The callback's events, and those it posts\<close>

datatype esp_hidd_status_t = ESP_HIDD_SUCCESS | ESP_HIDD_NO_RES | ESP_HIDD_ERROR int

datatype esp_hidd_connection_state_t =
  ESP_HIDD_CONN_STATE_CONNECTED | ESP_HIDD_CONN_STATE_CONNECTING | ESP_HIDD_CONN_STATE_DISCONNECTED
  | ESP_HIDD_CONN_STATE_DISCONNECTING | ESP_HIDD_CONN_STATE_UNKNOWN

text \<open>A protocol mode is \<open>None\<close> for \<open>ESP_HIDD_UNSUPPORTED_MODE\<close>; a data pointer is \<open>None\<close> for NULL.\<close>

datatype esp_hidd_cb =
    ESP_HIDD_INIT_EVT esp_hidd_status_t
  | ESP_HIDD_DEINIT_EVT esp_hidd_status_t
  | ESP_HIDD_REGISTER_APP_EVT esp_hidd_status_t bool "u8 list"
  | ESP_HIDD_UNREGISTER_APP_EVT
  | ESP_HIDD_OPEN_EVT esp_hidd_status_t esp_hidd_connection_state_t "u8 list"
  | ESP_HIDD_CLOSE_EVT esp_hidd_status_t esp_hidd_connection_state_t
  | ESP_HIDD_SEND_REPORT_EVT
  | ESP_HIDD_REPORT_ERR_EVT
  | ESP_HIDD_GET_REPORT_EVT u8 u8 u16
  | ESP_HIDD_SET_REPORT_EVT u8 u8 u16 "u8 list option"
  | ESP_HIDD_SET_PROTOCOL_EVT "u8 option"
  | ESP_HIDD_INTR_DATA_EVT u8 u16 "u8 list option"
  | ESP_HIDD_OTHER_EVT

datatype handshake_err = ESP_HID_PAR_HANDSHAKE_RSP_ERR_INVALID_REP_ID | ESP_HID_PAR_HANDSHAKE_RSP_ERR_INVALID_PARAM

record bt_report_data = hidd_report_data +
  hx_trans_type :: u8
  hx_report_type :: u8

datatype bt_event =
    BtStart int
  | BtStop int
  | BtConnect "nat option" int
  | BtDisconnect "nat option" int esp_hidd_status_t
  | BtProtocolMode "nat option" u8 u8
  | BtFeature bt_report_data
  | BtOutput bt_report_data

section \<open>The stack and the state\<close>

text \<open>\<open>send_report\<close> has two kinds of type: interrupt data and the number it is given.\<close>

datatype bt_send_type = ESP_HIDD_REPORT_TYPE_INTRDATA | SendType u8

record 'w bluedroid =
  bl_malloc :: "nat \<Rightarrow> bool"
  bl_mutex_new :: "'w \<Rightarrow> bool \<times> 'w"
  bl_loop_create :: "'w \<Rightarrow> int \<times> 'w"
  bl_handler_register :: "bool \<Rightarrow> int \<Rightarrow> 'w \<Rightarrow> int \<times> 'w"
  bl_handler_unregister :: "bool \<Rightarrow> int \<Rightarrow> 'w \<Rightarrow> int \<times> 'w"
  bl_register_callback :: "'w \<Rightarrow> int \<times> 'w"
  bl_init :: "'w \<Rightarrow> int \<times> 'w"
  bl_deinit :: "'w \<Rightarrow> int \<times> 'w"
  bl_disconnect :: "'w \<Rightarrow> int \<times> 'w"
  bl_connect :: "u8 list \<Rightarrow> 'w \<Rightarrow> int \<times> 'w"
  bl_register_app :: "esp_hidd_app_param_t \<Rightarrow> esp_hidd_qos_param_t \<Rightarrow> esp_hidd_qos_param_t \<Rightarrow> 'w \<Rightarrow> int \<times> 'w"
  bl_send_report :: "bt_send_type \<Rightarrow> u8 \<Rightarrow> u16 \<Rightarrow> u8 list \<Rightarrow> 'w \<Rightarrow> int \<times> 'w"
  bl_report_error :: "handshake_err \<Rightarrow> 'w \<Rightarrow> int \<times> 'w"

text \<open>
  \<open>bs_mutex\<close> is \<open>None\<close> when there is no mutex, else whether it is taken; \<open>bs_dev\<close> is the device with its
  address; \<open>bs_iface\<close> says of an \<open>esp_hidd_dev_t\<close>, by its address, which transport its pointers call.
\<close>

record 'w bt_st =
  bs_mutex :: "bool option"
  bs_dev :: "(nat \<times> esp_bt_hidd_dev_t) option"
  bs_app_param :: esp_hidd_app_param_t
  bs_in_qos :: esp_hidd_qos_param_t
  bs_out_qos :: esp_hidd_qos_param_t
  bs_next :: nat
  bs_allocs :: nat
  bs_live :: int
  bs_loops :: int
  bs_mutexes :: int
  bs_iface :: "nat \<Rightarrow> nat option"
  bs_posted :: "bt_event list"
  bs_parser :: hid_parser
  bs_world :: 'w

type_synonym ('w, 'a) bt = "('w bt_st, 'a) prog"

definition bt_call :: "('w \<Rightarrow> 'a \<times> 'w) \<Rightarrow> ('w, 'a) bt" where
  "bt_call f s = (let (x, w) = f (bs_world s) in Inr (x, s\<lparr>bs_world := w\<rparr>))"

definition bt_malloc :: "(nat \<Rightarrow> bool) \<Rightarrow> ('w, bool) bt" where
  "bt_malloc mok s =
     Inr (mok (bs_allocs s), s\<lparr>bs_allocs := bs_allocs s + 1, bs_live := bs_live s + (if mok (bs_allocs s) then 1 else 0)\<rparr>)"

text \<open>\<open>free\<close> of a pointer that may be NULL.\<close>

definition bt_free :: "bool \<Rightarrow> ('w, unit) bt" where
  "bt_free there = smod (\<lambda>s. s\<lparr>bs_live := bs_live s - (if there then 1 else 0)\<rparr>)"

definition bt_post :: "bt_event \<Rightarrow> ('w, unit) bt" where
  "bt_post e = smod (\<lambda>s. s\<lparr>bs_posted := bs_posted s @ [e]\<rparr>)"

text \<open>Taking a mutex that does not exist fails an assertion of the kernel; it is not recursive.\<close>

definition bt_lock :: "('w, unit) bt" where
  "bt_lock s = (case bs_mutex s of
      None \<Rightarrow> Inl AssertFailed
    | Some True \<Rightarrow> Inl Deadlock
    | Some False \<Rightarrow> Inr ((), s\<lparr>bs_mutex := Some True\<rparr>))"

definition bt_unlock :: "('w, unit) bt" where
  "bt_unlock s = (case bs_mutex s of
      None \<Rightarrow> Inl AssertFailed
    | Some b \<Rightarrow> Inr ((), s\<lparr>bs_mutex := Some False\<rparr>))"

definition bt_mutex_free :: "('w, unit) bt" where
  "bt_mutex_free s = (case bs_mutex s of
      None \<Rightarrow> Inr ((), s)
    | Some b \<Rightarrow> Inr ((), s\<lparr>bs_mutex := None, bs_mutexes := bs_mutexes s - 1\<rparr>))"

text \<open>Reading and changing \<open>s_hidd_param.dev\<close>.\<close>

definition bt_get :: "('w, esp_bt_hidd_dev_t) bt" where
  "bt_get s = (case bs_dev s of None \<Rightarrow> Inl NullDeref | Some (a, d) \<Rightarrow> Inr (d, s))"

definition bt_upd :: "(esp_bt_hidd_dev_t \<Rightarrow> esp_bt_hidd_dev_t) \<Rightarrow> ('w, unit) bt" where
  "bt_upd f s = (case bs_dev s of None \<Rightarrow> Inl NullDeref | Some (a, d) \<Rightarrow> Inr ((), s\<lparr>bs_dev := Some (a, f d)\<rparr>))"

definition is_init :: "'w bt_st \<Rightarrow> bool" where
  "is_init s \<longleftrightarrow> bs_dev s \<noteq> None"

definition bt_hidd_get_status :: "esp_hidd_status_t \<Rightarrow> int" where
  "bt_hidd_get_status st = (case st of ESP_HIDD_SUCCESS \<Rightarrow> 0 | ESP_HIDD_NO_RES \<Rightarrow> ESP_ERR_NO_MEM | _ \<Rightarrow> ESP_FAIL)"

end
