(* ===== verification/BtHiddOps.thy ===== *)
theory BtHiddOps
  imports BtHidd
begin

text \<open>
  The functions of \<open>esp_hid/src/bt_hidd.c\<close> in its order: configuration and reports, the parameters for
  the stack, the functions behind the device's pointers, the callback, and the start.
\<close>

section \<open>Configuration\<close>

definition bt_strdup :: "'w bluedroid \<Rightarrow> u8 list option \<Rightarrow> ('w, u8 list option) bt" where
  "bt_strdup bl str = (case str of
      None \<Rightarrow> sret None
    | Some bs \<Rightarrow> sbind (bt_malloc (bl_malloc bl)) (\<lambda>ok. sret (if ok then Some (bs @ [0]) else None)))"

definition bt_upd_config :: "(bt_config \<Rightarrow> bt_config) \<Rightarrow> ('w, unit) bt" where
  "bt_upd_config f = bt_upd (\<lambda>d. d\<lparr>bt_config := f (bt_config d)\<rparr>)"

definition bt_upd_map :: "nat \<Rightarrow> (bt_map \<Rightarrow> bt_map) \<Rightarrow> ('w, unit) bt" where
  "bt_upd_map i f = sbind bt_get (\<lambda>d. case bt_devices d of
      None \<Rightarrow> sfail NullDeref
    | Some ms \<Rightarrow> if i < length ms then bt_upd (\<lambda>d. d\<lparr>bt_devices := Some (ms[i := f (ms ! i)])\<rparr>) else sfail OutOfBounds)"

definition bt_parse :: "'w bluedroid \<Rightarrow> u8 list \<Rightarrow> ('w, esp_hid_report_map_t option) bt" where
  "bt_parse bl data s =
     (case esp_hid_parse_report_map (bl_malloc bl) data (bs_parser s) of
        (Inl e, p) \<Rightarrow> Inl e
      | (Inr m, p) \<Rightarrow> Inr (m, s\<lparr>bs_parser := p\<rparr>))"

definition bt_parser_free :: "('w, unit) bt" where
  "bt_parser_free = smod (\<lambda>s. s\<lparr>bs_parser := heap_free (bs_parser s)\<rparr>)"

text \<open>The bytes of the raw map, as many as its length says.\<close>

definition bt_raw_bytes :: "esp_hid_raw_report_map_t \<Rightarrow> ('w, u8 list) bt" where
  "bt_raw_bytes raw =
     (if raw_len raw = 0 then sret []
      else case raw_data raw of
             None \<Rightarrow> sfail NullDeref
           | Some bs \<Rightarrow> if length bs < unat (raw_len raw) then sfail OutOfBounds else sret (take (unat (raw_len raw)) bs))"

definition bt_init_map :: "'w bluedroid \<Rightarrow> esp_hid_device_config_t \<Rightarrow> nat \<Rightarrow> ('w, int) bt" where
  "bt_init_map bl config d =
     (if length (cf_report_maps config) \<le> d then sfail OutOfBounds
      else
        sbind (bt_malloc (bl_malloc bl)) (\<lambda>ok.
          if \<not> ok then sret ESP_ERR_NO_MEM
          else sbind (bt_raw_bytes (cf_report_maps config ! d)) (\<lambda>data.
            sseq (bt_upd_map d (\<lambda>m. m\<lparr>bm_data := Some data, bm_len := raw_len (cf_report_maps config ! d)\<rparr>))
            (sbind (bt_parse bl data) (\<lambda>rmap.
               case rmap of
                 None \<Rightarrow> sret ESP_FAIL
               | Some rm \<Rightarrow>
                   sseq (bt_upd (\<lambda>b. b\<lparr>bt_appearance := rm_appearance rm\<rparr>))
                   (sseq (bt_upd_map d (\<lambda>m. m\<lparr>bm_reports_len := rm_reports_len rm\<rparr>))
                   (sbind (bt_malloc (bl_malloc bl)) (\<lambda>ok.
                      if \<not> ok then sseq bt_parser_free (sret ESP_ERR_NO_MEM)
                      else
                        sseq (bt_upd_map d (\<lambda>m. m\<lparr>bm_reports := Some (List.map (hidd_report_of d)
                                (take (unat (rm_reports_len rm)) (rm_reports rm)))\<rparr>))
                        (sseq bt_parser_free (sseq bt_parser_free (sret 0)))))))))))"

fun bt_init_maps :: "'w bluedroid \<Rightarrow> esp_hid_device_config_t \<Rightarrow> nat list \<Rightarrow> ('w, int) bt" where
  "bt_init_maps bl config [] = sret 0"
| "bt_init_maps bl config (d # ds) =
     sbind (bt_init_map bl config d) (\<lambda>rc. if rc \<noteq> 0 then sret rc else bt_init_maps bl config ds)"

text \<open>An empty list of maps stands for a NULL pointer to them.\<close>

definition bt_hidd_init_config :: "'w bluedroid \<Rightarrow> esp_hid_device_config_t \<Rightarrow> ('w, int) bt" where
  "bt_hidd_init_config bl config =
     (if cf_report_maps config = [] \<or> cf_report_maps_len config = 0 \<or> 1 < cf_report_maps_len config
      then sret ESP_ERR_INVALID_ARG
      else
        sseq (bt_upd_config (\<lambda>_. bt_config_zero\<lparr>bc_vendor_id := cf_vendor_id config, bc_product_id := cf_product_id config,
                bc_version := cf_version config\<rparr>))
        (sbind (bt_strdup bl (cf_device_name config)) (\<lambda>n1.
         sseq (bt_upd_config (\<lambda>c. c\<lparr>bc_device_name := n1\<rparr>))
        (sbind (bt_strdup bl (cf_manufacturer_name config)) (\<lambda>n2.
         sseq (bt_upd_config (\<lambda>c. c\<lparr>bc_manufacturer_name := n2\<rparr>))
        (sbind (bt_strdup bl (cf_serial_number config)) (\<lambda>n3.
         sseq (bt_upd_config (\<lambda>c. c\<lparr>bc_serial_number := n3\<rparr>))
        (sseq (bt_upd (\<lambda>d. d\<lparr>bt_appearance := ESP_HID_APPEARANCE_GENERIC\<rparr>))
        (sbind (bt_malloc (bl_malloc bl)) (\<lambda>ok.
           if \<not> ok then sret ESP_ERR_NO_MEM
           else
             sseq (bt_upd (\<lambda>d. d\<lparr>bt_devices := Some (replicate (unat (cf_report_maps_len config)) bt_map_zero)\<rparr>))
             (sseq (bt_upd (\<lambda>d. d\<lparr>bt_devices_len := cf_report_maps_len config\<rparr>))
               (bt_init_maps bl config [0..<unat (cf_report_maps_len config)]))))))))))))"

section \<open>Reports\<close>

text \<open>The reports of a map, and the maps of a device, within their bounds.\<close>

definition map_reports :: "bt_map \<Rightarrow> fault + hidd_report_item_t list" where
  "map_reports m =
     (if bm_reports_len m = 0 then Inr []
      else case bm_reports m of
             None \<Rightarrow> Inl NullDeref
           | Some rs \<Rightarrow> if length rs < unat (bm_reports_len m) then Inl OutOfBounds else Inr (take (unat (bm_reports_len m)) rs))"

definition dev_maps :: "esp_bt_hidd_dev_t \<Rightarrow> fault + bt_map list" where
  "dev_maps d =
     (if bt_devices_len d = 0 then Inr []
      else case bt_devices d of
             None \<Rightarrow> Inl NullDeref
           | Some ms \<Rightarrow> if length ms < unat (bt_devices_len d) then Inl OutOfBounds else Inr (take (unat (bt_devices_len d)) ms))"

definition bt_report_is :: "u8 \<Rightarrow> u8 \<Rightarrow> u8 \<Rightarrow> hidd_report_item_t \<Rightarrow> bool" where
  "bt_report_is rid ty md r \<longleftrightarrow> hi_report_id r = rid \<and> hi_report_type r = ty \<and> hi_protocol_mode r = md"

definition get_report_by_idx_id_type ::
  "esp_bt_hidd_dev_t \<Rightarrow> nat \<Rightarrow> u8 \<Rightarrow> u8 \<Rightarrow> fault + hidd_report_item_t option" where
  "get_report_by_idx_id_type d index rid ty =
     (if unat (bt_devices_len d) \<le> index then Inr None
      else bindE (dev_maps d) (\<lambda>ms. bindE (map_reports (ms ! index)) (\<lambda>rs.
             Inr (find (bt_report_is rid ty (bt_protocol_mode d)) rs))))"

text \<open>The first report in the maps that are left, with the index of its map.\<close>

fun first_report ::
  "(hidd_report_item_t \<Rightarrow> bool) \<Rightarrow> nat \<Rightarrow> bt_map list \<Rightarrow> fault + (nat \<times> hidd_report_item_t) option" where
  "first_report P i [] = Inr None"
| "first_report P i (m # ms) = bindE (map_reports m) (\<lambda>rs.
     case find P rs of Some r \<Rightarrow> Inr (Some (i, r)) | None \<Rightarrow> first_report P (Suc i) ms)"

definition get_report_by_id_and_type ::
  "esp_bt_hidd_dev_t \<Rightarrow> u8 \<Rightarrow> u8 \<Rightarrow> fault + (nat \<times> hidd_report_item_t) option" where
  "get_report_by_id_and_type d rid ty =
     bindE (dev_maps d) (first_report (bt_report_is rid ty (bt_protocol_mode d)) 0)"

section \<open>Giving the device back\<close>

definition bt_free_map :: "bt_map \<Rightarrow> ('w, unit) bt" where
  "bt_free_map m = sseq (bt_free (bm_reports m \<noteq> None)) (bt_free (bm_data m \<noteq> None))"

definition bt_hid_free_config :: "('w, unit) bt" where
  "bt_hid_free_config =
     sbind bt_get (\<lambda>d. case dev_maps d of
        Inl e \<Rightarrow> sfail e
      | Inr ms \<Rightarrow>
          sseq (sfor ms bt_free_map)
          (sseq (bt_free (bt_devices d \<noteq> None))
          (sseq (bt_free (bc_device_name (bt_config d) \<noteq> None))
          (sseq (bt_free (bc_manufacturer_name (bt_config d) \<noteq> None))
          (sseq (bt_free (bc_serial_number (bt_config d) \<noteq> None))
            (if bt_event_loop d
             then sseq (smod (\<lambda>s. s\<lparr>bs_loops := bs_loops s - 1\<rparr>)) (bt_upd (\<lambda>d. d\<lparr>bt_event_loop := False\<rparr>))
             else sret ()))))))"

definition bt_hidd_dev_free :: "('w, unit) bt" where
  "bt_hidd_dev_free =
     sbind (sget is_init) (\<lambda>on.
       if \<not> on then sret ()
       else sseq bt_lock (sseq bt_hid_free_config
            (sseq (bt_free True) (sseq (smod (\<lambda>s. s\<lparr>bs_dev := None\<rparr>)) (sseq bt_unlock bt_mutex_free)))))"

section \<open>Parameters for the stack\<close>

definition build_default_in_qos :: "u32 \<Rightarrow> esp_hidd_qos_param_t" where
  "build_default_in_qos value_len =
     (if 0 < value_len
      then \<lparr>qs_service_type = 2, qs_token_rate = value_len * 100, qs_token_bucket_size = value_len,
            qs_peak_bandwidth = value_len * 100, qs_access_latency = 10, qs_delay_variation = 10\<rparr>
      else qos_zero)"

definition build_default_out_qos :: "u32 \<Rightarrow> esp_hidd_qos_param_t" where
  "build_default_out_qos value_len =
     (if 0 < value_len
      then \<lparr>qs_service_type = 2, qs_token_rate = value_len * 100, qs_token_bucket_size = value_len,
            qs_peak_bandwidth = value_len * 100, qs_access_latency = 10, qs_delay_variation = 10\<rparr>
      else qos_zero)"

definition get_subclass_by_appearance :: "u16 \<Rightarrow> esp_hid_class" where
  "get_subclass_by_appearance appearance =
     (if appearance = ESP_HID_APPEARANCE_KEYBOARD then ESP_HID_CLASS_KBD
      else if appearance = ESP_HID_APPEARANCE_MOUSE then ESP_HID_CLASS_MIC
      else if appearance = ESP_HID_APPEARANCE_JOYSTICK then ESP_HID_CLASS_JOS
      else if appearance = ESP_HID_APPEARANCE_GAMEPAD then ESP_HID_CLASS_GPD
      else ESP_HID_CLASS_UNKNOWN)"

text \<open>The mode is the one of the device; the argument is not used.\<close>

fun sum_value_len :: "(hidd_report_item_t \<Rightarrow> bool) \<Rightarrow> bt_map list \<Rightarrow> fault + u32" where
  "sum_value_len P [] = Inr 0"
| "sum_value_len P (m # ms) = bindE (map_reports m) (\<lambda>rs. bindE (sum_value_len P ms) (\<lambda>n.
     Inr (sum_list (List.map (\<lambda>r. ucast (hi_value_len r)) (filter P rs)) + n)))"

definition get_value_len_by_type_protocol :: "esp_bt_hidd_dev_t \<Rightarrow> u8 \<Rightarrow> u8 \<Rightarrow> fault + u32" where
  "get_value_len_by_type_protocol d ty protocol_mode =
     bindE (dev_maps d) (sum_value_len (\<lambda>r. hi_report_type r = ty \<and> hi_protocol_mode r = bt_protocol_mode d))"

definition bt_hidd_init_app :: "('w, unit) bt" where
  "bt_hidd_init_app =
     sbind bt_get (\<lambda>d. case bt_devices d of
        None \<Rightarrow> sfail NullDeref
      | Some [] \<Rightarrow> sfail OutOfBounds
      | Some (m # ms) \<Rightarrow>
          smod (\<lambda>s. s\<lparr>bs_app_param := \<lparr>ap_name = bc_device_name (bt_config d), ap_description = bc_device_name (bt_config d),
             ap_provider = bc_manufacturer_name (bt_config d), ap_subclass = get_subclass_by_appearance (bt_appearance d),
             ap_desc_list = bm_data m, ap_desc_list_len = bm_len m\<rparr>\<rparr>))"

definition bt_hidd_init_qos :: "('w, unit) bt" where
  "bt_hidd_init_qos =
     sbind bt_get (\<lambda>d. case get_value_len_by_type_protocol d ESP_HID_REPORT_TYPE_INPUT (bt_protocol_mode d) of
        Inl e \<Rightarrow> sfail e
      | Inr n \<Rightarrow>
          sseq (smod (\<lambda>s. s\<lparr>bs_in_qos := build_default_in_qos n\<rparr>))
            (case get_value_len_by_type_protocol d ESP_HID_REPORT_TYPE_INPUT (bt_protocol_mode d) of
               Inl e \<Rightarrow> sfail e
             | Inr n \<Rightarrow> smod (\<lambda>s. s\<lparr>bs_out_qos := build_default_out_qos n\<rparr>)))"

end
