(* ===== verification/BtHiddCb.thy ===== *)
theory BtHiddCb
  imports BtHiddOps
begin

text \<open>
  The second half of \<open>esp_hid/src/bt_hidd.c\<close>: the functions behind the device's pointers, the callback of
  the stack, and the start of the transport.
\<close>

section \<open>The functions behind the pointers\<close>

text \<open>
  What the functions do first, under the mutex: look whether there is a device and whether it is the
  one they were given. \<open>k\<close> is what the function checks or does then.
\<close>

definition bt_checked :: "nat option \<Rightarrow> 'a \<Rightarrow> 'a \<Rightarrow> (esp_bt_hidd_dev_t \<Rightarrow> ('w, 'a) bt) \<Rightarrow> ('w, 'a) bt" where
  "bt_checked devp uninit wrong k =
     sseq bt_lock
      (sbind (sbind (sget bs_dev) (\<lambda>dev. case dev of
                 None \<Rightarrow> sret uninit
               | Some (a, d) \<Rightarrow> if devp \<noteq> Some a then sret wrong else k d)) (\<lambda>ret.
       sseq bt_unlock (sret ret)))"

definition esp_bt_hidd_dev_connected :: "nat option \<Rightarrow> ('w, bool) bt" where
  "esp_bt_hidd_dev_connected devp = bt_checked devp False False (\<lambda>d. sret (bt_connected d))"

text \<open>
  The check ends in \<open>None\<close> when the function goes on to call the stack, else in the code it returns.
\<close>

definition esp_bt_hidd_dev_deinit :: "'w bluedroid \<Rightarrow> nat option \<Rightarrow> ('w, int) bt" where
  "esp_bt_hidd_dev_deinit bl devp =
     sbind (bt_checked devp (Some 0) (Some ESP_FAIL) (\<lambda>d. sret None)) (\<lambda>ret.
       case ret of Some rc \<Rightarrow> sret rc | None \<Rightarrow> bt_call (bl_deinit bl))"

definition esp_bt_hidd_dev_disconnect :: "'w bluedroid \<Rightarrow> nat option \<Rightarrow> ('w, int) bt" where
  "esp_bt_hidd_dev_disconnect bl devp =
     sbind (bt_checked devp (Some ESP_FAIL) (Some ESP_FAIL)
              (\<lambda>d. if \<not> bt_connected d then sret (Some 0) else sret None)) (\<lambda>ret.
       case ret of Some rc \<Rightarrow> sret rc | None \<Rightarrow> bt_call (bl_disconnect bl))"

definition esp_bt_hidd_dev_battery_set :: "nat option \<Rightarrow> u8 \<Rightarrow> ('w, int) bt" where
  "esp_bt_hidd_dev_battery_set devp level = sret 0"

text \<open>What may be sent: the checks of \<open>input_set\<close> and \<open>feature_set\<close>. The id loses its upper bits.\<close>

definition bt_may_send :: "u8 \<Rightarrow> nat option \<Rightarrow> nat \<Rightarrow> nat \<Rightarrow> nat \<Rightarrow> ('w, int option) bt" where
  "bt_may_send ty devp index rid len =
     bt_checked devp (Some ESP_FAIL) (Some ESP_FAIL) (\<lambda>d.
       if \<not> bt_connected d then sret (Some ESP_FAIL)
       else case get_report_by_idx_id_type d index (of_nat rid) ty of
              Inl e \<Rightarrow> sfail e
            | Inr None \<Rightarrow> sret (Some ESP_FAIL)
            | Inr (Some p_rpt) \<Rightarrow> if unat (hi_value_len p_rpt) < len then sret (Some ESP_FAIL) else sret None)"

definition esp_bt_hidd_dev_input_set ::
  "'w bluedroid \<Rightarrow> nat option \<Rightarrow> nat \<Rightarrow> nat \<Rightarrow> u8 list \<Rightarrow> ('w, int) bt" where
  "esp_bt_hidd_dev_input_set bl devp index rid data =
     sbind (bt_may_send ESP_HID_REPORT_TYPE_INPUT devp index rid (length data)) (\<lambda>ret.
       case ret of
         Some rc \<Rightarrow> sret rc
       | None \<Rightarrow> bt_call (bl_send_report bl ESP_HIDD_REPORT_TYPE_INTRDATA (of_nat rid) (of_nat (length data)) data))"

definition esp_bt_hidd_dev_feature_set ::
  "'w bluedroid \<Rightarrow> nat option \<Rightarrow> nat \<Rightarrow> nat \<Rightarrow> u8 list \<Rightarrow> ('w, int) bt" where
  "esp_bt_hidd_dev_feature_set bl devp index rid data =
     sbind (bt_may_send ESP_HID_REPORT_TYPE_FEATURE devp index rid (length data)) (\<lambda>ret.
       case ret of
         Some rc \<Rightarrow> sret rc
       | None \<Rightarrow> bt_call (bl_send_report bl (SendType ESP_HID_REPORT_TYPE_FEATURE) (of_nat rid) (of_nat (length data)) data))"

definition esp_bt_hidd_dev_event_handler_register :: "'w bluedroid \<Rightarrow> nat option \<Rightarrow> int \<Rightarrow> ('w, int) bt" where
  "esp_bt_hidd_dev_event_handler_register bl devp event =
     bt_checked devp ESP_FAIL ESP_FAIL (\<lambda>d. bt_call (bl_handler_register bl (bt_event_loop d) event))"

definition esp_bt_hidd_dev_event_handler_unregister :: "'w bluedroid \<Rightarrow> nat option \<Rightarrow> int \<Rightarrow> ('w, int) bt" where
  "esp_bt_hidd_dev_event_handler_unregister bl devp event =
     bt_checked devp ESP_FAIL ESP_FAIL (\<lambda>d. bt_call (bl_handler_unregister bl (bt_event_loop d) event))"

section \<open>The callback\<close>

text \<open>Changes of the device under the mutex.\<close>

definition bt_locked_upd :: "(esp_bt_hidd_dev_t \<Rightarrow> esp_bt_hidd_dev_t) \<Rightarrow> ('w, unit) bt" where
  "bt_locked_upd f = sseq bt_lock (sseq (bt_upd f) bt_unlock)"

text \<open>The bytes behind a pointer that are copied, none for NULL or a length of 0.\<close>

definition copied :: "u16 \<Rightarrow> u8 list option \<Rightarrow> fault + u8 list" where
  "copied len data =
     (case data of
        None \<Rightarrow> Inr []
      | Some bs \<Rightarrow> if length bs < unat len then Inl OutOfBounds else Inr (take (unat len) bs))"

definition sender_ptr :: "u8 list option \<Rightarrow> hidd_data_ptr" where
  "sender_ptr data = (if data = None then NoDataPtr else SenderData)"

text \<open>An event with data: a block is made for it, posted by value and freed.\<close>

definition bt_post_data :: "'w bluedroid \<Rightarrow> (fault + bt_event) \<Rightarrow> ('w, unit) bt" where
  "bt_post_data bl ev =
     sbind (bt_malloc (bl_malloc bl)) (\<lambda>ok.
       if \<not> ok then sret ()
       else case ev of Inl e \<Rightarrow> sfail e | Inr e \<Rightarrow> sseq (bt_post e) (bt_free True))"

definition bt_get_report :: "'w bluedroid \<Rightarrow> u8 \<Rightarrow> u8 \<Rightarrow> u16 \<Rightarrow> ('w, unit) bt" where
  "bt_get_report bl ty rid buffer_size =
     sbind bt_get (\<lambda>d. case get_report_by_id_and_type d rid ty of
        Inl e \<Rightarrow> sfail e
      | Inr None \<Rightarrow> sseq (bt_call (bl_report_error bl ESP_HID_PAR_HANDSHAKE_RSP_ERR_INVALID_REP_ID)) (sret ())
      | Inr (Some (map_index, p_rpt)) \<Rightarrow>
          if hi_value_len p_rpt < buffer_size
          then sseq (bt_call (bl_report_error bl ESP_HID_PAR_HANDSHAKE_RSP_ERR_INVALID_PARAM)) (sret ())
          else bt_post_data bl (Inr (BtFeature
                 \<lparr>hx_dev = bt_dev d, hx_usage = hi_usage p_rpt, hx_report_id = ucast (hi_report_id p_rpt),
                  hx_length = (if nz buffer_size then 2 else 0), hx_data = SenderData, hx_map_index = of_nat map_index,
                  hx_tail = (if nz buffer_size then [ucast buffer_size, ucast (drop_bit 8 buffer_size)] else []),
                  hx_trans_type = 4, hx_report_type = ty\<rparr>)))"

definition bt_set_report :: "'w bluedroid \<Rightarrow> u8 \<Rightarrow> u8 \<Rightarrow> u16 \<Rightarrow> u8 list option \<Rightarrow> ('w, unit) bt" where
  "bt_set_report bl ty rid len data =
     sbind bt_get (\<lambda>d. case get_report_by_id_and_type d rid ty of
        Inl e \<Rightarrow> sfail e
      | Inr None \<Rightarrow> sseq (bt_call (bl_report_error bl ESP_HID_PAR_HANDSHAKE_RSP_ERR_INVALID_REP_ID)) (sret ())
      | Inr (Some (map_index, p_rpt)) \<Rightarrow>
          if hi_value_len p_rpt < len
          then sseq (bt_call (bl_report_error bl ESP_HID_PAR_HANDSHAKE_RSP_ERR_INVALID_PARAM)) (sret ())
          else bt_post_data bl (bindE (copied len data) (\<lambda>tail. Inr (BtFeature
                 \<lparr>hx_dev = bt_dev d, hx_usage = hi_usage p_rpt, hx_report_id = ucast (hi_report_id p_rpt),
                  hx_length = len, hx_data = sender_ptr data, hx_map_index = of_nat map_index, hx_tail = tail,
                  hx_trans_type = 5, hx_report_type = ty\<rparr>))))"

text \<open>An output event has no transaction or report type: the fields are 0.\<close>

definition bt_intr_data :: "'w bluedroid \<Rightarrow> u8 \<Rightarrow> u16 \<Rightarrow> u8 list option \<Rightarrow> ('w, unit) bt" where
  "bt_intr_data bl rid len data =
     sbind bt_get (\<lambda>d. case get_report_by_id_and_type d rid ESP_HID_REPORT_TYPE_OUTPUT of
        Inl e \<Rightarrow> sfail e
      | Inr None \<Rightarrow> sret ()
      | Inr (Some (map_index, p_rpt)) \<Rightarrow>
          bt_post_data bl (bindE (copied len data) (\<lambda>tail. Inr (BtOutput
                 \<lparr>hx_dev = bt_dev d, hx_usage = hi_usage p_rpt, hx_report_id = ucast (hi_report_id p_rpt),
                  hx_length = len, hx_data = sender_ptr data, hx_map_index = of_nat map_index, hx_tail = tail,
                  hx_trans_type = 0, hx_report_type = 0\<rparr>))))"

definition bt_hidd_cb :: "'w bluedroid \<Rightarrow> esp_hidd_cb \<Rightarrow> ('w, unit) bt" where
  "bt_hidd_cb bl event =
     sbind (sget is_init) (\<lambda>on. if \<not> on then sret () else
       case event of
         ESP_HIDD_INIT_EVT st \<Rightarrow>
           if st = ESP_HIDD_SUCCESS
           then sbind (sget (\<lambda>s. (bs_app_param s, bs_in_qos s, bs_out_qos s))) (\<lambda>(app, inq, outq).
                  sseq (bt_call (bl_register_app bl app inq outq)) (sret ()))
           else sseq (bt_post (BtStart (bt_hidd_get_status st))) bt_hidd_dev_free
       | ESP_HIDD_DEINIT_EVT st \<Rightarrow>
           sseq (bt_post (BtStop (bt_hidd_get_status st))) (if st = ESP_HIDD_SUCCESS then bt_hidd_dev_free else sret ())
       | ESP_HIDD_REGISTER_APP_EVT st in_use bda \<Rightarrow>
           if st = ESP_HIDD_SUCCESS
           then sseq (if in_use then sseq (bt_call (bl_connect bl bda)) (sret ()) else sret ())
                (sseq (bt_locked_upd (\<lambda>d. d\<lparr>bt_registered := True\<rparr>))
                  (bt_post (BtStart (bt_hidd_get_status st))))
           else sseq (bt_call (bl_deinit bl)) (sret ())
       | ESP_HIDD_OPEN_EVT st con bda \<Rightarrow>
           if con = ESP_HIDD_CONN_STATE_CONNECTING then sret ()
           else sseq (if st = ESP_HIDD_SUCCESS \<and> con = ESP_HIDD_CONN_STATE_CONNECTED
                      then bt_locked_upd (\<lambda>d. d\<lparr>bt_connected := True, bt_remote_bda := bda\<rparr>) else sret ())
                (sbind bt_get (\<lambda>d. bt_post (BtConnect (bt_dev d) (bt_hidd_get_status st))))
       | ESP_HIDD_CLOSE_EVT st con \<Rightarrow>
           if con = ESP_HIDD_CONN_STATE_DISCONNECTING then sret ()
           else sseq (if st = ESP_HIDD_SUCCESS \<and> con = ESP_HIDD_CONN_STATE_DISCONNECTED
                      then bt_locked_upd (\<lambda>d. d\<lparr>bt_connected := False, bt_remote_bda := replicate 6 0\<rparr>) else sret ())
                (sbind bt_get (\<lambda>d. bt_post (BtDisconnect (bt_dev d) (bt_hidd_get_status st) st)))
       | ESP_HIDD_GET_REPORT_EVT ty rid buffer_size \<Rightarrow> bt_get_report bl ty rid buffer_size
       | ESP_HIDD_SET_REPORT_EVT ty rid len data \<Rightarrow> bt_set_report bl ty rid len data
       | ESP_HIDD_SET_PROTOCOL_EVT mode \<Rightarrow>
           (case mode of
              None \<Rightarrow> sret ()
            | Some md \<Rightarrow>
                sseq (bt_locked_upd (\<lambda>d. d\<lparr>bt_protocol_mode :=
                        if nz md then ESP_HID_PROTOCOL_MODE_BOOT else ESP_HID_PROTOCOL_MODE_REPORT\<rparr>))
                (sbind bt_get (\<lambda>d. bt_post (BtProtocolMode (bt_dev d) (bt_protocol_mode d) 0))))
       | ESP_HIDD_INTR_DATA_EVT rid len data \<Rightarrow> bt_intr_data bl rid len data
       | _ \<Rightarrow> sret ())"

section \<open>The start\<close>

text \<open>The device after its fields were set.\<close>

definition bt_dev_start :: "nat \<Rightarrow> esp_bt_hidd_dev_t" where
  "bt_dev_start dev_p = bt_dev_zero\<lparr>bt_connected := False, bt_registered := False, bt_bat_level := 100,
     bt_control := ESP_HID_CONTROL_EXIT_SUSPEND, bt_protocol_mode := ESP_HID_PROTOCOL_MODE_REPORT,
     bt_event_loop := False, bt_dev := Some dev_p\<rparr>"

text \<open>The second half: parameters, interface, handlers, and the calls that start the stack's part.\<close>

definition bt_init_tail :: "'w bluedroid \<Rightarrow> nat \<Rightarrow> nat \<Rightarrow> bool \<Rightarrow> ('w, int) bt" where
  "bt_init_tail bl dev_p a callback =
     sseq bt_hidd_init_app
     (sseq bt_hidd_init_qos
     (sseq (smod (\<lambda>s. s\<lparr>bs_iface := (bs_iface s)(dev_p := Some a)\<rparr>))
     (sbind (esp_bt_hidd_dev_event_handler_register bl (Some a) (-1)) (\<lambda>ret.
        if ret \<noteq> 0 then sseq bt_hidd_dev_free (sret ret)
        else sbind (if callback then esp_bt_hidd_dev_event_handler_register bl (Some a) (-1) else sret 0) (\<lambda>ret.
          if ret \<noteq> 0 then sseq bt_hidd_dev_free (sret ret)
          else sbind (bt_call (bl_register_callback bl)) (\<lambda>r1. sbind (bt_call (bl_init bl)) (\<lambda>r2.
            if r1 OR r2 \<noteq> 0 then sseq bt_hidd_dev_free (sret (r1 OR r2)) else sret (r1 OR r2))))))))"

definition esp_bt_hidd_dev_init :: "'w bluedroid \<Rightarrow> nat \<Rightarrow> esp_hid_device_config_t \<Rightarrow> bool \<Rightarrow> ('w, int) bt" where
  "esp_bt_hidd_dev_init bl dev_p config callback =
     sbind (sget is_init) (\<lambda>on. if on then sret ESP_FAIL else
       sbind (bt_call (bl_mutex_new bl)) (\<lambda>made.
         sseq (smod (\<lambda>s. if made then s\<lparr>bs_mutex := Some False, bs_mutexes := bs_mutexes s + 1\<rparr> else s\<lparr>bs_mutex := None\<rparr>))
         (if \<not> made then sret ESP_ERR_NO_MEM
          else sbind (bt_malloc (bl_malloc bl)) (\<lambda>ok.
            if \<not> ok then sret ESP_ERR_NO_MEM
            else sbind (sget bs_next) (\<lambda>a.
              sseq (smod (\<lambda>s. s\<lparr>bs_next := bs_next s + 1, bs_dev := Some (a, bt_dev_start dev_p)\<rparr>))
              (sbind (bt_call (bl_loop_create bl)) (\<lambda>ret.
                 if ret \<noteq> 0 then sseq bt_hidd_dev_free (sret ret)
                 else
                   sseq (smod (\<lambda>s. s\<lparr>bs_loops := bs_loops s + 1\<rparr>))
                   (sseq (bt_upd (\<lambda>d. d\<lparr>bt_event_loop := True\<rparr>))
                   (sbind (bt_hidd_init_config bl config) (\<lambda>ret.
                      if ret \<noteq> 0 then sseq bt_hidd_dev_free (sret ret)
                      else bt_init_tail bl dev_p a callback))))))))))"

end
