(* ===== verification/BtHiddInv.thy ===== *)
theory BtHiddInv
  imports BtHiddCb HiddInit
begin

text \<open>
  What the classic transport owns, and the invariant: there is a device exactly when there is a mutex
  that is free, its arrays have the lengths it says, and the blocks, event loops and mutexes that are
  live are those of the device. What each operation does to a state in which it holds.
\<close>

section \<open>The device\<close>

definition maps_of :: "esp_bt_hidd_dev_t \<Rightarrow> bt_map list" where
  "maps_of d = (case dev_maps d of Inl e \<Rightarrow> [] | Inr ms \<Rightarrow> ms)"

definition reports_of :: "bt_map \<Rightarrow> hidd_report_item_t list" where
  "reports_of m = (case map_reports m of Inl e \<Rightarrow> [] | Inr rs \<Rightarrow> rs)"

definition map_wf :: "bt_map \<Rightarrow> bool" where
  "map_wf m \<longleftrightarrow> map_reports m = Inr (reports_of m)"

definition bt_wf :: "esp_bt_hidd_dev_t \<Rightarrow> bool" where
  "bt_wf d \<longleftrightarrow> dev_maps d = Inr (maps_of d)"

definition reports_ok :: "esp_bt_hidd_dev_t \<Rightarrow> bool" where
  "reports_ok d \<longleftrightarrow> (\<forall>m \<in> set (maps_of d). map_wf m)"

definition map_blocks :: "bt_map \<Rightarrow> int" where
  "map_blocks m = of_bool (bm_reports m \<noteq> None) + of_bool (bm_data m \<noteq> None)"

definition name_blocks :: "bt_config \<Rightarrow> int" where
  "name_blocks c = of_bool (bc_device_name c \<noteq> None) + of_bool (bc_manufacturer_name c \<noteq> None)
     + of_bool (bc_serial_number c \<noteq> None)"

definition dev_blocks :: "esp_bt_hidd_dev_t \<Rightarrow> int" where
  "dev_blocks d = 1 + sum_list (List.map map_blocks (maps_of d)) + of_bool (bt_devices d \<noteq> None) + name_blocks (bt_config d)"

text \<open>A change of a field that is not a pointer.\<close>

lemma dev_maps_cong: "bt_devices d = bt_devices e \<Longrightarrow> bt_devices_len d = bt_devices_len e \<Longrightarrow> dev_maps d = dev_maps e"
  unfolding dev_maps_def by (simp only:)

lemma dev_maps_same [simp]:
  "dev_maps (d\<lparr>bt_connected := c\<rparr>) = dev_maps d" "dev_maps (d\<lparr>bt_remote_bda := b\<rparr>) = dev_maps d"
  "dev_maps (d\<lparr>bt_registered := r\<rparr>) = dev_maps d" "dev_maps (d\<lparr>bt_protocol_mode := md\<rparr>) = dev_maps d"
  "dev_maps (d\<lparr>bt_event_loop := l\<rparr>) = dev_maps d" "dev_maps (d\<lparr>bt_appearance := ap\<rparr>) = dev_maps d"
  "dev_maps (d\<lparr>bt_config := cf\<rparr>) = dev_maps d"
  by (rule dev_maps_cong; simp)+

lemma dev_same [simp]:
  "maps_of (d\<lparr>bt_connected := c\<rparr>) = maps_of d" "maps_of (d\<lparr>bt_remote_bda := b\<rparr>) = maps_of d"
  "maps_of (d\<lparr>bt_registered := r\<rparr>) = maps_of d" "maps_of (d\<lparr>bt_protocol_mode := md\<rparr>) = maps_of d"
  "maps_of (d\<lparr>bt_event_loop := l\<rparr>) = maps_of d" "maps_of (d\<lparr>bt_appearance := ap\<rparr>) = maps_of d"
  "maps_of (d\<lparr>bt_config := cf\<rparr>) = maps_of d"
  "bt_wf (d\<lparr>bt_connected := c\<rparr>) = bt_wf d" "bt_wf (d\<lparr>bt_remote_bda := b\<rparr>) = bt_wf d"
  "bt_wf (d\<lparr>bt_registered := r\<rparr>) = bt_wf d" "bt_wf (d\<lparr>bt_protocol_mode := md\<rparr>) = bt_wf d"
  "bt_wf (d\<lparr>bt_event_loop := l\<rparr>) = bt_wf d" "bt_wf (d\<lparr>bt_appearance := ap\<rparr>) = bt_wf d"
  "bt_wf (d\<lparr>bt_config := cf\<rparr>) = bt_wf d"
  "reports_ok (d\<lparr>bt_connected := c\<rparr>) = reports_ok d"
  "reports_ok (d\<lparr>bt_remote_bda := b\<rparr>) = reports_ok d"
  "reports_ok (d\<lparr>bt_registered := r\<rparr>) = reports_ok d"
  "reports_ok (d\<lparr>bt_protocol_mode := md\<rparr>) = reports_ok d"
  "reports_ok (d\<lparr>bt_event_loop := l\<rparr>) = reports_ok d"
  "reports_ok (d\<lparr>bt_appearance := ap\<rparr>) = reports_ok d"
  "reports_ok (d\<lparr>bt_config := cf\<rparr>) = reports_ok d"
  by (simp_all add: maps_of_def bt_wf_def reports_ok_def)

lemma blocks_same [simp]:
  "dev_blocks (d\<lparr>bt_connected := c\<rparr>) = dev_blocks d" "dev_blocks (d\<lparr>bt_remote_bda := b\<rparr>) = dev_blocks d"
  "dev_blocks (d\<lparr>bt_registered := r\<rparr>) = dev_blocks d" "dev_blocks (d\<lparr>bt_protocol_mode := md\<rparr>) = dev_blocks d"
  "dev_blocks (d\<lparr>bt_event_loop := l\<rparr>) = dev_blocks d" "dev_blocks (d\<lparr>bt_appearance := ap\<rparr>) = dev_blocks d"
  by (simp_all add: dev_blocks_def)

section \<open>The invariant\<close>

text \<open>
  Over \<open>live\<close> blocks, \<open>loops\<close> event loops and \<open>mutexes\<close> that are not the device's. Without a device a mutex
  can be left over, but it is free.
\<close>

definition bt_alive :: "int \<Rightarrow> int \<Rightarrow> nat \<Rightarrow> esp_bt_hidd_dev_t \<Rightarrow> 'w bt_st \<Rightarrow> bool" where
  "bt_alive live loops a d s \<longleftrightarrow> bs_dev s = Some (a, d) \<and> bs_mutex s = Some False \<and> bt_wf d
     \<and> bs_live s = live + dev_blocks d \<and> bs_loops s = loops + of_bool (bt_event_loop d)"

definition bt_idle :: "'w bt_st \<Rightarrow> bool" where
  "bt_idle s \<longleftrightarrow> bs_dev s = None \<and> bs_mutex s \<noteq> Some True"

definition bt_inv :: "int \<Rightarrow> int \<Rightarrow> 'w bt_st \<Rightarrow> bool" where
  "bt_inv live loops s \<longleftrightarrow> parser_wf (bs_parser s)
     \<and> (bt_idle s \<and> bs_live s = live \<and> bs_loops s = loops \<or> (\<exists>a d. bt_alive live loops a d s \<and> reports_ok d))"

lemma bt_aliveD:
  assumes "bt_alive live loops a d s"
  shows "bs_dev s = Some (a, d)" "bs_mutex s = Some False" "bt_wf d" "bs_live s = live + dev_blocks d"
    "bs_loops s = loops + of_bool (bt_event_loop d)"
  using assms by (simp_all add: bt_alive_def)

lemma bt_alive_cong:
  "bs_dev s = bs_dev t \<Longrightarrow> bs_mutex s = bs_mutex t \<Longrightarrow> bs_live s = bs_live t \<Longrightarrow> bs_loops s = bs_loops t \<Longrightarrow>
   bt_alive live loops a d s = bt_alive live loops a d t"
  by (simp add: bt_alive_def)

lemma is_init_alive: "bt_alive live loops a d s \<Longrightarrow> is_init s"
  by (simp add: is_init_def bt_alive_def)

lemma bt_get_run: "bs_dev s = Some (a, d) \<Longrightarrow> bt_get s = Inr (d, s)"
  by (simp add: bt_get_def)

lemma bt_upd_run: "bs_dev s = Some (a, d) \<Longrightarrow> bt_upd f s = Inr ((), s\<lparr>bs_dev := Some (a, f d)\<rparr>)"
  by (simp add: bt_upd_def)

text \<open>A change under the mutex.\<close>

lemma bt_locked_upd_run:
  "bs_dev s = Some (a, d) \<Longrightarrow> bs_mutex s = Some False \<Longrightarrow> bt_locked_upd f s = Inr ((), s\<lparr>bs_dev := Some (a, f d)\<rparr>)"
  by (cases s) (simp add: bt_locked_upd_def bt_lock_def bt_unlock_def bt_upd_def sseq_def sbind_def)

section \<open>Giving back\<close>

lemma free_maps_bt: "sfor ms bt_free_map s = Inr ((), s\<lparr>bs_live := bs_live s - sum_list (List.map map_blocks ms)\<rparr>)"
proof (induction ms arbitrary: s)
  case (Cons m ms)
  have "bt_free_map m s = Inr ((), s\<lparr>bs_live := bs_live s - map_blocks m\<rparr>)"
    by (simp add: bt_free_map_def bt_free_def map_blocks_def)
  then show ?case using Cons by (simp add: sseq_Inr [where m = "bt_free_map m"])
qed simp

text \<open>The state after the device was given back.\<close>

definition bt_gone :: "int \<Rightarrow> int \<Rightarrow> 'w bt_st \<Rightarrow> 'w bt_st" where
  "bt_gone live loops s = s\<lparr>bs_dev := None, bs_mutex := None, bs_live := live, bs_loops := loops, bs_mutexes := bs_mutexes s - 1\<rparr>"

lemma bt_hidd_dev_free_run:
  assumes s: "bt_alive live loops a d s"
  shows "bt_hidd_dev_free s = Inr ((), bt_gone live loops s)"
proof -
  note al = bt_aliveD [OF s]
  let ?s1 = "s\<lparr>bs_mutex := Some True\<rparr>"
  let ?n = "dev_blocks d - 1"
  have lock: "bt_lock s = Inr ((), ?s1)" using al(2) by (simp add: bt_lock_def)
  have maps: "dev_maps d = Inr (maps_of d)" using al(3) by (simp add: bt_wf_def)
  have "\<exists>d'. bt_hid_free_config ?s1 = Inr ((), ?s1\<lparr>bs_live := bs_live s - ?n, bs_loops := loops, bs_dev := Some (a, d')\<rparr>)"
    using al(1,5) maps
    by (cases "bt_event_loop d"; intro exI [of _ "d\<lparr>bt_event_loop := False\<rparr>"]; cases s)
       (simp_all add: bt_hid_free_config_def sbind_Inr [where m = bt_get, OF bt_get_run [of _ a d]]
          sseq_Inr [where m = "sfor (maps_of d) bt_free_map", OF free_maps_bt] bt_free_def dev_blocks_def name_blocks_def bt_upd_def)
  then obtain d' where c: "bt_hid_free_config ?s1 = Inr ((), ?s1\<lparr>bs_live := bs_live s - ?n, bs_loops := loops, bs_dev := Some (a, d')\<rparr>)"
    by blast
  have "bt_hidd_dev_free s = sseq (bt_free True) (sseq (smod (\<lambda>s. s\<lparr>bs_dev := None\<rparr>)) (sseq bt_unlock bt_mutex_free))
      (?s1\<lparr>bs_live := bs_live s - ?n, bs_loops := loops, bs_dev := Some (a, d')\<rparr>)"
    using is_init_alive [OF s]
    by (simp add: bt_hidd_dev_free_def sseq_Inr [where m = bt_lock, OF lock] sseq_Inr [where m = bt_hid_free_config, OF c])
  then show ?thesis
    using al(4) by (cases s) (simp add: bt_free_def bt_unlock_def bt_mutex_free_def bt_gone_def sseq_def sbind_def)
qed

section \<open>The configuration\<close>

text \<open>What the configuration leaves alone, of the state and of the device.\<close>

definition bt_frame :: "'w bt_st \<Rightarrow> 'w bt_st \<Rightarrow> bool" where
  "bt_frame s t \<longleftrightarrow> bs_iface t = bs_iface s \<and> bs_posted t = bs_posted s \<and> bs_next t = bs_next s \<and> bs_mutexes t = bs_mutexes s"

definition bt_link_of :: "esp_bt_hidd_dev_t \<Rightarrow> nat option \<times> bool \<times> bool \<times> bool \<times> u8 list \<times> u8" where
  "bt_link_of d = (bt_dev d, bt_event_loop d, bt_registered d, bt_connected d, bt_remote_bda d, bt_protocol_mode d)"

lemma bt_frame_refl: "bt_frame s s" by (simp add: bt_frame_def)

lemma bt_frame_trans: "bt_frame s t \<Longrightarrow> bt_frame t u \<Longrightarrow> bt_frame s u" by (simp add: bt_frame_def)

text \<open>An allocation is first owned by nobody, then adopted by the device.\<close>

lemma bt_malloc_alive:
  assumes "bt_alive live loops a d s"
  shows "\<exists>ok t. bt_malloc mok s = Inr (ok, t) \<and> bt_alive (live + of_bool ok) loops a d t \<and> bt_frame s t \<and> bs_parser t = bs_parser s"
  using assms by (auto simp: bt_malloc_def bt_alive_def bt_frame_def)

lemma bt_upd_alive:
  assumes "bt_alive live loops a d s" and "bt_wf (f d)" and "dev_blocks (f d) = dev_blocks d + k" and "bt_link_of (f d) = bt_link_of d"
  shows "\<exists>t. bt_upd f s = Inr ((), t) \<and> bt_alive (live - k) loops a (f d) t \<and> bt_frame s t \<and> bs_parser t = bs_parser s"
  using assms by (auto simp: bt_upd_def bt_alive_def bt_frame_def bt_link_of_def)

text \<open>A string of the configuration is copied and kept.\<close>

lemma bt_name_step:
  fixes s :: "'w bt_st"
  assumes s: "bt_alive live loops a d s"
    and blocks: "\<And>n. name_blocks (f n (bt_config d)) = name_blocks (bt_config d) + of_bool (n \<noteq> None)"
  shows "\<exists>n t. (\<forall>k :: ('w, int) bt. sbind (bt_strdup bl str) (\<lambda>n. sseq (bt_upd_config (f n)) k) s = k t)
    \<and> bt_alive live loops a (d\<lparr>bt_config := f n (bt_config d)\<rparr>) t \<and> bt_frame s t \<and> bs_parser t = bs_parser s"
proof -
  have "\<exists>n t. bt_strdup bl str s = Inr (n, t) \<and> bt_alive (live + of_bool (n \<noteq> None)) loops a d t \<and> bt_frame s t \<and> bs_parser t = bs_parser s"
  proof (cases str)
    case None
    then show ?thesis using s bt_frame_refl by (auto simp: bt_strdup_def)
  next
    case (Some bs)
    obtain ok t where m: "bt_malloc (bl_malloc bl) s = Inr (ok, t)" "bt_alive (live + of_bool ok) loops a d t"
      "bt_frame s t" "bs_parser t = bs_parser s"
      using bt_malloc_alive [OF s] by blast
    have "bt_strdup bl str s = Inr (if ok then Some (bs @ [0]) else None, t)"
      using Some by (simp add: bt_strdup_def sbind_Inr [where m = "bt_malloc (bl_malloc bl)", OF m(1)])
    then show ?thesis
      using m(2-4) by (intro exI [of _ "if ok then Some (bs @ [0]) else None"] exI [of _ t]) (cases ok; simp)
  qed
  then obtain n t where n: "bt_strdup bl str s = Inr (n, t)" "bt_alive (live + of_bool (n \<noteq> None)) loops a d t" "bt_frame s t"
    "bs_parser t = bs_parser s" by blast
  have "\<exists>u. bt_upd (\<lambda>d. d\<lparr>bt_config := f n (bt_config d)\<rparr>) t = Inr ((), u)
    \<and> bt_alive (live + of_bool (n \<noteq> None) - of_bool (n \<noteq> None)) loops a (d\<lparr>bt_config := f n (bt_config d)\<rparr>) u \<and> bt_frame t u
    \<and> bs_parser u = bs_parser t"
    by (rule bt_upd_alive [OF n(2)]) (use n(2) in \<open>simp_all add: blocks dev_blocks_def bt_link_of_def bt_alive_def\<close>)
  then obtain u where u: "bt_upd_config (f n) t = Inr ((), u)" "bt_alive live loops a (d\<lparr>bt_config := f n (bt_config d)\<rparr>) u"
    "bt_frame t u" "bs_parser u = bs_parser t"
    by (auto simp: bt_upd_config_def)
  have "sbind (bt_strdup bl str) (\<lambda>n. sseq (bt_upd_config (f n)) k) s = k u" for k :: "('w, int) bt"
    by (simp add: sbind_Inr [where m = "bt_strdup bl str", OF n(1)] sseq_Inr [where m = "bt_upd_config (f n)", OF u(1)])
  then show ?thesis using u(2,3,4) n(3,4) bt_frame_trans by metis
qed

text \<open>The one map of the device, and what it may become.\<close>

definition one_map :: "esp_bt_hidd_dev_t \<Rightarrow> bt_map \<Rightarrow> esp_bt_hidd_dev_t" where
  "one_map d m = d\<lparr>bt_devices := Some [m], bt_devices_len := 1\<rparr>"

lemma one_map_simps:
  "maps_of (one_map d m) = [m]" "bt_wf (one_map d m)" "reports_ok (one_map d m) = map_wf m" "bt_link_of (one_map d m) = bt_link_of d"
  "bt_devices (one_map d m) = Some [m]" "bt_config (one_map d m) = bt_config d"
  "dev_blocks (one_map d m) = 2 + map_blocks m + name_blocks (bt_config d)"
  "(one_map d m)\<lparr>bt_appearance := ap\<rparr> = one_map (d\<lparr>bt_appearance := ap\<rparr>) m"
  "(one_map d m)\<lparr>bt_devices := Some [m']\<rparr> = one_map d m'"
  by (simp_all add: one_map_def maps_of_def dev_maps_def bt_wf_def reports_ok_def bt_link_of_def dev_blocks_def)

lemma bt_upd_one_map:
  assumes s: "bt_alive live loops a (one_map d m) s"
  shows "\<exists>t. bt_upd_map 0 f s = Inr ((), t) \<and> bt_alive (live + map_blocks m - map_blocks (f m)) loops a (one_map d (f m)) t
    \<and> bt_frame s t \<and> bs_parser t = bs_parser s"
proof -
  have g: "bt_get s = Inr (one_map d m, s)" by (rule bt_get_run [OF bt_aliveD(1) [OF s]])
  have "\<exists>t. bt_upd (\<lambda>d. d\<lparr>bt_devices := Some ([m][0 := f ([m] ! 0)])\<rparr>) s = Inr ((), t)
    \<and> bt_alive (live - (map_blocks (f m) - map_blocks m)) loops a ((one_map d m)\<lparr>bt_devices := Some ([m][0 := f ([m] ! 0)])\<rparr>) t
    \<and> bt_frame s t \<and> bs_parser t = bs_parser s"
    by (rule bt_upd_alive [OF s]) (simp_all add: one_map_simps)
  then show ?thesis
    by (simp add: bt_upd_map_def sbind_Inr [where m = bt_get, OF g] one_map_simps algebra_simps)
qed

end
