(* ===== verification/BtHiddStart.thy ===== *)
theory BtHiddStart
  imports BtHiddInv
begin

text \<open>
  The start of the classic transport, through every failure of an allocation or of the stack: either a
  device is there, or everything it had is given back; what the parser's caller forgets to free is
  counted.
\<close>

section \<open>The map\<close>

lemma reports_wf: "length rs = unat n \<Longrightarrow> map_wf \<lparr>bm_data = dt, bm_len = l, bm_reports_len = n, bm_reports = Some rs\<rparr>"
  by (simp add: map_wf_def reports_of_def map_reports_def)

text \<open>
  \<open>leak\<close>: the array of the parsed reports is lost when the transport's own array cannot be allocated.
\<close>

lemma bt_init_reports_run:
  fixes s :: "'w bt_st"
  assumes s: "bt_alive live loops a (one_map d m) s" and m: "bm_reports m = None" and p: "parser_wf (bs_parser s)"
  shows "\<exists>rc m' t. sseq (bt_upd (\<lambda>b. b\<lparr>bt_appearance := rm_appearance rm\<rparr>))
         (sseq (bt_upd_map 0 (\<lambda>m. m\<lparr>bm_reports_len := rm_reports_len rm\<rparr>))
         (sbind (bt_malloc (bl_malloc bl)) (\<lambda>ok.
            if \<not> ok then sseq bt_parser_free (sret ESP_ERR_NO_MEM)
            else
              sseq (bt_upd_map 0 (\<lambda>m. m\<lparr>bm_reports := Some (List.map (hidd_report_of 0)
                      (take (unat (rm_reports_len rm)) (rm_reports rm)))\<rparr>))
              (sseq bt_parser_free (sseq bt_parser_free (sret 0)))))) s = Inr (rc, t)
    \<and> bt_alive live loops a (one_map (d\<lparr>bt_appearance := rm_appearance rm\<rparr>) m') t \<and> bt_frame s t \<and> parser_wf (bs_parser t)
    \<and> heap_owed (bs_parser t) = heap_owed (bs_parser s) - (if rc = 0 then 2 else 1)
    \<and> (rc = 0 \<longrightarrow> length (rm_reports rm) = unat (rm_reports_len rm) \<longrightarrow> map_wf m')"
proof -
  let ?d = "d\<lparr>bt_appearance := rm_appearance rm\<rparr>" and ?m1 = "m\<lparr>bm_reports_len := rm_reports_len rm\<rparr>"
  let ?ap = "bt_upd (\<lambda>b. b\<lparr>bt_appearance := rm_appearance rm\<rparr>)" and ?len = "bt_upd_map 0 (\<lambda>m. m\<lparr>bm_reports_len := rm_reports_len rm\<rparr>)"
  let ?rs = "List.map (hidd_report_of 0) (take (unat (rm_reports_len rm)) (rm_reports rm))"
  let ?rep = "bt_upd_map 0 (\<lambda>m. m\<lparr>bm_reports := Some ?rs\<rparr>)"
  have "\<exists>t. ?ap s = Inr ((), t) \<and> bt_alive (live - 0) loops a ((one_map d m)\<lparr>bt_appearance := rm_appearance rm\<rparr>) t
      \<and> bt_frame s t \<and> bs_parser t = bs_parser s"
    by (rule bt_upd_alive [OF s]) (simp_all add: one_map_simps, simp_all add: bt_link_of_def one_map_def)
  then obtain t1 where 1: "?ap s = Inr ((), t1)" "bt_alive live loops a (one_map ?d m) t1" "bt_frame s t1" "bs_parser t1 = bs_parser s"
    by (auto simp: one_map_simps)
  obtain t2 where 2: "?len t1 = Inr ((), t2)" "bt_alive live loops a (one_map ?d ?m1) t2" "bt_frame t1 t2" "bs_parser t2 = bs_parser t1"
    using bt_upd_one_map [OF 1(2), of "\<lambda>m. m\<lparr>bm_reports_len := rm_reports_len rm\<rparr>"] by (auto simp: map_blocks_def)
  obtain ok t3 where 3: "bt_malloc (bl_malloc bl) t2 = Inr (ok, t3)" "bt_alive (live + of_bool ok) loops a (one_map ?d ?m1) t3"
    "bt_frame t2 t3" "bs_parser t3 = bs_parser t2"
    using bt_malloc_alive [OF 2(2)] by blast
  have fr: "bt_frame s t3" using 1(3) 2(3) 3(3) bt_frame_trans by blast
  have par: "bs_parser t3 = bs_parser s" using 1(4) 2(4) 3(4) by simp
  note run = sseq_Inr [where m = ?ap, OF 1(1)] sseq_Inr [where m = ?len, OF 2(1)] sbind_Inr [where m = "bt_malloc (bl_malloc bl)", OF 3(1)]
  show ?thesis
  proof (cases ok)
    case False
    let ?t = "t3\<lparr>bs_parser := heap_free (bs_parser t3)\<rparr>"
    show ?thesis unfolding run
      using False 3(2) fr par p
      by (intro exI [of _ ESP_ERR_NO_MEM] exI [of _ ?m1] exI [of _ ?t])
         (simp add: bt_parser_free_def ESP_ERR_NO_MEM_def bt_alive_def bt_frame_def)
  next
    case True
    obtain t4 where 4: "?rep t3 = Inr ((), t4)" "bt_alive live loops a (one_map ?d (?m1\<lparr>bm_reports := Some ?rs\<rparr>)) t4" "bt_frame t3 t4"
      "bs_parser t4 = bs_parser t3"
      using bt_upd_one_map [OF 3(2), of "\<lambda>m. m\<lparr>bm_reports := Some ?rs\<rparr>"] True m by (auto simp: map_blocks_def)
    let ?t = "t4\<lparr>bs_parser := heap_free (heap_free (bs_parser t4))\<rparr>"
    have "bt_frame s ?t" using fr 4(3) by (simp add: bt_frame_def)
    then show ?thesis unfolding run
      using True 4(2,4) par p
      by (intro exI [of _ 0] exI [of _ "?m1\<lparr>bm_reports := Some ?rs\<rparr>"] exI [of _ ?t])
         (simp add: sseq_Inr [where m = ?rep, OF 4(1)] bt_parser_free_def bt_alive_def map_wf_def reports_of_def map_reports_def)
  qed
qed

lemma bt_init_map_run:
  fixes s :: "'w bt_st"
  assumes s: "bt_alive live loops a (one_map d bt_map_zero) s" and p: "parser_wf (bs_parser s)"
    and c: "cf_report_maps config = [raw]" "raw_len raw = 0 \<or> (\<exists>bs. raw_data raw = Some bs \<and> unat (raw_len raw) \<le> length bs)"
    and ps: "parses (bl_malloc bl) [raw_of raw] (bs_parser s)"
  shows "\<exists>rc ap m t. bt_init_map bl config 0 s = Inr (rc, t) \<and> bt_alive live loops a (one_map (d\<lparr>bt_appearance := ap\<rparr>) m) t
    \<and> bt_frame s t \<and> parser_wf (bs_parser t) \<and> heap_owed (bs_parser t) \<in> {heap_owed (bs_parser s), heap_owed (bs_parser s) + 1}
    \<and> (rc = 0 \<longrightarrow> heap_owed (bs_parser t) = heap_owed (bs_parser s) \<and> map_wf m)"
proof -
  have d0: "d\<lparr>bt_appearance := bt_appearance d\<rparr> = d" by simp
  have raw: "bt_raw_bytes raw t = Inr (raw_of raw, t)" for t :: "'w bt_st"
    using c(2) by (auto simp: bt_raw_bytes_def raw_of_def)
  obtain ok t1 where m1: "bt_malloc (bl_malloc bl) s = Inr (ok, t1)" "bt_alive (live + of_bool ok) loops a (one_map d bt_map_zero) t1"
    "bt_frame s t1" "bs_parser t1 = bs_parser s"
    using bt_malloc_alive [OF s] by blast
  show ?thesis
  proof (cases ok)
    case False
    then have "bt_init_map bl config 0 s = Inr (ESP_ERR_NO_MEM, t1)"
      using c(1) by (simp add: bt_init_map_def sbind_Inr [where m = "bt_raw_bytes raw", OF raw]
          sbind_Inr [where m = "bt_malloc (bl_malloc bl)", OF m1(1)])
    then show ?thesis using m1 False p d0
      by (intro exI [of _ ESP_ERR_NO_MEM] exI [of _ "bt_appearance d"] exI [of _ bt_map_zero] exI [of _ t1])
         (simp add: ESP_ERR_NO_MEM_def)
  next
    case True
    let ?f = "\<lambda>m. m\<lparr>bm_data := Some (raw_of raw), bm_len := raw_len raw\<rparr>"
    let ?m1 = "?f bt_map_zero"
    obtain t2 where m2: "bt_upd_map 0 ?f t1 = Inr ((), t2)" "bt_alive live loops a (one_map d ?m1) t2" "bt_frame t1 t2" "bs_parser t2 = bs_parser t1"
      using bt_upd_one_map [OF m1(2), of ?f] True by (auto simp: map_blocks_def bt_map_zero_def)
    obtain rm q where pr: "esp_hid_parse_report_map (bl_malloc bl) (raw_of raw) (bs_parser s) = (Inr rm, q)"
      using ps by (auto split: prod.splits sum.splits)
    let ?t3 = "t2\<lparr>bs_parser := q\<rparr>"
    have m3: "bt_parse bl (raw_of raw) t2 = Inr (rm, ?t3)" using pr m1(4) m2(4) by (simp add: bt_parse_def)
    have a3: "bt_alive live loops a (one_map d ?m1) ?t3" "bt_frame s ?t3" "parser_wf q"
      using m2(2) m1(3) m2(3) parse_map_keeps_wf [OF p pr] by (simp_all add: bt_alive_def bt_frame_def)
    have owed: "heap_owed q = heap_owed (bs_parser s) + (if rm = None then 0 else 2)"
      using parse_map_owed [of "bl_malloc bl" "raw_of raw" "bs_parser s"] pr by (simp split: option.splits)
    define rest :: "esp_hid_report_map_t \<Rightarrow> ('w, int) bt" where "rest = (\<lambda>rm. sseq (bt_upd (\<lambda>b. b\<lparr>bt_appearance := rm_appearance rm\<rparr>))
         (sseq (bt_upd_map 0 (\<lambda>m. m\<lparr>bm_reports_len := rm_reports_len rm\<rparr>))
         (sbind (bt_malloc (bl_malloc bl)) (\<lambda>ok.
            if \<not> ok then sseq bt_parser_free (sret ESP_ERR_NO_MEM)
            else
              sseq (bt_upd_map 0 (\<lambda>m. m\<lparr>bm_reports := Some (List.map (hidd_report_of 0)
                      (take (unat (rm_reports_len rm)) (rm_reports rm)))\<rparr>))
              (sseq bt_parser_free (sseq bt_parser_free (sret 0)))))))"
    have run: "bt_init_map bl config 0 s = (case rm of None \<Rightarrow> Inr (ESP_FAIL, ?t3) | Some rm \<Rightarrow> rest rm ?t3)"
      using c(1) True by (simp add: bt_init_map_def sbind_Inr [where m = "bt_raw_bytes raw", OF raw]
          sbind_Inr [where m = "bt_malloc (bl_malloc bl)", OF m1(1)] sseq_Inr [where m = "bt_upd_map 0 ?f", OF m2(1)]
          sbind_Inr [where m = "bt_parse bl (raw_of raw)", OF m3] rest_def split: option.split)
    show ?thesis
    proof (cases rm)
      case None
      then show ?thesis using run a3 owed d0
        by (intro exI [of _ ESP_FAIL] exI [of _ "bt_appearance d"] exI [of _ ?m1] exI [of _ ?t3]) (simp add: ESP_FAIL_def)
    next
      case (Some r)
      have len: "length (rm_reports r) = unat (rm_reports_len r)"
        using parse_map_wf [OF p] pr Some by auto
      have "bm_reports ?m1 = None" "parser_wf (bs_parser ?t3)" using a3(3) by (simp_all add: bt_map_zero_def)
      from bt_init_reports_run [OF a3(1) this, of r bl]
      obtain rc m' t where t: "rest r ?t3 = Inr (rc, t)" "bt_alive live loops a (one_map (d\<lparr>bt_appearance := rm_appearance r\<rparr>) m') t"
        "bt_frame ?t3 t" "parser_wf (bs_parser t)" "heap_owed (bs_parser t) = heap_owed q - (if rc = 0 then 2 else 1)"
        "rc = 0 \<longrightarrow> length (rm_reports r) = unat (rm_reports_len r) \<longrightarrow> map_wf m'"
        unfolding rest_def by auto
      have "bt_frame s t" using a3(2) t(3) bt_frame_trans by blast
      then show ?thesis
        using run Some t owed len
        by (intro exI [of _ rc] exI [of _ "rm_appearance r"] exI [of _ m'] exI [of _ t]) simp
    qed
  qed
qed

section \<open>The configuration\<close>

definition empty_dev :: "esp_bt_hidd_dev_t \<Rightarrow> bool" where
  "empty_dev d \<longleftrightarrow> bt_devices d = None \<and> bt_devices_len d = 0"

lemma empty_dev_simps: "empty_dev d \<Longrightarrow> maps_of d = [] \<and> bt_wf d \<and> dev_blocks d = 1 + name_blocks (bt_config d)"
  by (simp add: empty_dev_def maps_of_def dev_maps_def bt_wf_def dev_blocks_def)

text \<open>The array with its one map is made and filled.\<close>

lemma bt_init_devices_run:
  fixes s :: "'w bt_st"
  assumes s: "bt_alive live loops a d s" and d: "empty_dev d" and p: "parser_wf (bs_parser s)"
    and c: "cf_report_maps config = [raw]" "raw_len raw = 0 \<or> (\<exists>bs. raw_data raw = Some bs \<and> unat (raw_len raw) \<le> length bs)"
    and len: "cf_report_maps_len config = 1" and ps: "parses (bl_malloc bl) [raw_of raw] (bs_parser s)"
  shows "\<exists>rc d' t. sbind (bt_malloc (bl_malloc bl)) (\<lambda>ok.
           if \<not> ok then sret ESP_ERR_NO_MEM
           else
             sseq (bt_upd (\<lambda>d. d\<lparr>bt_devices := Some (replicate (unat (cf_report_maps_len config)) bt_map_zero)\<rparr>))
             (sseq (bt_upd (\<lambda>d. d\<lparr>bt_devices_len := cf_report_maps_len config\<rparr>))
               (bt_init_maps bl config [0..<unat (cf_report_maps_len config)]))) s = Inr (rc, t)
    \<and> bt_alive live loops a d' t \<and> bt_frame s t \<and> bt_link_of d' = bt_link_of d \<and> parser_wf (bs_parser t)
    \<and> heap_owed (bs_parser t) \<in> {heap_owed (bs_parser s), heap_owed (bs_parser s) + 1}
    \<and> (rc = 0 \<longrightarrow> heap_owed (bs_parser t) = heap_owed (bs_parser s) \<and> (\<exists>e m. d' = one_map e m \<and> map_wf m))"
proof -
  note empty = empty_dev_simps [OF d]
  obtain ok t1 where 1: "bt_malloc (bl_malloc bl) s = Inr (ok, t1)" "bt_alive (live + of_bool ok) loops a d t1" "bt_frame s t1"
    "bs_parser t1 = bs_parser s"
    using bt_malloc_alive [OF s] by blast
  show ?thesis
  proof (cases ok)
    case False
    then show ?thesis using 1 p
      by (intro exI [of _ ESP_ERR_NO_MEM] exI [of _ d] exI [of _ t1])
         (simp add: sbind_Inr [where m = "bt_malloc (bl_malloc bl)", OF 1(1)] ESP_ERR_NO_MEM_def)
  next
    case True
    let ?dev = "bt_upd (\<lambda>d. d\<lparr>bt_devices := Some [bt_map_zero]\<rparr>)" and ?len = "bt_upd (\<lambda>d. d\<lparr>bt_devices_len := 1\<rparr>)"
    let ?d2 = "d\<lparr>bt_devices := Some [bt_map_zero]\<rparr>"
    have "\<exists>t. ?dev t1 = Inr ((), t) \<and> bt_alive (live + 1 - 1) loops a ?d2 t \<and> bt_frame t1 t \<and> bs_parser t = bs_parser t1"
      by (rule bt_upd_alive) (use 1(2) True d in \<open>simp_all add: empty_dev_def maps_of_def dev_maps_def bt_wf_def dev_blocks_def bt_link_of_def\<close>)
    then obtain t2 where 2: "?dev t1 = Inr ((), t2)" "bt_alive live loops a ?d2 t2" "bt_frame t1 t2" "bs_parser t2 = bs_parser t1" by auto
    have one: "?d2\<lparr>bt_devices_len := 1\<rparr> = one_map d bt_map_zero" by (simp add: one_map_def)
    have "\<exists>t. ?len t2 = Inr ((), t) \<and> bt_alive (live - 0) loops a (?d2\<lparr>bt_devices_len := 1\<rparr>) t \<and> bt_frame t2 t \<and> bs_parser t = bs_parser t2"
    proof (rule bt_upd_alive [OF 2(2)])
      show "bt_wf (?d2\<lparr>bt_devices_len := 1\<rparr>)" by (simp only: one one_map_simps)
      have "dev_blocks ?d2 = 2 + name_blocks (bt_config d)" using d by (simp add: empty_dev_def dev_blocks_def maps_of_def dev_maps_def)
      then show "dev_blocks (?d2\<lparr>bt_devices_len := 1\<rparr>) = dev_blocks ?d2 + 0"
        by (simp only: one one_map_simps) (simp add: map_blocks_def bt_map_zero_def)
    qed (simp add: bt_link_of_def)
    then obtain t3 where 3: "?len t2 = Inr ((), t3)" "bt_alive live loops a (one_map d bt_map_zero) t3" "bt_frame t2 t3" "bs_parser t3 = bs_parser t2"
      by (auto simp: one)
    have fr: "bt_frame s t3" and par: "bs_parser t3 = bs_parser s"
      using 1(3,4) 2(3,4) 3(3,4) bt_frame_trans by (blast, simp)
    obtain rc ap m t where 4: "bt_init_map bl config 0 t3 = Inr (rc, t)" "bt_alive live loops a (one_map (d\<lparr>bt_appearance := ap\<rparr>) m) t"
      "bt_frame t3 t" "parser_wf (bs_parser t)" "heap_owed (bs_parser t) \<in> {heap_owed (bs_parser t3), heap_owed (bs_parser t3) + 1}"
      "rc = 0 \<longrightarrow> heap_owed (bs_parser t) = heap_owed (bs_parser t3) \<and> map_wf m"
      using bt_init_map_run [OF 3(2) _ c, of bl] p ps par by metis
    have "bt_frame s t" using fr 4(3) bt_frame_trans by blast
    moreover have "bt_link_of (one_map (d\<lparr>bt_appearance := ap\<rparr>) m) = bt_link_of d" by (simp add: one_map_simps) (simp add: bt_link_of_def)
    moreover have "bt_init_maps bl config [0..<unat (cf_report_maps_len config)] t3 = Inr (rc, t)"
      using len by (simp add: sbind_Inr [where m = "bt_init_map bl config 0", OF 4(1)])
    ultimately show ?thesis
      using len True 4(2,4-6) par
      by (intro exI [of _ rc] exI [of _ "one_map (d\<lparr>bt_appearance := ap\<rparr>) m"] exI [of _ t])
         (auto simp: sbind_Inr [where m = "bt_malloc (bl_malloc bl)", OF 1(1)] sseq_Inr [where m = ?dev, OF 2(1)]
            sseq_Inr [where m = ?len, OF 3(1)])
  qed
qed

lemma bt_init_config_run:
  fixes s :: "'w bt_st"
  assumes s: "bt_alive live loops a d s" and d: "empty_dev d" "name_blocks (bt_config d) = 0" and p: "parser_wf (bs_parser s)"
    and c: "config_ok config" and ps: "parses (bl_malloc bl) (List.map raw_of (cf_report_maps config)) (bs_parser s)"
  shows "\<exists>rc d' t. bt_hidd_init_config bl config s = Inr (rc, t)
    \<and> bt_alive live loops a d' t \<and> bt_frame s t \<and> bt_link_of d' = bt_link_of d \<and> parser_wf (bs_parser t)
    \<and> heap_owed (bs_parser t) \<in> {heap_owed (bs_parser s), heap_owed (bs_parser s) + 1}
    \<and> (rc = 0 \<longrightarrow> heap_owed (bs_parser t) = heap_owed (bs_parser s) \<and> (\<exists>e m. d' = one_map e m \<and> map_wf m))"
proof (cases "cf_report_maps config = [] \<or> cf_report_maps_len config = 0 \<or> 1 < cf_report_maps_len config")
  case True
  then show ?thesis using s p
    by (intro exI [of _ ESP_ERR_INVALID_ARG] exI [of _ d] exI [of _ s])
       (simp add: bt_hidd_init_config_def bt_frame_refl ESP_ERR_INVALID_ARG_def)
next
  case False
  then have "unat (cf_report_maps_len config) \<noteq> 0" "\<not> 1 < unat (cf_report_maps_len config)"
    by (auto simp: word_less_nat_alt unat_eq_0)
  then have "unat (cf_report_maps_len config) = 1" by linarith
  then have len: "cf_report_maps_len config = 1" by (metis unat_1 unsigned_word_eqI)
  obtain raw where raw: "cf_report_maps config = [raw]"
    using c len by (auto simp: config_ok_def length_Suc_conv)
  have ok: "raw_len raw = 0 \<or> (\<exists>bs. raw_data raw = Some bs \<and> unat (raw_len raw) \<le> length bs)"
    using c raw by (simp add: config_ok_def)
  let ?c0 = "bt_config_zero\<lparr>bc_vendor_id := cf_vendor_id config, bc_product_id := cf_product_id config, bc_version := cf_version config\<rparr>"
  have "\<exists>t. bt_upd (\<lambda>d. d\<lparr>bt_config := ?c0\<rparr>) s = Inr ((), t) \<and> bt_alive (live - 0) loops a (d\<lparr>bt_config := ?c0\<rparr>) t \<and> bt_frame s t
     \<and> bs_parser t = bs_parser s"
    by (rule bt_upd_alive [OF s])
       (use d(2) bt_aliveD(3) [OF s] in \<open>simp_all add: dev_blocks_def name_blocks_def bt_config_zero_def bt_link_of_def\<close>)
  then obtain t0 where 0: "bt_upd_config (\<lambda>_. ?c0) s = Inr ((), t0)" "bt_alive live loops a (d\<lparr>bt_config := ?c0\<rparr>) t0" "bt_frame s t0"
    "bs_parser t0 = bs_parser s" by (auto simp: bt_upd_config_def)
  obtain n1 t1 where 1: "\<And>k :: ('w, int) bt. sbind (bt_strdup bl (cf_device_name config)) (\<lambda>n. sseq (bt_upd_config (\<lambda>c. c\<lparr>bc_device_name := n\<rparr>)) k) t0 = k t1"
    "bt_alive live loops a (d\<lparr>bt_config := ?c0\<lparr>bc_device_name := n1\<rparr>\<rparr>) t1" "bt_frame t0 t1" "bs_parser t1 = bs_parser t0"
    using bt_name_step [OF 0(2), of "\<lambda>n c. c\<lparr>bc_device_name := n\<rparr>" bl "cf_device_name config"]
    by (auto simp: name_blocks_def bt_config_zero_def)
  obtain n2 t2 where 2: "\<And>k :: ('w, int) bt. sbind (bt_strdup bl (cf_manufacturer_name config)) (\<lambda>n. sseq (bt_upd_config (\<lambda>c. c\<lparr>bc_manufacturer_name := n\<rparr>)) k) t1 = k t2"
    "bt_alive live loops a (d\<lparr>bt_config := ?c0\<lparr>bc_device_name := n1, bc_manufacturer_name := n2\<rparr>\<rparr>) t2" "bt_frame t1 t2" "bs_parser t2 = bs_parser t1"
    using bt_name_step [OF 1(2), of "\<lambda>n c. c\<lparr>bc_manufacturer_name := n\<rparr>" bl "cf_manufacturer_name config"]
    by (auto simp: name_blocks_def bt_config_zero_def)
  let ?c3 = "\<lambda>n3. ?c0\<lparr>bc_device_name := n1, bc_manufacturer_name := n2, bc_serial_number := n3\<rparr>"
  obtain n3 t3 where 3: "\<And>k :: ('w, int) bt. sbind (bt_strdup bl (cf_serial_number config)) (\<lambda>n. sseq (bt_upd_config (\<lambda>c. c\<lparr>bc_serial_number := n\<rparr>)) k) t2 = k t3"
    "bt_alive live loops a (d\<lparr>bt_config := ?c3 n3\<rparr>) t3" "bt_frame t2 t3" "bs_parser t3 = bs_parser t2"
    using bt_name_step [OF 2(2), of "\<lambda>n c. c\<lparr>bc_serial_number := n\<rparr>" bl "cf_serial_number config"]
    by (auto simp: name_blocks_def bt_config_zero_def)
  let ?d4 = "d\<lparr>bt_config := ?c3 n3, bt_appearance := ESP_HID_APPEARANCE_GENERIC\<rparr>"
  have "\<exists>t. bt_upd (\<lambda>d. d\<lparr>bt_appearance := ESP_HID_APPEARANCE_GENERIC\<rparr>) t3 = Inr ((), t) \<and> bt_alive (live - 0) loops a ?d4 t \<and> bt_frame t3 t
     \<and> bs_parser t = bs_parser t3"
    using bt_upd_alive [OF 3(2), of "\<lambda>d. d\<lparr>bt_appearance := ESP_HID_APPEARANCE_GENERIC\<rparr>" 0] bt_aliveD(3) [OF 3(2)] by (simp add: bt_link_of_def)
  then obtain t4 where 4: "bt_upd (\<lambda>d. d\<lparr>bt_appearance := ESP_HID_APPEARANCE_GENERIC\<rparr>) t3 = Inr ((), t4)" "bt_alive live loops a ?d4 t4"
    "bt_frame t3 t4" "bs_parser t4 = bs_parser t3" by auto
  have fr: "bt_frame s t4" using 0(3) 1(3) 2(3) 3(3) 4(3) bt_frame_trans by meson
  have par: "bs_parser t4 = bs_parser s" using 0(4) 1(4) 2(4) 3(4) 4(4) by simp
  have e4: "empty_dev ?d4" "bt_link_of ?d4 = bt_link_of d" using d by (simp_all add: empty_dev_def bt_link_of_def)
  have "parser_wf (bs_parser t4)" "parses (bl_malloc bl) [raw_of raw] (bs_parser t4)" using p ps raw par by simp_all
  from bt_init_devices_run [OF 4(2) e4(1) this(1) raw ok len this(2)]
  obtain rc d' t where t: "sbind (bt_malloc (bl_malloc bl)) (\<lambda>ok.
           if \<not> ok then sret ESP_ERR_NO_MEM
           else
             sseq (bt_upd (\<lambda>d. d\<lparr>bt_devices := Some (replicate (unat (cf_report_maps_len config)) bt_map_zero)\<rparr>))
             (sseq (bt_upd (\<lambda>d. d\<lparr>bt_devices_len := cf_report_maps_len config\<rparr>))
               (bt_init_maps bl config [0..<unat (cf_report_maps_len config)]))) t4 = Inr (rc, t)"
    "bt_alive live loops a d' t" "bt_frame t4 t" "bt_link_of d' = bt_link_of ?d4" "parser_wf (bs_parser t)"
    "heap_owed (bs_parser t) \<in> {heap_owed (bs_parser t4), heap_owed (bs_parser t4) + 1}"
    "rc = 0 \<longrightarrow> heap_owed (bs_parser t) = heap_owed (bs_parser t4) \<and> (\<exists>e m. d' = one_map e m \<and> map_wf m)"
    by blast
  have "bt_hidd_init_config bl config s = Inr (rc, t)"
    unfolding bt_hidd_init_config_def if_not_P [OF False] sseq_Inr [where m = "bt_upd_config (\<lambda>_. ?c0)", OF 0(1)] 1(1) 2(1) 3(1)
      sseq_Inr [where m = "bt_upd (\<lambda>d. d\<lparr>bt_appearance := ESP_HID_APPEARANCE_GENERIC\<rparr>)", OF 4(1)] by (rule t(1))
  moreover have "bt_frame s t" using fr t(3) bt_frame_trans by blast
  ultimately show ?thesis using t(2,4-7) par e4(2) by metis
qed

section \<open>Under the mutex\<close>

lemma bt_checked_run:
  assumes s: "bs_dev s = Some (a, d)" "bs_mutex s = Some False"
    and k: "k d (s\<lparr>bs_mutex := Some True\<rparr>) = Inr (x, t)" "bs_mutex t = Some True"
  shows "bt_checked (Some a) u w k s = Inr (x, t\<lparr>bs_mutex := Some False\<rparr>)"
proof -
  have l: "bt_lock s = Inr ((), s\<lparr>bs_mutex := Some True\<rparr>)" using s(2) by (simp add: bt_lock_def)
  have u: "bt_unlock t = Inr ((), t\<lparr>bs_mutex := Some False\<rparr>)" using k(2) by (simp add: bt_unlock_def)
  show ?thesis
    using s(1) k(1) by (simp add: bt_checked_def sseq_Inr [where m = bt_lock, OF l])
      (simp add: sbind_def sseq_Inr [where m = bt_unlock, OF u])
qed

lemma bt_checked_ret:
  "bs_dev s = Some (a, d) \<Longrightarrow> bs_mutex s = Some False \<Longrightarrow> bt_checked (Some a) u w (\<lambda>d. sret (f d)) s = Inr (f d, s)"
  by (subst bt_checked_run [where x = "f d" and t = "s\<lparr>bs_mutex := Some True\<rparr>"]) (cases s; simp)+

lemma bt_checked_call:
  assumes "bs_dev s = Some (a, d)" "bs_mutex s = Some False" "f d (bs_world s) = (x, w')"
  shows "bt_checked (Some a) u w (\<lambda>d. bt_call (f d)) s = Inr (x, s\<lparr>bs_world := w'\<rparr>)"
  using assms by (subst bt_checked_run [where x = x and t = "s\<lparr>bs_mutex := Some True, bs_world := w'\<rparr>"]) (cases s; simp add: bt_call_def)+

text \<open>Without the device, or under another address, nothing is looked at.\<close>

lemma bt_checked_gone:
  "bs_dev s = None \<Longrightarrow> bs_mutex s = Some False \<Longrightarrow> bt_checked devp u w k s = Inr (u, s)"
  by (cases s) (simp add: bt_checked_def bt_lock_def bt_unlock_def sseq_def sbind_def)

lemma bt_checked_wrong:
  "bs_dev s = Some (a, d) \<Longrightarrow> bs_mutex s = Some False \<Longrightarrow> devp \<noteq> Some a \<Longrightarrow> bt_checked devp u w k s = Inr (w, s)"
  by (cases s) (simp add: bt_checked_def bt_lock_def bt_unlock_def sseq_def sbind_def)

lemma bt_checked_no_mutex: "bs_mutex s = None \<Longrightarrow> bt_checked devp u w k s = Inl AssertFailed"
  by (simp add: bt_checked_def bt_lock_def sseq_def sbind_def)

lemma bt_register_alive:
  assumes s: "bt_alive live loops a d s"
  shows "\<exists>rc w. esp_bt_hidd_dev_event_handler_register bl (Some a) ev s = Inr (rc, s\<lparr>bs_world := w\<rparr>)
    \<and> bt_alive live loops a d (s\<lparr>bs_world := w\<rparr>)"
proof -
  obtain rc w where f: "bl_handler_register bl (bt_event_loop d) ev (bs_world s) = (rc, w)" by fastforce
  show ?thesis
    using bt_checked_call [of s a d "\<lambda>d. bl_handler_register bl (bt_event_loop d) ev", OF bt_aliveD(1,2) [OF s] f] s
    by (auto simp: esp_bt_hidd_dev_event_handler_register_def bt_alive_def)
qed

section \<open>The parameters\<close>

lemma sum_value_len_ok: "\<forall>m \<in> set ms. map_wf m \<Longrightarrow> \<exists>n. sum_value_len P ms = Inr n"
  by (induction ms) (auto simp: map_wf_def)

lemma value_len_ok: "bt_wf d \<Longrightarrow> reports_ok d \<Longrightarrow> \<exists>n. get_value_len_by_type_protocol d ty md = Inr n"
  by (simp add: get_value_len_by_type_protocol_def bt_wf_def reports_ok_def sum_value_len_ok)

lemma init_params_run:
  assumes s: "bt_alive live loops a (one_map e m) s" and m: "map_wf m"
  shows "\<exists>t. bt_hidd_init_app s = Inr ((), t) \<and> bt_alive live loops a (one_map e m) t \<and> bt_frame s t \<and> bs_parser t = bs_parser s"
    and "\<exists>t. bt_hidd_init_qos s = Inr ((), t) \<and> bt_alive live loops a (one_map e m) t \<and> bt_frame s t \<and> bs_parser t = bs_parser s"
proof -
  have g: "bt_get s = Inr (one_map e m, s)" by (rule bt_get_run [OF bt_aliveD(1) [OF s]])
  show "\<exists>t. bt_hidd_init_app s = Inr ((), t) \<and> bt_alive live loops a (one_map e m) t \<and> bt_frame s t \<and> bs_parser t = bs_parser s"
    using s by (simp add: bt_hidd_init_app_def sbind_Inr [where m = bt_get, OF g] one_map_simps bt_alive_def bt_frame_def)
  obtain n where n: "get_value_len_by_type_protocol (one_map e m) ESP_HID_REPORT_TYPE_INPUT (bt_protocol_mode (one_map e m)) = Inr n"
    using value_len_ok one_map_simps(2,3) m by metis
  show "\<exists>t. bt_hidd_init_qos s = Inr ((), t) \<and> bt_alive live loops a (one_map e m) t \<and> bt_frame s t \<and> bs_parser t = bs_parser s"
    using s n by (simp add: bt_hidd_init_qos_def sbind_Inr [where m = bt_get, OF g] bt_alive_def bt_frame_def)
qed

section \<open>The start\<close>

text \<open>
  How the second half can end: with the device, or with all of it given back. \<open>n\<close> counts the mutexes.
\<close>

definition bt_ends :: "int \<Rightarrow> int \<Rightarrow> int \<Rightarrow> nat \<Rightarrow> nat \<Rightarrow> esp_bt_hidd_dev_t \<Rightarrow> bt_event list \<Rightarrow> int \<Rightarrow> 'w bt_st \<Rightarrow> bool" where
  "bt_ends live loops n dev_p a d posted rc t \<longleftrightarrow> bs_posted t = posted
     \<and> (if rc = 0 then bt_alive live loops a d t \<and> bs_iface t dev_p = Some a \<and> bs_mutexes t = n
        else bs_dev t = None \<and> bs_mutex t = None \<and> bs_live t = live \<and> bs_loops t = loops \<and> bs_mutexes t = n - 1)"

lemma bt_end_free:
  assumes "bt_alive live loops a d s" and "rc \<noteq> 0"
  shows "\<exists>t. sseq bt_hidd_dev_free (sret rc) s = Inr (rc, t) \<and> bs_parser t = bs_parser s
    \<and> bt_ends live loops (bs_mutexes s) dev_p a d (bs_posted s) rc t"
  using assms by (simp add: sseq_Inr [where m = bt_hidd_dev_free, OF bt_hidd_dev_free_run [OF assms(1)]] bt_ends_def bt_gone_def)

lemma bt_init_tail_run:
  fixes s :: "'w bt_st"
  assumes s: "bt_alive live loops a (one_map e m) s" and m: "map_wf m"
  shows "\<exists>rc t. bt_init_tail bl dev_p a cb s = Inr (rc, t) \<and> bs_parser t = bs_parser s
    \<and> bt_ends live loops (bs_mutexes s) dev_p a (one_map e m) (bs_posted s) rc t"
proof -
  let ?d = "one_map e m" and ?reg = "esp_bt_hidd_dev_event_handler_register bl (Some a) (-1)"
  obtain s1 where 1: "bt_hidd_init_app s = Inr ((), s1)" "bt_alive live loops a ?d s1" "bt_frame s s1" "bs_parser s1 = bs_parser s"
    using init_params_run(1) [OF s m] by blast
  obtain s2 where 2: "bt_hidd_init_qos s1 = Inr ((), s2)" "bt_alive live loops a ?d s2" "bt_frame s1 s2" "bs_parser s2 = bs_parser s1"
    using init_params_run(2) [OF 1(2) m] by blast
  let ?s3 = "s2\<lparr>bs_iface := (bs_iface s2)(dev_p := Some a)\<rparr>"
  have a3: "bt_alive live loops a ?d ?s3" using 2(2) by (simp add: bt_alive_def)
  have fr: "bs_posted s2 = bs_posted s" "bs_mutexes s2 = bs_mutexes s" "bs_parser s2 = bs_parser s"
    using 1(3,4) 2(3,4) by (simp_all add: bt_frame_def)
  have world: "bt_alive live loops a ?d (?s3\<lparr>bs_world := w\<rparr>)" for w using a3 by (simp add: bt_alive_def)
  have fail: "\<exists>t. sseq bt_hidd_dev_free (sret rc) (?s3\<lparr>bs_world := w\<rparr>) = Inr (rc, t) \<and> bs_parser t = bs_parser s
      \<and> bt_ends live loops (bs_mutexes s) dev_p a ?d (bs_posted s) rc t" if "rc \<noteq> 0" for rc w
    using bt_end_free [OF world that, of w dev_p] fr by simp
  have good: "bt_ends live loops (bs_mutexes s) dev_p a ?d (bs_posted s) 0 (?s3\<lparr>bs_world := w\<rparr>)" for w
    using world [of w] fr by (simp add: bt_ends_def)
  obtain rc1 w1 where r1: "?reg ?s3 = Inr (rc1, ?s3\<lparr>bs_world := w1\<rparr>)"
    using bt_register_alive [OF a3] by blast
  have "\<exists>rc2 w2. (if cb then ?reg else sret 0) (?s3\<lparr>bs_world := w1\<rparr>) = Inr (rc2, ?s3\<lparr>bs_world := w2\<rparr>)"
  proof (cases cb)
    case True
    then show ?thesis using bt_register_alive [OF world [of w1], of bl "-1"] by auto
  qed auto
  then obtain rc2 w2 where r2: "(if cb then ?reg else sret 0) (?s3\<lparr>bs_world := w1\<rparr>) = Inr (rc2, ?s3\<lparr>bs_world := w2\<rparr>)" by blast
  obtain rc3 w3 where f3: "bl_register_callback bl w2 = (rc3, w3)" by fastforce
  obtain rc4 w4 where f4: "bl_init bl w3 = (rc4, w4)" by fastforce
  have r3: "bt_call (bl_register_callback bl) (?s3\<lparr>bs_world := w2\<rparr>) = Inr (rc3, ?s3\<lparr>bs_world := w3\<rparr>)"
    and r4: "bt_call (bl_init bl) (?s3\<lparr>bs_world := w3\<rparr>) = Inr (rc4, ?s3\<lparr>bs_world := w4\<rparr>)"
    using f3 f4 by (simp_all add: bt_call_def)
  have run: "bt_init_tail bl dev_p a cb s =
    (if rc1 \<noteq> 0 then sseq bt_hidd_dev_free (sret rc1) (?s3\<lparr>bs_world := w1\<rparr>)
     else if rc2 \<noteq> 0 then sseq bt_hidd_dev_free (sret rc2) (?s3\<lparr>bs_world := w2\<rparr>)
     else if rc3 OR rc4 \<noteq> 0 then sseq bt_hidd_dev_free (sret (rc3 OR rc4)) (?s3\<lparr>bs_world := w4\<rparr>)
     else Inr (0, ?s3\<lparr>bs_world := w4\<rparr>))"
    unfolding bt_init_tail_def sseq_Inr [where m = bt_hidd_init_app, OF 1(1)] sseq_Inr [where m = bt_hidd_init_qos, OF 2(1)]
    by (simp add: sbind_Inr [where m = ?reg, OF r1] sbind_Inr [where m = "if cb then ?reg else sret 0", OF r2]
        sbind_Inr [where m = "bt_call (bl_register_callback bl)", OF r3] sbind_Inr [where m = "bt_call (bl_init bl)", OF r4])
  show ?thesis
    unfolding run using fail [of rc1 w1] fail [of rc2 w2] fail [of "rc3 OR rc4" w4] good [of w4] fr(3)
    by (cases "rc1 = 0"; cases "rc2 = 0"; cases "rc3 OR rc4 = 0") auto
qed

text \<open>What a start needs of its caller, and what it leaves.\<close>

definition bt_startable :: "'w bluedroid \<Rightarrow> esp_hid_device_config_t \<Rightarrow> 'w bt_st \<Rightarrow> bool" where
  "bt_startable bl config s \<longleftrightarrow> bt_idle s \<and> parser_wf (bs_parser s) \<and> config_ok config
     \<and> parses (bl_malloc bl) (List.map raw_of (cf_report_maps config)) (bs_parser s)"

definition bt_link_start :: "nat \<Rightarrow> nat option \<times> bool \<times> bool \<times> bool \<times> u8 list \<times> u8" where
  "bt_link_start dev_p = (Some dev_p, True, False, False, replicate 6 0, ESP_HID_PROTOCOL_MODE_REPORT)"

definition bt_start_result :: "nat \<Rightarrow> 'w bt_st \<Rightarrow> int \<Rightarrow> 'w bt_st \<Rightarrow> bool" where
  "bt_start_result dev_p s rc t \<longleftrightarrow> bs_posted t = bs_posted s \<and> parser_wf (bs_parser t)
     \<and> bs_mutexes t = bs_mutexes s + of_bool (bs_mutex t \<noteq> None)
     \<and> heap_owed (bs_parser t) \<in> {heap_owed (bs_parser s), heap_owed (bs_parser s) + of_bool (rc \<noteq> 0)}
     \<and> (if rc = 0 then \<exists>a d. bt_alive (bs_live s) (bs_loops s) a d t \<and> reports_ok d \<and> bs_iface t dev_p = Some a
                          \<and> bt_link_of d = bt_link_start dev_p
        else bt_idle t \<and> bs_live t = bs_live s \<and> bs_loops t = bs_loops s)"

text \<open>From the first block on: the event loop, the configuration, the second half.\<close>

lemma bt_init_body_run:
  fixes s :: "'w bt_st"
  assumes s: "bt_alive live loops a (bt_dev_start dev_p) s" and p: "parser_wf (bs_parser s)"
    and c: "config_ok config" and ps: "parses (bl_malloc bl) (List.map raw_of (cf_report_maps config)) (bs_parser s)"
  shows "\<exists>rc d t. sbind (bt_call (bl_loop_create bl)) (\<lambda>ret.
                 if ret \<noteq> 0 then sseq bt_hidd_dev_free (sret ret)
                 else
                   sseq (smod (\<lambda>s. s\<lparr>bs_loops := bs_loops s + 1\<rparr>))
                   (sseq (bt_upd (\<lambda>d. d\<lparr>bt_event_loop := True\<rparr>))
                   (sbind (bt_hidd_init_config bl config) (\<lambda>ret.
                      if ret \<noteq> 0 then sseq bt_hidd_dev_free (sret ret)
                      else bt_init_tail bl dev_p a callback)))) s = Inr (rc, t)
    \<and> bt_ends live loops (bs_mutexes s) dev_p a d (bs_posted s) rc t \<and> parser_wf (bs_parser t)
    \<and> heap_owed (bs_parser t) \<in> {heap_owed (bs_parser s), heap_owed (bs_parser s) + of_bool (rc \<noteq> 0)}
    \<and> (rc = 0 \<longrightarrow> reports_ok d \<and> bt_link_of d = bt_link_start dev_p)"
proof -
  obtain rc w where lc: "bl_loop_create bl (bs_world s) = (rc, w)" by fastforce
  let ?s1 = "s\<lparr>bs_world := w\<rparr>"
  have call: "bt_call (bl_loop_create bl) s = Inr (rc, ?s1)" using lc by (simp add: bt_call_def)
  have a1: "bt_alive live loops a (bt_dev_start dev_p) ?s1" using s by (simp add: bt_alive_def)
  show ?thesis
  proof (cases "rc = 0")
    case False
    obtain t where "sseq bt_hidd_dev_free (sret rc) ?s1 = Inr (rc, t)" "bs_parser t = bs_parser s"
      "bt_ends live loops (bs_mutexes s) dev_p a (bt_dev_start dev_p) (bs_posted s) rc t"
      using bt_end_free [OF a1 False, of dev_p] by auto
    then show ?thesis
      using False p by (intro exI [of _ rc] exI [of _ "bt_dev_start dev_p"] exI [of _ t])
        (simp add: sbind_Inr [where m = "bt_call (bl_loop_create bl)", OF call])
  next
    case True
    let ?d = "(bt_dev_start dev_p)\<lparr>bt_event_loop := True\<rparr>"
    let ?s2 = "?s1\<lparr>bs_loops := bs_loops s + 1\<rparr>" and ?s3 = "?s1\<lparr>bs_loops := bs_loops s + 1, bs_dev := Some (a, ?d)\<rparr>"
    have up: "bt_upd (\<lambda>d. d\<lparr>bt_event_loop := True\<rparr>) ?s2 = Inr ((), ?s3)"
      using bt_aliveD(1) [OF a1] by (simp add: bt_upd_def)
    have "\<not> bt_event_loop (bt_dev_start dev_p)" by (simp add: bt_dev_start_def)
    then have a3: "bt_alive live loops a ?d ?s3" using a1 by (simp add: bt_alive_def)
    have d: "empty_dev ?d" "name_blocks (bt_config ?d) = 0" "bt_link_of ?d = bt_link_start dev_p"
      by (simp_all add: empty_dev_def name_blocks_def bt_dev_start_def bt_dev_zero_def bt_config_zero_def bt_link_of_def bt_link_start_def)
    have p3: "parser_wf (bs_parser ?s3)" and ps3: "parses (bl_malloc bl) (List.map raw_of (cf_report_maps config)) (bs_parser ?s3)"
      using p ps by simp_all
    obtain r d' t where c': "bt_hidd_init_config bl config ?s3 = Inr (r, t)" "bt_alive live loops a d' t" "bt_frame ?s3 t"
      "bt_link_of d' = bt_link_of ?d" "parser_wf (bs_parser t)"
      "heap_owed (bs_parser t) \<in> {heap_owed (bs_parser ?s3), heap_owed (bs_parser ?s3) + 1}"
      "r = 0 \<longrightarrow> heap_owed (bs_parser t) = heap_owed (bs_parser ?s3) \<and> (\<exists>e m. d' = one_map e m \<and> map_wf m)"
      using bt_init_config_run [OF a3 d(1,2) p3 c ps3] by blast
    have ps: "bs_parser ?s3 = bs_parser s" by simp
    note t = c' [unfolded d(3) ps]
    have fr: "bs_posted t = bs_posted s" "bs_mutexes t = bs_mutexes s" using t(3) by (simp_all add: bt_frame_def)
    have run: "sbind (bt_call (bl_loop_create bl)) (\<lambda>ret.
                 if ret \<noteq> 0 then sseq bt_hidd_dev_free (sret ret)
                 else
                   sseq (smod (\<lambda>s. s\<lparr>bs_loops := bs_loops s + 1\<rparr>))
                   (sseq (bt_upd (\<lambda>d. d\<lparr>bt_event_loop := True\<rparr>))
                   (sbind (bt_hidd_init_config bl config) (\<lambda>ret.
                      if ret \<noteq> 0 then sseq bt_hidd_dev_free (sret ret)
                      else bt_init_tail bl dev_p a callback)))) s
        = (if r \<noteq> 0 then sseq bt_hidd_dev_free (sret r) t else bt_init_tail bl dev_p a callback t)"
      using True by (simp add: sbind_Inr [where m = "bt_call (bl_loop_create bl)", OF call]
          sseq_Inr [where m = "bt_upd (\<lambda>d. d\<lparr>bt_event_loop := True\<rparr>)", OF up] sbind_Inr [where m = "bt_hidd_init_config bl config", OF t(1)])
    show ?thesis
    proof (cases "r = 0")
      case False
      obtain u where u: "sseq bt_hidd_dev_free (sret r) t = Inr (r, u)" "bs_parser u = bs_parser t"
        "bt_ends live loops (bs_mutexes s) dev_p a d' (bs_posted s) r u"
        using bt_end_free [OF t(2) False, of dev_p] fr by auto
      show ?thesis unfolding run
        by (intro exI [of _ r] exI [of _ d'] exI [of _ u]) (use False t(5,6) u in auto)
    next
      case True
      then obtain e m where em: "d' = one_map e m" "map_wf m" using t(7) by blast
      obtain q u where u: "bt_init_tail bl dev_p a callback t = Inr (q, u)" "bs_parser u = bs_parser t"
        "bt_ends live loops (bs_mutexes t) dev_p a d' (bs_posted t) q u"
        using bt_init_tail_run [OF t(2) [unfolded em(1)] em(2), of bl dev_p callback] em(1) by auto
      have "reports_ok d'" using em by (simp add: one_map_simps)
      then show ?thesis unfolding run
        by (intro exI [of _ q] exI [of _ d'] exI [of _ u]) (use True u t(4,5,7) fr in auto)
    qed
  qed
qed

lemma bt_init_run:
  fixes s :: "'w bt_st"
  assumes "bt_startable bl config s"
  shows "\<exists>rc t. esp_bt_hidd_dev_init bl dev_p config callback s = Inr (rc, t) \<and> bt_start_result dev_p s rc t"
proof -
  have idle: "bs_dev s = None" "bs_mutex s \<noteq> Some True" and p: "parser_wf (bs_parser s)" and c: "config_ok config"
    and ps: "parses (bl_malloc bl) (List.map raw_of (cf_report_maps config)) (bs_parser s)"
    using assms by (auto simp: bt_startable_def bt_idle_def)
  obtain made w where mn: "bl_mutex_new bl (bs_world s) = (made, w)" by fastforce
  let ?s1 = "s\<lparr>bs_world := w\<rparr>"
  have call: "bt_call (bl_mutex_new bl) s = Inr (made, ?s1)" using mn by (simp add: bt_call_def)
  show ?thesis
  proof (cases made)
    case False
    then show ?thesis using idle p
      by (simp add: esp_bt_hidd_dev_init_def is_init_def sbind_Inr [where m = "bt_call (bl_mutex_new bl)", OF call]
          bt_start_result_def bt_idle_def ESP_ERR_NO_MEM_def)
  next
    case True
    let ?s2 = "?s1\<lparr>bs_mutex := Some False, bs_mutexes := bs_mutexes s + 1\<rparr>"
    let ?s3 = "?s2\<lparr>bs_allocs := bs_allocs s + 1\<rparr>"
    show ?thesis
    proof (cases "bl_malloc bl (bs_allocs s)")
      case False
      then have "bt_malloc (bl_malloc bl) ?s2 = Inr (False, ?s3)" by (cases s) (simp add: bt_malloc_def)
      then show ?thesis using True idle p
        by (simp add: esp_bt_hidd_dev_init_def is_init_def sbind_Inr [where m = "bt_call (bl_mutex_new bl)", OF call]
            sbind_Inr [where m = "bt_malloc (bl_malloc bl)" and x = False and s' = ?s3] bt_start_result_def bt_idle_def ESP_ERR_NO_MEM_def) blast
    next
      case ok: True
      let ?t = "?s3\<lparr>bs_live := bs_live s + 1\<rparr>"
      let ?u = "?t\<lparr>bs_next := bs_next s + 1, bs_dev := Some (bs_next s, bt_dev_start dev_p)\<rparr>"
      have m: "bt_malloc (bl_malloc bl) ?s2 = Inr (True, ?t)" using ok by (simp add: bt_malloc_def)
      have "bt_wf (bt_dev_start dev_p)" "dev_blocks (bt_dev_start dev_p) = 1" "\<not> bt_event_loop (bt_dev_start dev_p)"
        by (simp_all add: bt_wf_def dev_blocks_def maps_of_def dev_maps_def name_blocks_def bt_dev_start_def bt_dev_zero_def bt_config_zero_def)
      then have u: "bt_alive (bs_live s) (bs_loops s) (bs_next s) (bt_dev_start dev_p) ?u" by (simp add: bt_alive_def)
      obtain rc d v where v: "esp_bt_hidd_dev_init bl dev_p config callback s = Inr (rc, v)"
        "bt_ends (bs_live s) (bs_loops s) (bs_mutexes s + 1) dev_p (bs_next s) d (bs_posted s) rc v" "parser_wf (bs_parser v)"
        "heap_owed (bs_parser v) \<in> {heap_owed (bs_parser s), heap_owed (bs_parser s) + of_bool (rc \<noteq> 0)}"
        "rc = 0 \<longrightarrow> reports_ok d \<and> bt_link_of d = bt_link_start dev_p"
        using bt_init_body_run [OF u _ c, of bl callback] True idle p ps
        by (auto simp: esp_bt_hidd_dev_init_def is_init_def sbind_Inr [where m = "bt_call (bl_mutex_new bl)", OF call]
            sbind_Inr [where m = "bt_malloc (bl_malloc bl)", OF m] cong: if_cong)
      then show ?thesis
        by (intro exI [of _ rc] exI [of _ v]) (auto simp: bt_start_result_def bt_ends_def bt_idle_def bt_alive_def)
    qed
  qed
qed

end
