(* ===== verification/BtHiddThms.thy ===== *)
theory BtHiddThms
  imports BtHiddStart HiddThms
begin

text \<open>
  What the classic transport promises: its callback follows a diagram of the link and tells each change;
  no order of starts, calls and callbacks makes it fault, as long as no call is made without a mutex;
  what may be sent; and the call that comes after the end.
\<close>

section \<open>Lookups\<close>

lemma first_report_ok:
  "\<forall>m \<in> set ms. map_wf m \<Longrightarrow> \<exists>r. first_report P i ms = Inr r"
  by (induction ms arbitrary: i) (auto simp: map_wf_def split: option.splits)

lemma report_by_id_ok: "bt_wf d \<Longrightarrow> reports_ok d \<Longrightarrow> \<exists>r. get_report_by_id_and_type d rid ty = Inr r"
  unfolding get_report_by_id_and_type_def bt_wf_def reports_ok_def using first_report_ok by fastforce

lemma report_by_idx_spec:
  assumes "bt_wf d" and "reports_ok d" and "length (maps_of d) = unat (bt_devices_len d)"
  shows "get_report_by_idx_id_type d index rid ty =
    Inr (if index < length (maps_of d) then find (bt_report_is rid ty (bt_protocol_mode d)) (reports_of (maps_of d ! index)) else None)"
  using assms by (auto simp: get_report_by_idx_id_type_def bt_wf_def reports_ok_def map_wf_def)

lemma maps_of_length: "bt_wf d \<Longrightarrow> length (maps_of d) = unat (bt_devices_len d)"
  by (auto simp: bt_wf_def dev_maps_def maps_of_def split: if_splits option.splits)

section \<open>The link\<close>

text \<open>The device as its application sees it: registered, connected to whom, in which mode.\<close>

record bt_link =
  lk_registered :: bool
  lk_peer :: "u8 list option"
  lk_mode :: u8

datatype bt_signal = Started int | Stopped int | Connected int | Disconnected int | ModeChanged u8

definition link_of :: "esp_bt_hidd_dev_t \<Rightarrow> bt_link" where
  "link_of d = \<lparr>lk_registered = bt_registered d, lk_peer = (if bt_connected d then Some (bt_remote_bda d) else None),
     lk_mode = bt_protocol_mode d\<rparr>"

lemma link_of_upd:
  "link_of (d\<lparr>bt_registered := b\<rparr>) = (link_of d)\<lparr>lk_registered := b\<rparr>"
  "link_of (d\<lparr>bt_connected := True, bt_remote_bda := p\<rparr>) = (link_of d)\<lparr>lk_peer := Some p\<rparr>"
  "link_of (d\<lparr>bt_connected := False, bt_remote_bda := p\<rparr>) = (link_of d)\<lparr>lk_peer := None\<rparr>"
  "link_of (d\<lparr>bt_protocol_mode := m\<rparr>) = (link_of d)\<lparr>lk_mode := m\<rparr>"
  by (simp_all add: link_of_def)

definition abs_link :: "'w bt_st \<Rightarrow> bt_link option" where
  "abs_link s = map_option (link_of \<circ> snd) (bs_dev s)"

fun signal_of :: "bt_event \<Rightarrow> bt_signal list" where
  "signal_of (BtStart c) = [Started c]"
| "signal_of (BtStop c) = [Stopped c]"
| "signal_of (BtConnect d c) = [Connected c]"
| "signal_of (BtDisconnect d c r) = [Disconnected c]"
| "signal_of (BtProtocolMode d m i) = [ModeChanged m]"
| "signal_of (BtFeature r) = []"
| "signal_of (BtOutput r) = []"

definition signals :: "bt_event list \<Rightarrow> bt_signal list" where
  "signals es = concat (List.map signal_of es)"

text \<open>The diagram: from a link and an event to the next link, if the device is still there, and what is told.\<close>

definition link_step :: "esp_hidd_cb \<Rightarrow> bt_link \<Rightarrow> bt_link option \<times> bt_signal list" where
  "link_step e l = (case e of
      ESP_HIDD_INIT_EVT st \<Rightarrow> if st = ESP_HIDD_SUCCESS then (Some l, []) else (None, [Started (bt_hidd_get_status st)])
    | ESP_HIDD_DEINIT_EVT st \<Rightarrow> (if st = ESP_HIDD_SUCCESS then None else Some l, [Stopped (bt_hidd_get_status st)])
    | ESP_HIDD_REGISTER_APP_EVT st in_use bda \<Rightarrow>
        if st = ESP_HIDD_SUCCESS then (Some (l\<lparr>lk_registered := True\<rparr>), [Started 0]) else (Some l, [])
    | ESP_HIDD_OPEN_EVT st con bda \<Rightarrow>
        if con = ESP_HIDD_CONN_STATE_CONNECTING then (Some l, [])
        else (Some (if st = ESP_HIDD_SUCCESS \<and> con = ESP_HIDD_CONN_STATE_CONNECTED then l\<lparr>lk_peer := Some bda\<rparr> else l),
              [Connected (bt_hidd_get_status st)])
    | ESP_HIDD_CLOSE_EVT st con \<Rightarrow>
        if con = ESP_HIDD_CONN_STATE_DISCONNECTING then (Some l, [])
        else (Some (if st = ESP_HIDD_SUCCESS \<and> con = ESP_HIDD_CONN_STATE_DISCONNECTED then l\<lparr>lk_peer := None\<rparr> else l),
              [Disconnected (bt_hidd_get_status st)])
    | ESP_HIDD_SET_PROTOCOL_EVT (Some md) \<Rightarrow>
        (let m = if nz md then ESP_HID_PROTOCOL_MODE_BOOT else ESP_HID_PROTOCOL_MODE_REPORT
         in (Some (l\<lparr>lk_mode := m\<rparr>), [ModeChanged m]))
    | _ \<Rightarrow> (Some l, []))"

text \<open>The bytes an event points to are there.\<close>

fun cb_ok :: "esp_hidd_cb \<Rightarrow> bool" where
  "cb_ok (ESP_HIDD_SET_REPORT_EVT ty rid len (Some bs)) \<longleftrightarrow> unat len \<le> length bs"
| "cb_ok (ESP_HIDD_INTR_DATA_EVT rid len (Some bs)) \<longleftrightarrow> unat len \<le> length bs"
| "cb_ok _ \<longleftrightarrow> True"

section \<open>The callback\<close>

text \<open>How a callback ends, in an invariant state, with the parser untouched.\<close>

definition cb_ends :: "int \<Rightarrow> int \<Rightarrow> 'w bt_st \<Rightarrow> bt_link option \<Rightarrow> bt_signal list \<Rightarrow> 'w bt_st \<Rightarrow> bool" where
  "cb_ends live loops s l sg t \<longleftrightarrow> bt_inv live loops t \<and> bs_parser t = bs_parser s \<and> abs_link t = l
     \<and> (\<exists>es. bs_posted t = bs_posted s @ es \<and> signals es = sg)"

lemma cb_endsI:
  assumes "bt_alive live loops a d t" and "reports_ok d" and "parser_wf (bs_parser t)" and "bs_parser t = bs_parser s"
    and "bs_posted t = bs_posted s @ es" and "l = Some (link_of d)" and "sg = signals es"
  shows "cb_ends live loops s l sg t"
  using assms by (auto simp: cb_ends_def bt_inv_def abs_link_def bt_alive_def)

lemma cb_ends_gone:
  assumes "bt_alive live loops a d t" and "parser_wf (bs_parser t)" and "bs_parser t = bs_parser s" and "bs_posted t = bs_posted s @ es"
  shows "bt_hidd_dev_free t = Inr ((), bt_gone live loops t)" "cb_ends live loops s None (signals es) (bt_gone live loops t)"
  using assms bt_hidd_dev_free_run [OF assms(1)]
  by (auto simp: cb_ends_def bt_inv_def bt_idle_def bt_gone_def abs_link_def)

text \<open>Events that carry data.\<close>

lemma bt_post_data_run:
  assumes "ev = Inr e" and "signal_of e = []"
  shows "\<exists>t es. bt_post_data bl ev s = Inr ((), t) \<and> bs_posted t = bs_posted s @ es \<and> signals es = []
    \<and> bs_parser t = bs_parser s \<and> (bt_alive live loops a d s \<longrightarrow> bt_alive live loops a d t)"
proof (cases "bl_malloc bl (bs_allocs s)")
  case True
  then show ?thesis using assms
    by (intro exI [of _ "s\<lparr>bs_allocs := bs_allocs s + 1, bs_posted := bs_posted s @ [e]\<rparr>"] exI [of _ "[e]"], cases s)
       (auto simp: bt_post_data_def bt_malloc_def bt_post_def bt_free_def sbind_def sseq_def signals_def bt_alive_def)
next
  case False
  then show ?thesis
    by (intro exI [of _ "s\<lparr>bs_allocs := bs_allocs s + 1\<rparr>"] exI [of _ "[]"], cases s)
       (auto simp: bt_post_data_def bt_malloc_def sbind_def signals_def bt_alive_def)
qed

lemma bt_error_run:
  "\<exists>t. sseq (bt_call (bl_report_error bl e)) (sret ()) s = Inr ((), t) \<and> bs_posted t = bs_posted s
    \<and> bs_parser t = bs_parser s \<and> (bt_alive live loops a d s \<longrightarrow> bt_alive live loops a d t)"
  by (simp add: bt_call_def sseq_def sbind_def bt_alive_def split: prod.split)

lemma copied_ok: "(case data of None \<Rightarrow> True | Some bs \<Rightarrow> unat len \<le> length bs) \<Longrightarrow> \<exists>bs. copied len data = Inr bs"
  by (cases data) (auto simp: copied_def)

lemma cb_data_run:
  assumes s: "bt_alive live loops a d s" and r: "reports_ok d"
    and e: "(\<exists>ty rid n. e = ESP_HIDD_GET_REPORT_EVT ty rid n) \<or> (\<exists>ty rid len data. e = ESP_HIDD_SET_REPORT_EVT ty rid len data)
      \<or> (\<exists>rid len data. e = ESP_HIDD_INTR_DATA_EVT rid len data)" and ok: "cb_ok e"
  shows "\<exists>t es. bt_hidd_cb bl e s = Inr ((), t) \<and> bs_posted t = bs_posted s @ es \<and> signals es = []
    \<and> bs_parser t = bs_parser s \<and> bt_alive live loops a d t"
proof -
  note g = sbind_Inr [where m = bt_get, OF bt_get_run [OF bt_aliveD(1) [OF s]]]
  have on: "is_init s" by (rule is_init_alive [OF s])
  obtain f where f: "\<And>rid ty. get_report_by_id_and_type d rid ty = Inr (f rid ty)"
    using report_by_id_ok [OF bt_aliveD(3) [OF s] r] by metis
  have err: "\<exists>t es. sseq (bt_call (bl_report_error bl x)) (sret ()) s = Inr ((), t) \<and> bs_posted t = bs_posted s @ es \<and> signals es = []
    \<and> bs_parser t = bs_parser s \<and> bt_alive live loops a d t" for x
    using bt_error_run [of bl x s live loops a d] s by (auto simp: signals_def)
  have post: "\<exists>t es. bt_post_data bl ev s = Inr ((), t) \<and> bs_posted t = bs_posted s @ es \<and> signals es = []
    \<and> bs_parser t = bs_parser s \<and> bt_alive live loops a d t" if "ev = Inr x" "signal_of x = []" for ev x
    using bt_post_data_run [OF that, of bl s live loops a d] s by blast
  have none: "\<exists>t es. sret () s = Inr ((), t) \<and> bs_posted t = bs_posted s @ es \<and> signals es = []
    \<and> bs_parser t = bs_parser s \<and> bt_alive live loops a d t" using s by (simp add: signals_def)
  from e show ?thesis
  proof (elim disjE exE)
    fix ty rid n assume e: "e = ESP_HIDD_GET_REPORT_EVT ty rid n"
    show ?thesis using on err post
      by (auto simp: e bt_hidd_cb_def bt_get_report_def g f split: option.split prod.split)
  next
    fix ty rid len data assume e: "e = ESP_HIDD_SET_REPORT_EVT ty rid len data"
    obtain bs where bs: "copied len data = Inr bs" using copied_ok [where data = data and len = len] ok e by (cases data) auto
    show ?thesis using on err post
      by (auto simp: e bt_hidd_cb_def bt_set_report_def g f bs split: option.split prod.split)
  next
    fix rid len data assume e: "e = ESP_HIDD_INTR_DATA_EVT rid len data"
    obtain bs where bs: "copied len data = Inr bs" using copied_ok [where data = data and len = len] ok e by (cases data) auto
    show ?thesis using on none post
      by (auto simp: e bt_hidd_cb_def bt_intr_data_def g f bs split: option.split prod.split)
  qed
qed

text \<open>Events about the link.\<close>

lemma bt_locked_upd_alive:
  assumes s: "bt_alive live loops a d s" and f: "bt_wf (f d)" "dev_blocks (f d) = dev_blocks d" "bt_event_loop (f d) = bt_event_loop d"
  shows "bt_locked_upd f s = Inr ((), s\<lparr>bs_dev := Some (a, f d)\<rparr>)" "bt_alive live loops a (f d) (s\<lparr>bs_dev := Some (a, f d)\<rparr>)"
  using bt_locked_upd_run [OF bt_aliveD(1,2) [OF s]] s f by (simp_all add: bt_alive_def)

lemma alive_frame:
  assumes "bt_alive live loops a d s"
  shows "bt_alive live loops a d (s\<lparr>bs_world := w\<rparr>)" "bt_alive live loops a d (s\<lparr>bs_posted := ps\<rparr>)"
    "bt_alive live loops a d (s\<lparr>bs_world := w, bs_posted := ps\<rparr>)"
  using assms by (simp_all add: bt_alive_def)

lemma cb_init_run:
  assumes s: "bt_alive live loops a d s" and r: "reports_ok d" and p: "parser_wf (bs_parser s)"
  shows "\<exists>t. bt_hidd_cb bl (ESP_HIDD_INIT_EVT st) s = Inr ((), t)
    \<and> cb_ends live loops s (fst (link_step (ESP_HIDD_INIT_EVT st) (link_of d))) (snd (link_step (ESP_HIDD_INIT_EVT st) (link_of d))) t"
proof (cases "st = ESP_HIDD_SUCCESS")
  case True
  obtain rc w where "bl_register_app bl (bs_app_param s) (bs_in_qos s) (bs_out_qos s) (bs_world s) = (rc, w)" by fastforce
  then have "bt_hidd_cb bl (ESP_HIDD_INIT_EVT st) s = Inr ((), s\<lparr>bs_world := w\<rparr>)"
    using is_init_alive [OF s] True by (simp add: bt_hidd_cb_def bt_call_def sseq_def sbind_def)
  then show ?thesis using cb_endsI [OF alive_frame(1) [OF s, of w] r, of s "[]"] p True
    by (simp add: link_step_def signals_def)
next
  case False
  let ?e = "BtStart (bt_hidd_get_status st)"
  let ?u = "s\<lparr>bs_posted := bs_posted s @ [?e]\<rparr>"
  note gone = cb_ends_gone [OF alive_frame(2) [OF s, of "bs_posted s @ [?e]"], of s "[?e]"]
  have "bt_hidd_cb bl (ESP_HIDD_INIT_EVT st) s = bt_hidd_dev_free ?u"
    using is_init_alive [OF s] False by (simp add: bt_hidd_cb_def bt_post_def)
  then show ?thesis using gone p False by (simp add: link_step_def signals_def)
qed

lemma cb_deinit_run:
  assumes s: "bt_alive live loops a d s" and r: "reports_ok d" and p: "parser_wf (bs_parser s)"
  shows "\<exists>t. bt_hidd_cb bl (ESP_HIDD_DEINIT_EVT st) s = Inr ((), t)
    \<and> cb_ends live loops s (fst (link_step (ESP_HIDD_DEINIT_EVT st) (link_of d))) (snd (link_step (ESP_HIDD_DEINIT_EVT st) (link_of d))) t"
proof -
  let ?e = "BtStop (bt_hidd_get_status st)"
  let ?u = "s\<lparr>bs_posted := bs_posted s @ [?e]\<rparr>"
  note gone = cb_ends_gone [OF alive_frame(2) [OF s, of "bs_posted s @ [?e]"], of s "[?e]"]
  have "bt_hidd_cb bl (ESP_HIDD_DEINIT_EVT st) s = (if st = ESP_HIDD_SUCCESS then bt_hidd_dev_free ?u else Inr ((), ?u))"
    using is_init_alive [OF s] by (simp add: bt_hidd_cb_def bt_post_def)
  then show ?thesis using gone p cb_endsI [OF alive_frame(2) [OF s, of "bs_posted s @ [?e]"] r, of s "[?e]"]
    by (cases "st = ESP_HIDD_SUCCESS") (simp_all add: link_step_def signals_def)
qed

lemma cb_register_run:
  assumes s: "bt_alive live loops a d s" and r: "reports_ok d" and p: "parser_wf (bs_parser s)"
  shows "\<exists>t. bt_hidd_cb bl (ESP_HIDD_REGISTER_APP_EVT st in_use bda) s = Inr ((), t)
    \<and> cb_ends live loops s (fst (link_step (ESP_HIDD_REGISTER_APP_EVT st in_use bda) (link_of d)))
         (snd (link_step (ESP_HIDD_REGISTER_APP_EVT st in_use bda) (link_of d))) t"
proof (cases "st = ESP_HIDD_SUCCESS")
  case False
  obtain rc w where "bl_deinit bl (bs_world s) = (rc, w)" by fastforce
  then have "bt_hidd_cb bl (ESP_HIDD_REGISTER_APP_EVT st in_use bda) s = Inr ((), s\<lparr>bs_world := w\<rparr>)"
    using is_init_alive [OF s] False by (simp add: bt_hidd_cb_def bt_call_def sseq_def sbind_def)
  then show ?thesis using cb_endsI [OF alive_frame(1) [OF s, of w] r, of s "[]"] p False
    by (simp add: link_step_def signals_def)
next
  case True
  obtain rc w where c: "(if in_use then bl_connect bl bda else Pair 0) (bs_world s) = (rc, w)" by fastforce
  let ?f = "\<lambda>d. d\<lparr>bt_registered := True\<rparr>" and ?u = "s\<lparr>bs_world := w\<rparr>"
  note up = bt_locked_upd_alive [OF alive_frame(1) [OF s, of w], of ?f]
  have u: "bt_locked_upd ?f ?u = Inr ((), ?u\<lparr>bs_dev := Some (a, ?f d)\<rparr>)" using up(1) bt_aliveD(3) [OF s] by simp
  let ?t = "s\<lparr>bs_world := w, bs_dev := Some (a, ?f d), bs_posted := bs_posted s @ [BtStart 0]\<rparr>"
  have "(if in_use then sseq (bt_call (bl_connect bl bda)) (sret ()) else sret ()) s = Inr ((), ?u)"
    using c by (cases in_use) (simp_all add: bt_call_def sseq_def sbind_def)
  then have "bt_hidd_cb bl (ESP_HIDD_REGISTER_APP_EVT st in_use bda) s = Inr ((), ?t)"
    using is_init_alive [OF s] True
    by (simp add: bt_hidd_cb_def sseq_Inr [where m = "if in_use then sseq (bt_call (bl_connect bl bda)) (sret ()) else sret ()"]
        sseq_Inr [where m = "bt_locked_upd ?f", OF u] bt_post_def bt_hidd_get_status_def)
  moreover have "bt_alive live loops a (?f d) ?t" using up(2) bt_aliveD(3) [OF s] by (simp add: bt_alive_def)
  ultimately show ?thesis using cb_endsI [of live loops a "?f d" ?t s "[BtStart 0]"] r p True
    by (simp add: link_step_def signals_def link_of_upd)
qed

text \<open>A change of the device, if there is one, and one event about it.\<close>

lemma cb_change_run:
  assumes s: "bt_alive live loops a d s" and r: "reports_ok d" and p: "parser_wf (bs_parser s)"
    and f: "bt_wf (f d)" "dev_blocks (f d) = dev_blocks d" "bt_event_loop (f d) = bt_event_loop d" "reports_ok (f d)"
    and d': "d' = (if c then f d else d)"
  shows "\<exists>t. sseq (if c then bt_locked_upd f else sret ()) (sbind bt_get (\<lambda>d. bt_post (ev d))) s = Inr ((), t)
    \<and> cb_ends live loops s (Some (link_of d')) (signal_of (ev d')) t"
proof -
  let ?u = "s\<lparr>bs_dev := Some (a, d')\<rparr>" and ?t = "s\<lparr>bs_dev := Some (a, d'), bs_posted := bs_posted s @ [ev d']\<rparr>"
  have "s\<lparr>bs_dev := Some (a, d)\<rparr> = s" using bt_aliveD(1) [OF s] by (cases s) simp
  then have c: "(if c then bt_locked_upd f else sret ()) s = Inr ((), ?u)" and u: "bt_alive live loops a d' ?u"
    using bt_locked_upd_alive [OF s, of f] f s by (cases c; simp add: d')+
  have g: "bt_get ?u = Inr (d', ?u)" by (simp add: bt_get_def)
  have "sseq (if c then bt_locked_upd f else sret ()) (sbind bt_get (\<lambda>d. bt_post (ev d))) s = Inr ((), ?t)"
    by (simp add: sseq_Inr [where m = "if c then bt_locked_upd f else sret ()", OF c] sbind_Inr [where m = bt_get, OF g] bt_post_def)
  moreover have "bt_alive live loops a d' ?t" using u by (simp add: bt_alive_def)
  moreover have "reports_ok d'" using r f(4) by (simp add: d')
  ultimately show ?thesis using p cb_endsI [of live loops a d' ?t s "[ev d']"] by (simp add: signals_def)
qed

lemma cb_alive_run:
  assumes s: "bt_alive live loops a d s" and r: "reports_ok d" and p: "parser_wf (bs_parser s)" and ok: "cb_ok e"
  shows "\<exists>t. bt_hidd_cb bl e s = Inr ((), t) \<and> cb_ends live loops s (fst (link_step e (link_of d))) (snd (link_step e (link_of d))) t"
proof -
  have on: "is_init s" by (rule is_init_alive [OF s])
  have wf: "bt_wf d" by (rule bt_aliveD(3) [OF s])
  note change = cb_change_run [OF s r p]
  have quiet: "cb_ends live loops s (Some (link_of d)) [] s"
    using cb_endsI [OF s r p refl, of "[]"] by (simp add: signals_def)
  show ?thesis
  proof (cases e)
    case (ESP_HIDD_OPEN_EVT st con bda)
    then show ?thesis
      using on wf r quiet change [OF _ _ _ _ refl, of "\<lambda>d. d\<lparr>bt_connected := True, bt_remote_bda := bda\<rparr>" "st = ESP_HIDD_SUCCESS \<and> con = ESP_HIDD_CONN_STATE_CONNECTED"
          "\<lambda>d. BtConnect (bt_dev d) (bt_hidd_get_status st)"]
      by (cases "con = ESP_HIDD_CONN_STATE_CONNECTING")
         (auto simp: bt_hidd_cb_def link_step_def link_of_upd)
  next
    case (ESP_HIDD_CLOSE_EVT st con)
    then show ?thesis
      using on wf r quiet change [OF _ _ _ _ refl, of "\<lambda>d. d\<lparr>bt_connected := False, bt_remote_bda := replicate 6 0\<rparr>"
          "st = ESP_HIDD_SUCCESS \<and> con = ESP_HIDD_CONN_STATE_DISCONNECTED" "\<lambda>d. BtDisconnect (bt_dev d) (bt_hidd_get_status st) st"]
      by (cases "con = ESP_HIDD_CONN_STATE_DISCONNECTING")
         (auto simp: bt_hidd_cb_def link_step_def link_of_upd)
  next
    case (ESP_HIDD_SET_PROTOCOL_EVT mode)
    then show ?thesis
      using on wf r quiet change [OF _ _ _ _ refl, of "\<lambda>d. d\<lparr>bt_protocol_mode := if nz (the mode) then ESP_HID_PROTOCOL_MODE_BOOT else ESP_HID_PROTOCOL_MODE_REPORT\<rparr>"
          True "\<lambda>d. BtProtocolMode (bt_dev d) (bt_protocol_mode d) 0"]
      by (cases mode) (auto simp: bt_hidd_cb_def link_step_def link_of_upd Let_def)
  next
    case (ESP_HIDD_INIT_EVT st)
    then show ?thesis using cb_init_run [OF s r p] by simp
  next
    case (ESP_HIDD_DEINIT_EVT st)
    then show ?thesis using cb_deinit_run [OF s r p] by simp
  next
    case (ESP_HIDD_REGISTER_APP_EVT st in_use bda)
    then show ?thesis using cb_register_run [OF s r p] by simp
  qed (use on quiet cb_data_run [OF s r _ ok] p in \<open>fastforce simp: bt_hidd_cb_def link_step_def intro: cb_endsI [OF _ r]\<close>)+
qed

section \<open>Calls\<close>

lemma bt_inv_world: "bt_inv live loops (s\<lparr>bs_world := w\<rparr>) = bt_inv live loops s"
  by (simp add: bt_inv_def bt_idle_def bt_alive_def)

text \<open>A call that starts with the checks ends without a fault and changes the world only.\<close>

lemma bt_checked_inv:
  assumes s: "bt_inv live loops s" "bs_mutex s \<noteq> None"
    and k: "\<And>a d. bt_alive live loops a d s \<Longrightarrow> reports_ok d \<Longrightarrow>
      \<exists>x w. k d (s\<lparr>bs_mutex := Some True\<rparr>) = Inr (x, s\<lparr>bs_mutex := Some True, bs_world := w\<rparr>)"
  shows "\<exists>x w. bt_checked devp u v k s = Inr (x, s\<lparr>bs_world := w\<rparr>)"
proof -
  consider "bs_dev s = None" "bs_mutex s = Some False" | a d where "bt_alive live loops a d s" "reports_ok d"
    using s by (auto simp: bt_inv_def bt_idle_def)
  then show ?thesis
  proof cases
    case 1
    then show ?thesis using bt_checked_gone [of s devp u v k] by (intro exI [of _ u] exI [of _ "bs_world s"]) simp
  next
    case 2
    note al = bt_aliveD(1,2) [OF 2(1)]
    show ?thesis
    proof (cases "devp = Some a")
      case True
      obtain x w where "k d (s\<lparr>bs_mutex := Some True\<rparr>) = Inr (x, s\<lparr>bs_mutex := Some True, bs_world := w\<rparr>)" using k [OF 2] by blast
      then have "bt_checked (Some a) u v k s = Inr (x, s\<lparr>bs_mutex := Some True, bs_world := w\<rparr>\<lparr>bs_mutex := Some False\<rparr>)"
        by (rule bt_checked_run [OF al]) simp
      then show ?thesis using True al(2) by (intro exI [of _ x] exI [of _ w], cases s) simp
    next
      case False
      then show ?thesis using bt_checked_wrong [OF al False, of u v k] by (intro exI [of _ v] exI [of _ "bs_world s"]) simp
    qed
  qed
qed

lemma bt_then_call:
  assumes "\<exists>x w. m s = Inr (x :: int option, s\<lparr>bs_world := w\<rparr>)"
  shows "\<exists>rc w. sbind m (\<lambda>ret. case ret of Some rc \<Rightarrow> sret rc | None \<Rightarrow> bt_call f) s = Inr (rc, s\<lparr>bs_world := w\<rparr>)"
proof -
  obtain x w where m: "m s = Inr (x, s\<lparr>bs_world := w\<rparr>)" using assms by blast
  obtain rc v where "f w = (rc, v)" by fastforce
  then show ?thesis by (cases x) (auto simp: sbind_Inr [where m = m, OF m] bt_call_def)
qed

lemma bt_may_send_inv:
  assumes s: "bt_inv live loops s" "bs_mutex s \<noteq> None"
  shows "\<exists>x w. bt_may_send ty devp index rid len s = Inr (x, s\<lparr>bs_world := w\<rparr>)"
  unfolding bt_may_send_def
proof (rule bt_checked_inv [OF s])
  fix a d assume "bt_alive live loops a d s" "reports_ok d"
  then have "\<exists>r. get_report_by_idx_id_type d index (of_nat rid) ty = Inr r"
    using report_by_idx_spec maps_of_length bt_aliveD(3) by blast
  then show "\<exists>x w. (if \<not> bt_connected d then sret (Some ESP_FAIL)
       else case get_report_by_idx_id_type d index (of_nat rid) ty of
              Inl e \<Rightarrow> sfail e
            | Inr None \<Rightarrow> sret (Some ESP_FAIL)
            | Inr (Some p_rpt) \<Rightarrow> if unat (hi_value_len p_rpt) < len then sret (Some ESP_FAIL) else sret None) (s\<lparr>bs_mutex := Some True\<rparr>)
      = Inr (x, s\<lparr>bs_mutex := Some True, bs_world := w\<rparr>)"
    by (cases "bt_connected d") (auto intro!: exI [of _ "bs_world s"] split: option.split)
qed

text \<open>Everything an application or the stack can do with the transport.\<close>

datatype bt_op =
    OpStart nat esp_hid_device_config_t bool
  | OpStop "nat option"
  | OpDisconnect "nat option"
  | OpConnected "nat option"
  | OpBattery "nat option" u8
  | OpInput "nat option" nat nat "u8 list"
  | OpFeature "nat option" nat nat "u8 list"
  | OpRegister "nat option" int
  | OpUnregister "nat option" int
  | OpEvent esp_hidd_cb

definition bt_do :: "'w bluedroid \<Rightarrow> bt_op \<Rightarrow> ('w, unit) bt" where
  "bt_do bl op = (case op of
      OpStart dev_p config callback \<Rightarrow> sseq (esp_bt_hidd_dev_init bl dev_p config callback) (sret ())
    | OpStop devp \<Rightarrow> sseq (esp_bt_hidd_dev_deinit bl devp) (sret ())
    | OpDisconnect devp \<Rightarrow> sseq (esp_bt_hidd_dev_disconnect bl devp) (sret ())
    | OpConnected devp \<Rightarrow> sseq (esp_bt_hidd_dev_connected devp) (sret ())
    | OpBattery devp level \<Rightarrow> sseq (esp_bt_hidd_dev_battery_set devp level) (sret ())
    | OpInput devp index rid data \<Rightarrow> sseq (esp_bt_hidd_dev_input_set bl devp index rid data) (sret ())
    | OpFeature devp index rid data \<Rightarrow> sseq (esp_bt_hidd_dev_feature_set bl devp index rid data) (sret ())
    | OpRegister devp ev \<Rightarrow> sseq (esp_bt_hidd_dev_event_handler_register bl devp ev) (sret ())
    | OpUnregister devp ev \<Rightarrow> sseq (esp_bt_hidd_dev_event_handler_unregister bl devp ev) (sret ())
    | OpEvent e \<Rightarrow> bt_hidd_cb bl e)"

text \<open>
  What each of them relies on: a start on a configuration the parser takes, calls while there is a mutex,
  events with the bytes they point to.
\<close>

definition bt_may :: "'w bluedroid \<Rightarrow> bt_op \<Rightarrow> 'w bt_st \<Rightarrow> bool" where
  "bt_may bl op s = (case op of
      OpStart dev_p config callback \<Rightarrow> bs_dev s \<noteq> None \<or> bt_startable bl config s
    | OpEvent e \<Rightarrow> cb_ok e
    | OpBattery devp level \<Rightarrow> True
    | _ \<Rightarrow> bs_mutex s \<noteq> None)"

inductive bt_reach :: "'w bluedroid \<Rightarrow> 'w bt_st \<Rightarrow> 'w bt_st \<Rightarrow> bool" for bl s where
  bt_reach_start: "bt_reach bl s s"
| bt_reach_step: "bt_reach bl s t \<Longrightarrow> bt_may bl op t \<Longrightarrow> bt_do bl op t = Inr ((), u) \<Longrightarrow> bt_reach bl s u"

lemma bt_cb_run:
  assumes s: "bt_inv live loops s" and ok: "cb_ok e"
  shows "\<exists>t. bt_hidd_cb bl e s = Inr ((), t) \<and> (case abs_link s of
      None \<Rightarrow> t = s
    | Some l \<Rightarrow> cb_ends live loops s (fst (link_step e l)) (snd (link_step e l)) t)"
proof -
  consider "bs_dev s = None" | a d where "bt_alive live loops a d s" "reports_ok d" "parser_wf (bs_parser s)"
    using s by (auto simp: bt_inv_def bt_idle_def)
  then show ?thesis
  proof cases
    case 1
    then show ?thesis by (simp add: bt_hidd_cb_def is_init_def abs_link_def)
  next
    case 2
    then show ?thesis using cb_alive_run [OF 2 ok, of bl] bt_aliveD(1) [OF 2(1)] by (simp add: abs_link_def)
  qed
qed

lemma bt_op_inv:
  assumes s: "bt_inv live loops s" and m: "bt_may bl op s"
  shows "\<exists>t. bt_do bl op s = Inr ((), t) \<and> bt_inv live loops t"
proof -
  have drop: "\<exists>t. sseq m (sret ()) s = Inr ((), t) \<and> bt_inv live loops t" if "\<exists>x w. m s = Inr (x, s\<lparr>bs_world := w\<rparr>)"
    for m :: "('a, 'b) bt"
    using that s by (auto simp: sseq_def sbind_def bt_inv_world)
  note world = exI [of _ "bs_world s"]
  note check = bt_checked_inv [OF s]
  show ?thesis
  proof (cases op)
    case (OpStart dev_p config callback)
    show ?thesis
    proof (cases "bs_dev s = None")
      case True
      then have st: "bt_startable bl config s" using m OpStart by (simp add: bt_may_def)
      from bt_init_run [OF st, of dev_p callback] obtain rc t where
        t: "esp_bt_hidd_dev_init bl dev_p config callback s = Inr (rc, t)" "bt_start_result dev_p s rc t" by blast
      have "bs_live s = live" "bs_loops s = loops" using s True by (auto simp: bt_inv_def bt_alive_def)
      then have "bt_inv live loops t" using t(2) by (auto simp: bt_start_result_def bt_inv_def split: if_splits)
      then show ?thesis using t(1) OpStart by (simp add: bt_do_def sseq_def sbind_def)
    next
      case False
      then show ?thesis using s OpStart by (simp add: bt_do_def esp_bt_hidd_dev_init_def is_init_def sseq_def sbind_def)
    qed
  next
    case (OpEvent e)
    then show ?thesis using bt_cb_run [OF s, of e bl] m s
      by (auto simp: bt_do_def bt_may_def cb_ends_def split: option.splits)
  next
    case (OpBattery devp level)
    then show ?thesis using s by (simp add: bt_do_def esp_bt_hidd_dev_battery_set_def)
  next
    case (OpStop devp)
    then show ?thesis unfolding bt_do_def esp_bt_hidd_dev_deinit_def
      using m by (auto simp: bt_may_def intro!: drop bt_then_call check world)
  next
    case (OpDisconnect devp)
    then show ?thesis unfolding bt_do_def esp_bt_hidd_dev_disconnect_def
      using m by (auto simp: bt_may_def intro!: drop bt_then_call check world)
  next
    case (OpConnected devp)
    then show ?thesis unfolding bt_do_def esp_bt_hidd_dev_connected_def
      using m by (auto simp: bt_may_def intro!: drop check world)
  next
    case (OpInput devp index rid data)
    then show ?thesis unfolding bt_do_def esp_bt_hidd_dev_input_set_def
      using m by (auto simp: bt_may_def intro!: drop bt_then_call bt_may_send_inv [OF s])
  next
    case (OpFeature devp index rid data)
    then show ?thesis unfolding bt_do_def esp_bt_hidd_dev_feature_set_def
      using m by (auto simp: bt_may_def intro!: drop bt_then_call bt_may_send_inv [OF s])
  next
    case (OpRegister devp ev)
    then show ?thesis unfolding bt_do_def esp_bt_hidd_dev_event_handler_register_def
      using m by (auto simp: bt_may_def bt_call_def intro!: drop check split: prod.split)
  next
    case (OpUnregister devp ev)
    then show ?thesis unfolding bt_do_def esp_bt_hidd_dev_event_handler_unregister_def
      using m by (auto simp: bt_may_def bt_call_def intro!: drop check split: prod.split)
  qed
qed

section \<open>A sample device\<close>

type_synonym bt_sent = "(bt_send_type \<times> u8 \<times> u8 list) list"

definition sample_bl :: "bt_sent bluedroid" where
  "sample_bl = \<lparr>bl_malloc = (\<lambda>_. True), bl_mutex_new = (\<lambda>w. (True, w)), bl_loop_create = (\<lambda>w. (0, w)),
     bl_handler_register = (\<lambda>_ _ w. (0, w)), bl_handler_unregister = (\<lambda>_ _ w. (0, w)), bl_register_callback = (\<lambda>w. (0, w)),
     bl_init = (\<lambda>w. (0, w)), bl_deinit = (\<lambda>w. (0, w)), bl_disconnect = (\<lambda>w. (0, w)), bl_connect = (\<lambda>_ w. (0, w)),
     bl_register_app = (\<lambda>_ _ _ w. (0, w)), bl_send_report = (\<lambda>ty rid len bs w. (0, w @ [(ty, rid, bs)])),
     bl_report_error = (\<lambda>_ w. (0, w))\<rparr>"

definition bt_zero_st :: "'w \<Rightarrow> 'w bt_st" where
  "bt_zero_st w = \<lparr>bs_mutex = None, bs_dev = None, bs_app_param = app_param_zero, bs_in_qos = qos_zero, bs_out_qos = qos_zero,
     bs_next = 1, bs_allocs = 0, bs_live = 0, bs_loops = 0, bs_mutexes = 0, bs_iface = (\<lambda>_. None), bs_posted = [],
     bs_parser = parser_init, bs_world = w\<rparr>"

text \<open>A device with the input report 1 of eight bytes, in report mode.\<close>

definition sample_bt_map :: bt_map where
  "sample_bt_map = \<lparr>bm_data = Some kbd_map, bm_len = 47, bm_reports_len = 1, bm_reports = Some [kbd_rpt None]\<rparr>"

definition sample_bt_dev :: "bool \<Rightarrow> esp_bt_hidd_dev_t" where
  "sample_bt_dev con = one_map (bt_dev_zero\<lparr>bt_dev := Some 9, bt_event_loop := True, bt_registered := True, bt_connected := con,
     bt_protocol_mode := ESP_HID_PROTOCOL_MODE_REPORT\<rparr>) sample_bt_map"

definition sample_bt_st :: "bool \<Rightarrow> bt_sent bt_st" where
  "sample_bt_st con = (bt_zero_st [])\<lparr>bs_mutex := Some False, bs_dev := Some (1, sample_bt_dev con), bs_live := 4, bs_loops := 1,
     bs_mutexes := 1, bs_next := 2\<rparr>"

lemma sample_bt_alive: "bt_alive 0 0 1 (sample_bt_dev con) (sample_bt_st con)" "reports_ok (sample_bt_dev con)"
  by (simp_all add: bt_alive_def sample_bt_st_def sample_bt_dev_def one_map_simps bt_dev_zero_def map_blocks_def sample_bt_map_def
      name_blocks_def bt_config_zero_def map_wf_def map_reports_def reports_of_def) (simp add: one_map_def)

lemma sample_bt_simps:
  "maps_of (sample_bt_dev con) = [sample_bt_map]" "bt_connected (sample_bt_dev con) = con"
  "bt_protocol_mode (sample_bt_dev con) = ESP_HID_PROTOCOL_MODE_REPORT" "reports_of sample_bt_map = [kbd_rpt None]"
  by (simp_all add: sample_bt_dev_def one_map_simps sample_bt_map_def reports_of_def map_reports_def) (simp_all add: one_map_def)

lemma sample_bt_inv: "bt_inv 0 0 (sample_bt_st con)"
  using sample_bt_alive by (auto simp: bt_inv_def sample_bt_st_def bt_zero_st_def)

section \<open>The properties\<close>

text \<open>
  C15: The callback of the stack refines the diagram of the link: from every state in which the invariant
  holds it ends without a fault, with the mutex free again and nothing lost; registration, peer and
  protocol mode follow the diagram, and the events that tell of them are posted, in order. Without a
  device every event is ignored.
\<close>
theorem bt_callback_refines_link:
  assumes "bt_inv live loops s" and "cb_ok e"
  shows "\<exists>t es. bt_hidd_cb bl e s = Inr ((), t) \<and> bt_inv live loops t \<and> bs_posted t = bs_posted s @ es
    \<and> (abs_link t, signals es) = (case abs_link s of None \<Rightarrow> (None, []) | Some l \<Rightarrow> link_step e l)"
  using bt_cb_run [OF assms, of bl] assms(1)
  by (fastforce simp: cb_ends_def signals_def split: option.splits)

theorem bt_callback_refines_link_witness:
  "\<exists>t. bt_hidd_cb sample_bl (ESP_HIDD_OPEN_EVT ESP_HIDD_SUCCESS ESP_HIDD_CONN_STATE_CONNECTED [1, 2, 3, 4, 5, 6]) (sample_bt_st False) = Inr ((), t)
    \<and> map_option lk_peer (abs_link t) = Some (Some [1, 2, 3, 4, 5, 6]) \<and> signals (bs_posted t) = [Connected 0]"
proof -
  let ?e = "ESP_HIDD_OPEN_EVT ESP_HIDD_SUCCESS ESP_HIDD_CONN_STATE_CONNECTED [1, 2, 3, 4, 5, 6]"
  have "cb_ok ?e" by simp
  from bt_callback_refines_link [OF sample_bt_inv this, of sample_bl False]
  obtain t es where t: "bt_hidd_cb sample_bl ?e (sample_bt_st False) = Inr ((), t)" "bs_posted t = bs_posted (sample_bt_st False) @ es"
    "(abs_link t, signals es) = (case abs_link (sample_bt_st False) of None \<Rightarrow> (None, []) | Some l \<Rightarrow> link_step ?e l)" by blast
  then show ?thesis
    by (auto simp: sample_bt_st_def abs_link_def link_step_def bt_hidd_get_status_def bt_zero_st_def)
qed



text \<open>
  C22: What may be sent: an input report goes out unchanged exactly when the handle is the device's, it is
  connected, and the map has an input report with this id in the protocol mode of the link that is
  at least as long; in every other case the call fails and nothing happens.
\<close>
theorem bt_input_set_decides:
  assumes "bt_alive live loops a d s" and "reports_ok d"
  shows "esp_bt_hidd_dev_input_set bl devp index rid data s =
    (case (if devp = Some a \<and> bt_connected d \<and> index < length (maps_of d)
           then find (bt_report_is (of_nat rid) ESP_HID_REPORT_TYPE_INPUT (bt_protocol_mode d)) (reports_of (maps_of d ! index)) else None) of
       Some r \<Rightarrow> if length data \<le> unat (hi_value_len r)
                 then (case bl_send_report bl ESP_HIDD_REPORT_TYPE_INTRDATA (of_nat rid) (of_nat (length data)) data (bs_world s) of
                         (rc, w) \<Rightarrow> Inr (rc, s\<lparr>bs_world := w\<rparr>))
                 else Inr (ESP_FAIL, s)
     | None \<Rightarrow> Inr (ESP_FAIL, s))"
proof -
  note al = bt_aliveD(1,2) [OF assms(1)]
  let ?r = "if bt_connected d \<and> index < length (maps_of d)
      then find (bt_report_is (of_nat rid) ESP_HID_REPORT_TYPE_INPUT (bt_protocol_mode d)) (reports_of (maps_of d ! index)) else None"
  let ?x = "case ?r of Some r \<Rightarrow> if length data \<le> unat (hi_value_len r) then None else Some ESP_FAIL | None \<Rightarrow> Some ESP_FAIL"
  have "s\<lparr>bs_mutex := Some True\<rparr>\<lparr>bs_mutex := Some False\<rparr> = s" using al(2) by (cases s) simp
  moreover have "bt_may_send ESP_HID_REPORT_TYPE_INPUT (Some a) index rid (length data) s = Inr (?x, s\<lparr>bs_mutex := Some True\<rparr>\<lparr>bs_mutex := Some False\<rparr>)"
    unfolding bt_may_send_def
    by (rule bt_checked_run [OF al])
       (simp_all add: report_by_idx_spec [OF bt_aliveD(3) [OF assms(1)] assms(2) maps_of_length [OF bt_aliveD(3) [OF assms(1)]]] split: option.split)
  ultimately have right: "bt_may_send ESP_HID_REPORT_TYPE_INPUT (Some a) index rid (length data) s = Inr (?x, s)" by simp
  have wrong: "bt_may_send ESP_HID_REPORT_TYPE_INPUT devp index rid (length data) s = Inr (Some ESP_FAIL, s)" if "devp \<noteq> Some a"
    unfolding bt_may_send_def by (rule bt_checked_wrong [OF al that])
  show ?thesis
  proof (cases "devp = Some a")
    case True
    then show ?thesis
      by (simp add: esp_bt_hidd_dev_input_set_def sbind_Inr [where m = "bt_may_send ESP_HID_REPORT_TYPE_INPUT (Some a) index rid (length data)", OF right]
          bt_call_def split: option.split prod.split)
  next
    case False
    then show ?thesis
      by (simp add: esp_bt_hidd_dev_input_set_def sbind_Inr [where m = "bt_may_send ESP_HID_REPORT_TYPE_INPUT devp index rid (length data)", OF wrong])
  qed
qed

theorem bt_input_set_decides_witness:
  "\<exists>t. esp_bt_hidd_dev_input_set sample_bl (Some 1) 0 1 [0, 0, 4, 0, 0, 0, 0, 0] (sample_bt_st True) = Inr (0, t)
    \<and> bs_world t = [(ESP_HIDD_REPORT_TYPE_INTRDATA, 1, [0, 0, 4, 0, 0, 0, 0, 0])]"
  using bt_input_set_decides [OF sample_bt_alive, of sample_bl "Some 1" 0 1 "[0, 0, 4, 0, 0, 0, 0, 0]" True]
  by (simp add: sample_bt_simps bt_report_is_def kbd_rpt_def) (simp add: sample_bl_def sample_bt_st_def bt_zero_st_def)



end
